(* ===== verification/Prelude.thy ===== *)
theory Prelude
  imports Complex_Main
begin

text \<open>
  Shared vocabulary of the development: the errors the program can raise and the error
  monad in which every fallible operation is written, Python strings as lists of code
  points, 64 and 32 bit bounds, dictionaries, and times.  Tables are in the theory \<open>Tables\<close>.
\<close>

named_theorems monad_simps \<open>rules that take a chain of fallible steps apart\<close>
named_theorems table_simps \<open>rules about reading and writing tables\<close>

section \<open>Errors and the error monad\<close>

datatype error =
    AssertionError
  | IntegrityError      \<comment> \<open>a CHECK, PRIMARY KEY or FOREIGN KEY constraint is violated\<close>
  | DataError           \<comment> \<open>a value does not fit its database column\<close>
  | OverflowError
  | ValueError
  | InvalidOperation    \<comment> \<open>\<open>decimal.InvalidOperation\<close>\<close>
  | KeyError
  | RuntimeError
  | AttributeError
  | TypeError
  | RequestException    \<comment> \<open>\<open>requests.RequestException\<close>: an HTTP request failed\<close>

type_synonym 'a result = "error + 'a"

definition bindR :: "'a result \<Rightarrow> ('a \<Rightarrow> 'b result) \<Rightarrow> 'b result" where
  "bindR m f = (case m of Inl e \<Rightarrow> Inl e | Inr x \<Rightarrow> f x)"

definition assertR :: "bool \<Rightarrow> unit result" where
  "assertR b = (if b then Inr () else Inl AssertionError)"

lemma bindR_Inl [simp]: "bindR (Inl e) f = Inl e"
  by (simp add: bindR_def)

lemma bindR_Inr [simp]: "bindR (Inr x) f = f x"
  by (simp add: bindR_def)

lemma bindR_eq_Inr [monad_simps]: "bindR m f = Inr y \<longleftrightarrow> (\<exists>x. m = Inr x \<and> f x = Inr y)"
  by (cases m) auto

lemma bindR_eq_Inl [monad_simps]:
  "bindR m f = Inl e \<longleftrightarrow> m = Inl e \<or> (\<exists>x. m = Inr x \<and> f x = Inl e)"
  by (cases m) auto

lemma bindR_assoc: "bindR (bindR m f) g = bindR m (\<lambda>x. bindR (f x) g)"
  by (cases m) auto

lemma bindR_cong [fundef_cong]:
  "m = m' \<Longrightarrow> (\<And>x. m' = Inr x \<Longrightarrow> f x = f' x) \<Longrightarrow> bindR m f = bindR m' f'"
  by (cases m') auto

lemma assertR_eq_Inr [monad_simps]: "assertR b = Inr u \<longleftrightarrow> b"
  by (simp add: assertR_def)

lemma assertR_True [simp]: "assertR True = Inr ()"
  by (simp add: assertR_def)

lemma assertR_False [simp]: "assertR False = Inl AssertionError"
  by (simp add: assertR_def)

text \<open>A Python \<open>for\<close> loop whose body may raise: the first error ends the loop.\<close>

fun foldR :: "('a \<Rightarrow> 's \<Rightarrow> 's result) \<Rightarrow> 'a list \<Rightarrow> 's \<Rightarrow> 's result" where
  "foldR f [] s = Inr s"
| "foldR f (x # xs) s = bindR (f x s) (foldR f xs)"

lemma foldR_invariant:
  assumes "foldR f xs s = Inr t" and "P s"
    and "\<And>x u v. x \<in> set xs \<Longrightarrow> P u \<Longrightarrow> f x u = Inr v \<Longrightarrow> P v"
  shows "P t"
  using assms by (induction xs arbitrary: s) (auto simp: monad_simps)

lemma foldR_total:
  assumes "P s" and "\<And>x u. x \<in> set xs \<Longrightarrow> P u \<Longrightarrow> \<exists>v. f x u = Inr v \<and> P v"
  shows "\<exists>t. foldR f xs s = Inr t \<and> P t"
  using assms
proof (induction xs arbitrary: s)
  case Nil
  then show ?case by simp
next
  case (Cons x xs)
  then obtain v where "f x s = Inr v" "P v" by force
  with Cons show ?case by fastforce
qed

lemma foldR_append: "foldR f (xs @ ys) s = bindR (foldR f xs s) (foldR f ys)"
  by (induction xs arbitrary: s) (auto simp: bindR_assoc intro!: bindR_cong)

section \<open>Dictionaries\<close>

text \<open>
  A Python \<open>dict\<close> whose order matters is an association list in insertion order; assigning to a key
  that is already there keeps its position.
\<close>

fun dict_put :: "'k \<Rightarrow> 'v \<Rightarrow> ('k \<times> 'v) list \<Rightarrow> ('k \<times> 'v) list" where
  "dict_put k v [] = [(k, v)]"
| "dict_put k v ((k', v') # c) = (if k' = k then (k, v) # c else (k', v') # dict_put k v c)"

lemma map_of_dict_put: "map_of (dict_put k v c) = (map_of c)(k \<mapsto> v)"
  by (induction k v c rule: dict_put.induct) auto

lemma keys_dict_put: "map fst (dict_put k v c) = (if k \<in> fst ` set c then map fst c else map fst c @ [k])"
  by (induction k v c rule: dict_put.induct) auto

section \<open>Integers, strings, clocks\<close>

definition MIN_INT16 :: int where "MIN_INT16 = - (2 ^ 15)"
definition MAX_INT16 :: int where "MAX_INT16 = 2 ^ 15 - 1"
definition MIN_INT32 :: int where "MIN_INT32 = - (2 ^ 31)"
definition MAX_INT32 :: int where "MAX_INT32 = 2 ^ 31 - 1"
definition MIN_INT64 :: int where "MIN_INT64 = - (2 ^ 63)"
definition MAX_INT64 :: int where "MAX_INT64 = 2 ^ 63 - 1"

lemmas int_bounds = MIN_INT32_def MAX_INT32_def MIN_INT64_def MAX_INT64_def

definition is_int64 :: "int \<Rightarrow> bool" where
  "is_int64 n \<longleftrightarrow> MIN_INT64 \<le> n \<and> n \<le> MAX_INT64"

definition is_int32 :: "int \<Rightarrow> bool" where
  "is_int32 n \<longleftrightarrow> MIN_INT32 \<le> n \<and> n \<le> MAX_INT32"

text \<open>A Python \<open>str\<close> is its list of Unicode code points; \<open>lit\<close> writes ASCII literals.\<close>

type_synonym pystr = "nat list"

abbreviation lit :: "string \<Rightarrow> pystr" where
  "lit s \<equiv> map of_char s"

definition isascii :: "pystr \<Rightarrow> bool" where
  "isascii s \<longleftrightarrow> (\<forall>c \<in> set s. c < 128)"

text \<open>
  A regular expression \<open>^...$\<close> applied with \<open>match\<close>: the \<open>$\<close> also matches before a newline at the end of the
  string.  \<open>P\<close> says what the part between the anchors matches.
\<close>

definition match_anchored :: "(pystr \<Rightarrow> bool) \<Rightarrow> pystr \<Rightarrow> bool" where
  "match_anchored P s \<longleftrightarrow> P s \<or> (s \<noteq> [] \<and> last s = 10 \<and> P (butlast s))"

text \<open>
  Timestamps (\<open>datetime\<close> in UTC) and durations (\<open>timedelta\<close>) are microseconds since
  1970-01-01, dates are days since then.
\<close>

type_synonym datetime = int
type_synonym timedelta = int
type_synonym date = int

definition microseconds_per_day :: int where
  "microseconds_per_day = 86400 * 10 ^ 6"

definition date_of :: "datetime \<Rightarrow> date" where
  "date_of ts = ts div microseconds_per_day"

lemma date_of_mono: "s \<le> t \<Longrightarrow> date_of s \<le> date_of t"
  by (simp add: date_of_def microseconds_per_day_def zdiv_mono1)

text \<open>
  A \<open>datetime\<close> lies between the years 1 and 9999; adding a duration beyond them raises
  \<open>OverflowError\<close>.
\<close>

definition DATETIME_MIN :: datetime where "DATETIME_MIN = - 62135596800000000"
definition DATETIME_MAX :: datetime where "DATETIME_MAX = 253402300799999999"

definition datetime_add :: "datetime \<Rightarrow> timedelta \<Rightarrow> datetime result" where
  "datetime_add ts td =
     (if DATETIME_MIN \<le> ts + td \<and> ts + td \<le> DATETIME_MAX then Inr (ts + td) else Inl OverflowError)"

definition timedelta_seconds :: "int \<Rightarrow> timedelta" where
  "timedelta_seconds s = s * 10 ^ 6"

lemma datetime_add_eq_Inr [monad_simps]:
  "datetime_add ts td = Inr r \<longleftrightarrow> r = ts + td \<and> DATETIME_MIN \<le> r \<and> r \<le> DATETIME_MAX"
  by (auto simp: datetime_add_def)

end
