(* ===== verification/Rounding.thy ===== *)
theory Rounding
  imports Prelude "HOL-Library.Log_Nat"
begin

text \<open>
  Rounding of rational numbers to a number of significant digits in a base, ties to even,
  with gradual underflow: base 2 with 53 digits is the arithmetic of Python's \<open>float\<close>,
  base 10 with 28 digits that of \<open>decimal.Decimal\<close> in the default context.  The lemmas
  say that rounding leaves representable numbers alone, is odd and monotone, and errs by
  at most half a unit in the last place.
\<close>

section \<open>Rounding to a number of significant digits\<close>

text \<open>\<open>ilog b x\<close> is the exponent of the leading base-\<open>b\<close> digit of a positive \<open>x\<close>.\<close>

definition ilog :: "nat \<Rightarrow> rat \<Rightarrow> int" where
  "ilog b x =
     (case quotient_of x of (n, d) \<Rightarrow>
        let k = int (floorlog b (nat n)) - int (floorlog b (nat d))
        in if of_nat b powi k \<le> x then k else k - 1)"

definition round_half_even :: "rat \<Rightarrow> int" where
  "round_half_even x =
     (let f = \<lfloor>x\<rfloor>; r = x - of_int f
      in if r < 1 / 2 then f else if 1 / 2 < r then f + 1 else if even f then f else f + 1)"

text \<open>
  \<open>round_to b p emin x\<close>: the multiple of \<open>b\<close> to the power \<open>e\<close> that is nearest to \<open>x\<close>, where
  \<open>e\<close> leaves \<open>p\<close> digits but is never below \<open>emin\<close> (gradual underflow).
\<close>

definition round_exp :: "nat \<Rightarrow> nat \<Rightarrow> int \<Rightarrow> rat \<Rightarrow> int" where
  "round_exp b p emin x = max emin (ilog b \<bar>x\<bar> - int p + 1)"

definition round_to :: "nat \<Rightarrow> nat \<Rightarrow> int \<Rightarrow> rat \<Rightarrow> rat" where
  "round_to b p emin x =
     (if x = 0 then 0
      else let u = of_nat b powi round_exp b p emin x
           in of_int (round_half_even (x / u)) * u)"

lemma floorlog_powi_bounds:
  assumes "0 < m" and "1 < b"
  shows "(of_nat b :: rat) powi (int (floorlog b m) - 1) \<le> of_nat m"
    and "of_nat m < (of_nat b :: rat) powi int (floorlog b m)"
proof -
  have "0 < floorlog b m" using assms by (auto simp: floorlog_eq_zero_iff intro!: gr0I)
  then obtain k where k: "floorlog b m = Suc k" using gr0_implies_Suc by blast
  have bounds: "b ^ k \<le> m" "m < b ^ Suc k"
    using floorlog_bounds [OF assms] k by auto
  have "(of_nat (b ^ k) :: rat) \<le> of_nat m" using bounds(1) by (simp only: of_nat_le_iff)
  then show "(of_nat b :: rat) powi (int (floorlog b m) - 1) \<le> of_nat m" by (simp add: k)
  have "(of_nat m :: rat) < of_nat (b ^ Suc k)" using bounds(2) by (simp only: of_nat_less_iff)
  then have "(of_nat m :: rat) < of_nat b ^ Suc k" by (simp only: of_nat_power)
  then show "of_nat m < (of_nat b :: rat) powi int (floorlog b m)"
    by (simp only: k power_int_of_nat)
qed

lemma ilog_bounds:
  assumes "0 < x" and "1 < b"
  shows "of_nat b powi ilog b x \<le> x \<and> x < of_nat b powi (ilog b x + 1)"
proof -
  obtain n d where q: "quotient_of x = (n, d)" by fastforce
  have d: "0 < d" using q by (rule quotient_of_denom_pos)
  have x: "x = of_int n / of_int d" using q by (rule quotient_of_div)
  then have n: "0 < n" using assms d by (simp add: zero_less_divide_iff)
  let ?b = "of_nat b :: rat"
  let ?ln = "floorlog b (nat n)" and ?ld = "floorlog b (nat d)"
  have b0: "?b \<noteq> 0" "1 < ?b" using assms by simp_all
  have nn: "of_nat (nat n) = (of_int n :: rat)" "of_nat (nat d) = (of_int d :: rat)"
    using n d by simp_all
  note bn = floorlog_powi_bounds [of "nat n" b, unfolded nn]
  note bd = floorlog_powi_bounds [of "nat d" b, unfolded nn]
  let ?k = "int ?ln - int ?ld"
  have lower: "?b powi (?k - 1) \<le> x"
  proof -
    have "?k - 1 = int ?ln - 1 - int ?ld" by simp
    then have "?b powi (?k - 1) = ?b powi (int ?ln - 1) / ?b powi int ?ld"
      using b0 by (metis power_int_diff)
    also have "\<dots> \<le> of_int n / of_int d"
      using bn bd n d assms by (intro frac_le) auto
    finally show ?thesis by (simp add: x)
  qed
  have upper: "x < ?b powi (?k + 1)"
  proof -
    have "of_int n / of_int d < ?b powi int ?ln / ?b powi (int ?ld - 1)"
      using bn bd n d assms by (intro frac_less) auto
    also have "\<dots> = ?b powi (int ?ln - (int ?ld - 1))"
      using b0 by (metis power_int_diff)
    also have "int ?ln - (int ?ld - 1) = ?k + 1" by simp
    finally show ?thesis by (simp add: x)
  qed
  show ?thesis
    using lower upper by (auto simp: ilog_def q Let_def not_le)
qed

lemma powi_le_imp_le_exp:
  assumes "1 < (b :: rat)" and "b powi m < b powi n"
  shows "m < n"
  using assms by (metis less_eq_rat_def linorder_not_less power_int_increasing order_le_less_trans)

lemma ilog_less:
  assumes "x \<noteq> 0" and "1 < b" and "\<bar>x\<bar> < of_nat b powi n"
  shows "ilog b \<bar>x\<bar> < n"
proof -
  have "of_nat b powi ilog b \<bar>x\<bar> \<le> \<bar>x\<bar>" using ilog_bounds [of "\<bar>x\<bar>" b] assms by simp
  with assms show ?thesis by (intro powi_le_imp_le_exp [of "of_nat b"]) auto
qed

lemma ilog_mono:
  assumes "0 < x" and "x \<le> y" and "1 < b"
  shows "ilog b x \<le> ilog b y"
proof -
  have "(of_nat b :: rat) powi ilog b x < of_nat b powi (ilog b y + 1)"
    using ilog_bounds [of x b] ilog_bounds [of y b] assms by linarith
  then have "ilog b x < ilog b y + 1"
    using assms by (intro powi_le_imp_le_exp [of "of_nat b"]) auto
  then show ?thesis by simp
qed

lemma round_half_even_of_int [simp]: "round_half_even (of_int n) = n"
  by (simp add: round_half_even_def)

lemma round_half_even_0 [simp]: "round_half_even 0 = 0"
  using round_half_even_of_int [of 0] by simp

lemma round_half_even_error: "\<bar>of_int (round_half_even x) - x\<bar> \<le> 1 / 2"
proof -
  have "of_int \<lfloor>x\<rfloor> \<le> x" "x < of_int \<lfloor>x\<rfloor> + 1" by linarith+
  then show ?thesis unfolding round_half_even_def Let_def abs_if by (simp split: if_split) linarith
qed

lemma round_half_even_mono:
  assumes "x \<le> y"
  shows "round_half_even x \<le> round_half_even y"
proof (cases "\<lfloor>x\<rfloor> = \<lfloor>y\<rfloor>")
  case True
  with assms show ?thesis by (auto simp: round_half_even_def Let_def)
next
  case False
  with assms have "\<lfloor>x\<rfloor> + 1 \<le> \<lfloor>y\<rfloor>" using floor_mono [OF assms] by simp
  moreover have "round_half_even x \<le> \<lfloor>x\<rfloor> + 1" "\<lfloor>y\<rfloor> \<le> round_half_even y"
    by (auto simp: round_half_even_def Let_def)
  ultimately show ?thesis by linarith
qed

text \<open>A number that has \<open>p\<close> digits above \<open>emin\<close> is not changed by rounding.\<close>

lemma round_to_exact:
  assumes "1 < b" and "emin \<le> e" and "\<bar>of_int m\<bar> < (of_nat b :: rat) ^ p"
  shows "round_to b p emin (of_int m * of_nat b powi e) = of_int m * of_nat b powi e"
proof (cases "m = 0")
  case True
  then show ?thesis by (simp add: round_to_def)
next
  case False
  let ?b = "of_nat b :: rat" and ?x = "of_int m * of_nat b powi e :: rat"
  let ?u = "round_exp b p emin ?x"
  have b: "?b \<noteq> 0" "0 < ?b" using assms by simp_all
  have "\<bar>?x\<bar> = \<bar>of_int m\<bar> * ?b powi e" using b by (simp add: abs_mult)
  also have "\<dots> < ?b ^ p * ?b powi e" using assms b by (intro mult_strict_right_mono) auto
  also have "\<dots> = ?b powi (int p + e)" using b by (simp add: power_int_add)
  finally have "ilog b \<bar>?x\<bar> < int p + e" using assms False b by (intro ilog_less) auto
  then have le: "?u \<le> e" using assms by (simp add: round_exp_def)
  have "?x / ?b powi ?u = of_int m * ?b powi (e - ?u)"
    using b by (simp add: power_int_diff)
  also have "\<dots> = of_int (m * int b ^ nat (e - ?u))"
    using le by (simp add: power_int_def)
  finally have "round_half_even (?x / ?b powi ?u) = m * int b ^ nat (e - ?u)"
    by (simp only: round_half_even_of_int)
  moreover have "of_int (m * int b ^ nat (e - ?u)) * ?b powi ?u = ?x"
  proof -
    have "of_int (m * int b ^ nat (e - ?u)) = of_int m * ?b powi (e - ?u)"
      using le by (simp add: power_int_def)
    then show ?thesis using b by (simp add: power_int_diff)
  qed
  ultimately show ?thesis using False b by (simp add: round_to_def Let_def)
qed

lemma round_to_of_int:
  assumes "1 < b" and "emin \<le> 0" and "\<bar>n\<bar> < int b ^ p"
  shows "round_to b p emin (of_int n) = of_int n"
proof -
  have "\<bar>of_int n :: rat\<bar> < of_int (int b ^ p)" using assms(3) by (simp only: of_int_abs [symmetric] of_int_less_iff)
  then show ?thesis using round_to_exact [of b emin 0 n p] assms by simp
qed

lemma round_to_0 [simp]: "round_to b p emin 0 = 0"
  by (simp add: round_to_def)

text \<open>The rounding error is at most half a unit in the last place.\<close>

lemma round_to_error:
  assumes "1 < b"
  shows "\<bar>round_to b p emin x - x\<bar> \<le> of_nat b powi round_exp b p emin x / 2"
proof -
  let ?u = "(of_nat b :: rat) powi round_exp b p emin x"
  have u: "0 < ?u" using assms by simp
  have "of_int (round_half_even (x / ?u)) * ?u - x = (of_int (round_half_even (x / ?u)) - x / ?u) * ?u"
    using assms by (simp add: left_diff_distrib)
  then have "\<bar>of_int (round_half_even (x / ?u)) * ?u - x\<bar> = \<bar>of_int (round_half_even (x / ?u)) - x / ?u\<bar> * ?u"
    using u by (simp add: abs_mult)
  also have "\<dots> \<le> 1 / 2 * ?u" using u round_half_even_error by (intro mult_right_mono) auto
  finally show ?thesis using u by (auto simp: round_to_def Let_def)
qed

text \<open>Rounding is odd and monotone.\<close>

lemma round_half_even_minus: "round_half_even (- x) = - round_half_even x"
proof (cases "x = of_int \<lfloor>x\<rfloor>")
  case True
  have "round_half_even (- of_int \<lfloor>x\<rfloor>) = - round_half_even (of_int \<lfloor>x\<rfloor>)"
    by (simp flip: of_int_minus)
  with True show ?thesis by simp
next
  case False
  then have "\<lfloor>- x\<rfloor> = - \<lfloor>x\<rfloor> - 1" by linarith
  then show ?thesis by (auto simp: round_half_even_def Let_def)
qed

lemma round_to_minus: "round_to b p emin (- x) = - round_to b p emin x"
proof -
  have "round_exp b p emin (- x) = round_exp b p emin x" by (simp add: round_exp_def)
  moreover have "- x / u = - (x / u)" for u by simp
  ultimately show ?thesis
    by (simp add: round_to_def Let_def round_half_even_minus)
qed

lemma round_exp_mono: "0 < x \<Longrightarrow> x \<le> y \<Longrightarrow> 1 < b \<Longrightarrow> round_exp b p emin x \<le> round_exp b p emin y"
  using ilog_mono [of x y b] by (auto simp: round_exp_def)

lemma powi_split:
  assumes "0 < b" and "e \<le> n"
  shows "(of_nat b :: rat) powi n = of_int (int b ^ nat (n - e)) * of_nat b powi e"
proof -
  have "(of_nat b :: rat) powi n = of_nat b powi ((n - e) + e)" by simp
  also have "\<dots> = of_nat b powi (n - e) * of_nat b powi e"
    using assms by (intro power_int_add) auto
  also have "(of_nat b :: rat) powi (n - e) = of_int (int b ^ nat (n - e))"
    using assms by (simp add: power_int_def)
  finally show ?thesis .
qed

text \<open>A power of the base that the rounding grid contains separates numbers.\<close>

lemma round_to_le_power:
  assumes "1 < b" and "x \<noteq> 0" and "x \<le> of_nat b powi n" and "round_exp b p emin x \<le> n"
  shows "round_to b p emin x \<le> of_nat b powi n"
proof -
  let ?u = "(of_nat b :: rat) powi round_exp b p emin x"
  let ?k = "int b ^ nat (n - round_exp b p emin x)"
  have u: "0 < ?u" using assms by simp
  have split: "of_nat b powi n = of_int ?k * ?u" using assms by (intro powi_split) auto
  have "x / ?u \<le> of_int ?k" using assms(3) u split by (simp add: pos_divide_le_eq)
  then have "round_half_even (x / ?u) \<le> ?k"
    by (metis round_half_even_mono round_half_even_of_int)
  then have "of_int (round_half_even (x / ?u)) \<le> (of_int ?k :: rat)" by (simp only: of_int_le_iff)
  then have "of_int (round_half_even (x / ?u)) * ?u \<le> of_int ?k * ?u"
    using u by (intro mult_right_mono) auto
  then show ?thesis unfolding split using assms(2) by (simp only: round_to_def Let_def if_False)
qed

lemma round_to_ge_power:
  assumes "1 < b" and "x \<noteq> 0" and "of_nat b powi n \<le> x" and "round_exp b p emin x \<le> n"
  shows "of_nat b powi n \<le> round_to b p emin x"
proof -
  let ?u = "(of_nat b :: rat) powi round_exp b p emin x"
  let ?k = "int b ^ nat (n - round_exp b p emin x)"
  have u: "0 < ?u" using assms by simp
  have split: "of_nat b powi n = of_int ?k * ?u" using assms by (intro powi_split) auto
  have "of_int ?k \<le> x / ?u" using assms(3) u split by (simp add: pos_le_divide_eq)
  then have "?k \<le> round_half_even (x / ?u)"
    by (metis round_half_even_mono round_half_even_of_int)
  then have "(of_int ?k :: rat) \<le> of_int (round_half_even (x / ?u))" by (simp only: of_int_le_iff)
  then have "of_int ?k * ?u \<le> of_int (round_half_even (x / ?u)) * ?u"
    using u by (intro mult_right_mono) auto
  then show ?thesis unfolding split using assms(2) by (simp only: round_to_def Let_def if_False)
qed

lemma round_to_nonneg:
  assumes "1 < b" and "0 \<le> x"
  shows "0 \<le> round_to b p emin x"
proof -
  let ?u = "(of_nat b :: rat) powi round_exp b p emin x"
  have u: "0 < ?u" using assms by simp
  have "0 \<le> x / ?u" using assms(2) u by simp
  then have "0 \<le> round_half_even (x / ?u)" using round_half_even_mono [of 0] by simp
  then show ?thesis using u by (simp add: round_to_def Let_def)
qed

lemma round_to_mono_pos:
  assumes "1 < b" and "0 < p" and "0 < x" and "x \<le> y"
  shows "round_to b p emin x \<le> round_to b p emin y"
proof -
  let ?b = "of_nat b :: rat"
  let ?ex = "round_exp b p emin x" and ?ey = "round_exp b p emin y"
  have y: "0 < y" using assms by simp
  have "?ex \<le> ?ey" using assms by (intro round_exp_mono) auto
  then consider "?ex = ?ey" | "?ex < ?ey" by linarith
  then show ?thesis
  proof cases
    case 1
    let ?u = "?b powi ?ey"
    have u: "0 < ?u" using assms by simp
    have "x / ?u \<le> y / ?u" using assms u by (intro divide_right_mono) auto
    then have "round_half_even (x / ?u) \<le> round_half_even (y / ?u)" by (rule round_half_even_mono)
    then have "of_int (round_half_even (x / ?u)) * ?u \<le> of_int (round_half_even (y / ?u)) * ?u"
      using u by (intro mult_right_mono) auto
    then show ?thesis using assms y 1 by (simp add: round_to_def Let_def)
  next
    case 2
    let ?n = "?ey + int p - 1"
    have "?n = ilog b y" and "ilog b x + 1 \<le> ?n"
      using 2 assms y by (auto simp: round_exp_def)
    then have "?b powi ?n \<le> y" "x < ?b powi (ilog b x + 1)" "?b powi (ilog b x + 1) \<le> ?b powi ?n"
      using ilog_bounds [of x b] ilog_bounds [of y b] assms y by (auto intro: power_int_increasing)
    then have "x \<le> ?b powi ?n" "?b powi ?n \<le> y" by auto
    moreover have "?ex \<le> ?n" "?ey \<le> ?n" using 2 assms by auto
    ultimately have "round_to b p emin x \<le> ?b powi ?n" "?b powi ?n \<le> round_to b p emin y"
      using assms y by (auto intro: round_to_le_power round_to_ge_power)
    then show ?thesis by simp
  qed
qed

lemma round_to_mono:
  assumes "1 < b" and "0 < p" and "x \<le> y"
  shows "round_to b p emin x \<le> round_to b p emin y"
proof -
  consider "0 < x" | "x \<le> 0" "0 \<le> y" | "y < 0" using assms by linarith
  then show ?thesis
  proof cases
    case 1
    then show ?thesis using assms by (intro round_to_mono_pos) auto
  next
    case 2
    then have "0 \<le> round_to b p emin y" "0 \<le> round_to b p emin (- x)"
      using assms by (auto intro: round_to_nonneg)
    then show ?thesis by (simp add: round_to_minus)
  next
    case 3
    then have "round_to b p emin (- y) \<le> round_to b p emin (- x)"
      using assms by (intro round_to_mono_pos) auto
    then show ?thesis by (simp add: round_to_minus)
  qed
qed

end
