(* ===== verification/PyNum.thy ===== *)
theory PyNum
  imports Rounding
begin

text \<open>
  Python's numbers as the program uses them.  A \<open>float\<close> is an IEEE 754 double: an exact
  rational (the two zeros are one value, the program cannot tell them apart), an infinity
  or a NaN; every arithmetic operation is the exact rational operation followed by
  rounding to 53 significant bits.  A \<open>decimal.Decimal\<close> in the default context is
  rounded to 28 significant decimal digits and signals \<open>InvalidOperation\<close>.  Comparisons
  between \<open>int\<close>, \<open>float\<close> and \<open>Decimal\<close> values are exact.

  \<open>math.exp\<close> and \<open>math.log\<close> on finite arguments are the platform's C library; they are
  the two parameters \<open>m_exp\<close> and \<open>m_log\<close> of the record \<open>libm\<close>, and \<open>libm_ok\<close> states
  what their documentation promises.
\<close>

section \<open>Floats\<close>

datatype pyfloat = Fin rat | PInf | NInf | NaN

definition double_limit :: rat where
  "double_limit = 2 ^ 1024"

definition round53 :: "rat \<Rightarrow> rat" where
  "round53 x = round_to 2 53 (- 1074) x"

definition rnd64 :: "rat \<Rightarrow> pyfloat" where
  "rnd64 x =
     (if double_limit \<le> round53 x then PInf
      else if round53 x \<le> - double_limit then NInf else Fin (round53 x))"

fun fle :: "pyfloat \<Rightarrow> pyfloat \<Rightarrow> bool" where
  "fle NaN _ = False"
| "fle _ NaN = False"
| "fle NInf _ = True"
| "fle _ PInf = True"
| "fle (Fin x) (Fin y) = (x \<le> y)"
| "fle _ _ = False"

fun feq :: "pyfloat \<Rightarrow> pyfloat \<Rightarrow> bool" where
  "feq NaN _ = False"
| "feq a b = (a = b)"

definition flt :: "pyfloat \<Rightarrow> pyfloat \<Rightarrow> bool" where
  "flt a b \<longleftrightarrow> fle a b \<and> \<not> feq a b"

fun fneg :: "pyfloat \<Rightarrow> pyfloat" where
  "fneg (Fin x) = Fin (- x)"
| "fneg PInf = NInf"
| "fneg NInf = PInf"
| "fneg NaN = NaN"

fun fadd :: "pyfloat \<Rightarrow> pyfloat \<Rightarrow> pyfloat" where
  "fadd NaN _ = NaN"
| "fadd _ NaN = NaN"
| "fadd PInf NInf = NaN"
| "fadd NInf PInf = NaN"
| "fadd PInf _ = PInf"
| "fadd _ PInf = PInf"
| "fadd NInf _ = NInf"
| "fadd _ NInf = NInf"
| "fadd (Fin x) (Fin y) = rnd64 (x + y)"

definition fsub :: "pyfloat \<Rightarrow> pyfloat \<Rightarrow> pyfloat" where
  "fsub a b = fadd a (fneg b)"

fun finf_mul :: "bool \<Rightarrow> pyfloat \<Rightarrow> pyfloat" where
  \<comment> \<open>an infinity of the given sign (\<open>True\<close> for positive) times a number\<close>
  "finf_mul s NaN = NaN"
| "finf_mul s PInf = (if s then PInf else NInf)"
| "finf_mul s NInf = (if s then NInf else PInf)"
| "finf_mul s (Fin x) = (if x = 0 then NaN else if (0 < x) = s then PInf else NInf)"

fun fmul :: "pyfloat \<Rightarrow> pyfloat \<Rightarrow> pyfloat" where
  "fmul (Fin x) (Fin y) = rnd64 (x * y)"
| "fmul NaN _ = NaN"
| "fmul PInf b = finf_mul True b"
| "fmul NInf b = finf_mul False b"
| "fmul (Fin x) b = (case b of PInf \<Rightarrow> finf_mul True (Fin x) | NInf \<Rightarrow> finf_mul False (Fin x) | _ \<Rightarrow> NaN)"

text \<open>Division by a positive finite constant.\<close>

fun fdiv_const :: "pyfloat \<Rightarrow> rat \<Rightarrow> pyfloat" where
  "fdiv_const (Fin x) c = rnd64 (x / c)"
| "fdiv_const a c = a"

definition fabs :: "pyfloat \<Rightarrow> pyfloat" where
  "fabs a = (if flt a (Fin 0) then fneg a else a)"

text \<open>Python's two-argument \<open>max\<close> and \<open>min\<close>: the first argument unless the second is better.\<close>

definition pymax :: "pyfloat \<Rightarrow> pyfloat \<Rightarrow> pyfloat" where
  "pymax a b = (if flt a b then b else a)"

definition pymin :: "pyfloat \<Rightarrow> pyfloat \<Rightarrow> pyfloat" where
  "pymin a b = (if flt b a then b else a)"

definition float_of_int :: "int \<Rightarrow> pyfloat" where
  "float_of_int n = rnd64 (of_int n)"

text \<open>True division of integers (with a positive divisor) is correctly rounded.\<close>

definition int_truediv :: "int \<Rightarrow> int \<Rightarrow> pyfloat" where
  "int_truediv a b = rnd64 (of_int a / of_int b)"

text \<open>\<open>timedelta.total_seconds()\<close>\<close>

definition total_seconds :: "timedelta \<Rightarrow> pyfloat" where
  "total_seconds td = int_truediv td (10 ^ 6)"

section \<open>The C library\<close>

record libm =
  m_exp :: "rat \<Rightarrow> rat option"   \<comment> \<open>\<open>None\<close>: the result overflows a double\<close>
  m_log :: "rat \<Rightarrow> rat"          \<comment> \<open>asked at positive arguments only\<close>

fun math_exp :: "'a libm_scheme \<Rightarrow> pyfloat \<Rightarrow> pyfloat result" where
  "math_exp M (Fin x) = (case m_exp M x of None \<Rightarrow> Inl OverflowError | Some y \<Rightarrow> Inr (Fin y))"
| "math_exp M PInf = Inr PInf"
| "math_exp M NInf = Inr (Fin 0)"
| "math_exp M NaN = Inr NaN"

fun math_log :: "'a libm_scheme \<Rightarrow> pyfloat \<Rightarrow> pyfloat result" where
  "math_log M (Fin x) = (if x \<le> 0 then Inl ValueError else Inr (Fin (m_log M x)))"
| "math_log M PInf = Inr PInf"
| "math_log M NInf = Inl ValueError"
| "math_log M NaN = Inr NaN"

text \<open>
  What the program relies on: \<open>exp\<close> and \<open>log\<close> are exact at 0 and 1, have the sign of
  the mathematical functions, \<open>exp\<close> does not overflow below 700 (the double range ends at
  709), and \<open>log\<close> is at most 1 in absolute value between 1/2 and 2.
\<close>

definition libm_ok :: "'a libm_scheme \<Rightarrow> bool" where
  "libm_ok M \<longleftrightarrow>
     m_exp M 0 = Some 1 \<and> m_log M 1 = 0
     \<and> (\<forall>x. x \<le> 0 \<longrightarrow> (\<exists>y. m_exp M x = Some y \<and> 0 \<le> y \<and> y \<le> 1))
     \<and> (\<forall>x y. 0 \<le> x \<longrightarrow> m_exp M x = Some y \<longrightarrow> 1 \<le> y)
     \<and> (\<forall>x. 0 < x \<longrightarrow> x \<le> 1 \<longrightarrow> m_log M x \<le> 0)
     \<and> (\<forall>x. 1 \<le> x \<longrightarrow> 0 \<le> m_log M x)
     \<and> (\<forall>x. x \<le> 700 \<longrightarrow> (\<exists>y. m_exp M x = Some y \<and> 0 \<le> y))
     \<and> (\<forall>x. 1 / 2 \<le> x \<longrightarrow> x \<le> 2 \<longrightarrow> \<bar>m_log M x\<bar> \<le> 1)"

section \<open>Decimals\<close>

text \<open>
  A \<open>Decimal\<close> has the same special values as a float; \<open>Decimal(n)\<close> and
  \<open>Decimal.from_float(x)\<close> are exact.
\<close>

type_synonym pydecimal = pyfloat

definition rnd28 :: "rat \<Rightarrow> rat" where
  "rnd28 x = round_to 10 28 (- 1000026) x"

definition dec_of_int :: "int \<Rightarrow> pydecimal" where
  "dec_of_int n = Fin (of_int n)"

definition dec_from_float :: "pyfloat \<Rightarrow> pydecimal" where
  "dec_from_float a = a"

fun dec_add :: "pydecimal \<Rightarrow> pydecimal \<Rightarrow> pydecimal result" where
  "dec_add NaN _ = Inr NaN"
| "dec_add _ NaN = Inr NaN"
| "dec_add PInf NInf = Inl InvalidOperation"
| "dec_add NInf PInf = Inl InvalidOperation"
| "dec_add PInf _ = Inr PInf"
| "dec_add _ PInf = Inr PInf"
| "dec_add NInf _ = Inr NInf"
| "dec_add _ NInf = Inr NInf"
| "dec_add (Fin x) (Fin y) = Inr (Fin (rnd28 (x + y)))"

definition dec_sub :: "pydecimal \<Rightarrow> pydecimal \<Rightarrow> pydecimal result" where
  "dec_sub a b = dec_add a (fneg b)"

fun dec_mul :: "pydecimal \<Rightarrow> pydecimal \<Rightarrow> pydecimal result" where
  "dec_mul (Fin x) (Fin y) = Inr (Fin (rnd28 (x * y)))"
| "dec_mul a b =
     (if a = NaN \<or> b = NaN then Inr NaN
      else if a = Fin 0 \<or> b = Fin 0 then Inl InvalidOperation
      else Inr (fmul a b))"

text \<open>Ordering comparisons with a NaN signal.\<close>

definition dec_le :: "pydecimal \<Rightarrow> pydecimal \<Rightarrow> bool result" where
  "dec_le a b = (if a = NaN \<or> b = NaN then Inl InvalidOperation else Inr (fle a b))"

definition dec_gt :: "pydecimal \<Rightarrow> pydecimal \<Rightarrow> bool result" where
  "dec_gt a b = (if a = NaN \<or> b = NaN then Inl InvalidOperation else Inr (flt b a))"

text \<open>\<open>math.floor\<close> and \<open>float\<close> of a \<open>Decimal\<close>\<close>

fun dec_floor :: "pydecimal \<Rightarrow> int result" where
  "dec_floor (Fin x) = Inr \<lfloor>x\<rfloor>"
| "dec_floor NaN = Inl ValueError"
| "dec_floor _ = Inl OverflowError"

fun dec_to_float :: "pydecimal \<Rightarrow> pyfloat" where
  "dec_to_float (Fin x) = rnd64 x"
| "dec_to_float a = a"

section \<open>Laws\<close>

lemma fle_Fin_refl [simp]: "fle (Fin x) (Fin x)"
  by simp

lemma feq_Fin [simp]: "feq (Fin x) b \<longleftrightarrow> b = Fin x"
  by (cases b) auto

lemma flt_Fin [simp]: "flt (Fin x) (Fin y) \<longleftrightarrow> x < y"
  by (auto simp: flt_def)

lemma flt_NaN [simp]: "\<not> flt NaN a" "\<not> flt a NaN"
  by (auto simp: flt_def) (cases a; simp)

lemma fle_trans: "fle a b \<Longrightarrow> fle b c \<Longrightarrow> fle a c"
  by (cases a; cases b; cases c) auto

lemma round53_of_int [simp]: "\<bar>n\<bar> < 2 ^ 53 \<Longrightarrow> round53 (of_int n) = of_int n"
  unfolding round53_def by (rule round_to_of_int) simp_all

lemma round53_0 [simp]: "round53 0 = 0"
  using round53_of_int [of 0] by simp

lemma round53_mono: "x \<le> y \<Longrightarrow> round53 x \<le> round53 y"
  unfolding round53_def by (rule round_to_mono) simp_all

lemma round53_minus: "round53 (- x) = - round53 x"
  unfolding round53_def by (rule round_to_minus)

lemma round53_powi: "- 1074 \<le> e \<Longrightarrow> round53 (2 powi e) = 2 powi e"
  unfolding round53_def using round_to_exact [of 2 "- 1074" e 1 53] by simp

lemma rnd64_finite:
  assumes "round53 b = b" and "b < double_limit" and "\<bar>x\<bar> \<le> b"
  shows "rnd64 x = Fin (round53 x)"
proof -
  have "round53 x \<le> round53 b" "round53 (- b) \<le> round53 x"
    using assms(3) by (auto intro!: round53_mono)
  then have "round53 x \<le> b" "- b \<le> round53 x" using assms(1) by (simp_all add: round53_minus)
  then show ?thesis using assms(2) by (auto simp: rnd64_def)
qed

text \<open>A bound that every amount, rate and duration of the program respects.\<close>

definition moderate :: rat where
  "moderate = 2 powi 500"

lemma round53_moderate: "round53 moderate = moderate"
  unfolding moderate_def by (rule round53_powi) simp

lemma moderate_less_limit: "moderate < double_limit"
proof -
  have "(2::rat) ^ 500 < 2 ^ 1024" by (rule power_strict_increasing) auto
  then show ?thesis by (simp only: moderate_def double_limit_def power_int_numeral)
qed

lemma moderate_ge: "x \<le> 2 ^ 100 \<Longrightarrow> x \<le> moderate"
proof -
  assume "x \<le> 2 ^ 100"
  also have "(2::rat) ^ 100 \<le> 2 ^ 500" by (rule power_increasing) auto
  finally show ?thesis by (simp only: moderate_def power_int_numeral)
qed

lemmas rnd64_moderate = rnd64_finite [OF round53_moderate moderate_less_limit]

lemma rnd64_of_int:
  assumes "\<bar>n\<bar> < 2 ^ 53"
  shows "rnd64 (of_int n) = Fin (of_int n)"
proof -
  have "(of_int \<bar>n\<bar> :: rat) < of_int (2 ^ 53)" using assms by (simp only: of_int_less_iff)
  then have "\<bar>of_int n :: rat\<bar> \<le> moderate" by (intro moderate_ge) simp
  then show ?thesis using assms by (simp add: rnd64_moderate)
qed

lemma rnd64_0 [simp]: "rnd64 0 = Fin 0"
  using rnd64_of_int [of 0] by simp

lemma rnd64_1 [simp]: "rnd64 1 = Fin 1"
  using rnd64_of_int [of 1] by simp

lemma rnd64_mono: "x \<le> y \<Longrightarrow> fle (rnd64 x) (rnd64 y)"
  using round53_mono [of x y] by (auto simp: rnd64_def)

lemma rnd64_nonneg: "0 \<le> x \<Longrightarrow> fle (Fin 0) (rnd64 x)"
  using rnd64_mono [of 0 x] by simp

lemma rnd64_not_NaN [simp]: "rnd64 x \<noteq> NaN"
  by (simp add: rnd64_def)

lemma rnd28_of_int [simp]: "\<bar>n\<bar> < 10 ^ 28 \<Longrightarrow> rnd28 (of_int n) = of_int n"
  unfolding rnd28_def by (rule round_to_of_int) simp_all

lemma rnd28_0 [simp]: "rnd28 0 = 0"
  using rnd28_of_int [of 0] by simp

lemma rnd28_mono: "x \<le> y \<Longrightarrow> rnd28 x \<le> rnd28 y"
  unfolding rnd28_def by (rule round_to_mono) simp_all

lemma rnd28_nonneg: "0 \<le> x \<Longrightarrow> 0 \<le> rnd28 x"
  using rnd28_mono [of 0 x] by simp

lemma fadd_zero_int: "\<bar>n\<bar> < 2 ^ 53 \<Longrightarrow> fadd (Fin (of_int n)) (Fin 0) = Fin (of_int n)"
  by (simp add: rnd64_of_int)

lemma float_of_int_0 [simp]: "float_of_int 0 = Fin 0"
  by (simp add: float_of_int_def)

lemma total_seconds_0 [simp]: "total_seconds 0 = Fin 0"
  by (simp add: total_seconds_def int_truediv_def)

lemma total_seconds_mono: "s \<le> t \<Longrightarrow> fle (total_seconds s) (total_seconds t)"
  unfolding total_seconds_def int_truediv_def by (intro rnd64_mono divide_right_mono) auto

lemma total_seconds_whole:
  assumes "\<bar>n\<bar> < 2 ^ 53"
  shows "total_seconds (n * 10 ^ 6) = Fin (of_int n)"
  using rnd64_of_int [OF assms] by (simp add: total_seconds_def int_truediv_def)

lemma pymax_0_nonneg: "fle (Fin 0) (pymax (Fin 0) a)"
  by (cases a) (auto simp: pymax_def flt_def)

lemma dec_floor_of_int [simp]: "dec_floor (dec_of_int n) = Inr n"
  by (simp add: dec_of_int_def)

lemma dec_floor_eq_Inr [monad_simps]: "dec_floor a = Inr n \<longleftrightarrow> (\<exists>x. a = Fin x \<and> n = \<lfloor>x\<rfloor>)"
  by (cases a) auto

lemma math_exp_0: "libm_ok M \<Longrightarrow> math_exp M (Fin 0) = Inr (Fin 1)"
  by (simp add: libm_ok_def)

lemma math_log_1: "libm_ok M \<Longrightarrow> math_log M (Fin 1) = Inr (Fin 0)"
  by (simp add: libm_ok_def)

end
