(* ===== verification/Events.thy ===== *)
theory Events
  imports PyNum
begin

text \<open>
  The outgoing messages of \<open>swpt_accounts/events.py\<close>.  Each signal class is a record of
  its columns.  A column whose value the procedures leave to its default is an option:
  \<open>None\<close> in \<open>inserted_at\<close> is "the clock at the time of the insert".  The surrogate keys
  \<open>signal_id\<close>, which the program never reads, are left out; \<open>change_id\<close>, which it does
  read, comes from the sequence of its table.
\<close>

section \<open>Constants\<close>

definition SECONDS_IN_DAY :: int where "SECONDS_IN_DAY = 24 * 60 * 60"
definition INTEREST_RATE_FLOOR :: pyfloat where "INTEREST_RATE_FLOOR = Fin (- 50)"
definition INTEREST_RATE_CEIL :: pyfloat where "INTEREST_RATE_CEIL = Fin 100"
definition TRANSFER_NOTE_MAX_BYTES :: nat where "TRANSFER_NOTE_MAX_BYTES = 500"

section \<open>Signals\<close>

record rejected_transfer_signal =
  rts_debtor_id :: int
  rts_sender_creditor_id :: int
  rts_coordinator_type :: pystr
  rts_coordinator_id :: int
  rts_coordinator_request_id :: int
  rts_status_code :: pystr
  rts_total_locked_amount :: int
  rts_inserted_at :: "datetime option"

record prepared_transfer_signal =
  pts_debtor_id :: int
  pts_sender_creditor_id :: int
  pts_transfer_id :: int
  pts_coordinator_type :: pystr
  pts_coordinator_id :: int
  pts_coordinator_request_id :: int
  pts_locked_amount :: int
  pts_recipient_creditor_id :: int
  pts_prepared_at :: datetime
  pts_demurrage_rate :: pyfloat
  pts_deadline :: datetime
  pts_min_interest_rate :: pyfloat
  pts_inserted_at :: "datetime option"

record finalized_transfer_signal =
  fts_debtor_id :: int
  fts_sender_creditor_id :: int
  fts_transfer_id :: int
  fts_coordinator_type :: pystr
  fts_coordinator_id :: int
  fts_coordinator_request_id :: int
  fts_prepared_at :: datetime
  fts_finalized_at :: datetime
  fts_committed_amount :: int
  fts_total_locked_amount :: int
  fts_status_code :: pystr
  fts_inserted_at :: "datetime option"

record account_transfer_signal =
  ats_debtor_id :: int
  ats_creditor_id :: int
  ats_creation_date :: date
  ats_transfer_number :: int
  ats_coordinator_type :: pystr
  ats_committed_at :: datetime
  ats_acquired_amount :: int
  ats_other_creditor_id :: int
  ats_transfer_note_format :: pystr
  ats_transfer_note :: pystr
  ats_principal :: int
  ats_previous_transfer_number :: int
  ats_inserted_at :: "datetime option"

record account_update_signal =
  aus_debtor_id :: int
  aus_creditor_id :: int
  aus_last_change_ts :: datetime
  aus_last_change_seqnum :: int
  aus_principal :: int
  aus_interest :: pyfloat
  aus_interest_rate :: pyfloat
  aus_last_interest_rate_change_ts :: datetime
  aus_last_transfer_number :: int
  aus_last_transfer_committed_at :: datetime
  aus_last_config_ts :: datetime
  aus_last_config_seqnum :: int
  aus_creation_date :: date
  aus_negligible_amount :: pyfloat
  aus_config_data :: pystr
  aus_config_flags :: int
  aus_debtor_info_iri :: "pystr option"
  aus_debtor_info_content_type :: "pystr option"
  aus_debtor_info_sha256 :: "nat list option"
  aus_inserted_at :: "datetime option"

record account_purge_signal =
  aps_debtor_id :: int
  aps_creditor_id :: int
  aps_creation_date :: date
  aps_inserted_at :: "datetime option"

record rejected_config_signal =
  rcs_debtor_id :: int
  rcs_creditor_id :: int
  rcs_config_ts :: datetime
  rcs_config_seqnum :: int
  rcs_config_flags :: int
  rcs_config_data :: pystr
  rcs_negligible_amount :: pyfloat
  rcs_rejection_code :: pystr
  rcs_inserted_at :: "datetime option"

record pending_balance_change_signal =
  pbs_debtor_id :: int
  pbs_other_creditor_id :: int
  pbs_change_id :: int
  pbs_creditor_id :: int
  pbs_coordinator_type :: pystr
  pbs_transfer_note_format :: pystr
  pbs_transfer_note :: pystr
  pbs_committed_at :: datetime
  pbs_principal_delta :: int
  pbs_inserted_at :: "datetime option"

text \<open>Primary keys of the signal tables whose keys are not surrogates.\<close>

definition fts_pk :: "finalized_transfer_signal \<Rightarrow> int \<times> int \<times> int" where
  "fts_pk s = (fts_debtor_id s, fts_sender_creditor_id s, fts_transfer_id s)"

definition ats_pk :: "account_transfer_signal \<Rightarrow> int \<times> int \<times> date \<times> int" where
  "ats_pk s = (ats_debtor_id s, ats_creditor_id s, ats_creation_date s, ats_transfer_number s)"

definition aps_pk :: "account_purge_signal \<Rightarrow> int \<times> int \<times> date" where
  "aps_pk s = (aps_debtor_id s, aps_creditor_id s, aps_creation_date s)"

definition pbs_pk :: "pending_balance_change_signal \<Rightarrow> int \<times> int \<times> int" where
  "pbs_pk s = (pbs_debtor_id s, pbs_other_creditor_id s, pbs_change_id s)"

text \<open>The two parties of an account transfer, from the sign of the acquired amount.\<close>

definition ats_sender_creditor_id :: "account_transfer_signal \<Rightarrow> int" where
  "ats_sender_creditor_id s =
     (if 0 \<le> ats_acquired_amount s then ats_other_creditor_id s else ats_creditor_id s)"

definition ats_recipient_creditor_id :: "account_transfer_signal \<Rightarrow> int" where
  "ats_recipient_creditor_id s =
     (if ats_acquired_amount s < 0 then ats_other_creditor_id s else ats_creditor_id s)"

end
