(* ===== verification/Schemas.thy ===== *)
theory Schemas
  imports Events
begin

text \<open>
  \<open>swpt_accounts/schemas.py\<close>: the configuration data of a debtor's account.  Decoding the
  JSON text and validating it against \<open>RootConfigDataSchema\<close> is done by the marshmallow
  package; \<open>loads\<close> is that step (\<open>None\<close> when it raises), and \<open>root_config_dict\<close> the
  dictionary it returns.
\<close>

record debtor_info_dict =
  did_iri :: pystr
  did_optional_content_type :: "pystr option"
  did_optional_sha256 :: "pystr option"

record root_config_dict =
  rcd_interest_rate_target :: pyfloat
  rcd_optional_info :: "debtor_info_dict option"

record root_config_data =
  rc_interest_rate_target :: pyfloat
  rc_info_iri :: "pystr option"
  rc_info_sha256 :: "nat list option"
  rc_info_content_type :: "pystr option"

definition default_root_config_data :: root_config_data where
  "default_root_config_data =
     \<lparr>rc_interest_rate_target = Fin 0, rc_info_iri = None, rc_info_sha256 = None,
      rc_info_content_type = None\<rparr>"

text \<open>
  What the two schemas require of the data: the lengths of the strings, ASCII content types, hexadecimal
  hashes (with the regular expression \<open>^[0-9A-F]{64}$\<close>), and a target rate within the limits.  A
  \<open>fields.Float()\<close> is never a NaN.
\<close>

definition DebtorInfoSchema_ok :: "debtor_info_dict \<Rightarrow> bool" where
  "DebtorInfoSchema_ok info \<longleftrightarrow>
     length (did_iri info) \<le> 200
     \<and> (case did_optional_content_type info of None \<Rightarrow> True | Some s \<Rightarrow> length s \<le> 100 \<and> isascii s)
     \<and> (case did_optional_sha256 info of None \<Rightarrow> True
        | Some h \<Rightarrow> match_anchored (\<lambda>s. length s = 64 \<and> (\<forall>c \<in> set s. 48 \<le> c \<and> c \<le> 57 \<or> 65 \<le> c \<and> c \<le> 70)) h)"

definition RootConfigDataSchema_ok :: "root_config_dict \<Rightarrow> bool" where
  "RootConfigDataSchema_ok data \<longleftrightarrow>
     fle INTEREST_RATE_FLOOR (rcd_interest_rate_target data) \<and> fle (rcd_interest_rate_target data) INTEREST_RATE_CEIL
     \<and> (case rcd_optional_info data of None \<Rightarrow> True | Some info \<Rightarrow> DebtorInfoSchema_ok info)"

text \<open>\<open>loads\<close> returns only data that the schemas accept.\<close>

definition loads_validates :: "(pystr \<Rightarrow> root_config_dict option) \<Rightarrow> bool" where
  "loads_validates loads \<longleftrightarrow> (\<forall>s data. loads s = Some data \<longrightarrow> RootConfigDataSchema_ok data)"

text \<open>\<open>base64.b16encode\<close> and \<open>base64.b16decode\<close>: upper-case hexadecimal digits.\<close>

definition hex_digit :: "nat \<Rightarrow> nat" where
  "hex_digit n = (if n < 10 then 48 + n else 55 + n)"

definition hex_value :: "nat \<Rightarrow> nat option" where
  "hex_value c =
     (if 48 \<le> c \<and> c \<le> 57 then Some (c - 48) else if 65 \<le> c \<and> c \<le> 70 then Some (c - 55) else None)"

fun b16encode :: "nat list \<Rightarrow> pystr" where
  "b16encode [] = []"
| "b16encode (b # bs) = hex_digit (b div 16) # hex_digit (b mod 16) # b16encode bs"

fun b16decode :: "pystr \<Rightarrow> nat list result" where
  "b16decode [] = Inr []"
| "b16decode [c] = Inl ValueError"
| "b16decode (c # d # cs) =
     (case (hex_value c, hex_value d) of
        (Some x, Some y) \<Rightarrow> bindR (b16decode cs) (\<lambda>bs. Inr ((16 * x + y) # bs))
      | _ \<Rightarrow> Inl ValueError)"

definition parse_root_config_data ::
    "(pystr \<Rightarrow> root_config_dict option) \<Rightarrow> pystr \<Rightarrow> root_config_data result" where
  "parse_root_config_data loads config_data =
     (if config_data = [] then Inr default_root_config_data
      else case loads config_data of
        None \<Rightarrow> Inl ValueError
      | Some data \<Rightarrow>
          (case rcd_optional_info data of
             None \<Rightarrow>
               Inr \<lparr>rc_interest_rate_target = rcd_interest_rate_target data, rc_info_iri = None,
                    rc_info_sha256 = None, rc_info_content_type = None\<rparr>
           | Some info \<Rightarrow>
               bindR (case did_optional_sha256 info of
                        None \<Rightarrow> Inr None
                      | Some h \<Rightarrow> if h = [] then Inr (Some [])
                                  else bindR (b16decode h) (\<lambda>bs. Inr (Some bs))) (\<lambda>sha256.
               Inr \<lparr>rc_interest_rate_target = rcd_interest_rate_target data,
                    rc_info_iri = Some (did_iri info), rc_info_sha256 = sha256,
                    rc_info_content_type = did_optional_content_type info\<rparr>)))"

section \<open>Round trip of the hexadecimal encoding\<close>

lemma hex_value_digit: "n < 16 \<Longrightarrow> hex_value (hex_digit n) = Some n"
  by (auto simp: hex_value_def hex_digit_def)

lemma b16_roundtrip: "\<forall>b \<in> set bs. b < 256 \<Longrightarrow> b16decode (b16encode bs) = Inr bs"
proof (induction bs)
  case Nil
  then show ?case by simp
next
  case (Cons b bs)
  then have "b div 16 < 16" by auto
  with Cons show ?case by (simp add: hex_value_digit)
qed

lemma b16decode_length: "b16decode h = Inr bs \<Longrightarrow> length h = 2 * length bs"
  by (induction h arbitrary: bs rule: b16decode.induct)
    (auto simp: monad_simps split: option.splits)

text \<open>Decoding yields bytes, and decodes every string of pairs of digits.\<close>

lemma b16decode_bytes: "b16decode h = Inr bs \<Longrightarrow> \<forall>b \<in> set bs. b < 256"
proof (induction h arbitrary: bs rule: b16decode.induct)
  case (3 c d cs)
  obtain x y bs' where x: "hex_value c = Some x" "hex_value d = Some y" "b16decode cs = Inr bs'" "bs = (16 * x + y) # bs'"
    using "3.prems" by (auto simp: bindR_eq_Inr split: option.splits)
  have digit: "x < 16" if "hex_value c = Some x" for c x using that by (auto simp: hex_value_def split: if_splits)
  have "16 * x + y < 256" using digit [OF x(1)] digit [OF x(2)] by simp
  moreover have "\<forall>b \<in> set bs'. b < 256" using "3.IH" [OF refl x(1,2)] x(3) by simp
  ultimately show ?case using x(4) by simp
qed auto

section \<open>Configuration data that has been parsed\<close>

definition root_config_data_ok :: "root_config_data \<Rightarrow> bool" where
  "root_config_data_ok c \<longleftrightarrow>
     fle INTEREST_RATE_FLOOR (rc_interest_rate_target c) \<and> fle (rc_interest_rate_target c) INTEREST_RATE_CEIL
     \<and> (case rc_info_iri c of None \<Rightarrow> True | Some s \<Rightarrow> length s \<le> 200)
     \<and> (case rc_info_content_type c of None \<Rightarrow> True | Some s \<Rightarrow> length s \<le> 100 \<and> isascii s)
     \<and> (case rc_info_sha256 c of None \<Rightarrow> True | Some bs \<Rightarrow> length bs = 32 \<and> (\<forall>b \<in> set bs. b < 256))"

lemma sha256_decoded:
  assumes "match_anchored (\<lambda>s. length s = 64 \<and> P s) h" and "b16decode h = Inr bs"
  shows "length bs = 32"
proof -
  have len: "length h = 2 * length bs" using assms(2) by (rule b16decode_length)
  have "length h = 64 \<or> length h = 65" using assms(1) by (auto simp: match_anchored_def)
  then show ?thesis using len by presburger
qed

lemma parse_root_config_data_ok:
  assumes "loads_validates loads" and "parse_root_config_data loads dat = Inr c"
  shows "root_config_data_ok c"
proof (cases "dat = []")
  case True
  then show ?thesis using assms(2)
    by (auto simp: parse_root_config_data_def default_root_config_data_def root_config_data_ok_def
        INTEREST_RATE_FLOOR_def INTEREST_RATE_CEIL_def)
next
  case False
  then obtain data where data: "loads dat = Some data" using assms(2)
    by (auto simp: parse_root_config_data_def split: option.splits)
  then have ok: "RootConfigDataSchema_ok data" using assms(1) by (simp add: loads_validates_def)
  show ?thesis
  proof (cases "rcd_optional_info data")
    case None
    then show ?thesis using assms(2) False data ok
      by (auto simp: parse_root_config_data_def root_config_data_ok_def RootConfigDataSchema_ok_def)
  next
    case (Some info)
    then have info: "DebtorInfoSchema_ok info" using ok by (simp add: RootConfigDataSchema_ok_def)
    have c: "bindR (case did_optional_sha256 info of
                        None \<Rightarrow> Inr None
                      | Some h \<Rightarrow> if h = [] then Inr (Some [])
                                  else bindR (b16decode h) (\<lambda>bs. Inr (Some bs))) (\<lambda>sha256.
               Inr \<lparr>rc_interest_rate_target = rcd_interest_rate_target data,
                    rc_info_iri = Some (did_iri info), rc_info_sha256 = sha256,
                    rc_info_content_type = did_optional_content_type info\<rparr>) = Inr c"
      using assms(2) False data Some by (simp add: parse_root_config_data_def)
    show ?thesis
    proof (cases "did_optional_sha256 info")
      case None
      then show ?thesis using c info ok
        by (auto simp: root_config_data_ok_def RootConfigDataSchema_ok_def DebtorInfoSchema_ok_def)
    next
      case (Some h)
      then have h: "match_anchored (\<lambda>s. length s = 64 \<and> (\<forall>c \<in> set s. 48 \<le> c \<and> c \<le> 57 \<or> 65 \<le> c \<and> c \<le> 70)) h"
        using info by (simp add: DebtorInfoSchema_ok_def)
      then have "h \<noteq> []" by (auto simp: match_anchored_def)
      then obtain bs where bs: "b16decode h = Inr bs" "c = \<lparr>rc_interest_rate_target = rcd_interest_rate_target data,
                    rc_info_iri = Some (did_iri info), rc_info_sha256 = Some bs,
                    rc_info_content_type = did_optional_content_type info\<rparr>"
        using c Some by (auto simp: monad_simps)
      then show ?thesis using sha256_decoded [OF h bs(1)] b16decode_bytes [OF bs(1)] info ok
        by (auto simp: root_config_data_ok_def RootConfigDataSchema_ok_def DebtorInfoSchema_ok_def)
    qed
  qed
qed

end
