(* ===== verification/Tables.thy ===== *)
theory Tables
  imports Prelude
begin

text \<open>
  A database table is the list of its rows; a row carries its primary key (\<open>pk\<close>) and
  satisfies the CHECK constraints and column ranges of its table (\<open>ok\<close>), which are
  given by the model classes of \<open>swpt_accounts/models.py\<close>.  The order of the rows is
  the order in which a query without \<open>ORDER BY\<close> happens to return them; since every
  theorem of the development is about an arbitrary list of rows, no order is assumed.

  The locale \<open>keyed_table\<close> is the interface through which the procedures use a table.
\<close>

section \<open>Tables as lists of rows\<close>

definition tbl_lookup :: "('r \<Rightarrow> 'k) \<Rightarrow> 'k \<Rightarrow> 'r list \<Rightarrow> 'r option" where
  "tbl_lookup pk k t = find (\<lambda>r. pk r = k) t"

definition tbl_insert :: "('r \<Rightarrow> 'k) \<Rightarrow> ('r \<Rightarrow> bool) \<Rightarrow> 'r \<Rightarrow> 'r list \<Rightarrow> 'r list result" where
  "tbl_insert pk ok r t =
     (if ok r \<and> tbl_lookup pk (pk r) t = None then Inr (t @ [r]) else Inl IntegrityError)"

definition tbl_update :: "('r \<Rightarrow> 'k) \<Rightarrow> ('r \<Rightarrow> bool) \<Rightarrow> 'r \<Rightarrow> 'r list \<Rightarrow> 'r list result" where
  "tbl_update pk ok r t =
     (if ok r then Inr (map (\<lambda>x. if pk x = pk r then r else x) t) else Inl IntegrityError)"

definition tbl_delete :: "('r \<Rightarrow> 'k) \<Rightarrow> 'k \<Rightarrow> 'r list \<Rightarrow> 'r list" where
  "tbl_delete pk k t = filter (\<lambda>r. pk r \<noteq> k) t"

definition tbl_wf :: "('r \<Rightarrow> 'k) \<Rightarrow> ('r \<Rightarrow> bool) \<Rightarrow> 'r list \<Rightarrow> bool" where
  "tbl_wf pk ok t \<longleftrightarrow> distinct (map pk t) \<and> list_all ok t"

text \<open>The sum of an integer attribute over the rows of a table.\<close>

definition total :: "('r \<Rightarrow> int) \<Rightarrow> 'r list \<Rightarrow> int" where
  "total f t = sum_list (map f t)"

lemma total_Nil [simp]: "total f [] = 0"
  by (simp add: total_def)

lemma total_Cons [simp]: "total f (r # t) = f r + total f t"
  by (simp add: total_def)

lemma total_append [simp]: "total f (s @ t) = total f s + total f t"
  by (simp add: total_def)

lemma total_cong: "(\<And>r. r \<in> set t \<Longrightarrow> f r = g r) \<Longrightarrow> total f t = total g t"
  by (induction t) auto

lemma total_nonneg: "(\<And>r. r \<in> set t \<Longrightarrow> 0 \<le> f r) \<Longrightarrow> 0 \<le> total f t"
  by (induction t) auto

lemma total_add: "total (\<lambda>r. f r + g r) t = total f t + total g t"
  by (induction t) auto

lemma total_member_le: "r \<in> set t \<Longrightarrow> (\<And>x. x \<in> set t \<Longrightarrow> 0 \<le> f x) \<Longrightarrow> f r \<le> total f t"
  by (induction t) (auto simp: total_nonneg intro: add_increasing)

lemma total_filter: "total f (filter P t) = total (\<lambda>r. if P r then f r else 0) t"
  by (induction t) auto

lemma total_zero: "(\<And>r. r \<in> set t \<Longrightarrow> f r = 0) \<Longrightarrow> total f t = 0"
  by (induction t) auto

section \<open>The interface\<close>

locale keyed_table =
  fixes pk :: "'r \<Rightarrow> 'k"
    and ok :: "'r \<Rightarrow> bool"
    and wf :: "'r list \<Rightarrow> bool"
    and lookup :: "'k \<Rightarrow> 'r list \<Rightarrow> 'r option"
    and ins :: "'r \<Rightarrow> 'r list \<Rightarrow> 'r list result"
    and upd :: "'r \<Rightarrow> 'r list \<Rightarrow> 'r list result"
    and del :: "'k \<Rightarrow> 'r list \<Rightarrow> 'r list"
  assumes lookup_iff: "wf t \<Longrightarrow> lookup k t = Some r \<longleftrightarrow> r \<in> set t \<and> pk r = k"
    and wf_ok: "wf t \<Longrightarrow> r \<in> set t \<Longrightarrow> ok r"
    and ins_Inr: "ins r t = Inr t' \<longleftrightarrow> ok r \<and> lookup (pk r) t = None \<and> t' = t @ [r]"
    and ins_wf: "wf t \<Longrightarrow> ins r t = Inr t' \<Longrightarrow> wf t'"
    and upd_ok: "upd r t = Inr t' \<Longrightarrow> ok r"
    and upd_total_ex: "ok r \<Longrightarrow> \<exists>t'. upd r t = Inr t'"
    and upd_set: "upd r t = Inr t' \<Longrightarrow>
      set t' = {x \<in> set t. pk x \<noteq> pk r} \<union> (if lookup (pk r) t = None then {} else {r})"
    and upd_wf: "wf t \<Longrightarrow> upd r t = Inr t' \<Longrightarrow> wf t'"
    and upd_total: "wf t \<Longrightarrow> upd r t = Inr t' \<Longrightarrow> lookup (pk r) t = Some s \<Longrightarrow>
      total f t' = total f t - f s + f r"
    and del_set: "set (del k t) = {x \<in> set t. pk x \<noteq> k}"
    and del_wf: "wf t \<Longrightarrow> wf (del k t)"
    and del_total: "wf t \<Longrightarrow> lookup k t = Some s \<Longrightarrow> total f (del k t) = total f t - f s"
begin

lemma lookup_None_iff: "wf t \<Longrightarrow> lookup k t = None \<longleftrightarrow> (\<forall>r \<in> set t. pk r \<noteq> k)"
  by (metis lookup_iff not_None_eq)

lemma lookup_key: "wf t \<Longrightarrow> lookup k t = Some r \<Longrightarrow> pk r = k"
  by (simp add: lookup_iff)

lemma lookup_mem: "wf t \<Longrightarrow> lookup k t = Some r \<Longrightarrow> r \<in> set t"
  by (simp add: lookup_iff)

lemma lookup_ok: "wf t \<Longrightarrow> lookup k t = Some r \<Longrightarrow> ok r"
  by (simp add: lookup_iff wf_ok)

lemma pk_inj: "wf t \<Longrightarrow> r \<in> set t \<Longrightarrow> s \<in> set t \<Longrightarrow> pk r = pk s \<Longrightarrow> r = s"
  by (metis lookup_iff option.inject)

lemma lookup_eqI: "wf t \<Longrightarrow> wf t' \<Longrightarrow> (\<And>r. pk r = k \<Longrightarrow> r \<in> set t \<longleftrightarrow> r \<in> set t') \<Longrightarrow> lookup k t = lookup k t'"
  by (metis lookup_iff not_None_eq)

lemma lookup_upd:
  assumes "wf t" and "upd r t = Inr t'"
  shows "lookup k t' = (if k = pk r \<and> lookup k t \<noteq> None then Some r else lookup k t)"
proof (cases "k = pk r")
  case True
  have wf': "wf t'" using assms by (rule upd_wf)
  show ?thesis
  proof (cases "lookup k t")
    case None
    then have "lookup k t' = None" using True assms wf'
      by (auto simp: lookup_None_iff upd_set)
    then show ?thesis using None by simp
  next
    case (Some s)
    then have "r \<in> set t'" using True assms by (simp add: upd_set)
    then have "lookup k t' = Some r" using True wf' by (simp add: lookup_iff)
    then show ?thesis using True Some by simp
  qed
next
  case False
  have "lookup k t' = lookup k t"
    using assms False by (intro lookup_eqI) (auto simp: upd_set intro: upd_wf)
  then show ?thesis using False by simp
qed

lemma lookup_ins:
  assumes "wf t" and "ins r t = Inr t'"
  shows "lookup k t' = (if k = pk r then Some r else lookup k t)"
proof (cases "k = pk r")
  case True
  then show ?thesis using assms ins_wf [OF assms] by (auto simp: lookup_iff ins_Inr)
next
  case False
  then have "lookup k t' = lookup k t"
    using assms by (intro lookup_eqI) (auto simp: ins_Inr intro: ins_wf)
  then show ?thesis using False by simp
qed

lemma lookup_del: "wf t \<Longrightarrow> lookup k (del k' t) = (if k = k' then None else lookup k t)"
proof (cases "k = k'")
  case True
  assume "wf t"
  then show ?thesis using True by (auto simp: lookup_None_iff del_wf del_set)
next
  case False
  assume "wf t"
  then have "lookup k (del k' t) = lookup k t"
    using False by (intro lookup_eqI) (auto simp: del_set del_wf)
  then show ?thesis using False by simp
qed

lemma ins_total: "ins r t = Inr t' \<Longrightarrow> total f t' = total f t + f r"
  by (auto simp: ins_Inr)

text \<open>Writing back a row that leaves an attribute alone leaves its sum alone.\<close>

lemma upd_total_frame:
  "wf t \<Longrightarrow> upd r t = Inr t' \<Longrightarrow> lookup (pk r) t = Some s \<Longrightarrow> f r = f s \<Longrightarrow> total f t' = total f t"
  by (simp add: upd_total)

lemma del_absent: "wf t \<Longrightarrow> lookup k t = None \<Longrightarrow> set (del k t) = set t"
  by (auto simp: del_set lookup_None_iff)

end

section \<open>Lists of rows provide the interface\<close>

lemma tbl_lookup_iff:
  "tbl_wf pk ok t \<Longrightarrow> tbl_lookup pk k t = Some r \<longleftrightarrow> r \<in> set t \<and> pk r = k"
proof (induction t)
  case Nil
  then show ?case by (simp add: tbl_lookup_def)
next
  case (Cons a t)
  then show ?case by (auto simp: tbl_lookup_def tbl_wf_def)
qed

lemma tbl_lookup_None: "tbl_lookup pk k t = None \<longleftrightarrow> (\<forall>r \<in> set t. pk r \<noteq> k)"
  by (auto simp: tbl_lookup_def find_None_iff)

lemma tbl_update_absent: "\<forall>x \<in> set t. pk x \<noteq> pk r \<Longrightarrow> map (\<lambda>x. if pk x = pk r then r else x) t = t"
  by (induction t) auto

lemma tbl_update_total:
  "distinct (map pk t) \<Longrightarrow> s \<in> set t \<Longrightarrow> pk s = pk r \<Longrightarrow>
   total f (map (\<lambda>x. if pk x = pk r then r else x) t) = total f t - f s + f r"
proof (induction t)
  case Nil
  then show ?case by simp
next
  case (Cons a t)
  show ?case
  proof (cases "pk a = pk r")
    case True
    with Cons.prems have "s = a" by (metis distinct.simps(2) image_eqI list.set_map list.simps(9) set_ConsD)
    moreover from True Cons.prems have "\<forall>x \<in> set t. pk x \<noteq> pk r" by (auto simp: image_iff)
    ultimately show ?thesis using True by (simp add: tbl_update_absent)
  next
    case False
    with Cons.prems have "s \<in> set t" by auto
    with False Cons show ?thesis by simp
  qed
qed

lemma tbl_delete_absent: "\<forall>x \<in> set t. pk x \<noteq> k \<Longrightarrow> filter (\<lambda>r. pk r \<noteq> k) t = t"
  by (induction t) auto

lemma tbl_delete_total:
  "distinct (map pk t) \<Longrightarrow> s \<in> set t \<Longrightarrow> pk s = k \<Longrightarrow>
   total f (filter (\<lambda>r. pk r \<noteq> k) t) = total f t - f s"
proof (induction t)
  case Nil
  then show ?case by simp
next
  case (Cons a t)
  show ?case
  proof (cases "pk a = k")
    case True
    with Cons.prems have "s = a" by (metis distinct.simps(2) image_eqI list.set_map list.simps(9) set_ConsD)
    moreover from True Cons.prems have "\<forall>x \<in> set t. pk x \<noteq> k" by (auto simp: image_iff)
    ultimately show ?thesis using True by (simp add: tbl_delete_absent)
  next
    case False
    with Cons.prems have "s \<in> set t" by auto
    with False Cons show ?thesis by simp
  qed
qed

lemma keyed_table_tbl:
  "keyed_table pk ok (tbl_wf pk ok) (tbl_lookup pk) (tbl_insert pk ok) (tbl_update pk ok) (tbl_delete pk)"
proof (unfold_locales, goal_cases)
  case (1 t k r)
  then show ?case by (rule tbl_lookup_iff)
next
  case (2 t r)
  then show ?case by (simp add: tbl_wf_def list_all_iff)
next
  case (3 r t t')
  then show ?case by (auto simp: tbl_insert_def)
next
  case (4 t r t')
  then show ?case by (force simp: tbl_insert_def tbl_wf_def tbl_lookup_None split: if_splits)
next
  case (5 r t t')
  then show ?case by (auto simp: tbl_update_def split: if_splits)
next
  case (6 r t)
  then show ?case by (auto simp: tbl_update_def)
next
  case (7 r t t')
  then show ?case by (auto simp: tbl_update_def tbl_lookup_None tbl_lookup_def find_None_iff split: if_splits)
next
  case (8 t r t')
  have "map (pk \<circ> (\<lambda>x. if pk x = pk r then r else x)) t = map pk t" by simp
  then show ?case using 8
    by (auto simp: tbl_update_def tbl_wf_def list_all_iff simp del: map_eq_conv split: if_splits)
next
  case (9 t r t' s f)
  then show ?case
    by (auto simp: tbl_update_def tbl_lookup_iff tbl_update_total tbl_wf_def split: if_splits)
next
  case (10 k t)
  then show ?case by (auto simp: tbl_delete_def)
next
  case (11 t k)
  then show ?case by (auto simp: tbl_delete_def tbl_wf_def list_all_iff distinct_map_filter)
next
  case (12 t k s f)
  then show ?case
    by (auto simp: tbl_delete_def tbl_lookup_iff tbl_wf_def intro: tbl_delete_total)
qed

end
