(* ===== verification/Models.thy ===== *)
theory Models
  imports Schemas Tables "HOL-Library.Word"
begin

text \<open>
  \<open>swpt_accounts/models.py\<close>: the constants, the six tables with their constraints, and
  the balance, interest and status-code computations of the model classes.  A row of a
  table is a record; \<open>X_pk\<close> is its primary key, \<open>X_fits\<close> says that its values are in the
  ranges of their columns (a violation is a \<open>DataError\<close>) and \<open>X_ok\<close> is the conjunction of
  its CHECK constraints (a violation is an \<open>IntegrityError\<close>).

  What is not under \<open>src/\<close> is gathered in the record \<open>env\<close>: the C library, the
  round trip of a value through a PostgreSQL REAL column, and the helper functions of the
  package \<open>swpt_lib\<close>.
\<close>

unbundle bit_operations_syntax

section \<open>Parameters\<close>

record env = libm +
  store_real :: "pyfloat \<Rightarrow> pyfloat option" \<comment> \<open>write to a REAL column and read back, \<open>None\<close>: out of range\<close>
  date_to_int24 :: "date \<Rightarrow> int"
  increment_seqnum :: "int \<Rightarrow> int"
  seqnum_gt :: "int \<Rightarrow> int \<Rightarrow> bool"          \<comment> \<open>\<open>Seqnum(a) > Seqnum(b)\<close>\<close>
  schema_loads :: "pystr \<Rightarrow> root_config_dict option" \<comment> \<open>\<open>RootConfigDataSchema().loads\<close>\<close>

section \<open>Constants\<close>

definition T0 :: datetime where "T0 = 0"
definition SECONDS_IN_YEAR :: rat where "SECONDS_IN_YEAR = 36525 / 100 * 86400"
definition CONFIG_DATA_MAX_BYTES :: nat where "CONFIG_DATA_MAX_BYTES = 2000"

definition CT_INTEREST :: pystr where "CT_INTEREST = lit ''interest''"
definition CT_DELETE :: pystr where "CT_DELETE = lit ''delete''"
definition CT_DIRECT :: pystr where "CT_DIRECT = lit ''direct''"

definition SC_OK :: pystr where "SC_OK = lit ''OK''"
definition SC_TIMEOUT :: pystr where "SC_TIMEOUT = lit ''TERMINATED''"
definition SC_TOO_LOW_INTEREST_RATE :: pystr where "SC_TOO_LOW_INTEREST_RATE = lit ''TERMINATED''"
definition SC_SENDER_IS_UNREACHABLE :: pystr where
  "SC_SENDER_IS_UNREACHABLE = lit ''SENDER_IS_UNREACHABLE''"
definition SC_RECIPIENT_IS_UNREACHABLE :: pystr where
  "SC_RECIPIENT_IS_UNREACHABLE = lit ''RECIPIENT_IS_UNREACHABLE''"
definition SC_INSUFFICIENT_AVAILABLE_AMOUNT :: pystr where
  "SC_INSUFFICIENT_AVAILABLE_AMOUNT = lit ''INSUFFICIENT_AVAILABLE_AMOUNT''"
definition SC_RECIPIENT_SAME_AS_SENDER :: pystr where
  "SC_RECIPIENT_SAME_AS_SENDER = lit ''RECIPIENT_SAME_AS_SENDER''"
definition SC_TOO_MANY_TRANSFERS :: pystr where
  "SC_TOO_MANY_TRANSFERS = lit ''TOO_MANY_TRANSFERS''"

definition ROOT_CREDITOR_ID :: int where "ROOT_CREDITOR_ID = 0"

definition CONFIG_SCHEDULED_FOR_DELETION_FLAG :: int where "CONFIG_SCHEDULED_FOR_DELETION_FLAG = 1"
definition STATUS_DELETED_FLAG :: int where "STATUS_DELETED_FLAG = 1"
definition STATUS_OVERFLOWN_FLAG :: int where "STATUS_OVERFLOWN_FLAG = 2"

lemmas status_code_defs = SC_OK_def SC_TIMEOUT_def SC_TOO_LOW_INTEREST_RATE_def
  SC_SENDER_IS_UNREACHABLE_def SC_RECIPIENT_IS_UNREACHABLE_def
  SC_INSUFFICIENT_AVAILABLE_AMOUNT_def SC_RECIPIENT_SAME_AS_SENDER_def SC_TOO_MANY_TRANSFERS_def

lemma status_codes_not_OK [simp]:
  "SC_TIMEOUT \<noteq> SC_OK" "SC_TOO_LOW_INTEREST_RATE \<noteq> SC_OK" "SC_INSUFFICIENT_AVAILABLE_AMOUNT \<noteq> SC_OK"
  by (simp_all add: status_code_defs)

lemma CT_DELETE_not_INTEREST [simp]: "CT_DELETE \<noteq> CT_INTEREST"
  by (simp add: CT_DELETE_def CT_INTEREST_def)

section \<open>Balances\<close>

definition calc_k :: "'a libm_scheme \<Rightarrow> pyfloat \<Rightarrow> pyfloat result" where
  "calc_k M interest_rate =
     bindR (math_log M (fadd (Fin 1) (fdiv_const interest_rate 100)))
       (\<lambda>l. Inr (fdiv_const l SECONDS_IN_YEAR))"

definition contain_principal_overflow :: "int \<Rightarrow> int" where
  "contain_principal_overflow v =
     (if v \<le> MIN_INT64 then - MAX_INT64 else if MAX_INT64 < v then MAX_INT64 else v)"

definition calc_current_balance ::
    "'a libm_scheme \<Rightarrow> int \<Rightarrow> int \<Rightarrow> pyfloat \<Rightarrow> pyfloat \<Rightarrow> datetime \<Rightarrow> datetime \<Rightarrow> pydecimal result" where
  "calc_current_balance M creditor_id pr interest interest_rate last_change_ts current_ts =
     (if creditor_id \<noteq> ROOT_CREDITOR_ID then
        bindR (dec_add (dec_of_int pr) (dec_from_float interest)) (\<lambda>balance.
        bindR (dec_gt balance (Fin 0)) (\<lambda>positive.
        if positive then
          bindR (calc_k M interest_rate) (\<lambda>k.
          let passed_seconds = pymax (Fin 0) (total_seconds (current_ts - last_change_ts)) in
          bindR (math_exp M (fmul k passed_seconds)) (\<lambda>x.
          dec_mul balance (dec_from_float x)))
        else Inr balance))
      else Inr (dec_of_int pr))"

definition is_negligible_balance :: "pydecimal \<Rightarrow> pyfloat \<Rightarrow> bool result" where
  "is_negligible_balance balance negligible_amount =
     bindR (dec_le balance negligible_amount) (\<lambda>p.
     if p then Inr True else dec_le balance (Fin 2))"

section \<open>Rows\<close>

text \<open>PostgreSQL orders NaN above every other value.\<close>

definition pg_le :: "pyfloat \<Rightarrow> pyfloat \<Rightarrow> bool" where
  "pg_le a b \<longleftrightarrow> b = NaN \<or> fle a b"

record account =
  acc_debtor_id :: int
  acc_creditor_id :: int
  acc_creation_date :: date
  acc_last_change_seqnum :: int
  acc_last_change_ts :: datetime
  acc_principal :: int
  acc_interest_rate :: pyfloat
  acc_interest :: pyfloat
  acc_last_interest_rate_change_ts :: datetime
  acc_last_config_ts :: datetime
  acc_last_config_seqnum :: int
  acc_last_transfer_number :: int
  acc_last_transfer_committed_at :: datetime
  acc_negligible_amount :: pyfloat
  acc_config_flags :: int
  acc_config_data :: pystr
  acc_debtor_info_iri :: "pystr option"
  acc_debtor_info_content_type :: "pystr option"
  acc_debtor_info_sha256 :: "nat list option"
  acc_status_flags :: int
  acc_total_locked_amount :: int
  acc_pending_transfers_count :: int
  acc_last_transfer_id :: int
  acc_previous_interest_rate :: pyfloat
  acc_last_heartbeat_ts :: datetime
  acc_last_interest_capitalization_ts :: datetime
  acc_last_deletion_attempt_ts :: datetime
  acc_pending_account_update :: bool

definition account_pk :: "account \<Rightarrow> int \<times> int" where
  "account_pk a = (acc_debtor_id a, acc_creditor_id a)"

definition account_fits :: "account \<Rightarrow> bool" where
  "account_fits a \<longleftrightarrow>
     is_int64 (acc_debtor_id a) \<and> is_int64 (acc_creditor_id a)
     \<and> is_int32 (acc_last_change_seqnum a) \<and> is_int64 (acc_principal a)
     \<and> is_int32 (acc_last_config_seqnum a) \<and> is_int64 (acc_last_transfer_number a)
     \<and> is_int32 (acc_config_flags a) \<and> is_int32 (acc_status_flags a)
     \<and> is_int64 (acc_total_locked_amount a) \<and> is_int32 (acc_pending_transfers_count a)
     \<and> is_int64 (acc_last_transfer_id a)"

definition account_ok :: "account \<Rightarrow> bool" where
  "account_ok a \<longleftrightarrow>
     (pg_le INTEREST_RATE_FLOOR (acc_interest_rate a) \<and> pg_le (acc_interest_rate a) INTEREST_RATE_CEIL)
     \<and> (pg_le INTEREST_RATE_FLOOR (acc_previous_interest_rate a)
        \<and> pg_le (acc_previous_interest_rate a) INTEREST_RATE_CEIL)
     \<and> 0 \<le> acc_total_locked_amount a
     \<and> 0 \<le> acc_pending_transfers_count a
     \<and> MIN_INT64 < acc_principal a
     \<and> 0 \<le> acc_last_transfer_id a
     \<and> 0 \<le> acc_last_transfer_number a
     \<and> pg_le (Fin 0) (acc_negligible_amount a)
     \<and> (case acc_debtor_info_sha256 a of None \<Rightarrow> True | Some h \<Rightarrow> length h = 32)"

definition Account_calc_current_balance :: "'a libm_scheme \<Rightarrow> account \<Rightarrow> datetime \<Rightarrow> pydecimal result" where
  "Account_calc_current_balance M a current_ts =
     calc_current_balance M (acc_creditor_id a) (acc_principal a) (acc_interest a)
       (acc_interest_rate a) (acc_last_change_ts a) current_ts"

definition calc_due_interest ::
    "'a libm_scheme \<Rightarrow> account \<Rightarrow> int \<Rightarrow> datetime \<Rightarrow> datetime \<Rightarrow> pyfloat result" where
  "calc_due_interest M a amount due_ts current_ts =
     (let start_ts = due_ts; end_ts = max due_ts current_ts;
          interest_rate_change_ts = min (acc_last_interest_rate_change_ts a) end_ts;
          t = total_seconds (end_ts - start_ts);
          t1 = pymax (total_seconds (interest_rate_change_ts - start_ts)) (Fin 0);
          t2 = pymin (total_seconds (end_ts - interest_rate_change_ts)) t
      in bindR (calc_k M (acc_previous_interest_rate a)) (\<lambda>k1.
         bindR (calc_k M (acc_interest_rate a)) (\<lambda>k2.
         bindR (assertR (fle (Fin 0) t)) (\<lambda>_.
         bindR (assertR (fle (Fin 0) t1 \<and> fle t1 t)) (\<lambda>_.
         bindR (assertR (fle (Fin 0) t2 \<and> fle t2 t)) (\<lambda>_.
         bindR (assertR (fle (fabs (fsub (fadd t1 t2) t)) (fdiv_const t 1000))) (\<lambda>_.
         bindR (math_exp M (fadd (fmul k1 t1) (fmul k2 t2))) (\<lambda>x.
         Inr (fmul (float_of_int amount) (fsub x (Fin 1)))))))))))"

record transfer_request =
  tr_debtor_id :: int
  tr_sender_creditor_id :: int
  tr_transfer_request_id :: int
  tr_coordinator_type :: pystr
  tr_coordinator_id :: int
  tr_coordinator_request_id :: int
  tr_min_locked_amount :: int
  tr_max_locked_amount :: int
  tr_deadline :: datetime
  tr_min_interest_rate :: pyfloat
  tr_recipient_creditor_id :: int

definition transfer_request_pk :: "transfer_request \<Rightarrow> int \<times> int \<times> int" where
  "transfer_request_pk tr = (tr_debtor_id tr, tr_sender_creditor_id tr, tr_transfer_request_id tr)"

definition transfer_request_fits :: "transfer_request \<Rightarrow> bool" where
  "transfer_request_fits tr \<longleftrightarrow>
     is_int64 (tr_debtor_id tr) \<and> is_int64 (tr_sender_creditor_id tr)
     \<and> is_int64 (tr_transfer_request_id tr) \<and> length (tr_coordinator_type tr) \<le> 30
     \<and> is_int64 (tr_coordinator_id tr) \<and> is_int64 (tr_coordinator_request_id tr)
     \<and> is_int64 (tr_min_locked_amount tr) \<and> is_int64 (tr_max_locked_amount tr)
     \<and> is_int64 (tr_recipient_creditor_id tr)"

definition transfer_request_ok :: "transfer_request \<Rightarrow> bool" where
  "transfer_request_ok tr \<longleftrightarrow>
     0 \<le> tr_min_locked_amount tr
     \<and> tr_min_locked_amount tr \<le> tr_max_locked_amount tr
     \<and> pg_le (Fin (- 100)) (tr_min_interest_rate tr)"

record finalization_request =
  fr_debtor_id :: int
  fr_sender_creditor_id :: int
  fr_transfer_id :: int
  fr_coordinator_type :: pystr
  fr_coordinator_id :: int
  fr_coordinator_request_id :: int
  fr_committed_amount :: int
  fr_transfer_note_format :: pystr
  fr_transfer_note :: pystr
  fr_ts :: datetime

definition finalization_request_pk :: "finalization_request \<Rightarrow> int \<times> int \<times> int" where
  "finalization_request_pk fr = (fr_debtor_id fr, fr_sender_creditor_id fr, fr_transfer_id fr)"

definition finalization_request_fits :: "finalization_request \<Rightarrow> bool" where
  "finalization_request_fits fr \<longleftrightarrow>
     is_int64 (fr_debtor_id fr) \<and> is_int64 (fr_sender_creditor_id fr) \<and> is_int64 (fr_transfer_id fr)
     \<and> length (fr_coordinator_type fr) \<le> 30
     \<and> is_int64 (fr_coordinator_id fr) \<and> is_int64 (fr_coordinator_request_id fr)
     \<and> is_int64 (fr_committed_amount fr)"

definition finalization_request_ok :: "finalization_request \<Rightarrow> bool" where
  "finalization_request_ok fr \<longleftrightarrow> 0 \<le> fr_committed_amount fr"

record prepared_transfer =
  pt_debtor_id :: int
  pt_sender_creditor_id :: int
  pt_transfer_id :: int
  pt_coordinator_type :: pystr
  pt_coordinator_id :: int
  pt_coordinator_request_id :: int
  pt_recipient_creditor_id :: int
  pt_prepared_at :: datetime
  pt_min_interest_rate :: pyfloat
  pt_demurrage_rate :: pyfloat
  pt_deadline :: datetime
  pt_locked_amount :: int
  pt_last_reminder_ts :: "datetime option"

definition prepared_transfer_pk :: "prepared_transfer \<Rightarrow> int \<times> int \<times> int" where
  "prepared_transfer_pk pt = (pt_debtor_id pt, pt_sender_creditor_id pt, pt_transfer_id pt)"

definition prepared_transfer_fits :: "prepared_transfer \<Rightarrow> bool" where
  "prepared_transfer_fits pt \<longleftrightarrow>
     is_int64 (pt_debtor_id pt) \<and> is_int64 (pt_sender_creditor_id pt) \<and> is_int64 (pt_transfer_id pt)
     \<and> length (pt_coordinator_type pt) \<le> 30
     \<and> is_int64 (pt_coordinator_id pt) \<and> is_int64 (pt_coordinator_request_id pt)
     \<and> is_int64 (pt_recipient_creditor_id pt) \<and> is_int64 (pt_locked_amount pt)"

definition prepared_transfer_ok :: "prepared_transfer \<Rightarrow> bool" where
  "prepared_transfer_ok pt \<longleftrightarrow>
     0 < pt_transfer_id pt
     \<and> pg_le (Fin (- 100)) (pt_min_interest_rate pt)
     \<and> 0 \<le> pt_locked_amount pt
     \<and> flt (Fin (- 100)) (pt_demurrage_rate pt) \<and> pg_le (pt_demurrage_rate pt) (Fin 0)"

definition get_is_expendable :: "prepared_transfer \<Rightarrow> int \<Rightarrow> int \<Rightarrow> bool" where
  "get_is_expendable pt committed_amount expendable_amount \<longleftrightarrow>
     committed_amount \<le> expendable_amount + pt_locked_amount pt"

definition get_is_reserved :: "'a libm_scheme \<Rightarrow> prepared_transfer \<Rightarrow> int \<Rightarrow> datetime \<Rightarrow> bool result" where
  "get_is_reserved M pt committed_amount current_ts =
     (if pt_locked_amount pt < committed_amount then Inr False
      else if pt_sender_creditor_id pt = ROOT_CREDITOR_ID then Inr True
      else
        let demurrage_seconds = pymax (Fin 0) (total_seconds (current_ts - pt_prepared_at pt)) in
        bindR (calc_k M (pt_demurrage_rate pt)) (\<lambda>k.
        bindR (math_exp M (fmul k demurrage_seconds)) (\<lambda>ratio.
        bindR (assertR (fle ratio (Fin 1))) (\<lambda>_.
        Inr (fle (fmul (float_of_int committed_amount) (Fin 1))
                 (fmul (float_of_int (pt_locked_amount pt)) ratio))))))"

definition calc_status_code ::
    "'a libm_scheme \<Rightarrow> prepared_transfer \<Rightarrow> int \<Rightarrow> int \<Rightarrow> pyfloat \<Rightarrow> datetime \<Rightarrow> pystr result" where
  "calc_status_code M pt committed_amount expendable_amount interest_rate current_ts =
     bindR (assertR (0 \<le> committed_amount)) (\<lambda>_.
     if committed_amount \<noteq> 0 then
       if pt_deadline pt < current_ts then Inr SC_TIMEOUT
       else if flt interest_rate (pt_min_interest_rate pt) then Inr SC_TOO_LOW_INTEREST_RATE
       else if get_is_expendable pt committed_amount expendable_amount then Inr SC_OK
       else bindR (get_is_reserved M pt committed_amount current_ts) (\<lambda>reserved.
            if reserved then Inr SC_OK else Inr SC_INSUFFICIENT_AVAILABLE_AMOUNT)
     else Inr SC_OK)"

record registered_balance_change =
  rbc_debtor_id :: int
  rbc_other_creditor_id :: int
  rbc_change_id :: int
  rbc_committed_at :: datetime
  rbc_is_applied :: bool

definition registered_balance_change_pk :: "registered_balance_change \<Rightarrow> int \<times> int \<times> int" where
  "registered_balance_change_pk r = (rbc_debtor_id r, rbc_other_creditor_id r, rbc_change_id r)"

definition registered_balance_change_fits :: "registered_balance_change \<Rightarrow> bool" where
  "registered_balance_change_fits r \<longleftrightarrow>
     is_int64 (rbc_debtor_id r) \<and> is_int64 (rbc_other_creditor_id r) \<and> is_int64 (rbc_change_id r)"

definition registered_balance_change_ok :: "registered_balance_change \<Rightarrow> bool" where
  "registered_balance_change_ok r \<longleftrightarrow> True"

record pending_balance_change =
  pbc_debtor_id :: int
  pbc_other_creditor_id :: int
  pbc_change_id :: int
  pbc_creditor_id :: int
  pbc_coordinator_type :: pystr
  pbc_transfer_note_format :: pystr
  pbc_transfer_note :: pystr
  pbc_committed_at :: datetime
  pbc_principal_delta :: int

definition pending_balance_change_pk :: "pending_balance_change \<Rightarrow> int \<times> int \<times> int" where
  "pending_balance_change_pk c = (pbc_debtor_id c, pbc_other_creditor_id c, pbc_change_id c)"

definition pending_balance_change_fits :: "pending_balance_change \<Rightarrow> bool" where
  "pending_balance_change_fits c \<longleftrightarrow>
     is_int64 (pbc_debtor_id c) \<and> is_int64 (pbc_other_creditor_id c) \<and> is_int64 (pbc_change_id c)
     \<and> is_int64 (pbc_creditor_id c) \<and> length (pbc_coordinator_type c) \<le> 30
     \<and> is_int64 (pbc_principal_delta c)"

definition pending_balance_change_ok :: "pending_balance_change \<Rightarrow> bool" where
  "pending_balance_change_ok c \<longleftrightarrow> pbc_principal_delta c \<noteq> 0"

end
