(* ===== verification/Database.thy ===== *)
theory Database
  imports Models
begin

text \<open>
  The database the procedures work on: one field per table of \<open>models.py\<close> and
  \<open>events.py\<close>, and the two sequences whose values the program reads.  Rows are written
  through the operations below, which do what a flush does: values of REAL columns are
  rounded (\<open>store_real\<close>), a value outside its column's range is a \<open>DataError\<close>, a violated
  CHECK, PRIMARY KEY or FOREIGN KEY constraint an \<open>IntegrityError\<close>.  A procedure that
  raises leaves the database as it was (\<open>@atomic\<close> rolls the transaction back).

  Signals copy values that have been range-checked in the columns they come from, so only
  their REAL columns and their primary keys are checked.
\<close>

section \<open>State\<close>

record db =
  db_accounts :: "account list"
  db_transfer_requests :: "transfer_request list"
  db_finalization_requests :: "finalization_request list"
  db_prepared_transfers :: "prepared_transfer list"
  db_registered_balance_changes :: "registered_balance_change list"
  db_pending_balance_changes :: "pending_balance_change list"
  db_rejected_transfer_signals :: "rejected_transfer_signal list"
  db_prepared_transfer_signals :: "prepared_transfer_signal list"
  db_finalized_transfer_signals :: "finalized_transfer_signal list"
  db_account_transfer_signals :: "account_transfer_signal list"
  db_account_update_signals :: "account_update_signal list"
  db_account_purge_signals :: "account_purge_signal list"
  db_rejected_config_signals :: "rejected_config_signal list"
  db_pending_balance_change_signals :: "pending_balance_change_signal list"
  db_next_transfer_request_id :: int
  db_next_change_id :: int

definition empty_db :: db where
  "empty_db =
     \<lparr>db_accounts = [], db_transfer_requests = [], db_finalization_requests = [],
      db_prepared_transfers = [], db_registered_balance_changes = [], db_pending_balance_changes = [],
      db_rejected_transfer_signals = [], db_prepared_transfer_signals = [],
      db_finalized_transfer_signals = [], db_account_transfer_signals = [],
      db_account_update_signals = [], db_account_purge_signals = [],
      db_rejected_config_signals = [], db_pending_balance_change_signals = [],
      db_next_transfer_request_id = 1, db_next_change_id = 1\<rparr>"

section \<open>The tables provide the keyed table interface\<close>

interpretation accs: keyed_table account_pk account_ok "tbl_wf account_pk account_ok"
  "tbl_lookup account_pk" "tbl_insert account_pk account_ok" "tbl_update account_pk account_ok"
  "tbl_delete account_pk"
  by (rule keyed_table_tbl)

interpretation trs: keyed_table transfer_request_pk transfer_request_ok
  "tbl_wf transfer_request_pk transfer_request_ok" "tbl_lookup transfer_request_pk"
  "tbl_insert transfer_request_pk transfer_request_ok"
  "tbl_update transfer_request_pk transfer_request_ok" "tbl_delete transfer_request_pk"
  by (rule keyed_table_tbl)

interpretation frs: keyed_table finalization_request_pk finalization_request_ok
  "tbl_wf finalization_request_pk finalization_request_ok" "tbl_lookup finalization_request_pk"
  "tbl_insert finalization_request_pk finalization_request_ok"
  "tbl_update finalization_request_pk finalization_request_ok" "tbl_delete finalization_request_pk"
  by (rule keyed_table_tbl)

interpretation pts: keyed_table prepared_transfer_pk prepared_transfer_ok
  "tbl_wf prepared_transfer_pk prepared_transfer_ok" "tbl_lookup prepared_transfer_pk"
  "tbl_insert prepared_transfer_pk prepared_transfer_ok"
  "tbl_update prepared_transfer_pk prepared_transfer_ok" "tbl_delete prepared_transfer_pk"
  by (rule keyed_table_tbl)

interpretation rbcs: keyed_table registered_balance_change_pk registered_balance_change_ok
  "tbl_wf registered_balance_change_pk registered_balance_change_ok"
  "tbl_lookup registered_balance_change_pk"
  "tbl_insert registered_balance_change_pk registered_balance_change_ok"
  "tbl_update registered_balance_change_pk registered_balance_change_ok"
  "tbl_delete registered_balance_change_pk"
  by (rule keyed_table_tbl)

interpretation pbcs: keyed_table pending_balance_change_pk pending_balance_change_ok
  "tbl_wf pending_balance_change_pk pending_balance_change_ok"
  "tbl_lookup pending_balance_change_pk"
  "tbl_insert pending_balance_change_pk pending_balance_change_ok"
  "tbl_update pending_balance_change_pk pending_balance_change_ok"
  "tbl_delete pending_balance_change_pk"
  by (rule keyed_table_tbl)

section \<open>Writing rows\<close>

definition dataR :: "bool \<Rightarrow> unit result" where
  "dataR b = (if b then Inr () else Inl DataError)"

definition integrityR :: "bool \<Rightarrow> unit result" where
  "integrityR b = (if b then Inr () else Inl IntegrityError)"

lemma dataR_eq_Inr [monad_simps]: "dataR b = Inr u \<longleftrightarrow> b"
  by (simp add: dataR_def)

lemma integrityR_eq_Inr [monad_simps]: "integrityR b = Inr u \<longleftrightarrow> b"
  by (simp add: integrityR_def)

definition storeR :: "env \<Rightarrow> pyfloat \<Rightarrow> pyfloat result" where
  "storeR E x = (case store_real E x of None \<Rightarrow> Inl DataError | Some y \<Rightarrow> Inr y)"

text \<open>Only the columns that differ from the stored row are written.\<close>

definition storeR_changed :: "env \<Rightarrow> pyfloat \<Rightarrow> pyfloat \<Rightarrow> pyfloat result" where
  "storeR_changed E old x = (if x = old then Inr x else storeR E x)"

definition flush_account :: "env \<Rightarrow> account \<Rightarrow> account \<Rightarrow> account result" where
  "flush_account E old a =
     bindR (storeR_changed E (acc_interest_rate old) (acc_interest_rate a)) (\<lambda>r.
     bindR (storeR_changed E (acc_previous_interest_rate old) (acc_previous_interest_rate a)) (\<lambda>p.
     bindR (storeR_changed E (acc_negligible_amount old) (acc_negligible_amount a)) (\<lambda>n.
     Inr (a\<lparr>acc_interest_rate := r, acc_previous_interest_rate := p, acc_negligible_amount := n\<rparr>))))"

definition flush_new_account :: "env \<Rightarrow> account \<Rightarrow> account result" where
  "flush_new_account E a =
     bindR (storeR E (acc_interest_rate a)) (\<lambda>r.
     bindR (storeR E (acc_previous_interest_rate a)) (\<lambda>p.
     bindR (storeR E (acc_negligible_amount a)) (\<lambda>n.
     Inr (a\<lparr>acc_interest_rate := r, acc_previous_interest_rate := p, acc_negligible_amount := n\<rparr>))))"

definition get_account_row :: "int \<Rightarrow> int \<Rightarrow> db \<Rightarrow> account option" where
  "get_account_row debtor_id creditor_id d = tbl_lookup account_pk (debtor_id, creditor_id) (db_accounts d)"

definition save_account :: "env \<Rightarrow> account \<Rightarrow> db \<Rightarrow> db result" where
  "save_account E a d =
     (case get_account_row (acc_debtor_id a) (acc_creditor_id a) d of
        None \<Rightarrow> Inl RuntimeError
      | Some old \<Rightarrow>
          bindR (flush_account E old a) (\<lambda>a.
          bindR (dataR (account_fits a)) (\<lambda>_.
          bindR (tbl_update account_pk account_ok a (db_accounts d)) (\<lambda>t.
          Inr (d\<lparr>db_accounts := t\<rparr>)))))"

definition insert_account :: "env \<Rightarrow> account \<Rightarrow> db \<Rightarrow> db result" where
  "insert_account E a d =
     bindR (flush_new_account E a) (\<lambda>a.
     bindR (dataR (account_fits a)) (\<lambda>_.
     bindR (tbl_insert account_pk account_ok a (db_accounts d)) (\<lambda>t.
     Inr (d\<lparr>db_accounts := t\<rparr>))))"

definition insert_transfer_request :: "env \<Rightarrow> transfer_request \<Rightarrow> db \<Rightarrow> db result" where
  "insert_transfer_request E tr d =
     bindR (storeR E (tr_min_interest_rate tr)) (\<lambda>r.
     let tr = tr\<lparr>tr_transfer_request_id := db_next_transfer_request_id d, tr_min_interest_rate := r\<rparr> in
     bindR (dataR (transfer_request_fits tr)) (\<lambda>_.
     bindR (tbl_insert transfer_request_pk transfer_request_ok tr (db_transfer_requests d)) (\<lambda>t.
     Inr (d\<lparr>db_transfer_requests := t,
            db_next_transfer_request_id := db_next_transfer_request_id d + 1\<rparr>))))"

definition insert_finalization_request :: "finalization_request \<Rightarrow> db \<Rightarrow> db result" where
  "insert_finalization_request fr d =
     bindR (dataR (finalization_request_fits fr)) (\<lambda>_.
     bindR (tbl_insert finalization_request_pk finalization_request_ok fr (db_finalization_requests d))
       (\<lambda>t. Inr (d\<lparr>db_finalization_requests := t\<rparr>)))"

definition insert_prepared_transfer :: "env \<Rightarrow> prepared_transfer \<Rightarrow> db \<Rightarrow> db result" where
  "insert_prepared_transfer E pt d =
     bindR (storeR E (pt_min_interest_rate pt)) (\<lambda>r.
     let pt = pt\<lparr>pt_min_interest_rate := r\<rparr> in
     bindR (dataR (prepared_transfer_fits pt)) (\<lambda>_.
     bindR (integrityR (get_account_row (pt_debtor_id pt) (pt_sender_creditor_id pt) d \<noteq> None)) (\<lambda>_.
     bindR (tbl_insert prepared_transfer_pk prepared_transfer_ok pt (db_prepared_transfers d))
       (\<lambda>t. Inr (d\<lparr>db_prepared_transfers := t\<rparr>)))))"

definition insert_registered_balance_change :: "registered_balance_change \<Rightarrow> db \<Rightarrow> db result" where
  "insert_registered_balance_change r d =
     bindR (dataR (registered_balance_change_fits r)) (\<lambda>_.
     bindR (tbl_insert registered_balance_change_pk registered_balance_change_ok r
              (db_registered_balance_changes d))
       (\<lambda>t. Inr (d\<lparr>db_registered_balance_changes := t\<rparr>)))"

definition insert_pending_change_row :: "pending_balance_change \<Rightarrow> db \<Rightarrow> db result" where
  "insert_pending_change_row c d =
     bindR (dataR (pending_balance_change_fits c)) (\<lambda>_.
     bindR (integrityR (tbl_lookup registered_balance_change_pk (pending_balance_change_pk c)
              (db_registered_balance_changes d) \<noteq> None)) (\<lambda>_.
     bindR (tbl_insert pending_balance_change_pk pending_balance_change_ok c
              (db_pending_balance_changes d))
       (\<lambda>t. Inr (d\<lparr>db_pending_balance_changes := t\<rparr>))))"

section \<open>Deleting rows\<close>

definition delete_transfer_request :: "transfer_request \<Rightarrow> db \<Rightarrow> db" where
  "delete_transfer_request tr d =
     d\<lparr>db_transfer_requests := tbl_delete transfer_request_pk (transfer_request_pk tr) (db_transfer_requests d)\<rparr>"

definition delete_finalization_request :: "finalization_request \<Rightarrow> db \<Rightarrow> db" where
  "delete_finalization_request fr d =
     d\<lparr>db_finalization_requests :=
         tbl_delete finalization_request_pk (finalization_request_pk fr) (db_finalization_requests d)\<rparr>"

definition delete_prepared_transfer :: "prepared_transfer \<Rightarrow> db \<Rightarrow> db" where
  "delete_prepared_transfer pt d =
     d\<lparr>db_prepared_transfers :=
         tbl_delete prepared_transfer_pk (prepared_transfer_pk pt) (db_prepared_transfers d)\<rparr>"

definition delete_pending_change :: "pending_balance_change \<Rightarrow> db \<Rightarrow> db" where
  "delete_pending_change c d =
     d\<lparr>db_pending_balance_changes :=
         tbl_delete pending_balance_change_pk (pending_balance_change_pk c) (db_pending_balance_changes d)\<rparr>"

section \<open>Adding signals\<close>

definition add_rejected_transfer_signal :: "rejected_transfer_signal \<Rightarrow> db \<Rightarrow> db" where
  "add_rejected_transfer_signal s d =
     d\<lparr>db_rejected_transfer_signals := db_rejected_transfer_signals d @ [s]\<rparr>"

definition add_prepared_transfer_signal :: "env \<Rightarrow> prepared_transfer_signal \<Rightarrow> db \<Rightarrow> db result" where
  "add_prepared_transfer_signal E s d =
     bindR (storeR E (pts_min_interest_rate s)) (\<lambda>r.
     Inr (d\<lparr>db_prepared_transfer_signals :=
              db_prepared_transfer_signals d @ [s\<lparr>pts_min_interest_rate := r\<rparr>]\<rparr>))"

definition add_finalized_transfer_signal :: "finalized_transfer_signal \<Rightarrow> db \<Rightarrow> db result" where
  "add_finalized_transfer_signal s d =
     bindR (tbl_insert fts_pk (\<lambda>_. True) s (db_finalized_transfer_signals d)) (\<lambda>t.
     Inr (d\<lparr>db_finalized_transfer_signals := t\<rparr>))"

definition add_account_transfer_signal :: "account_transfer_signal \<Rightarrow> db \<Rightarrow> db result" where
  "add_account_transfer_signal s d =
     bindR (tbl_insert ats_pk (\<lambda>_. True) s (db_account_transfer_signals d)) (\<lambda>t.
     Inr (d\<lparr>db_account_transfer_signals := t\<rparr>))"

definition add_account_update_signal :: "env \<Rightarrow> account_update_signal \<Rightarrow> db \<Rightarrow> db result" where
  "add_account_update_signal E s d =
     bindR (storeR E (aus_interest_rate s)) (\<lambda>r.
     bindR (storeR E (aus_negligible_amount s)) (\<lambda>n.
     Inr (d\<lparr>db_account_update_signals := db_account_update_signals d
              @ [s\<lparr>aus_interest_rate := r, aus_negligible_amount := n\<rparr>]\<rparr>)))"

definition add_rejected_config_signal :: "env \<Rightarrow> rejected_config_signal \<Rightarrow> db \<Rightarrow> db result" where
  "add_rejected_config_signal E s d =
     bindR (storeR E (rcs_negligible_amount s)) (\<lambda>n.
     Inr (d\<lparr>db_rejected_config_signals := db_rejected_config_signals d @ [s\<lparr>rcs_negligible_amount := n\<rparr>]\<rparr>))"

definition add_pending_balance_change_signal :: "pending_balance_change_signal \<Rightarrow> db \<Rightarrow> db" where
  "add_pending_balance_change_signal s d =
     d\<lparr>db_pending_balance_change_signals :=
         db_pending_balance_change_signals d @ [s\<lparr>pbs_change_id := db_next_change_id d\<rparr>],
       db_next_change_id := db_next_change_id d + 1\<rparr>"

end
