(* ===== verification/Balance.thy ===== *)
theory Balance
  imports Models
begin

text \<open>
  What \<open>calc_current_balance\<close>, \<open>contain_principal_overflow\<close> and \<open>calc_status_code\<close> of
  \<open>swpt_accounts/models.py\<close> compute: the root account and accounts without interest have
  exact balances, a balance that is not positive does not change, positive balances follow
  the sign of the rate, and principals stay in range.
\<close>

section \<open>Containing the principal\<close>

lemma contain_range: "- MAX_INT64 \<le> contain_principal_overflow v \<and> contain_principal_overflow v \<le> MAX_INT64"
  by (auto simp: contain_principal_overflow_def int_bounds)

lemma contain_id: "contain_principal_overflow v = v \<longleftrightarrow> - MAX_INT64 \<le> v \<and> v \<le> MAX_INT64"
  by (auto simp: contain_principal_overflow_def int_bounds)

lemma contain_mono: "v \<le> w \<Longrightarrow> contain_principal_overflow v \<le> contain_principal_overflow w"
  by (auto simp: contain_principal_overflow_def int_bounds)

lemma contain_0 [simp]: "contain_principal_overflow 0 = 0"
  by (simp add: contain_id int_bounds)

lemma contain_le: "contain_principal_overflow v \<le> max v (- MAX_INT64)"
  by (simp add: contain_principal_overflow_def int_bounds)

text \<open>It is the clamp to the symmetric range, so its result fits the column and its CHECK.\<close>

lemma contain_clamp: "contain_principal_overflow v = max (- MAX_INT64) (min v MAX_INT64)"
  by (auto simp: contain_principal_overflow_def int_bounds)

section \<open>Finite durations\<close>

lemma total_seconds_finite:
  assumes "\<bar>td\<bar> \<le> 2 ^ 100"
  shows "\<exists>s. total_seconds td = Fin s \<and> (0 \<le> td \<longrightarrow> 0 \<le> s)"
proof -
  have "\<bar>of_int td / 10 ^ 6 :: rat\<bar> \<le> \<bar>of_int td\<bar>" by (simp add: field_simps)
  also have "\<dots> \<le> of_int (2 ^ 100)" using assms by (simp only: of_int_abs [symmetric] of_int_le_iff)
  finally have "\<bar>of_int td / 10 ^ 6 :: rat\<bar> \<le> moderate" by (intro moderate_ge) simp
  then have eq: "total_seconds td = Fin (round53 (of_int td / 10 ^ 6))"
    by (simp add: total_seconds_def int_truediv_def rnd64_moderate)
  have "0 \<le> round53 (of_int td / 10 ^ 6)" if "0 \<le> td"
    using round53_mono [of 0 "of_int td / 10 ^ 6"] that by simp
  with eq show ?thesis by blast
qed

lemma passed_seconds_finite:
  assumes "\<bar>td\<bar> \<le> 2 ^ 100"
  shows "\<exists>s. pymax (Fin 0) (total_seconds td) = Fin s \<and> 0 \<le> s"
  using total_seconds_finite [OF assms] by (auto simp: pymax_def)

section \<open>Balances\<close>

lemma calc_k_0: "libm_ok M \<Longrightarrow> calc_k M (Fin 0) = Inr (Fin 0)"
  using math_log_1 [of M] by (simp add: calc_k_def)

lemma root_balance: "calc_current_balance M ROOT_CREDITOR_ID pr i r s t = Inr (dec_of_int pr)"
  by (simp add: calc_current_balance_def)

lemma dec_add_ints:
  assumes "\<bar>m + n\<bar> < 10 ^ 28"
  shows "dec_add (dec_of_int m) (dec_of_int n) = Inr (dec_of_int (m + n))"
  using rnd28_of_int [OF assms] by (simp add: dec_of_int_def)

text \<open>Without an interest rate, a whole accumulated interest is just added.\<close>

lemma int_interest_balance:
  assumes "libm_ok M" and "\<bar>pr + n\<bar> < 10 ^ 28" and "\<bar>current_ts - last_change_ts\<bar> \<le> 2 ^ 100"
  shows "calc_current_balance M c pr (Fin (of_int n)) (Fin 0) last_change_ts current_ts
    = Inr (dec_of_int (if c = ROOT_CREDITOR_ID then pr else pr + n))"
proof -
  obtain s where s: "pymax (Fin 0) (total_seconds (current_ts - last_change_ts)) = Fin s"
    using passed_seconds_finite [OF assms(3)] by blast
  have add: "dec_add (dec_of_int pr) (Fin (of_int n)) = Inr (Fin (of_int (pr + n)))"
    using dec_add_ints [OF assms(2)] by (simp add: dec_of_int_def dec_from_float_def)
  have mul: "dec_mul (Fin (of_int (pr + n))) (Fin 1) = Inr (Fin (of_int (pr + n)))"
    using rnd28_of_int [OF assms(2)] by simp
  show ?thesis
    using calc_k_0 [OF assms(1)] math_exp_0 [OF assms(1)] s
    by (simp add: calc_current_balance_def add mul dec_gt_def dec_of_int_def [of "pr + n"] dec_from_float_def Let_def
        del: dec_mul.simps of_int_add)
qed

lemma zero_rate_balance:
  assumes "libm_ok M" and "\<bar>pr\<bar> < 10 ^ 28" and "\<bar>current_ts - last_change_ts\<bar> \<le> 2 ^ 100"
  shows "calc_current_balance M c pr (Fin 0) (Fin 0) last_change_ts current_ts = Inr (dec_of_int pr)"
  using int_interest_balance [of M pr 0] assms by simp

lemma nonpositive_balance:
  assumes "dec_add (dec_of_int pr) (dec_from_float i) = Inr (Fin b)" and "b \<le> 0" and "c \<noteq> ROOT_CREDITOR_ID"
  shows "calc_current_balance M c pr i r s t = Inr (Fin b)"
  using assms by (simp add: calc_current_balance_def dec_gt_def)

section \<open>Interest rates in their range\<close>

definition valid_rate :: "pyfloat \<Rightarrow> bool" where
  "valid_rate r \<longleftrightarrow> (\<exists>x. r = Fin x \<and> - 50 \<le> x \<and> x \<le> 100)"

lemma valid_rate_range: "valid_rate r \<longleftrightarrow> fle INTEREST_RATE_FLOOR r \<and> fle r INTEREST_RATE_CEIL"
  by (cases r) (auto simp: valid_rate_def INTEREST_RATE_FLOOR_def INTEREST_RATE_CEIL_def)

lemma round53_half: "round53 (1 / 2) = 1 / 2"
  using round53_powi [of "- 1"] by (simp add: power_int_minus)

lemma round53_1: "round53 1 = 1" and round53_2: "round53 2 = 2"
  using round53_of_int [of 1] round53_of_int [of 2] by simp_all

lemma rnd64_small: "\<bar>x\<bar> \<le> 2 ^ 100 \<Longrightarrow> rnd64 x = Fin (round53 x)"
  by (rule rnd64_moderate) (rule moderate_ge)

lemma libm_okD:
  assumes "libm_ok M"
  shows "x \<le> 0 \<Longrightarrow> m_exp M x = Some y \<Longrightarrow> y \<le> 1"
    and "0 \<le> x \<Longrightarrow> m_exp M x = Some y \<Longrightarrow> 1 \<le> y"
    and "x \<le> 700 \<Longrightarrow> \<exists>y. m_exp M x = Some y \<and> 0 \<le> y"
    and "0 < x \<Longrightarrow> x \<le> 1 \<Longrightarrow> m_log M x \<le> 0"
    and "1 \<le> x \<Longrightarrow> 0 \<le> m_log M x"
    and "1 / 2 \<le> x \<Longrightarrow> x \<le> 2 \<Longrightarrow> \<bar>m_log M x\<bar> \<le> 1"
proof -
  have *: "\<forall>x. x \<le> 0 \<longrightarrow> (\<exists>y. m_exp M x = Some y \<and> 0 \<le> y \<and> y \<le> 1)"
    "\<forall>x y. 0 \<le> x \<longrightarrow> m_exp M x = Some y \<longrightarrow> 1 \<le> y" "\<forall>x. 0 < x \<longrightarrow> x \<le> 1 \<longrightarrow> m_log M x \<le> 0"
    "\<forall>x. 1 \<le> x \<longrightarrow> 0 \<le> m_log M x" "\<forall>x. x \<le> 700 \<longrightarrow> (\<exists>y. m_exp M x = Some y \<and> 0 \<le> y)"
    "\<forall>x. 1 / 2 \<le> x \<longrightarrow> x \<le> 2 \<longrightarrow> \<bar>m_log M x\<bar> \<le> 1"
    using assms by (auto simp only: libm_ok_def)
  show "x \<le> 0 \<Longrightarrow> m_exp M x = Some y \<Longrightarrow> y \<le> 1"
    using spec [OF *(1), of x] by fastforce
  show "0 \<le> x \<Longrightarrow> m_exp M x = Some y \<Longrightarrow> 1 \<le> y"
    using *(2) by blast
  show "x \<le> 700 \<Longrightarrow> \<exists>y. m_exp M x = Some y \<and> 0 \<le> y"
    using *(5) by blast
  show "0 < x \<Longrightarrow> x \<le> 1 \<Longrightarrow> m_log M x \<le> 0" using *(3) by blast
  show "1 \<le> x \<Longrightarrow> 0 \<le> m_log M x" using *(4) by blast
  show "1 / 2 \<le> x \<Longrightarrow> x \<le> 2 \<Longrightarrow> \<bar>m_log M x\<bar> \<le> 1" using *(6) by blast
qed

definition max_k :: rat where "max_k = 2 powi (- 24)"

lemma max_k_value: "max_k = 1 / 16777216"
  unfolding max_k_def power_int_minus power_int_numeral by simp

lemma max_k_round: "round53 max_k = max_k"
  unfolding max_k_def by (rule round53_powi) simp

lemma max_k_bounds: "0 < max_k" "1 / SECONDS_IN_YEAR \<le> max_k" "max_k * 10 ^ 10 \<le> 700" "max_k \<le> 1"
  by (simp_all add: max_k_value SECONDS_IN_YEAR_def)

lemma round53_SECONDS:
  assumes "\<bar>l\<bar> \<le> 1"
  shows "\<bar>round53 (l / SECONDS_IN_YEAR)\<bar> \<le> max_k"
proof -
  have "\<bar>l / SECONDS_IN_YEAR\<bar> \<le> 1 / SECONDS_IN_YEAR"
    using assms by (simp add: SECONDS_IN_YEAR_def divide_simps)
  with max_k_bounds(2) have "l / SECONDS_IN_YEAR \<le> max_k" "- max_k \<le> l / SECONDS_IN_YEAR" by linarith+
  from this [THEN round53_mono] show ?thesis unfolding round53_minus max_k_round by linarith
qed

lemma calc_k_valid:
  assumes "libm_ok M" and "valid_rate r"
  shows "\<exists>k. calc_k M r = Inr (Fin k) \<and> \<bar>k\<bar> \<le> max_k \<and> (fle r (Fin 0) \<longrightarrow> k \<le> 0) \<and> (fle (Fin 0) r \<longrightarrow> 0 \<le> k)"
proof -
  obtain x where x: "r = Fin x" "- 50 \<le> x" "x \<le> 100" using assms(2) by (auto simp: valid_rate_def)
  define y where "y = round53 (x / 100)"
  have bounds: "- (1 / 2) \<le> x / 100" "x / 100 \<le> 1" using x by simp_all
  then have y: "- (1 / 2) \<le> y" "y \<le> 1"
    using round53_mono [of "- (1 / 2)" "x / 100"] round53_mono [of "x / 100" 1]
    by (simp_all add: y_def round53_minus round53_half round53_1)
  have y0: "x \<le> 0 \<Longrightarrow> y \<le> 0" "0 \<le> x \<Longrightarrow> 0 \<le> y"
    using round53_mono [of "x / 100" 0] round53_mono [of 0 "x / 100"] by (simp_all add: y_def)
  define z where "z = round53 (1 + y)"
  have z: "1 / 2 \<le> z" "z \<le> 2"
    using y round53_mono [of "1 / 2" "1 + y"] round53_mono [of "1 + y" 2]
    by (simp_all add: z_def round53_half round53_2)
  have z1: "x \<le> 0 \<Longrightarrow> z \<le> 1" "0 \<le> x \<Longrightarrow> 1 \<le> z"
    using y0 round53_mono [of "1 + y" 1] round53_mono [of 1 "1 + y"] by (simp_all add: z_def round53_1)
  have l: "\<bar>m_log M z\<bar> \<le> 1" "x \<le> 0 \<Longrightarrow> m_log M z \<le> 0" "0 \<le> x \<Longrightarrow> 0 \<le> m_log M z"
    using libm_okD(4-6) [OF assms(1), of z] z z1 by auto
  define k where "k = round53 (m_log M z / SECONDS_IN_YEAR)"
  have k: "\<bar>k\<bar> \<le> max_k" using round53_SECONDS [OF l(1)] by (simp add: k_def)
  have k0: "x \<le> 0 \<Longrightarrow> k \<le> 0" "0 \<le> x \<Longrightarrow> 0 \<le> k"
    using l round53_mono [of "m_log M z / SECONDS_IN_YEAR" 0] round53_mono [of 0 "m_log M z / SECONDS_IN_YEAR"]
    by (simp_all add: k_def SECONDS_IN_YEAR_def divide_nonpos_pos)
  have "\<bar>m_log M z / SECONDS_IN_YEAR\<bar> \<le> \<bar>m_log M z\<bar>"
    by (simp add: SECONDS_IN_YEAR_def abs_divide divide_simps)
  then have "calc_k M r = Inr (Fin k)"
    using x y z l bounds
    by (simp add: calc_k_def rnd64_small y_def [symmetric] z_def [symmetric] k_def)
  then show ?thesis using k k0 x by auto
qed

text \<open>A growth factor: the exponential of a rate over a duration.\<close>

lemma passed_seconds_bounds:
  assumes td: "\<bar>td\<bar> \<le> 2 ^ 100" and s: "pymax (Fin 0) (total_seconds td) = Fin s" "0 \<le> s"
  shows "\<bar>td\<bar> \<le> 10 ^ 16 \<Longrightarrow> s \<le> 10 ^ 10" and "s \<le> 2 ^ 100"
proof -
  show "s \<le> 10 ^ 10" if "\<bar>td\<bar> \<le> 10 ^ 16"
  proof -
    have "fle (total_seconds td) (total_seconds (10 ^ 10 * 10 ^ 6))"
      using that by (intro total_seconds_mono) simp
    also have "total_seconds (10 ^ 10 * 10 ^ 6) = Fin (10 ^ 10)"
      using total_seconds_whole [of "10 ^ 10"] by simp
    finally show ?thesis using s by (auto simp: pymax_def split: if_splits)
  qed
  obtain u where u: "total_seconds td = Fin u" using total_seconds_finite [OF td] by blast
  have "(of_int td :: rat) \<le> of_int (2 ^ 100)" using td by (simp only: of_int_le_iff)
  then have "of_int td / 10 ^ 6 \<le> (2 ^ 100 :: rat)" by simp
  from round53_mono [OF this] have "round53 (of_int td / 10 ^ 6) \<le> 2 ^ 100"
    using round53_powi [of 100] by (simp only: power_int_numeral)
  moreover have "rnd64 (of_int td / 10 ^ 6) = Fin u" using u by (simp add: total_seconds_def int_truediv_def)
  then have "u = round53 (of_int td / 10 ^ 6)" by (auto simp: rnd64_def split: if_splits)
  ultimately show "s \<le> 2 ^ 100" using s u by (auto simp: pymax_def split: if_splits)
qed

lemma growth_factor:
  assumes "libm_ok M" and "valid_rate r" and "\<bar>td\<bar> \<le> 10 ^ 16 \<or> \<bar>td\<bar> \<le> 2 ^ 100 \<and> fle r (Fin 0)"
  shows "\<exists>k s y. calc_k M r = Inr (Fin k) \<and> pymax (Fin 0) (total_seconds td) = Fin s
    \<and> math_exp M (fmul (Fin k) (Fin s)) = Inr (Fin y) \<and> 0 \<le> y
    \<and> (fle r (Fin 0) \<longrightarrow> y \<le> 1) \<and> (fle (Fin 0) r \<longrightarrow> 1 \<le> y)"
proof -
  obtain k where k: "calc_k M r = Inr (Fin k)" "\<bar>k\<bar> \<le> max_k" "fle r (Fin 0) \<longrightarrow> k \<le> 0" "fle (Fin 0) r \<longrightarrow> 0 \<le> k"
    using calc_k_valid [OF assms(1,2)] by blast
  have td: "\<bar>td\<bar> \<le> 2 ^ 100" using assms(3) by auto
  obtain s where s: "pymax (Fin 0) (total_seconds td) = Fin s" "0 \<le> s"
    using passed_seconds_finite [OF td] by blast
  note s_max = passed_seconds_bounds(1) [OF td s] and s_big = passed_seconds_bounds(2) [OF td s]
  have prod: "\<bar>k * s\<bar> \<le> 2 ^ 100"
  proof -
    have "\<bar>k\<bar> \<le> 1" using k(2) max_k_bounds(4) by linarith
    then have "\<bar>k\<bar> * s \<le> 1 * 2 ^ 100" using s s_big by (intro mult_mono) auto
    then show ?thesis using s(2) by (simp add: abs_mult)
  qed
  have fm: "fmul (Fin k) (Fin s) = Fin (round53 (k * s))" using rnd64_small [OF prod] by simp
  have le0: "round53 (k * s) \<le> 0" if "k \<le> 0"
    using round53_mono [of "k * s" 0] that s(2) by (simp add: mult_nonpos_nonneg)
  have ge0: "0 \<le> round53 (k * s)" if "0 \<le> k"
    using round53_mono [of 0 "k * s"] that s(2) by simp
  have "round53 (k * s) \<le> 700"
  proof (cases "k \<le> 0")
    case True
    then show ?thesis using le0 by force
  next
    case False
    with k(3) assms(2,3) have "\<bar>td\<bar> \<le> 10 ^ 16" by (auto simp: valid_rate_def)
    then have "\<bar>k\<bar> * s \<le> max_k * 10 ^ 10" using k(2) s s_max max_k_bounds(1) by (intro mult_mono) auto
    also note max_k_bounds(3)
    finally have "k * s \<le> 700" using False by simp
    then show ?thesis using round53_mono [of "k * s" 700] round53_of_int [of 700] by simp
  qed
  then obtain y where y: "m_exp M (round53 (k * s)) = Some y" "0 \<le> y"
    using libm_okD(3) [OF assms(1)] by blast
  moreover have "y \<le> 1" if "fle r (Fin 0)"
    using libm_okD(1) [OF assms(1) _ y(1)] le0 k(3) that by blast
  moreover have "1 \<le> y" if "fle (Fin 0) r"
    using libm_okD(2) [OF assms(1) _ y(1)] ge0 k(4) that by blast
  ultimately show ?thesis using k(1) s(1) fm by (intro exI [of _ k] exI [of _ s] exI [of _ y]) auto
qed

section \<open>Finite balances\<close>

lemma balance_finite:
  assumes "libm_ok M" and "valid_rate r" and "\<bar>t - s\<bar> \<le> 10 ^ 16"
  shows "\<exists>b. calc_current_balance M c pr (Fin i) r s t = Inr (Fin b)"
proof -
  obtain k u y where "calc_k M r = Inr (Fin k)" "pymax (Fin 0) (total_seconds (t - s)) = Fin u"
    "math_exp M (fmul (Fin k) (Fin u)) = Inr (Fin y)"
    using growth_factor [OF assms(1,2), of "t - s"] assms(3) by blast
  then show ?thesis
    by (auto simp: calc_current_balance_def dec_of_int_def dec_from_float_def dec_gt_def Let_def simp del: fmul.simps)
qed

lemma balance_sign:
  assumes "libm_ok M" and "valid_rate r" and "\<bar>t - s\<bar> \<le> 10 ^ 16" and "0 \<le> rnd28 (of_int pr + i)"
    and "calc_current_balance M c pr (Fin i) r s t = Inr (Fin b)" and "c \<noteq> ROOT_CREDITOR_ID"
  shows "0 \<le> b"
proof -
  obtain k u y where "calc_k M r = Inr (Fin k)" "pymax (Fin 0) (total_seconds (t - s)) = Fin u"
    "math_exp M (fmul (Fin k) (Fin u)) = Inr (Fin y)" "0 \<le> y"
    using growth_factor [OF assms(1,2), of "t - s"] assms(3) by blast
  then show ?thesis using assms(4-6)
    by (auto simp: calc_current_balance_def dec_of_int_def dec_from_float_def dec_gt_def Let_def
        rnd28_nonneg simp del: fmul.simps split: if_splits)
qed

section \<open>Reserved amounts\<close>

text \<open>The assertion of \<open>get_is_reserved\<close> never fails, and at once everything that is locked is reserved.\<close>

lemma get_is_reserved_total:
  assumes "libm_ok M" and "pt_demurrage_rate pt = INTEREST_RATE_FLOOR" and "\<bar>ts - pt_prepared_at pt\<bar> \<le> 2 ^ 100"
  shows "\<exists>v. get_is_reserved M pt c ts = Inr v"
proof -
  have r: "valid_rate INTEREST_RATE_FLOOR" "fle INTEREST_RATE_FLOOR (Fin 0)"
    by (simp_all add: valid_rate_def INTEREST_RATE_FLOOR_def)
  then obtain k u y where "calc_k M INTEREST_RATE_FLOOR = Inr (Fin k)"
    "pymax (Fin 0) (total_seconds (ts - pt_prepared_at pt)) = Fin u"
    "math_exp M (fmul (Fin k) (Fin u)) = Inr (Fin y)" "y \<le> 1"
    using growth_factor [OF assms(1) r(1), of "ts - pt_prepared_at pt"] assms(3) by blast
  then show ?thesis using assms(2) by (auto simp: get_is_reserved_def assertR_def Let_def simp del: fmul.simps)
qed

lemma calc_status_code_total:
  assumes "libm_ok M" and "pt_demurrage_rate pt = INTEREST_RATE_FLOOR" and "\<bar>ts - pt_prepared_at pt\<bar> \<le> 2 ^ 100"
    and "0 \<le> c"
  shows "\<exists>code. calc_status_code M pt c x r ts = Inr code"
  using get_is_reserved_total [OF assms(1-3), of c] assms(4)
  by (auto simp: calc_status_code_def)

end
