(* ===== verification/AccountCore.thy ===== *)
theory AccountCore
  imports Database Balance
begin

text \<open>
  The private helpers of \<open>swpt_accounts/procedures.py\<close>: reading, creating and changing an
  account row, and the messages that go with it.  An account object that a procedure has
  loaded is a value of type \<open>account\<close>; helpers that change it return it together with the
  database, and the procedure writes it back when it commits (\<open>save_account\<close>).
\<close>

section \<open>Reading accounts\<close>

definition is_deleted :: "account \<Rightarrow> bool" where
  "is_deleted a \<longleftrightarrow> acc_status_flags a AND STATUS_DELETED_FLAG \<noteq> 0"

definition get_account_instance :: "int \<Rightarrow> int \<Rightarrow> db \<Rightarrow> account option" where
  "get_account_instance debtor_id creditor_id d = get_account_row debtor_id creditor_id d"

definition get_account :: "int \<Rightarrow> int \<Rightarrow> db \<Rightarrow> account option" where
  "get_account debtor_id creditor_id d =
     (case get_account_instance debtor_id creditor_id d of
        None \<Rightarrow> None
      | Some a \<Rightarrow> if \<not> is_deleted a then Some a else None)"

definition get_min_account_balance :: "int \<Rightarrow> int" where
  "get_min_account_balance creditor_id = (if creditor_id \<noteq> ROOT_CREDITOR_ID then 0 else - MAX_INT64)"

definition get_available_amount_of :: "env \<Rightarrow> account \<Rightarrow> datetime \<Rightarrow> int result" where
  "get_available_amount_of E a current_ts =
     bindR (Account_calc_current_balance E a current_ts) (\<lambda>balance.
     bindR (dec_floor balance) (\<lambda>current_balance.
     Inr (contain_principal_overflow (current_balance - acc_total_locked_amount a))))"

definition calc_account_accumulated_interest :: "env \<Rightarrow> account \<Rightarrow> datetime \<Rightarrow> pydecimal result" where
  "calc_account_accumulated_interest E a current_ts =
     bindR (Account_calc_current_balance E a current_ts) (\<lambda>balance.
     dec_sub balance (dec_of_int (acc_principal a)))"

section \<open>Account updates\<close>

definition account_update_signal_of :: "account \<Rightarrow> account_update_signal" where
  "account_update_signal_of a =
     \<lparr>aus_debtor_id = acc_debtor_id a,
      aus_creditor_id = acc_creditor_id a,
      aus_last_change_ts = acc_last_change_ts a,
      aus_last_change_seqnum = acc_last_change_seqnum a,
      aus_principal = acc_principal a,
      aus_interest = acc_interest a,
      aus_interest_rate = acc_interest_rate a,
      aus_last_interest_rate_change_ts = acc_last_interest_rate_change_ts a,
      aus_last_transfer_number = acc_last_transfer_number a,
      aus_last_transfer_committed_at = acc_last_transfer_committed_at a,
      aus_last_config_ts = acc_last_config_ts a,
      aus_last_config_seqnum = acc_last_config_seqnum a,
      aus_creation_date = acc_creation_date a,
      aus_negligible_amount = acc_negligible_amount a,
      aus_config_data = acc_config_data a,
      aus_config_flags = acc_config_flags a,
      aus_debtor_info_iri = acc_debtor_info_iri a,
      aus_debtor_info_content_type = acc_debtor_info_content_type a,
      aus_debtor_info_sha256 = acc_debtor_info_sha256 a,
      aus_inserted_at = Some (acc_last_change_ts a)\<rparr>"

definition insert_account_update_signal :: "env \<Rightarrow> account \<Rightarrow> datetime \<Rightarrow> db \<Rightarrow> (account \<times> db) result" where
  "insert_account_update_signal E a current_ts d =
     (let a = a\<lparr>acc_last_heartbeat_ts := current_ts, acc_pending_account_update := False\<rparr>
      in bindR (add_account_update_signal E (account_update_signal_of a) d) (\<lambda>d. Inr (a, d)))"

text \<open>The sequence number and the time stamp of a change move forward together.\<close>

definition touch :: "env \<Rightarrow> datetime \<Rightarrow> account \<Rightarrow> account" where
  "touch E current_ts a =
     a\<lparr>acc_last_change_seqnum := increment_seqnum E (acc_last_change_seqnum a),
       acc_last_change_ts := max (acc_last_change_ts a) current_ts\<rparr>"

text \<open>
  A new row with the column defaults; \<open>insert_ts\<close> is the clock when the row is flushed,
  which is the default of \<open>last_change_ts\<close> and \<open>last_heartbeat_ts\<close>.
\<close>

definition new_account :: "env \<Rightarrow> int \<Rightarrow> int \<Rightarrow> date \<Rightarrow> datetime \<Rightarrow> account" where
  "new_account E debtor_id creditor_id creation_date insert_ts =
     \<lparr>acc_debtor_id = debtor_id, acc_creditor_id = creditor_id, acc_creation_date = creation_date,
      acc_last_change_seqnum = 0, acc_last_change_ts = insert_ts, acc_principal = 0,
      acc_interest_rate = Fin 0, acc_interest = Fin 0, acc_last_interest_rate_change_ts = T0,
      acc_last_config_ts = T0, acc_last_config_seqnum = 0, acc_last_transfer_number = 0,
      acc_last_transfer_committed_at = T0, acc_negligible_amount = Fin 0, acc_config_flags = 0,
      acc_config_data = [], acc_debtor_info_iri = None, acc_debtor_info_content_type = None,
      acc_debtor_info_sha256 = None, acc_status_flags = 0, acc_total_locked_amount = 0,
      acc_pending_transfers_count = 0,
      acc_last_transfer_id = push_bit 40 (date_to_int24 E creation_date),
      acc_previous_interest_rate = Fin 0, acc_last_heartbeat_ts = insert_ts,
      acc_last_interest_capitalization_ts = T0, acc_last_deletion_attempt_ts = T0,
      acc_pending_account_update = False\<rparr>"

definition create_account ::
    "env \<Rightarrow> int \<Rightarrow> int \<Rightarrow> datetime \<Rightarrow> datetime \<Rightarrow> db \<Rightarrow> (account \<times> db) result" where
  "create_account E debtor_id creditor_id current_ts insert_ts d =
     bindR (assertR (MIN_INT64 \<le> debtor_id \<and> debtor_id \<le> MAX_INT64)) (\<lambda>_.
     bindR (assertR (MIN_INT64 \<le> creditor_id \<and> creditor_id \<le> MAX_INT64)) (\<lambda>_.
     let a = new_account E debtor_id creditor_id (date_of current_ts) insert_ts in
     bindR (insert_account E a d) (\<lambda>d.
     Inr (a, d))))"

definition lock_or_create_account ::
    "env \<Rightarrow> int \<Rightarrow> int \<Rightarrow> datetime \<Rightarrow> datetime \<Rightarrow> db \<Rightarrow> (account \<times> db) result" where
  "lock_or_create_account E debtor_id creditor_id current_ts insert_ts d =
     bindR (case get_account_instance debtor_id creditor_id d of
              Some a \<Rightarrow> Inr (a, d)
            | None \<Rightarrow>
                bindR (create_account E debtor_id creditor_id current_ts insert_ts d) (\<lambda>(a, d).
                insert_account_update_signal E a current_ts d))
       (\<lambda>(a, d).
     if is_deleted a then
       insert_account_update_signal E
         (touch E current_ts (a\<lparr>acc_status_flags := acc_status_flags a AND NOT STATUS_DELETED_FLAG\<rparr>))
         current_ts d
     else Inr (a, d))"

section \<open>Changing an account\<close>

definition account_transfer_signal_of ::
    "account \<Rightarrow> pystr \<Rightarrow> int \<Rightarrow> datetime \<Rightarrow> int \<Rightarrow> pystr \<Rightarrow> pystr \<Rightarrow> int \<Rightarrow> int \<Rightarrow> account_transfer_signal" where
  "account_transfer_signal_of a coordinator_type other_creditor_id committed_at acquired_amount
       transfer_note_format transfer_note pr previous_transfer_number =
     \<lparr>ats_debtor_id = acc_debtor_id a,
      ats_creditor_id = acc_creditor_id a,
      ats_creation_date = acc_creation_date a,
      ats_transfer_number = acc_last_transfer_number a,
      ats_coordinator_type = coordinator_type,
      ats_committed_at = committed_at,
      ats_acquired_amount = acquired_amount,
      ats_other_creditor_id = other_creditor_id,
      ats_transfer_note_format = transfer_note_format,
      ats_transfer_note = transfer_note,
      ats_principal = pr,
      ats_previous_transfer_number = previous_transfer_number,
      ats_inserted_at = None\<rparr>"

definition insert_account_transfer_signal ::
    "account \<Rightarrow> pystr \<Rightarrow> int \<Rightarrow> datetime \<Rightarrow> int \<Rightarrow> pystr \<Rightarrow> pystr \<Rightarrow> int \<Rightarrow> db \<Rightarrow> (account \<times> db) result" where
  "insert_account_transfer_signal a coordinator_type other_creditor_id committed_at
       acquired_amount transfer_note_format transfer_note pr d =
     bindR (assertR (acquired_amount \<noteq> 0)) (\<lambda>_.
     let is_negligible =
           0 < acquired_amount \<and> fle (Fin (of_int acquired_amount)) (acc_negligible_amount a)
     in if acc_creditor_id a \<noteq> ROOT_CREDITOR_ID \<and> \<not> is_negligible then
          let previous_transfer_number = acc_last_transfer_number a;
              a = a\<lparr>acc_last_transfer_number := acc_last_transfer_number a + 1,
                    acc_last_transfer_committed_at := committed_at\<rparr>
          in bindR (add_account_transfer_signal
               (account_transfer_signal_of a coordinator_type other_creditor_id committed_at
                  acquired_amount transfer_note_format transfer_note pr previous_transfer_number) d)
             (\<lambda>d. Inr (a, d))
        else Inr (a, d))"

definition mark_account_as_deleted :: "env \<Rightarrow> account \<Rightarrow> datetime \<Rightarrow> db \<Rightarrow> (account \<times> db) result" where
  "mark_account_as_deleted E a current_ts d =
     insert_account_update_signal E
       (touch E current_ts
          (a\<lparr>acc_principal := 0, acc_interest := Fin 0, acc_total_locked_amount := 0,
             acc_status_flags := acc_status_flags a OR STATUS_DELETED_FLAG\<rparr>))
       current_ts d"

definition apply_account_change :: "env \<Rightarrow> account \<Rightarrow> int \<Rightarrow> pyfloat \<Rightarrow> datetime \<Rightarrow> account result" where
  "apply_account_change E a principal_delta interest_delta current_ts =
     bindR (calc_account_accumulated_interest E a current_ts) (\<lambda>i.
     let principal_possibly_overflown = acc_principal a + principal_delta;
         pr = contain_principal_overflow principal_possibly_overflown
     in Inr ((touch E current_ts
          (a\<lparr>acc_interest := fadd (dec_to_float i) interest_delta,
             acc_status_flags := (if pr \<noteq> principal_possibly_overflown
                                  then acc_status_flags a OR STATUS_OVERFLOWN_FLAG
                                  else acc_status_flags a),
             acc_principal := pr\<rparr>))
          \<lparr>acc_pending_account_update := True\<rparr>))"

definition debtor_payment_signal ::
    "account \<Rightarrow> pystr \<Rightarrow> int \<Rightarrow> datetime \<Rightarrow> pystr \<Rightarrow> pystr \<Rightarrow> pending_balance_change_signal" where
  "debtor_payment_signal a coordinator_type amount current_ts transfer_note_format transfer_note =
     \<lparr>pbs_debtor_id = acc_debtor_id a,
      pbs_other_creditor_id = acc_creditor_id a,
      pbs_change_id = 0,
      pbs_creditor_id = ROOT_CREDITOR_ID,
      pbs_coordinator_type = coordinator_type,
      pbs_transfer_note_format = transfer_note_format,
      pbs_transfer_note = transfer_note,
      pbs_committed_at = current_ts,
      pbs_principal_delta = - amount,
      pbs_inserted_at = None\<rparr>"

definition make_debtor_payment_on ::
    "env \<Rightarrow> pystr \<Rightarrow> account \<Rightarrow> int \<Rightarrow> datetime \<Rightarrow> pystr \<Rightarrow> pystr \<Rightarrow> db \<Rightarrow> (account \<times> db) result" where
  "make_debtor_payment_on E coordinator_type a amount current_ts transfer_note_format transfer_note d =
     bindR (assertR (- MAX_INT64 \<le> amount \<and> amount \<le> MAX_INT64)) (\<lambda>_.
     if amount \<noteq> 0 \<and> acc_creditor_id a \<noteq> ROOT_CREDITOR_ID then
       let d = add_pending_balance_change_signal
             (debtor_payment_signal a coordinator_type amount current_ts transfer_note_format
                transfer_note) d
       in bindR (insert_account_transfer_signal a coordinator_type ROOT_CREDITOR_ID current_ts amount
                   transfer_note_format transfer_note
                   (contain_principal_overflow (acc_principal a + amount)) d) (\<lambda>(a, d).
          bindR (apply_account_change E a amount
                   (float_of_int (if coordinator_type = CT_INTEREST then - amount else 0)) current_ts)
            (\<lambda>a. Inr (a, d)))
     else Inr (a, d))"

text \<open>A loaded account, if there is one, is written back at the end of a transaction.\<close>

definition save_sender :: "env \<Rightarrow> account option \<Rightarrow> db \<Rightarrow> db result" where
  "save_sender E a d = (case a of None \<Rightarrow> Inr d | Some a \<Rightarrow> save_account E a d)"

section \<open>What the helpers change\<close>

text \<open>
  The lemmas below invert a successful call of a helper: which fields of the account and
  which tables it has changed.
\<close>

named_theorems effects \<open>inversion of a successful step: what it changed\<close>

lemma storeR_changed_same [simp]: "storeR_changed E x x = Inr x"
  by (simp add: storeR_changed_def)

lemma flush_account_same [simp]:
  "acc_interest_rate a = acc_interest_rate old \<Longrightarrow>
   acc_previous_interest_rate a = acc_previous_interest_rate old \<Longrightarrow>
   acc_negligible_amount a = acc_negligible_amount old \<Longrightarrow> flush_account E old a = Inr a"
  by (cases a) (simp add: flush_account_def)

lemma save_account_InrD [effects]:
  assumes "save_account E a d = Inr d'"
  shows "\<exists>old r p n t. get_account_row (acc_debtor_id a) (acc_creditor_id a) d = Some old
     \<and> account_fits (a\<lparr>acc_interest_rate := r, acc_previous_interest_rate := p, acc_negligible_amount := n\<rparr>)
     \<and> account_ok (a\<lparr>acc_interest_rate := r, acc_previous_interest_rate := p, acc_negligible_amount := n\<rparr>)
     \<and> tbl_update account_pk account_ok
         (a\<lparr>acc_interest_rate := r, acc_previous_interest_rate := p, acc_negligible_amount := n\<rparr>)
         (db_accounts d) = Inr t
     \<and> d' = d\<lparr>db_accounts := t\<rparr>
     \<and> (acc_interest_rate a = acc_interest_rate old \<longrightarrow> r = acc_interest_rate a)
     \<and> (acc_previous_interest_rate a = acc_previous_interest_rate old \<longrightarrow> p = acc_previous_interest_rate a)
     \<and> (acc_negligible_amount a = acc_negligible_amount old \<longrightarrow> n = acc_negligible_amount a)"
  using assms
  by (auto simp: save_account_def flush_account_def monad_simps dest: accs.upd_ok split: option.splits)
    (force simp: storeR_changed_def dest: accs.upd_ok)

lemma insert_account_InrD [effects]:
  assumes "insert_account E a d = Inr d'"
  shows "\<exists>r p n t. account_fits (a\<lparr>acc_interest_rate := r, acc_previous_interest_rate := p, acc_negligible_amount := n\<rparr>)
     \<and> tbl_insert account_pk account_ok
         (a\<lparr>acc_interest_rate := r, acc_previous_interest_rate := p, acc_negligible_amount := n\<rparr>)
         (db_accounts d) = Inr t
     \<and> d' = d\<lparr>db_accounts := t\<rparr>"
  using assms by (auto simp: insert_account_def flush_new_account_def monad_simps)

lemma insert_account_update_signal_InrD [effects]:
  assumes "insert_account_update_signal E a ts d = Inr (a', d')"
  shows "a' = a\<lparr>acc_last_heartbeat_ts := ts, acc_pending_account_update := False\<rparr>
    \<and> (\<exists>s. d' = d\<lparr>db_account_update_signals := db_account_update_signals d @ [s]\<rparr>)"
  using assms
  by (auto simp: insert_account_update_signal_def add_account_update_signal_def Let_def monad_simps)

lemma create_account_InrD [effects]:
  assumes "create_account E debtor_id creditor_id ts its d = Inr (a, d')"
  shows "a = new_account E debtor_id creditor_id (date_of ts) its \<and> insert_account E a d = Inr d'
    \<and> is_int64 debtor_id \<and> is_int64 creditor_id"
  using assms by (auto simp: create_account_def Let_def monad_simps is_int64_def)

lemma insert_account_transfer_signal_InrD [effects]:
  assumes "insert_account_transfer_signal a ct other cat amt fmt note pr d = Inr (a', d')"
  shows "amt \<noteq> 0 \<and> (a' = a \<and> d' = d \<or>
     acc_creditor_id a \<noteq> ROOT_CREDITOR_ID \<and>
     a' = a\<lparr>acc_last_transfer_number := acc_last_transfer_number a + 1,
            acc_last_transfer_committed_at := cat\<rparr> \<and>
     (\<exists>t. d' = d\<lparr>db_account_transfer_signals := t\<rparr>
        \<and> tbl_insert ats_pk (\<lambda>_. True)
             (account_transfer_signal_of a' ct other cat amt fmt note pr (acc_last_transfer_number a))
             (db_account_transfer_signals d) = Inr t))"
  using assms
  by (simp add: insert_account_transfer_signal_def add_account_transfer_signal_def Let_def monad_simps
      split: if_splits) blast+

lemma apply_account_change_InrD [effects]:
  assumes "apply_account_change E a pd idl ts = Inr a'"
  shows "\<exists>i sf. a' = (touch E ts (a\<lparr>acc_interest := i, acc_status_flags := sf,
            acc_principal := contain_principal_overflow (acc_principal a + pd)\<rparr>))
            \<lparr>acc_pending_account_update := True\<rparr>
     \<and> (sf = acc_status_flags a \<or> sf = acc_status_flags a OR STATUS_OVERFLOWN_FLAG)"
  using assms by (force simp: apply_account_change_def Let_def monad_simps)

lemma make_debtor_payment_on_InrD [effects]:
  assumes "make_debtor_payment_on E ct a amt ts fmt note d = Inr (a', d')"
  shows "\<bar>amt\<bar> \<le> MAX_INT64 \<and>
    (if amt \<noteq> 0 \<and> acc_creditor_id a \<noteq> ROOT_CREDITOR_ID then
       \<exists>a1. insert_account_transfer_signal a ct ROOT_CREDITOR_ID ts amt fmt note
             (contain_principal_overflow (acc_principal a + amt))
             (add_pending_balance_change_signal (debtor_payment_signal a ct amt ts fmt note) d) = Inr (a1, d')
          \<and> apply_account_change E a1 amt
                (float_of_int (if ct = CT_INTEREST then - amt else 0)) ts = Inr a'
     else a' = a \<and> d' = d)"
  using assms by (simp add: make_debtor_payment_on_def Let_def monad_simps abs_le_iff split: if_splits) blast+

text \<open>The transfer numbers of an account's signals have all been handed out already.\<close>

definition ats_free :: "account \<Rightarrow> db \<Rightarrow> bool" where
  "ats_free a d \<longleftrightarrow>
     (\<forall>s \<in> set (db_account_transfer_signals d).
        (ats_debtor_id s, ats_creditor_id s, ats_creation_date s)
          = (acc_debtor_id a, acc_creditor_id a, acc_creation_date a)
        \<longrightarrow> ats_transfer_number s \<le> acc_last_transfer_number a)"

lemma insert_account_transfer_signal_total:
  assumes "ats_free a d" and "amt \<noteq> 0"
  shows "\<exists>b d'. insert_account_transfer_signal a ct other cat amt fmt note pr d = Inr (b, d')
    \<and> ats_free b d' \<and> acc_last_transfer_number a \<le> acc_last_transfer_number b
    \<and> acc_last_transfer_number b \<le> acc_last_transfer_number a + 1"
proof -
  let ?b = "a\<lparr>acc_last_transfer_number := acc_last_transfer_number a + 1, acc_last_transfer_committed_at := cat\<rparr>"
  let ?s = "account_transfer_signal_of ?b ct other cat amt fmt note pr (acc_last_transfer_number a)"
  have "\<forall>s \<in> set (db_account_transfer_signals d). ats_pk s \<noteq> ats_pk ?s"
    using assms(1) by (force simp: ats_free_def ats_pk_def account_transfer_signal_of_def)
  then have ins: "add_account_transfer_signal ?s d
      = Inr (d\<lparr>db_account_transfer_signals := db_account_transfer_signals d @ [?s]\<rparr>)"
    by (simp add: add_account_transfer_signal_def tbl_insert_def tbl_lookup_None)
  have "ats_free ?b (d\<lparr>db_account_transfer_signals := db_account_transfer_signals d @ [?s]\<rparr>)"
    using assms(1) by (force simp: ats_free_def account_transfer_signal_of_def)
  then show ?thesis using assms ins
    by (auto simp: insert_account_transfer_signal_def Let_def)
qed

end
