(* ===== verification/Invariants.thy ===== *)
theory Invariants
  imports AccountCore
begin

text \<open>
  The invariants of the database: \<open>db_wf\<close> (every table has unique keys and satisfies its
  CHECK constraints, and the two foreign keys hold) and \<open>locks_agree\<close> (an account's lock
  counters are the number and the sum of its prepared transfers), with the lemmas that
  say how writing an account row or a prepared transfer affects them.
\<close>

section \<open>Well-formed databases\<close>

definition db_wf :: "db \<Rightarrow> bool" where
  "db_wf d \<longleftrightarrow>
     tbl_wf account_pk account_ok (db_accounts d)
     \<and> tbl_wf transfer_request_pk transfer_request_ok (db_transfer_requests d)
     \<and> tbl_wf finalization_request_pk finalization_request_ok (db_finalization_requests d)
     \<and> tbl_wf prepared_transfer_pk prepared_transfer_ok (db_prepared_transfers d)
     \<and> tbl_wf registered_balance_change_pk registered_balance_change_ok (db_registered_balance_changes d)
     \<and> tbl_wf pending_balance_change_pk pending_balance_change_ok (db_pending_balance_changes d)
     \<and> (\<forall>pt \<in> set (db_prepared_transfers d).
          \<exists>a \<in> set (db_accounts d). account_pk a = (pt_debtor_id pt, pt_sender_creditor_id pt))
     \<and> (\<forall>c \<in> set (db_pending_balance_changes d).
          \<exists>r \<in> set (db_registered_balance_changes d).
            registered_balance_change_pk r = pending_balance_change_pk c)"

section \<open>Locks\<close>

definition pt_of :: "int \<times> int \<Rightarrow> prepared_transfer \<Rightarrow> bool" where
  "pt_of k pt \<longleftrightarrow> (pt_debtor_id pt, pt_sender_creditor_id pt) = k"

definition locked_sum :: "int \<times> int \<Rightarrow> prepared_transfer list \<Rightarrow> int" where
  "locked_sum k t = total (\<lambda>pt. if pt_of k pt then pt_locked_amount pt else 0) t"

definition pending_count :: "int \<times> int \<Rightarrow> prepared_transfer list \<Rightarrow> int" where
  "pending_count k t = total (\<lambda>pt. if pt_of k pt then 1 else 0) t"

definition locks_agree :: "db \<Rightarrow> bool" where
  "locks_agree d \<longleftrightarrow>
     (\<forall>a \<in> set (db_accounts d).
        acc_pending_transfers_count a = pending_count (account_pk a) (db_prepared_transfers d)
        \<and> acc_total_locked_amount a = locked_sum (account_pk a) (db_prepared_transfers d))"

text \<open>
  \<open>total_locked_amount\<close> saturates at \<open>MAX_INT64\<close>, so unconditionally it is only a lower bound of
  the sum; the count is always exact.
\<close>

definition locks_within :: "db \<Rightarrow> bool" where
  "locks_within d \<longleftrightarrow>
     (\<forall>a \<in> set (db_accounts d).
        acc_pending_transfers_count a = pending_count (account_pk a) (db_prepared_transfers d)
        \<and> acc_total_locked_amount a \<le> locked_sum (account_pk a) (db_prepared_transfers d))"

text \<open>Transfer IDs of an account's prepared transfers have all been handed out already.\<close>

definition ids_fresh :: "db \<Rightarrow> bool" where
  "ids_fresh d \<longleftrightarrow>
     (\<forall>a \<in> set (db_accounts d). \<forall>pt \<in> set (db_prepared_transfers d).
        pt_of (account_pk a) pt \<longrightarrow> pt_transfer_id pt \<le> acc_last_transfer_id a)"

lemma locked_sum_append [simp]: "locked_sum k (s @ t) = locked_sum k s + locked_sum k t"
  by (simp add: locked_sum_def)

lemma pending_count_append [simp]: "pending_count k (s @ t) = pending_count k s + pending_count k t"
  by (simp add: pending_count_def)

text \<open>Transfers of one account only count for that account.\<close>

lemma locks_of_one_account:
  assumes "\<forall>pt \<in> set t. pt_of k pt"
  shows "locked_sum k' t = (if k' = k then total pt_locked_amount t else 0)"
    and "pending_count k' t = (if k' = k then int (length t) else 0)"
  using assms by (induction t) (auto simp: locked_sum_def pending_count_def pt_of_def)

lemma db_wf_accs: "db_wf d \<Longrightarrow> tbl_wf account_pk account_ok (db_accounts d)"
  and db_wf_trs: "db_wf d \<Longrightarrow> tbl_wf transfer_request_pk transfer_request_ok (db_transfer_requests d)"
  and db_wf_pts: "db_wf d \<Longrightarrow> tbl_wf prepared_transfer_pk prepared_transfer_ok (db_prepared_transfers d)"
  and db_wf_frs: "db_wf d \<Longrightarrow>
        tbl_wf finalization_request_pk finalization_request_ok (db_finalization_requests d)"
  by (simp_all add: db_wf_def)

lemma db_wfI:
  assumes "tbl_wf account_pk account_ok (db_accounts d)"
    and "tbl_wf transfer_request_pk transfer_request_ok (db_transfer_requests d)"
    and "tbl_wf finalization_request_pk finalization_request_ok (db_finalization_requests d)"
    and "tbl_wf prepared_transfer_pk prepared_transfer_ok (db_prepared_transfers d)"
    and "tbl_wf registered_balance_change_pk registered_balance_change_ok (db_registered_balance_changes d)"
    and "tbl_wf pending_balance_change_pk pending_balance_change_ok (db_pending_balance_changes d)"
    and "\<And>pt. pt \<in> set (db_prepared_transfers d) \<Longrightarrow>
          (pt_debtor_id pt, pt_sender_creditor_id pt) \<in> account_pk ` set (db_accounts d)"
    and "\<forall>c \<in> set (db_pending_balance_changes d).
          \<exists>r \<in> set (db_registered_balance_changes d).
            registered_balance_change_pk r = pending_balance_change_pk c"
  shows "db_wf d"
  using assms unfolding db_wf_def image_iff by (auto simp: eq_commute)

lemma db_wf_fk:
  "db_wf d \<Longrightarrow> pt \<in> set (db_prepared_transfers d) \<Longrightarrow>
   (pt_debtor_id pt, pt_sender_creditor_id pt) \<in> account_pk ` set (db_accounts d)"
  unfolding db_wf_def by (metis image_eqI)

lemma locked_sum_nonneg:
  "\<forall>pt \<in> set t. 0 \<le> pt_locked_amount pt \<Longrightarrow> 0 \<le> locked_sum k t"
  unfolding locked_sum_def by (intro total_nonneg) auto

lemma pending_count_nonneg: "0 \<le> pending_count k t"
  unfolding pending_count_def by (intro total_nonneg) auto

lemma account_pk_simps [simp]:
  "account_pk (a\<lparr>acc_interest_rate := r\<rparr>) = account_pk a"
  "account_pk (a\<lparr>acc_previous_interest_rate := r\<rparr>) = account_pk a"
  "account_pk (a\<lparr>acc_negligible_amount := r\<rparr>) = account_pk a"
  by (simp_all add: account_pk_def)

lemma get_account_row_pk:
  "db_wf d \<Longrightarrow> get_account_row i j d = Some a \<Longrightarrow>
   a \<in> set (db_accounts d) \<and> acc_debtor_id a = i \<and> acc_creditor_id a = j \<and> account_ok a"
  unfolding get_account_row_def db_wf_def
  by (auto simp: accs.lookup_iff account_pk_def dest: accs.wf_ok)

lemma get_account_SomeD:
  "get_account i j d = Some a \<Longrightarrow> get_account_row i j d = Some a \<and> \<not> is_deleted a"
  by (auto simp: get_account_def get_account_instance_def split: option.splits if_splits)


text \<open>What holds of the accounts after one of them has been written.\<close>

lemma accounts_after_update:
  assumes "db_wf d" and "get_account_row i j d = Some a" and "account_pk b = account_pk a"
    and "tbl_update account_pk account_ok b (db_accounts d) = Inr t"
  shows "set t = insert b (set (db_accounts d) - {a})" "tbl_wf account_pk account_ok t"
    "account_pk a = (i, j)"
proof -
  have a: "a \<in> set (db_accounts d)" "account_pk a = (i, j)"
    using get_account_row_pk [OF assms(1,2)] by (auto simp: account_pk_def)
  then have look: "tbl_lookup account_pk (account_pk b) (db_accounts d) = Some a"
    using assms by (simp add: accs.lookup_iff db_wf_accs)
  have "{x \<in> set (db_accounts d). account_pk x \<noteq> account_pk b} = set (db_accounts d) - {a}"
    using accs.pk_inj [OF db_wf_accs [OF assms(1)] _ a(1)] by (auto simp only: assms(3))
  then show "set t = insert b (set (db_accounts d) - {a})"
    using accs.upd_set [OF assms(4)] look by simp
  show "tbl_wf account_pk account_ok t"
    using accs.upd_wf [OF db_wf_accs [OF assms(1)] assms(4)] .
  show "account_pk a = (i, j)" by (fact a(2))
qed

lemma other_accounts: 
  "db_wf d \<Longrightarrow> get_account_row i j d = Some a \<Longrightarrow> x \<in> set (db_accounts d) - {a} \<Longrightarrow> account_pk x \<noteq> account_pk a"
  using accs.pk_inj [OF db_wf_accs] get_account_row_pk by blast

lemma account_invariant_update:
  assumes "db_wf d" and "get_account_row i j d = Some a" and "account_pk b = account_pk a"
    and "tbl_update account_pk account_ok b (db_accounts d) = Inr t"
    and "P b" and "\<And>x. x \<in> set (db_accounts d) \<Longrightarrow> account_pk x \<noteq> account_pk a \<Longrightarrow> P x"
  shows "\<forall>x \<in> set t. P x"
  using accounts_after_update(1) [OF assms(1-4)] other_accounts [OF assms(1,2)] assms(5,6) by auto

text \<open>
  A transaction that rewrites one account (\<open>a\<close> becomes \<open>b\<close>) together with its prepared transfers: what its own fields must
  satisfy for the invariants of all accounts to be kept.
\<close>

definition rewrites_account :: "int \<Rightarrow> int \<Rightarrow> account \<Rightarrow> account \<Rightarrow> db \<Rightarrow> db \<Rightarrow> bool" where
  "rewrites_account i j a b d d' \<longleftrightarrow>
     db_wf d \<and> get_account_row i j d = Some a \<and> account_pk b = account_pk a
     \<and> tbl_update account_pk account_ok b (db_accounts d) = Inr (db_accounts d')
     \<and> [pt \<leftarrow> db_prepared_transfers d'. \<not> pt_of (account_pk a) pt]
        = [pt \<leftarrow> db_prepared_transfers d. \<not> pt_of (account_pk a) pt]"

lemma sums_of_others:
  assumes "k' \<noteq> k"
  shows "locked_sum k' [pt \<leftarrow> t. \<not> pt_of k pt] = locked_sum k' t" "pending_count k' [pt \<leftarrow> t. \<not> pt_of k pt] = pending_count k' t"
  using assms by (induction t) (auto simp: locked_sum_def pending_count_def pt_of_def)

lemma rewrites_account_others:
  assumes "rewrites_account i j a b d d'" and "k' \<noteq> account_pk a"
  shows "locked_sum k' (db_prepared_transfers d') = locked_sum k' (db_prepared_transfers d)"
    "pending_count k' (db_prepared_transfers d') = pending_count k' (db_prepared_transfers d)"
    "{pt \<in> set (db_prepared_transfers d'). pt_of k' pt} = {pt \<in> set (db_prepared_transfers d). pt_of k' pt}"
proof -
  have eq: "[pt \<leftarrow> db_prepared_transfers d'. \<not> pt_of (account_pk a) pt]
      = [pt \<leftarrow> db_prepared_transfers d. \<not> pt_of (account_pk a) pt]"
    using assms(1) by (simp add: rewrites_account_def)
  show "locked_sum k' (db_prepared_transfers d') = locked_sum k' (db_prepared_transfers d)"
    "pending_count k' (db_prepared_transfers d') = pending_count k' (db_prepared_transfers d)"
    using sums_of_others [OF assms(2)] eq by metis+
  have "{pt \<in> set t. pt_of k' pt} = {pt \<in> set [pt \<leftarrow> t. \<not> pt_of (account_pk a) pt]. pt_of k' pt}" for t
    using assms(2) by (auto simp: pt_of_def)
  then show "{pt \<in> set (db_prepared_transfers d'). pt_of k' pt} = {pt \<in> set (db_prepared_transfers d). pt_of k' pt}"
    using eq by metis
qed

lemma rewrites_account_all:
  assumes "rewrites_account i j a b d d'" and "P b" and "\<And>x. x \<in> set (db_accounts d) \<Longrightarrow> account_pk x \<noteq> account_pk a \<Longrightarrow> P x"
  shows "\<forall>x \<in> set (db_accounts d'). P x"
proof -
  have "db_wf d" "get_account_row i j d = Some a" "account_pk b = account_pk a"
      "tbl_update account_pk account_ok b (db_accounts d) = Inr (db_accounts d')"
    using assms(1) by (simp_all add: rewrites_account_def)
  then show ?thesis using assms(2,3) by (rule account_invariant_update)
qed

lemma rewrites_account_locks_within:
  assumes "rewrites_account i j a b d d'" and "locks_within d"
    and "acc_pending_transfers_count b = pending_count (account_pk a) (db_prepared_transfers d')"
      "acc_total_locked_amount b \<le> locked_sum (account_pk a) (db_prepared_transfers d')"
  shows "locks_within d'"
  unfolding locks_within_def
  by (rule rewrites_account_all [OF assms(1)])
    (use assms rewrites_account_others [OF assms(1)] in \<open>auto simp: locks_within_def rewrites_account_def\<close>)

lemma rewrites_account_locks_agree:
  assumes "rewrites_account i j a b d d'" and "locks_agree d"
    and "acc_pending_transfers_count b = pending_count (account_pk a) (db_prepared_transfers d')"
      "acc_total_locked_amount b = locked_sum (account_pk a) (db_prepared_transfers d')"
  shows "locks_agree d'"
  unfolding locks_agree_def
  by (rule rewrites_account_all [OF assms(1)])
    (use assms rewrites_account_others [OF assms(1)] in \<open>auto simp: locks_agree_def rewrites_account_def\<close>)

lemma rewrites_account_ids_fresh:
  assumes "rewrites_account i j a b d d'" and "ids_fresh d"
    and own: "\<And>pt. pt \<in> set (db_prepared_transfers d') \<Longrightarrow> pt_of (account_pk a) pt \<Longrightarrow> pt_transfer_id pt \<le> acc_last_transfer_id b"
  shows "ids_fresh d'"
  unfolding ids_fresh_def
proof (rule rewrites_account_all [OF assms(1)])
  show "\<forall>pt \<in> set (db_prepared_transfers d'). pt_of (account_pk b) pt \<longrightarrow> pt_transfer_id pt \<le> acc_last_transfer_id b"
    using assms(1) own by (simp add: rewrites_account_def)
  fix x assume x: "x \<in> set (db_accounts d)" "account_pk x \<noteq> account_pk a"
  show "\<forall>pt \<in> set (db_prepared_transfers d'). pt_of (account_pk x) pt \<longrightarrow> pt_transfer_id pt \<le> acc_last_transfer_id x"
    using rewrites_account_others(3) [OF assms(1) x(2)] x(1) assms(2) unfolding ids_fresh_def by blast
qed

lemma rewrites_account_db_wf:
  assumes rw: "rewrites_account i j a b d d'"
    and "tbl_wf transfer_request_pk transfer_request_ok (db_transfer_requests d')"
    and "tbl_wf finalization_request_pk finalization_request_ok (db_finalization_requests d')"
    and "tbl_wf prepared_transfer_pk prepared_transfer_ok (db_prepared_transfers d')"
    and "db_registered_balance_changes d' = db_registered_balance_changes d"
      "db_pending_balance_changes d' = db_pending_balance_changes d"
  shows "db_wf d'"
proof (rule db_wfI)
  have d: "db_wf d" "get_account_row i j d = Some a" "account_pk b = account_pk a"
      "tbl_update account_pk account_ok b (db_accounts d) = Inr (db_accounts d')" using rw by (simp_all add: rewrites_account_def)
  note upd = accounts_after_update [OF d]
  show "tbl_wf account_pk account_ok (db_accounts d')" by (rule upd(2))
  have keys: "account_pk ` set (db_accounts d') = account_pk ` set (db_accounts d)"
    using upd(1) d(3) get_account_row_pk [OF d(1,2)] by auto
  fix pt assume pt: "pt \<in> set (db_prepared_transfers d')"
  show "(pt_debtor_id pt, pt_sender_creditor_id pt) \<in> account_pk ` set (db_accounts d')"
  proof (cases "pt_of (account_pk a) pt")
    case True
    then show ?thesis using get_account_row_pk [OF d(1,2)] by (auto simp: keys pt_of_def)
  next
    case False
    then have "pt \<in> {x \<in> set (db_prepared_transfers d'). pt_of (pt_debtor_id pt, pt_sender_creditor_id pt) x}"
        "(pt_debtor_id pt, pt_sender_creditor_id pt) \<noteq> account_pk a" using pt by (auto simp: pt_of_def)
    then show ?thesis using rewrites_account_others(3) [OF rw] db_wf_fk [OF d(1), of pt] by (simp add: keys)
  qed
qed (use assms in \<open>simp_all add: rewrites_account_def db_wf_def\<close>)

section \<open>Steps of the account table\<close>

text \<open>
  Procedures that do not touch the locks change the table of accounts by one step: rows may be
  rewritten with the same key and lock fields, and rows without locks may be added.
\<close>

definition lock_fields :: "account \<Rightarrow> (int \<times> int) \<times> int \<times> int \<times> int" where
  "lock_fields a = (account_pk a, acc_total_locked_amount a, acc_pending_transfers_count a,
     acc_last_transfer_id a)"

definition accounts_step :: "account list \<Rightarrow> account list \<Rightarrow> bool" where
  "accounts_step A B \<longleftrightarrow>
     tbl_wf account_pk account_ok B \<and> account_pk ` set A \<subseteq> account_pk ` set B
     \<and> (\<forall>x \<in> set B. lock_fields x \<in> lock_fields ` set A
          \<or> account_pk x \<notin> account_pk ` set A \<and> acc_total_locked_amount x = 0
            \<and> acc_pending_transfers_count x = 0)"

lemma lock_fields_eqD:
  "lock_fields x = lock_fields y \<Longrightarrow> account_pk x = account_pk y
   \<and> acc_total_locked_amount x = acc_total_locked_amount y
   \<and> acc_pending_transfers_count x = acc_pending_transfers_count y
   \<and> acc_last_transfer_id x = acc_last_transfer_id y"
  by (simp add: lock_fields_def)

lemma accounts_step_refl: "tbl_wf account_pk account_ok A \<Longrightarrow> accounts_step A A"
  by (auto simp: accounts_step_def)

lemma accounts_step_update:
  assumes "tbl_wf account_pk account_ok A" and "tbl_update account_pk account_ok b A = Inr B"
    and "a \<in> set A" and "lock_fields b = lock_fields a"
  shows "accounts_step A B"
proof -
  have pk: "account_pk b = account_pk a" using lock_fields_eqD [OF assms(4)] by simp
  have "tbl_lookup account_pk (account_pk b) A = Some a"
    using assms(1,3) by (simp add: accs.lookup_iff pk)
  then have B: "set B = {x \<in> set A. account_pk x \<noteq> account_pk b} \<union> {b}"
    using accs.upd_set [OF assms(2)] by simp
  have "account_pk ` set A \<subseteq> account_pk ` set B"
    using B by (auto simp: pk image_iff) 
  moreover have "\<forall>x \<in> set B. lock_fields x \<in> lock_fields ` set A"
    using B assms(3,4) by auto
  ultimately show ?thesis using accs.upd_wf [OF assms(1,2)] by (auto simp: accounts_step_def)
qed

lemma accounts_step_insert:
  assumes "tbl_wf account_pk account_ok A" and "tbl_insert account_pk account_ok b A = Inr B"
    and "acc_total_locked_amount b = 0" "acc_pending_transfers_count b = 0"
  shows "accounts_step A B"
  using assms accs.ins_wf [OF assms(1,2)]
  by (auto simp: accounts_step_def accs.ins_Inr accs.lookup_None_iff image_iff)

lemma accounts_step_then_update:
  assumes "accounts_step A B" and "tbl_update account_pk account_ok b B = Inr C"
    and "a \<in> set B" and "lock_fields b = lock_fields a"
  shows "accounts_step A C"
proof -
  have wf: "tbl_wf account_pk account_ok B" using assms(1) by (simp add: accounts_step_def)
  have pk: "account_pk b = account_pk a" using lock_fields_eqD [OF assms(4)] by simp
  have "tbl_lookup account_pk (account_pk b) B = Some a"
    using wf assms(3) by (simp add: accs.lookup_iff pk)
  then have C: "set C = {x \<in> set B. account_pk x \<noteq> account_pk b} \<union> {b}"
    using accs.upd_set [OF assms(2)] by simp
  have keys: "account_pk ` set B \<subseteq> account_pk ` set C"
    using C by (auto simp: pk image_iff)
  have "lock_fields x \<in> lock_fields ` set A
          \<or> account_pk x \<notin> account_pk ` set A \<and> acc_total_locked_amount x = 0
            \<and> acc_pending_transfers_count x = 0" if "x \<in> set C" for x
  proof (cases "x = b")
    case True
    then show ?thesis using assms(1,3,4) lock_fields_eqD [OF assms(4)]
      by (auto simp: accounts_step_def)
  next
    case False
    then show ?thesis using that C assms(1) by (auto simp: accounts_step_def)
  qed
  then show ?thesis
    using accs.upd_wf [OF wf assms(2)] assms(1) keys unfolding accounts_step_def by blast
qed

text \<open>Such a step keeps the invariants about locks.\<close>

lemma accounts_step_locks:
  assumes step: "accounts_step (db_accounts d) (db_accounts d')" and wf: "db_wf d"
    and pts: "db_prepared_transfers d' = db_prepared_transfers d"
  shows "locks_within d \<Longrightarrow> locks_within d'" and "locks_agree d \<Longrightarrow> locks_agree d'"
    and "ids_fresh d \<Longrightarrow> ids_fresh d'"
proof -
  have new: "locked_sum (account_pk x) (db_prepared_transfers d) = 0
      \<and> pending_count (account_pk x) (db_prepared_transfers d) = 0
      \<and> (\<forall>pt \<in> set (db_prepared_transfers d). \<not> pt_of (account_pk x) pt)"
    if "account_pk x \<notin> account_pk ` set (db_accounts d)" for x
  proof -
    have "\<forall>pt \<in> set (db_prepared_transfers d). \<not> pt_of (account_pk x) pt"
      using that db_wf_fk [OF wf] unfolding pt_of_def by metis
    then show ?thesis by (auto simp: locked_sum_def pending_count_def intro: total_zero)
  qed
  have cases: "(\<exists>y \<in> set (db_accounts d). lock_fields x = lock_fields y)
      \<or> account_pk x \<notin> account_pk ` set (db_accounts d) \<and> acc_total_locked_amount x = 0
            \<and> acc_pending_transfers_count x = 0" if "x \<in> set (db_accounts d')" for x
    using step that unfolding accounts_step_def by blast
  show "locks_within d'" if "locks_within d"
    unfolding locks_within_def pts
  proof
    fix x assume x: "x \<in> set (db_accounts d')"
    from cases [OF x] show "acc_pending_transfers_count x = pending_count (account_pk x) (db_prepared_transfers d)
        \<and> acc_total_locked_amount x \<le> locked_sum (account_pk x) (db_prepared_transfers d)"
      using that new [of x] by (auto simp: locks_within_def dest!: lock_fields_eqD)
  qed
  show "locks_agree d'" if "locks_agree d"
    unfolding locks_agree_def pts
  proof
    fix x assume x: "x \<in> set (db_accounts d')"
    from cases [OF x] show "acc_pending_transfers_count x = pending_count (account_pk x) (db_prepared_transfers d)
        \<and> acc_total_locked_amount x = locked_sum (account_pk x) (db_prepared_transfers d)"
      using that new [of x] by (auto simp: locks_agree_def dest!: lock_fields_eqD)
  qed
  show "ids_fresh d'" if "ids_fresh d"
    unfolding ids_fresh_def pts
  proof (intro ballI impI)
    fix x pt assume x: "x \<in> set (db_accounts d')" and pt: "pt \<in> set (db_prepared_transfers d)" "pt_of (account_pk x) pt"
    from cases [OF x] show "pt_transfer_id pt \<le> acc_last_transfer_id x"
      using that pt new [of x] by (auto simp: ids_fresh_def dest!: lock_fields_eqD)
  qed
qed

lemma accounts_step_db_wf:
  assumes step: "accounts_step (db_accounts d) (db_accounts d')" and wf: "db_wf d"
    and "db_prepared_transfers d' = db_prepared_transfers d"
    and "db_transfer_requests d' = db_transfer_requests d"
    and "db_finalization_requests d' = db_finalization_requests d"
    and "db_registered_balance_changes d' = db_registered_balance_changes d"
    and "db_pending_balance_changes d' = db_pending_balance_changes d"
  shows "db_wf d'"
proof (rule db_wfI)
  fix pt assume "pt \<in> set (db_prepared_transfers d')"
  then show "(pt_debtor_id pt, pt_sender_creditor_id pt) \<in> account_pk ` set (db_accounts d')"
    using db_wf_fk [OF wf] step assms(3) unfolding accounts_step_def by auto
qed (use assms in \<open>auto simp: accounts_step_def db_wf_def\<close>)

section \<open>Loading or creating an account\<close>

definition stored_principal :: "int \<Rightarrow> int \<Rightarrow> db \<Rightarrow> int" where
  "stored_principal i j d = (case get_account_row i j d of None \<Rightarrow> 0 | Some a \<Rightarrow> acc_principal a)"

lemma touch_simps [simp]:
  "acc_principal (touch E ts a) = acc_principal a" "account_pk (touch E ts a) = account_pk a"
  "acc_debtor_id (touch E ts a) = acc_debtor_id a" "acc_creditor_id (touch E ts a) = acc_creditor_id a"
  "acc_interest_rate (touch E ts a) = acc_interest_rate a"
  "acc_interest (touch E ts a) = acc_interest a"
  "acc_previous_interest_rate (touch E ts a) = acc_previous_interest_rate a"
  "acc_negligible_amount (touch E ts a) = acc_negligible_amount a"
  "acc_status_flags (touch E ts a) = acc_status_flags a"
  "lock_fields (touch E ts a) = lock_fields a"
  by (simp_all add: touch_def account_pk_def lock_fields_def)

lemma lock_fields_update [simp]:
  "lock_fields (a\<lparr>acc_status_flags := x1\<rparr>) = lock_fields a"
  "lock_fields (a\<lparr>acc_principal := x2\<rparr>) = lock_fields a"
  "lock_fields (a\<lparr>acc_interest := x3\<rparr>) = lock_fields a"
  "lock_fields (a\<lparr>acc_interest_rate := x4\<rparr>) = lock_fields a"
  "lock_fields (a\<lparr>acc_previous_interest_rate := x4\<rparr>) = lock_fields a"
  "lock_fields (a\<lparr>acc_negligible_amount := x4\<rparr>) = lock_fields a"
  "lock_fields (a\<lparr>acc_last_heartbeat_ts := x5\<rparr>) = lock_fields a"
  "lock_fields (a\<lparr>acc_pending_account_update := x6\<rparr>) = lock_fields a"
  "lock_fields (a\<lparr>acc_last_transfer_number := x5\<rparr>) = lock_fields a"
  "lock_fields (a\<lparr>acc_last_transfer_committed_at := x5\<rparr>) = lock_fields a"
  "lock_fields (a\<lparr>acc_config_flags := x5\<rparr>) = lock_fields a"
  "lock_fields (a\<lparr>acc_config_data := x7\<rparr>) = lock_fields a"
  "lock_fields (a\<lparr>acc_last_config_ts := x5\<rparr>) = lock_fields a"
  "lock_fields (a\<lparr>acc_last_config_seqnum := x5\<rparr>) = lock_fields a"
  "lock_fields (a\<lparr>acc_debtor_info_iri := x8\<rparr>) = lock_fields a"
  "lock_fields (a\<lparr>acc_debtor_info_sha256 := x9\<rparr>) = lock_fields a"
  "lock_fields (a\<lparr>acc_debtor_info_content_type := x8\<rparr>) = lock_fields a"
  "lock_fields (a\<lparr>acc_last_interest_rate_change_ts := x5\<rparr>) = lock_fields a"
  "lock_fields (a\<lparr>acc_last_interest_capitalization_ts := x5\<rparr>) = lock_fields a"
  "lock_fields (a\<lparr>acc_last_deletion_attempt_ts := x5\<rparr>) = lock_fields a"
  by (simp_all add: lock_fields_def account_pk_def)

text \<open>
  The account object is in the table under the same key, with the same principal and lock fields;
  only the table of accounts and the account update signals change.
\<close>


definition principals :: "int \<Rightarrow> account list \<Rightarrow> int" where
  "principals i A = total (\<lambda>a. if acc_debtor_id a = i then acc_principal a else 0) A"

lemma principals_update:
  assumes "tbl_wf account_pk account_ok A" and "tbl_update account_pk account_ok b A = Inr B"
    and "a \<in> set A" and "account_pk b = account_pk a"
  shows "principals i B = principals i A
    + (if acc_debtor_id a = i then acc_principal b - acc_principal a else 0)"
proof -
  have look: "tbl_lookup account_pk (account_pk b) A = Some a" using assms by (simp add: accs.lookup_iff)
  have "acc_debtor_id b = acc_debtor_id a" using assms(4) by (simp add: account_pk_def)
  then show ?thesis unfolding principals_def using accs.upd_total [OF assms(1,2) look] by simp
qed

definition is_loaded :: "int \<Rightarrow> int \<Rightarrow> db \<Rightarrow> account \<Rightarrow> db \<Rightarrow> bool" where
  "is_loaded i j d a d1 \<longleftrightarrow>
     (\<exists>t s old. d1 = d\<lparr>db_accounts := t, db_account_update_signals := s\<rparr>
        \<and> accounts_step (db_accounts d) t \<and> (\<forall>k. principals k t = principals k (db_accounts d))
        \<and> tbl_lookup account_pk (i, j) t = Some old
        \<and> acc_debtor_id a = i \<and> acc_creditor_id a = j \<and> lock_fields a = lock_fields old
        \<and> acc_principal a = acc_principal old \<and> acc_principal old = stored_principal i j d)"

lemma is_loaded_row:
  assumes "db_wf d" and "get_account_row i j d = Some a"
  shows "is_loaded i j d a d"
  unfolding is_loaded_def
  using get_account_row_pk [OF assms] accounts_step_refl [OF db_wf_accs [OF assms(1)]] assms(2)
  by (intro exI [of _ "db_accounts d"] exI [of _ "db_account_update_signals d"] exI [of _ a])
    (simp add: stored_principal_def get_account_row_def)

lemma created_account:
  assumes run: "create_account E i j ts its d = Inr (a, d')" and wf: "db_wf d" and new: "get_account_row i j d = None"
  obtains B row where "d' = d\<lparr>db_accounts := B\<rparr>" and "accounts_step (db_accounts d) B"
    and "\<forall>k. principals k B = principals k (db_accounts d)"
    and "tbl_lookup account_pk (i, j) B = Some row" and "lock_fields a = lock_fields row" and "acc_principal row = 0"
    and "a = new_account E i j (date_of ts) its" and "insert_account E a d = Inr d'"
proof -
  have a: "a = new_account E i j (date_of ts) its" and ins: "insert_account E a d = Inr d'"
    using create_account_InrD [OF run] by auto
  from insert_account_InrD [OF ins] obtain r p n B where
    B: "tbl_insert account_pk account_ok (a\<lparr>acc_interest_rate := r, acc_previous_interest_rate := p,
         acc_negligible_amount := n\<rparr>) (db_accounts d) = Inr B" "d' = d\<lparr>db_accounts := B\<rparr>" by blast
  let ?row = "a\<lparr>acc_interest_rate := r, acc_previous_interest_rate := p, acc_negligible_amount := n\<rparr>"
  have row: "acc_total_locked_amount ?row = 0" "acc_pending_transfers_count ?row = 0" "account_pk ?row = (i, j)"
      "acc_principal ?row = 0" "lock_fields a = lock_fields ?row"
    by (simp_all add: a new_account_def account_pk_def lock_fields_def)
  show thesis
  proof (rule that [OF B(2) _ _ _ row(5,4) a ins])
    show "accounts_step (db_accounts d) B"
      by (rule accounts_step_insert [OF db_wf_accs [OF wf] B(1)]) (fact row)+
    show "\<forall>k. principals k B = principals k (db_accounts d)"
      using accs.ins_total [OF B(1)] row(4) by (simp add: principals_def)
    show "tbl_lookup account_pk (i, j) B = Some ?row"
      using accs.lookup_ins [OF db_wf_accs [OF wf] B(1)] row(3) by simp
  qed
qed

lemma is_loaded_created:
  assumes "create_account E i j ts its d = Inr (a, d')" and "db_wf d" and "get_account_row i j d = None"
  shows "is_loaded i j d a d'"
proof -
  obtain B row where B: "d' = d\<lparr>db_accounts := B\<rparr>" "accounts_step (db_accounts d) B"
      "\<forall>k. principals k B = principals k (db_accounts d)" "tbl_lookup account_pk (i, j) B = Some row"
      "lock_fields a = lock_fields row" "acc_principal row = 0" "a = new_account E i j (date_of ts) its"
    by (rule created_account [OF assms])
  have "d' = d\<lparr>db_accounts := B, db_account_update_signals := db_account_update_signals d\<rparr>" using B(1) by simp
  with B(2-) show ?thesis unfolding is_loaded_def using assms(3)
    by (intro exI [of _ B] exI [of _ "db_account_update_signals d"] exI [of _ row])
      (simp add: stored_principal_def new_account_def)
qed

lemma is_loaded_signal:
  assumes "is_loaded i j d c d1" and "insert_account_update_signal E b' ts d1 = Inr (b, d2)"
    and "lock_fields b' = lock_fields c" "acc_principal b' = acc_principal c"
  shows "is_loaded i j d b d2"
proof -
  from assms(1) obtain t s old where c: "d1 = d\<lparr>db_accounts := t, db_account_update_signals := s\<rparr>"
    "accounts_step (db_accounts d) t" "\<forall>k. principals k t = principals k (db_accounts d)"
    "tbl_lookup account_pk (i, j) t = Some old"
    "acc_debtor_id c = i" "acc_creditor_id c = j" "lock_fields c = lock_fields old"
    "acc_principal c = acc_principal old" "acc_principal old = stored_principal i j d"
    unfolding is_loaded_def by blast
  from insert_account_update_signal_InrD [OF assms(2)] obtain x where
    b: "b = b'\<lparr>acc_last_heartbeat_ts := ts, acc_pending_account_update := False\<rparr>"
    "d2 = d1\<lparr>db_account_update_signals := s @ [x]\<rparr>" by (auto simp: c(1))
  show ?thesis unfolding is_loaded_def
    by (intro exI [of _ t] exI [of _ "s @ [x]"] exI [of _ old])
      (use b c assms(3,4) in \<open>simp add: lock_fields_def account_pk_def\<close>)
qed

lemma lock_or_create_account_loaded:
  assumes run: "lock_or_create_account E i j ts its d = Inr (a, d1)" and wf: "db_wf d"
  shows "is_loaded i j d a d1"
proof -
  from run obtain c d2 where
    c: "(case get_account_instance i j d of
              Some a \<Rightarrow> Inr (a, d)
            | None \<Rightarrow>
                bindR (create_account E i j ts its d) (\<lambda>(a, d). insert_account_update_signal E a ts d)) = Inr (c, d2)"
    and last: "(if is_deleted c then insert_account_update_signal E
         (touch E ts (c\<lparr>acc_status_flags := acc_status_flags c AND NOT STATUS_DELETED_FLAG\<rparr>)) ts d2
       else Inr (c, d2)) = Inr (a, d1)"
    by (auto simp: lock_or_create_account_def bindR_eq_Inr)
  have loaded: "is_loaded i j d c d2"
  proof (cases "get_account_row i j d")
    case (Some r)
    then show ?thesis using c is_loaded_row [OF wf Some] by (simp add: get_account_instance_def)
  next
    case None
    then obtain c1 d3 where "create_account E i j ts its d = Inr (c1, d3)"
      and sig: "insert_account_update_signal E c1 ts d3 = Inr (c, d2)"
      using c by (auto simp: get_account_instance_def bindR_eq_Inr)
    then show ?thesis using is_loaded_signal [OF is_loaded_created [OF _ wf None] sig] by simp
  qed
  then show ?thesis using last is_loaded_signal [OF loaded] by (auto split: if_splits)
qed

lemmas lock_or_create_account_InrD = lock_or_create_account_loaded [unfolded is_loaded_def]

text \<open>Writing the account object back.\<close>

lemma save_account_step:
  assumes run: "save_account E a d = Inr d'" and step: "accounts_step A (db_accounts d)"
    and old: "tbl_lookup account_pk (account_pk a) (db_accounts d) = Some old" "lock_fields a = lock_fields old"
  shows "\<exists>t row. d' = d\<lparr>db_accounts := t\<rparr> \<and> accounts_step A t
    \<and> (\<forall>k. principals k t = principals k (db_accounts d)
          + (if acc_debtor_id a = k then acc_principal a - acc_principal old else 0))
    \<and> tbl_lookup account_pk (account_pk a) t = Some row
    \<and> (\<exists>r p n. row = a\<lparr>acc_interest_rate := r, acc_previous_interest_rate := p, acc_negligible_amount := n\<rparr>)
    \<and> account_fits row \<and> account_ok row"
proof -
  have wf: "tbl_wf account_pk account_ok (db_accounts d)" using step by (simp add: accounts_step_def)
  from save_account_InrD [OF run] obtain r p n t where
    row: "account_fits (a\<lparr>acc_interest_rate := r, acc_previous_interest_rate := p, acc_negligible_amount := n\<rparr>)"
    "account_ok (a\<lparr>acc_interest_rate := r, acc_previous_interest_rate := p, acc_negligible_amount := n\<rparr>)"
    and t: "tbl_update account_pk account_ok
         (a\<lparr>acc_interest_rate := r, acc_previous_interest_rate := p, acc_negligible_amount := n\<rparr>)
         (db_accounts d) = Inr t" "d' = d\<lparr>db_accounts := t\<rparr>" by blast
  let ?row = "a\<lparr>acc_interest_rate := r, acc_previous_interest_rate := p, acc_negligible_amount := n\<rparr>"
  have mem: "old \<in> set (db_accounts d)" using old(1) wf accs.lookup_mem by blast
  have eq: "lock_fields ?row = lock_fields old" using old(2) by simp
  have pk: "account_pk ?row = account_pk old" using lock_fields_eqD [OF eq] by simp
  have deb: "acc_debtor_id old = acc_debtor_id a" using pk by (simp add: account_pk_def)
  have "accounts_step A t" by (rule accounts_step_then_update [OF step t(1) mem eq])
  moreover have "\<forall>k. principals k t = principals k (db_accounts d)
          + (if acc_debtor_id a = k then acc_principal a - acc_principal old else 0)"
    using principals_update [OF wf t(1) mem pk] deb by simp
  moreover have "tbl_lookup account_pk (account_pk a) t = Some ?row"
    using accs.lookup_upd [OF wf t(1), of "account_pk a"] old(1) by simp
  ultimately show ?thesis using t(2) row by blast
qed

text \<open>Helpers that change an account but not its lock fields.\<close>

lemma apply_account_change_lock_fields:
  "apply_account_change E a n x ts = Inr b \<Longrightarrow> lock_fields b = lock_fields a
     \<and> acc_principal b = contain_principal_overflow (acc_principal a + n)
     \<and> acc_debtor_id b = acc_debtor_id a \<and> acc_creditor_id b = acc_creditor_id a"
  by (drule apply_account_change_InrD) auto

lemma insert_account_transfer_signal_lock_fields:
  "insert_account_transfer_signal a ct other cat amt fmt note pr d = Inr (b, d') \<Longrightarrow>
   lock_fields b = lock_fields a \<and> acc_principal b = acc_principal a
   \<and> acc_debtor_id b = acc_debtor_id a \<and> acc_creditor_id b = acc_creditor_id a
   \<and> acc_pending_transfers_count b = acc_pending_transfers_count a
   \<and> (\<exists>t. d' = d\<lparr>db_account_transfer_signals := t\<rparr>)"
  by (drule insert_account_transfer_signal_InrD)
    (auto intro: exI [of _ "db_account_transfer_signals d"])

lemma make_debtor_payment_on_effect:
  assumes "make_debtor_payment_on E ct a amt ts fmt note d = Inr (b, d')"
  shows "lock_fields b = lock_fields a \<and> acc_debtor_id b = acc_debtor_id a
    \<and> acc_creditor_id b = acc_creditor_id a
    \<and> (if amt \<noteq> 0 \<and> acc_creditor_id a \<noteq> ROOT_CREDITOR_ID then
         acc_principal b = contain_principal_overflow (acc_principal a + amt)
         \<and> (\<exists>t. d' = (add_pending_balance_change_signal (debtor_payment_signal a ct amt ts fmt note) d)
               \<lparr>db_account_transfer_signals := t\<rparr>)
       else b = a \<and> d' = d)"
proof (cases "amt \<noteq> 0 \<and> acc_creditor_id a \<noteq> ROOT_CREDITOR_ID")
  case True
  with make_debtor_payment_on_InrD [OF assms] obtain a1 where
    "insert_account_transfer_signal a ct ROOT_CREDITOR_ID ts amt fmt note
             (contain_principal_overflow (acc_principal a + amt))
             (add_pending_balance_change_signal (debtor_payment_signal a ct amt ts fmt note) d) = Inr (a1, d')"
    "apply_account_change E a1 amt (float_of_int (if ct = CT_INTEREST then - amt else 0)) ts = Inr b"
    by auto
  then show ?thesis using True
    by (auto dest!: insert_account_transfer_signal_lock_fields apply_account_change_lock_fields)
next
  case False
  then show ?thesis using make_debtor_payment_on_InrD [OF assms] by auto
qed

section \<open>Which rows a procedure touches\<close>

definition only_row :: "int \<times> int \<Rightarrow> account list \<Rightarrow> account list \<Rightarrow> bool" where
  "only_row k A B \<longleftrightarrow> (\<forall>k'. k' \<noteq> k \<longrightarrow> tbl_lookup account_pk k' B = tbl_lookup account_pk k' A)"

lemma only_row_refl [simp]: "only_row k A A"
  by (simp add: only_row_def)

lemma only_row_trans: "only_row k A B \<Longrightarrow> only_row k B C \<Longrightarrow> only_row k A C"
  by (simp add: only_row_def)

lemma lookup_append_other:
  "pk r \<noteq> k \<Longrightarrow> tbl_lookup pk k (t @ [r]) = tbl_lookup pk k t"
  by (induction t) (auto simp: tbl_lookup_def)

lemma lookup_update_other:
  "pk r \<noteq> k \<Longrightarrow> tbl_lookup pk k (map (\<lambda>x. if pk x = pk r then r else x) t) = tbl_lookup pk k t"
  by (induction t) (auto simp: tbl_lookup_def)

lemma only_row_upd: "tbl_update account_pk ok b A = Inr B \<Longrightarrow> only_row (account_pk b) A B"
  unfolding only_row_def tbl_update_def by (auto split: if_splits intro: lookup_update_other)

lemma only_row_ins: "tbl_insert account_pk ok b A = Inr B \<Longrightarrow> only_row (account_pk b) A B"
  unfolding only_row_def tbl_insert_def by (auto split: if_splits intro: lookup_append_other)

lemma only_row_save:
  assumes "save_account E a d = Inr d'"
  shows "only_row (account_pk a) (db_accounts d) (db_accounts d')"
proof -
  from save_account_InrD [OF assms] obtain r p n t where
    "tbl_update account_pk account_ok
         (a\<lparr>acc_interest_rate := r, acc_previous_interest_rate := p, acc_negligible_amount := n\<rparr>)
         (db_accounts d) = Inr t" "d' = d\<lparr>db_accounts := t\<rparr>" by blast
  then show ?thesis using only_row_upd by fastforce
qed

lemma only_row_insert:
  assumes "insert_account E a d = Inr d'"
  shows "only_row (account_pk a) (db_accounts d) (db_accounts d')"
proof -
  from insert_account_InrD [OF assms] obtain r p n t where
    "tbl_insert account_pk account_ok
         (a\<lparr>acc_interest_rate := r, acc_previous_interest_rate := p, acc_negligible_amount := n\<rparr>)
         (db_accounts d) = Inr t" "d' = d\<lparr>db_accounts := t\<rparr>" by blast
  then show ?thesis using only_row_ins by fastforce
qed

lemma only_row_lock:
  assumes "lock_or_create_account E i j ts its d = Inr (a, d1)"
  shows "only_row (i, j) (db_accounts d) (db_accounts d1)"
proof -
  have pk: "account_pk (new_account E i j D its) = (i, j)" for D by (simp add: new_account_def account_pk_def)
  have sig: "db_accounts d'' = db_accounts d'" if "insert_account_update_signal E b ts d' = Inr (c, d'')" for b c d' d''
    using insert_account_update_signal_InrD [OF that] by auto
  show ?thesis using assms
    by (auto simp: lock_or_create_account_def bindR_eq_Inr get_account_instance_def pk split: option.splits if_splits
        dest!: sig create_account_InrD only_row_insert)
qed

text \<open>Other accounts keep their principal.\<close>

lemma only_row_principal:
  "only_row (i, j) (db_accounts d) (db_accounts d') \<Longrightarrow> (i', j') \<noteq> (i, j) \<Longrightarrow>
   get_account_row i' j' d' = get_account_row i' j' d"
  by (simp add: only_row_def get_account_row_def)

section \<open>Applying a change and writing it back\<close>

text \<open>Applying a change keeps the locks and the rates, and the principal stays in range.\<close>

lemma apply_account_change_frame:
  assumes "apply_account_change E a n x ts = Inr b"
  shows "account_pk b = account_pk a" "acc_debtor_id b = acc_debtor_id a" "acc_creditor_id b = acc_creditor_id a"
    "acc_interest_rate b = acc_interest_rate a" "acc_previous_interest_rate b = acc_previous_interest_rate a"
    "acc_negligible_amount b = acc_negligible_amount a" "acc_last_transfer_id b = acc_last_transfer_id a"
    "acc_total_locked_amount b = acc_total_locked_amount a"
    "acc_pending_transfers_count b = acc_pending_transfers_count a"
    "acc_principal b = contain_principal_overflow (acc_principal a + n)"
    "acc_creation_date b = acc_creation_date a" "acc_last_transfer_number b = acc_last_transfer_number a"
    "acc_config_flags b = acc_config_flags a" "acc_pending_account_update b"
  using apply_account_change_InrD [OF assms] by (auto simp: touch_def account_pk_def)

text \<open>An account that is written back without a change of its REAL columns.\<close>

lemma save_account_same_rates:
  assumes "get_account_row (acc_debtor_id b) (acc_creditor_id b) d = Some a"
    and "acc_interest_rate b = acc_interest_rate a" "acc_previous_interest_rate b = acc_previous_interest_rate a"
    and "acc_negligible_amount b = acc_negligible_amount a" and "save_account E b d = Inr d'"
  shows "\<exists>t. tbl_update account_pk account_ok b (db_accounts d) = Inr t \<and> d' = d\<lparr>db_accounts := t\<rparr>
     \<and> account_fits b"
proof -
  have same: "b\<lparr>acc_interest_rate := acc_interest_rate a, acc_previous_interest_rate := acc_previous_interest_rate a,
      acc_negligible_amount := acc_negligible_amount a\<rparr> = b"
    by (simp flip: assms(2-4))
  from save_account_InrD [OF assms(5)] assms(1-4) show ?thesis by (auto simp: same)
qed

text \<open>Neither fails when the values fit.\<close>

lemma apply_account_change_total:
  assumes "Account_calc_current_balance E a ts = Inr (Fin x)"
  shows "\<exists>b. apply_account_change E a n i ts = Inr b"
  using assms by (simp add: apply_account_change_def calc_account_accumulated_interest_def dec_sub_def
      dec_of_int_def Let_def)

lemma status_flags_overflown:
  assumes "(0::int) \<le> f" and "f \<le> 3"
  shows "0 \<le> f OR STATUS_OVERFLOWN_FLAG \<and> f OR STATUS_OVERFLOWN_FLAG \<le> 3"
proof -
  have "f \<in> {0, 1, 2, 3}" using assms by auto
  then show ?thesis by (auto simp: STATUS_OVERFLOWN_FLAG_def)
qed

lemma apply_account_change_fits:
  assumes "apply_account_change E a n i ts = Inr b" and "account_fits a" and "account_ok a"
    and "is_int32 (increment_seqnum E (acc_last_change_seqnum a))"
    and "0 \<le> acc_status_flags a" "acc_status_flags a \<le> 3"
  shows "account_fits b \<and> account_ok b"
proof -
  from apply_account_change_InrD [OF assms(1)] obtain x sf where
    b: "b = (touch E ts (a\<lparr>acc_interest := x, acc_status_flags := sf,
            acc_principal := contain_principal_overflow (acc_principal a + n)\<rparr>))\<lparr>acc_pending_account_update := True\<rparr>"
    and sf: "sf = acc_status_flags a \<or> sf = acc_status_flags a OR STATUS_OVERFLOWN_FLAG" by blast
  have "0 \<le> sf" "sf \<le> 3" using sf status_flags_overflown [OF assms(5,6)] assms(5,6) by auto
  then have "is_int32 sf" by (simp add: is_int32_def int_bounds)
  moreover have "is_int64 (contain_principal_overflow (acc_principal a + n))"
      "MIN_INT64 < contain_principal_overflow (acc_principal a + n)"
    using contain_range [of "acc_principal a + n"] by (auto simp: is_int64_def int_bounds)
  ultimately show ?thesis using assms(2-4)
    by (auto simp: b touch_def account_fits_def account_ok_def)
qed

lemma save_account_same_rates_total:
  assumes "get_account_row (acc_debtor_id b) (acc_creditor_id b) d = Some a"
    and "acc_interest_rate b = acc_interest_rate a" "acc_previous_interest_rate b = acc_previous_interest_rate a"
    and "acc_negligible_amount b = acc_negligible_amount a" and "account_fits b" "account_ok b"
  shows "\<exists>d'. save_account E b d = Inr d'"
proof -
  have "flush_account E a b = Inr b" by (rule flush_account_same) (simp_all add: assms)
  then show ?thesis using assms by (simp add: save_account_def dataR_def tbl_update_def)
qed

section \<open>Deleted accounts\<close>

text \<open>
  Accounts that are marked as deleted have been emptied: no principal, no prepared transfers.
\<close>

definition deleted_accounts_empty :: "db \<Rightarrow> bool" where
  "deleted_accounts_empty d \<longleftrightarrow>
     (\<forall>a \<in> set (db_accounts d). is_deleted a \<longrightarrow> acc_principal a = 0 \<and> acc_pending_transfers_count a = 0)"

lemma deleted_accounts_empty_row:
  assumes "deleted_accounts_empty d" and wf: "tbl_wf account_pk account_ok (db_accounts d)"
    "tbl_wf account_pk account_ok (db_accounts d')" and "only_row k (db_accounts d) (db_accounts d')"
    and "\<And>row. tbl_lookup account_pk k (db_accounts d') = Some row \<Longrightarrow> is_deleted row \<Longrightarrow>
      acc_principal row = 0 \<and> acc_pending_transfers_count row = 0"
  shows "deleted_accounts_empty d'"
  unfolding deleted_accounts_empty_def
proof (intro ballI impI)
  fix a assume a: "a \<in> set (db_accounts d')" "is_deleted a"
  then have look: "tbl_lookup account_pk (account_pk a) (db_accounts d') = Some a" by (simp add: accs.lookup_iff [OF wf(2)])
  show "acc_principal a = 0 \<and> acc_pending_transfers_count a = 0"
  proof (cases "account_pk a = k")
    case True
    then show ?thesis using assms(5) look a(2) by metis
  next
    case False
    then have "tbl_lookup account_pk (account_pk a) (db_accounts d) = Some a"
      using look assms(4) unfolding only_row_def by metis
    then have "a \<in> set (db_accounts d)" by (simp add: accs.lookup_iff [OF wf(1)])
    then show ?thesis using assms(1) a(2) by (simp add: deleted_accounts_empty_def)
  qed
qed

text \<open>Which operations change the flag.\<close>

lemma is_deleted_update [simp]:
  "is_deleted (a\<lparr>acc_principal := x1\<rparr>) = is_deleted a" "is_deleted (a\<lparr>acc_interest := x2\<rparr>) = is_deleted a"
  "is_deleted (a\<lparr>acc_interest_rate := x2\<rparr>) = is_deleted a" "is_deleted (a\<lparr>acc_previous_interest_rate := x2\<rparr>) = is_deleted a"
  "is_deleted (a\<lparr>acc_negligible_amount := x2\<rparr>) = is_deleted a" "is_deleted (a\<lparr>acc_last_heartbeat_ts := x1\<rparr>) = is_deleted a"
  "is_deleted (a\<lparr>acc_pending_account_update := x3\<rparr>) = is_deleted a" "is_deleted (a\<lparr>acc_last_change_ts := x1\<rparr>) = is_deleted a"
  "is_deleted (a\<lparr>acc_last_change_seqnum := x1\<rparr>) = is_deleted a" "is_deleted (a\<lparr>acc_total_locked_amount := x1\<rparr>) = is_deleted a"
  "is_deleted (a\<lparr>acc_pending_transfers_count := x1\<rparr>) = is_deleted a" "is_deleted (a\<lparr>acc_last_transfer_id := x1\<rparr>) = is_deleted a"
  "is_deleted (a\<lparr>acc_last_transfer_number := x1\<rparr>) = is_deleted a"
  "is_deleted (a\<lparr>acc_last_transfer_committed_at := x1\<rparr>) = is_deleted a"
  "is_deleted (a\<lparr>acc_last_interest_capitalization_ts := x1\<rparr>) = is_deleted a"
  "is_deleted (a\<lparr>acc_last_deletion_attempt_ts := x1\<rparr>) = is_deleted a"
  "is_deleted (a\<lparr>acc_last_interest_rate_change_ts := x1\<rparr>) = is_deleted a"
  "is_deleted (a\<lparr>acc_config_flags := x1\<rparr>) = is_deleted a" "is_deleted (a\<lparr>acc_config_data := x4\<rparr>) = is_deleted a"
  "is_deleted (a\<lparr>acc_last_config_ts := x1\<rparr>) = is_deleted a" "is_deleted (a\<lparr>acc_last_config_seqnum := x1\<rparr>) = is_deleted a"
  "is_deleted (a\<lparr>acc_debtor_info_iri := x5\<rparr>) = is_deleted a"
  "is_deleted (a\<lparr>acc_debtor_info_content_type := x5\<rparr>) = is_deleted a"
  "is_deleted (a\<lparr>acc_debtor_info_sha256 := x6\<rparr>) = is_deleted a"
  by (simp_all add: is_deleted_def)

lemma is_deleted_touch [simp]: "is_deleted (touch E ts a) = is_deleted a"
  by (simp add: touch_def)

lemma is_deleted_overflown [simp]:
  "is_deleted (a\<lparr>acc_status_flags := acc_status_flags a OR STATUS_OVERFLOWN_FLAG\<rparr>) = is_deleted a"
  "\<not> is_deleted (a\<lparr>acc_status_flags := x AND NOT STATUS_DELETED_FLAG\<rparr>)"
  by (simp_all add: is_deleted_def STATUS_OVERFLOWN_FLAG_def STATUS_DELETED_FLAG_def bit.conj_disj_distrib2 and.assoc)

lemma apply_account_change_deleted:
  assumes "apply_account_change E a n i ts = Inr b"
  shows "is_deleted b = is_deleted a"
proof -
  obtain x sf where b: "b = (touch E ts (a\<lparr>acc_interest := x, acc_status_flags := sf,
            acc_principal := contain_principal_overflow (acc_principal a + n)\<rparr>))\<lparr>acc_pending_account_update := True\<rparr>"
    and sf: "sf = acc_status_flags a \<or> sf = acc_status_flags a OR STATUS_OVERFLOWN_FLAG"
    using apply_account_change_InrD [OF assms] by blast
  have "is_deleted b = is_deleted (a\<lparr>acc_status_flags := sf\<rparr>)" by (simp add: b is_deleted_def touch_def)
  then show ?thesis using sf by auto
qed

lemma insert_account_transfer_signal_deleted:
  "insert_account_transfer_signal a ct other cat amt fmt note pr d = Inr (b, d') \<Longrightarrow> is_deleted b = is_deleted a"
  by (drule insert_account_transfer_signal_InrD) auto

lemma make_debtor_payment_on_deleted:
  "make_debtor_payment_on E ct a amt ts fmt note d = Inr (b, d') \<Longrightarrow> is_deleted b = is_deleted a"
  by (drule make_debtor_payment_on_InrD)
    (auto split: if_splits dest!: insert_account_transfer_signal_deleted apply_account_change_deleted)

lemma lock_or_create_account_alive:
  assumes "lock_or_create_account E i j ts its d = Inr (a, d1)"
  shows "\<not> is_deleted a"
proof -
  from assms obtain c d2 where "(if is_deleted c then insert_account_update_signal E
         (touch E ts (c\<lparr>acc_status_flags := acc_status_flags c AND NOT STATUS_DELETED_FLAG\<rparr>)) ts d2
       else Inr (c, d2)) = Inr (a, d1)"
    by (auto simp: lock_or_create_account_def bindR_eq_Inr)
  then show ?thesis by (cases "is_deleted c") (auto dest!: insert_account_update_signal_InrD)
qed

end
