(* ===== verification/Samples.thy ===== *)
theory Samples
  imports AccountCore
begin

text \<open>
  Concrete inputs for the witnesses: an environment whose C library functions are simple
  rational functions with the documented properties, two accounts of one debtor, and the
  database that holds them.
\<close>

definition sample_env :: env where
  "sample_env =
     \<lparr>m_exp = (\<lambda>x. Some (if x \<le> 0 then 1 / (1 - x) else 1 + x)), m_log = (\<lambda>x. x - 1),
      store_real = Some, date_to_int24 = (\<lambda>n. n mod 2 ^ 24),
      increment_seqnum = (\<lambda>n. if n = MAX_INT32 then MIN_INT32 else n + 1),
      seqnum_gt = (\<lambda>m n. 0 < (m - n) mod 2 ^ 32 \<and> (m - n) mod 2 ^ 32 < 2 ^ 31),
      schema_loads = (\<lambda>_. None)\<rparr>"

lemma sample_env_ok: "libm_ok sample_env"
  by (auto simp: libm_ok_def sample_env_def abs_le_iff)

lemma sample_env_store [simp]: "store_real sample_env = Some"
  by (simp add: sample_env_def)

text \<open>All times of the samples are within a day of this one.\<close>

definition sample_ts :: datetime where "sample_ts = 1600000000000000"

definition sample_account :: "int \<Rightarrow> int \<Rightarrow> account" where
  "sample_account creditor_id pr =
     \<lparr>acc_debtor_id = 1, acc_creditor_id = creditor_id, acc_creation_date = 18518,
      acc_last_change_seqnum = 0, acc_last_change_ts = sample_ts, acc_principal = pr,
      acc_interest_rate = Fin 0, acc_interest = Fin 0, acc_last_interest_rate_change_ts = T0,
      acc_last_config_ts = T0, acc_last_config_seqnum = 0, acc_last_transfer_number = 0,
      acc_last_transfer_committed_at = T0, acc_negligible_amount = Fin 0, acc_config_flags = 0,
      acc_config_data = [], acc_debtor_info_iri = None, acc_debtor_info_content_type = None,
      acc_debtor_info_sha256 = None, acc_status_flags = 0, acc_total_locked_amount = 0,
      acc_pending_transfers_count = 0, acc_last_transfer_id = 100,
      acc_previous_interest_rate = Fin 0, acc_last_heartbeat_ts = sample_ts,
      acc_last_interest_capitalization_ts = T0, acc_last_deletion_attempt_ts = T0,
      acc_pending_account_update = False\<rparr>"

definition sample_db :: db where
  "sample_db = empty_db\<lparr>db_accounts := [sample_account 0 (- 1000), sample_account 2 1000]\<rparr>"

lemma sample_account_valid [simp]:
  "acc_debtor_id (sample_account c pr) = 1" "acc_creditor_id (sample_account c pr) = c"
  "acc_principal (sample_account c pr) = pr" "acc_interest (sample_account c pr) = Fin 0"
  "acc_interest_rate (sample_account c pr) = Fin 0"
  "acc_last_change_ts (sample_account c pr) = sample_ts"
  "acc_total_locked_amount (sample_account c pr) = 0"
  "acc_pending_transfers_count (sample_account c pr) = 0"
  "acc_last_transfer_id (sample_account c pr) = 100"
  "acc_status_flags (sample_account c pr) = 0"
  "account_pk (sample_account c pr) = (1, c)"
  "account_ok (sample_account c pr) \<longleftrightarrow> MIN_INT64 < pr"
  "account_fits (sample_account c pr) \<longleftrightarrow> is_int64 c \<and> is_int64 pr"
  by (auto simp: sample_account_def account_pk_def account_ok_def account_fits_def is_int64_def
      is_int32_def int_bounds pg_le_def INTEREST_RATE_FLOOR_def INTEREST_RATE_CEIL_def)

lemma sample_balance:
  assumes "\<bar>pr\<bar> < 10 ^ 28" and "\<bar>ts - sample_ts\<bar> \<le> 2 ^ 100"
  shows "Account_calc_current_balance sample_env (sample_account c pr) ts = Inr (dec_of_int pr)"
  using zero_rate_balance [OF sample_env_ok assms(1,2)] by (simp add: Account_calc_current_balance_def)

lemma sample_get_account:
  "get_account_row 1 2 (sample_db\<lparr>db_transfer_requests := x\<rparr>) = Some (sample_account 2 1000)"
  "get_account 1 2 (sample_db\<lparr>db_transfer_requests := x\<rparr>) = Some (sample_account 2 1000)"
  by (simp_all add: get_account_def get_account_instance_def get_account_row_def sample_db_def
      tbl_lookup_def is_deleted_def)

end
