(* ===== verification/Configuration.thy ===== *)
theory Configuration
  imports Invariants Samples
begin

text \<open>
  The procedures of \<open>swpt_accounts/procedures.py\<close> that create accounts and change their
  settings: \<open>configure_account\<close>, \<open>update_debtor_info\<close>, \<open>change_interest_rate\<close>, and the
  read-only queries of the fetch API.  \<open>current_ts\<close> is the clock the procedure reads.
\<close>

section \<open>Configuring accounts\<close>

definition RC_INVALID_CONFIGURATION :: pystr where
  "RC_INVALID_CONFIGURATION = lit ''INVALID_CONFIGURATION''"

definition clear_deleted_flag :: "account \<Rightarrow> account \<times> bool" where
  "clear_deleted_flag a =
     (if is_deleted a
      then (a\<lparr>acc_status_flags := acc_status_flags a AND NOT STATUS_DELETED_FLAG\<rparr>, True)
      else (a, False))"

definition is_valid_config :: "env \<Rightarrow> int \<Rightarrow> pyfloat \<Rightarrow> pystr \<Rightarrow> bool" where
  "is_valid_config E creditor_id negligible_amount config_data =
     (if fle (Fin 0) negligible_amount then
        if config_data = [] then True
        else if creditor_id = ROOT_CREDITOR_ID then
          (case parse_root_config_data (schema_loads E) config_data of Inl _ \<Rightarrow> False | Inr _ \<Rightarrow> True)
        else False
      else False)"

definition try_to_configure ::
    "env \<Rightarrow> datetime \<Rightarrow> datetime \<Rightarrow> int \<Rightarrow> int \<Rightarrow> datetime \<Rightarrow> int \<Rightarrow> pyfloat \<Rightarrow> int \<Rightarrow> pystr \<Rightarrow>
     account option \<Rightarrow> db \<Rightarrow> (bool \<times> db) result" where
  "try_to_configure E current_ts insert_ts debtor_id creditor_id ts seqnum negligible_amount
       config_flags config_data acc d =
     (if is_valid_config E creditor_id negligible_amount config_data then
        bindR (case acc of
                 None \<Rightarrow>
                   bindR (create_account E debtor_id creditor_id current_ts insert_ts d) (\<lambda>(a, d).
                   Inr (a, True, d))
               | Some a \<Rightarrow> (case clear_deleted_flag a of (a, init) \<Rightarrow> Inr (a, init, d)))
          (\<lambda>(a, should_be_initialized, d).
        let a = a\<lparr>acc_config_flags := config_flags, acc_config_data := config_data,
                  acc_negligible_amount := negligible_amount, acc_last_config_ts := ts,
                  acc_last_config_seqnum := seqnum\<rparr> in
        bindR (apply_account_change E a 0 (Fin 0) current_ts) (\<lambda>a.
        bindR (insert_account_update_signal E a current_ts d) (\<lambda>(a, d).
        bindR (save_account E a d) (\<lambda>d.
        Inr (should_be_initialized, d)))))
      else
        bindR (add_rejected_config_signal E
          \<lparr>rcs_debtor_id = debtor_id, rcs_creditor_id = creditor_id, rcs_config_ts = ts,
           rcs_config_seqnum = seqnum, rcs_config_flags = config_flags, rcs_config_data = config_data,
           rcs_negligible_amount = negligible_amount, rcs_rejection_code = RC_INVALID_CONFIGURATION,
           rcs_inserted_at = None\<rparr> d)
        (\<lambda>d. Inr (False, d)))"

text \<open>The tuple comparison \<open>(ts, Seqnum(seqnum)) > (last_ts, Seqnum(last_seqnum))\<close>.\<close>

definition is_later_event :: "env \<Rightarrow> datetime \<Rightarrow> int \<Rightarrow> datetime \<Rightarrow> int \<Rightarrow> bool" where
  "is_later_event E ts seqnum last_ts last_seqnum =
     (if ts \<noteq> last_ts then last_ts < ts
      else seqnum \<noteq> last_seqnum \<and> seqnum_gt E seqnum last_seqnum)"

definition configure_account ::
    "env \<Rightarrow> datetime \<Rightarrow> datetime \<Rightarrow> int \<Rightarrow> int \<Rightarrow> datetime \<Rightarrow> int \<Rightarrow> pyfloat \<Rightarrow> int \<Rightarrow> pystr \<Rightarrow>
     pyfloat \<Rightarrow> db \<Rightarrow> (bool \<times> db) result" where
  "configure_account E current_ts insert_ts debtor_id creditor_id ts seqnum negligible_amount
       config_flags config_data signalbus_max_delay_seconds d =
     (case get_account_instance debtor_id creditor_id d of
        Some a \<Rightarrow>
          if is_later_event E ts seqnum (acc_last_config_ts a) (acc_last_config_seqnum a) then
            try_to_configure E current_ts insert_ts debtor_id creditor_id ts seqnum negligible_amount
              config_flags config_data (Some a) d
          else Inr (False, d)
      | None \<Rightarrow>
          if fle (total_seconds (current_ts - ts)) signalbus_max_delay_seconds then
            try_to_configure E current_ts insert_ts debtor_id creditor_id ts seqnum negligible_amount
              config_flags config_data None d
          else Inr (False, d))"

section \<open>Queries\<close>

definition is_reachable_account :: "int \<Rightarrow> int \<Rightarrow> db \<Rightarrow> bool" where
  "is_reachable_account debtor_id creditor_id d =
     (if creditor_id = ROOT_CREDITOR_ID then True
      else case get_account_row debtor_id creditor_id d of
        None \<Rightarrow> False
      | Some a \<Rightarrow> acc_status_flags a AND STATUS_DELETED_FLAG = 0
                 \<and> acc_config_flags a AND CONFIG_SCHEDULED_FOR_DELETION_FLAG = 0)"

definition get_account_config_data :: "int \<Rightarrow> int \<Rightarrow> db \<Rightarrow> pystr option" where
  "get_account_config_data debtor_id creditor_id d =
     map_option acc_config_data (get_account_row debtor_id creditor_id d)"

definition get_available_amount :: "env \<Rightarrow> datetime \<Rightarrow> int \<Rightarrow> int \<Rightarrow> db \<Rightarrow> int option result" where
  "get_available_amount E current_ts debtor_id creditor_id d =
     (case get_account debtor_id creditor_id d of
        Some a \<Rightarrow> bindR (get_available_amount_of E a current_ts) (\<lambda>n. Inr (Some n))
      | None \<Rightarrow> Inr None)"

section \<open>Settings taken from the debtor's account\<close>

text \<open>A request without a time stamp (\<open>None\<close>) is as new as the current moment.\<close>

definition is_old_request :: "datetime \<Rightarrow> datetime option \<Rightarrow> bool" where
  "is_old_request current_ts ts =
     flt (Fin (of_int SECONDS_IN_DAY))
       (total_seconds (current_ts - (case ts of None \<Rightarrow> current_ts | Some t \<Rightarrow> t)))"

definition update_debtor_info ::
    "env \<Rightarrow> datetime \<Rightarrow> int \<Rightarrow> int \<Rightarrow> pystr option \<Rightarrow> nat list option \<Rightarrow> pystr option \<Rightarrow>
     datetime option \<Rightarrow> db \<Rightarrow> db result" where
  "update_debtor_info E current_ts debtor_id creditor_id iri sha256 content_type ts d =
     (if creditor_id = ROOT_CREDITOR_ID then Inr d
      else if is_old_request current_ts ts then Inr d
      else case get_account debtor_id creditor_id d of
        None \<Rightarrow> Inr d
      | Some a \<Rightarrow>
          if (acc_debtor_info_iri a, acc_debtor_info_sha256 a, acc_debtor_info_content_type a)
               \<noteq> (iri, sha256, content_type)
          then
            let a = touch E current_ts
                  (a\<lparr>acc_debtor_info_iri := iri, acc_debtor_info_sha256 := sha256,
                     acc_debtor_info_content_type := content_type\<rparr>) in
            bindR (insert_account_update_signal E a current_ts d) (\<lambda>(a, d).
            save_account E a d)
          else Inr d)"

definition clamp_interest_rate :: "pyfloat \<Rightarrow> pyfloat" where
  "clamp_interest_rate r =
     (let r = (if flt INTEREST_RATE_CEIL r then INTEREST_RATE_CEIL else r)
      in if flt r INTEREST_RATE_FLOOR then INTEREST_RATE_FLOOR else r)"

definition change_interest_rate ::
    "env \<Rightarrow> datetime \<Rightarrow> int \<Rightarrow> int \<Rightarrow> pyfloat \<Rightarrow> datetime option \<Rightarrow> pyfloat \<Rightarrow> db \<Rightarrow> db result" where
  "change_interest_rate E current_ts debtor_id creditor_id interest_rate ts signalbus_max_delay_seconds d =
     (if creditor_id = ROOT_CREDITOR_ID then Inr d
      else if is_old_request current_ts ts then Inr d
      else case get_account debtor_id creditor_id d of
        None \<Rightarrow> Inr d
      | Some a \<Rightarrow>
          let interest_rate = clamp_interest_rate interest_rate in
          if interest_rate = NaN then Inr d
          else
            let old_interest_rate = acc_interest_rate a;
                change_min_interval_seconds =
                  fadd signalbus_max_delay_seconds (float_of_int SECONDS_IN_DAY);
                seconds_since_last_change =
                  total_seconds (current_ts - acc_last_interest_rate_change_ts a)
            in if \<not> feq old_interest_rate interest_rate
                  \<and> fle change_min_interval_seconds seconds_since_last_change
               then
                 bindR (assertR (acc_last_interest_rate_change_ts a \<le> current_ts)) (\<lambda>_.
                 bindR (calc_account_accumulated_interest E a current_ts) (\<lambda>i.
                 let a = touch E current_ts
                       (a\<lparr>acc_interest := dec_to_float i,
                          acc_previous_interest_rate := old_interest_rate,
                          acc_interest_rate := interest_rate,
                          acc_last_interest_rate_change_ts := current_ts\<rparr>) in
                 bindR (insert_account_update_signal E a current_ts d) (\<lambda>(a, d).
                 save_account E a d)))
               else Inr d)"

section \<open>What a change of settings may touch\<close>

text \<open>
  The row of one account is rewritten (or created) with its locks unchanged, and an
  \<open>AccountUpdateSignal\<close> is added.
\<close>

definition settings_effect :: "int \<Rightarrow> int \<Rightarrow> db \<Rightarrow> db \<Rightarrow> account \<Rightarrow> bool" where
  "settings_effect i j d d' row \<longleftrightarrow>
     (\<exists>t s. d' = d\<lparr>db_accounts := t, db_account_update_signals := db_account_update_signals d @ [s]\<rparr>
        \<and> accounts_step (db_accounts d) t
        \<and> (\<forall>k. principals k t = principals k (db_accounts d)
              + (if i = k then acc_principal row - stored_principal i j d else 0))
        \<and> only_row (i, j) (db_accounts d) t \<and> tbl_lookup account_pk (i, j) t = Some row
        \<and> account_ok row \<and> account_fits row)"

text \<open>The stored values of the three REAL columns.\<close>

definition stored_reals :: "account \<Rightarrow> account \<Rightarrow> bool" where
  "stored_reals b row \<longleftrightarrow>
     (\<exists>r p n. row = b\<lparr>acc_interest_rate := r, acc_previous_interest_rate := p, acc_negligible_amount := n\<rparr>)"

lemma signal_then_save:
  assumes step: "accounts_step A (db_accounts d0)" "\<forall>k. principals k (db_accounts d0) = principals k A"
      "only_row (i, j) A (db_accounts d0)"
    and d0: "d0 = d\<lparr>db_accounts := db_accounts d0\<rparr>" "A = db_accounts d"
    and old: "tbl_lookup account_pk (i, j) (db_accounts d0) = Some old" "acc_principal old = stored_principal i j d"
    and a: "lock_fields a = lock_fields old"
    and sig: "insert_account_update_signal E a ts d0 = Inr (b, d1)" and save: "save_account E b d1 = Inr d'"
  shows "\<exists>row. settings_effect i j d d' row
    \<and> stored_reals (a\<lparr>acc_last_heartbeat_ts := ts, acc_pending_account_update := False\<rparr>) row"
proof -
  have wf: "tbl_wf account_pk account_ok (db_accounts d0)" using step(1) by (simp add: accounts_step_def)
  have pk: "account_pk a = (i, j)" using lock_fields_eqD [OF a] accs.lookup_key [OF wf old(1)] by simp
  from insert_account_update_signal_InrD [OF sig] obtain x where
    b: "b = a\<lparr>acc_last_heartbeat_ts := ts, acc_pending_account_update := False\<rparr>"
    and d1: "d1 = d0\<lparr>db_account_update_signals := db_account_update_signals d0 @ [x]\<rparr>" by blast
  have accs: "db_accounts d1 = db_accounts d0" by (simp add: d1)
  have lb: "lock_fields b = lock_fields old" "acc_debtor_id b = i" "account_pk b = (i, j)"
    using a pk by (simp_all add: b account_pk_def)
  have "accounts_step A (db_accounts d1)" "tbl_lookup account_pk (account_pk b) (db_accounts d1) = Some old"
    using step(1) old(1) lb(3) by (simp_all add: accs)
  from save_account_step [OF save this lb(1)] obtain t row where
    t0: "d' = d1\<lparr>db_accounts := t\<rparr>" "accounts_step A t"
      "\<forall>k. principals k t = principals k (db_accounts d1)
        + (if acc_debtor_id b = k then acc_principal b - acc_principal old else 0)"
      "tbl_lookup account_pk (account_pk b) t = Some row"
      "\<exists>r p n. row = b\<lparr>acc_interest_rate := r, acc_previous_interest_rate := p, acc_negligible_amount := n\<rparr>"
      "account_fits row" "account_ok row" by blast
  have "acc_principal row = acc_principal b" using t0(5) by auto
  then have "\<forall>k. principals k t = principals k (db_accounts d0)
        + (if i = k then acc_principal row - stored_principal i j d else 0)"
    using t0(3) by (simp add: lb(2) accs old(2))
  note t = t0(1,2) this t0(4) [unfolded lb(3)] t0(5-7)
  have "only_row (i, j) A t"
    using only_row_trans [OF step(3)] only_row_save [OF save] lb(3) by (simp add: accs t(1))
  moreover have "d' = d\<lparr>db_accounts := t, db_account_update_signals := db_account_update_signals d @ [x]\<rparr>"
  proof -
    obtain B where "d0 = d\<lparr>db_accounts := B\<rparr>" using d0(1) by blast
    then show ?thesis by (simp add: t(1) d1)
  qed
  ultimately show ?thesis using t(2-) step(2) d0(2)
    unfolding settings_effect_def stored_reals_def b by (intro exI [of _ row]) auto
qed

text \<open>For an account that is loaded, the base database is unchanged.\<close>

lemma signal_then_save_loaded:
  assumes wf: "db_wf d" and old: "get_account_row i j d = Some old"
    and a: "lock_fields a = lock_fields old"
    and sig: "insert_account_update_signal E a ts d = Inr (b, d1)" and save: "save_account E b d1 = Inr d'"
  shows "\<exists>row. settings_effect i j d d' row
    \<and> stored_reals (a\<lparr>acc_last_heartbeat_ts := ts, acc_pending_account_update := False\<rparr>) row"
  by (rule signal_then_save [OF _ _ _ _ refl _ _ a sig save])
    (use accounts_step_refl [OF db_wf_accs [OF wf]] old in \<open>simp_all add: get_account_row_def stored_principal_def\<close>)

lemma settings_effect_invariant:
  assumes "settings_effect i j d d' row" and "db_wf d"
  shows "db_wf d'" "locks_within d \<Longrightarrow> locks_within d'" "locks_agree d \<Longrightarrow> locks_agree d'"
    "ids_fresh d \<Longrightarrow> ids_fresh d'" "get_account_row i j d' = Some row"
    "(k, l) \<noteq> (i, j) \<Longrightarrow> get_account_row k l d' = get_account_row k l d"
    "principals n (db_accounts d') = principals n (db_accounts d)
       + (if i = n then acc_principal row - stored_principal i j d else 0)"
    "db_pending_balance_change_signals d' = db_pending_balance_change_signals d"
proof -
  from assms(1) obtain t s where
    d': "d' = d\<lparr>db_accounts := t, db_account_update_signals := db_account_update_signals d @ [s]\<rparr>"
    and t: "accounts_step (db_accounts d) t" "\<forall>k. principals k t = principals k (db_accounts d)
              + (if i = k then acc_principal row - stored_principal i j d else 0)"
      "only_row (i, j) (db_accounts d) t" "tbl_lookup account_pk (i, j) t = Some row"
    unfolding settings_effect_def by blast
  show "db_wf d'" by (rule accounts_step_db_wf [OF _ assms(2)]) (use t in \<open>simp_all add: d'\<close>)
  show "locks_within d \<Longrightarrow> locks_within d'" "locks_agree d \<Longrightarrow> locks_agree d'" "ids_fresh d \<Longrightarrow> ids_fresh d'"
    using accounts_step_locks [of d d', OF _ assms(2)] t by (simp_all add: d')
  show "get_account_row i j d' = Some row" using t by (simp add: d' get_account_row_def)
  show "(k, l) \<noteq> (i, j) \<Longrightarrow> get_account_row k l d' = get_account_row k l d"
    by (rule only_row_principal) (use t in \<open>simp add: d'\<close>)
  show "principals n (db_accounts d') = principals n (db_accounts d)
       + (if i = n then acc_principal row - stored_principal i j d else 0)"
    "db_pending_balance_change_signals d' = db_pending_balance_change_signals d" using t by (simp_all add: d')
qed

text \<open>What a write of a row does to its REAL columns.\<close>

lemma save_account_reals:
  assumes "save_account E b d1 = Inr d'" and "get_account_row (acc_debtor_id b) (acc_creditor_id b) d1 = Some a"
    and "tbl_wf account_pk account_ok (db_accounts d1)"
    and "get_account_row (acc_debtor_id b) (acc_creditor_id b) d' = Some row"
  shows "storeR_changed E (acc_interest_rate a) (acc_interest_rate b) = Inr (acc_interest_rate row)"
    "storeR_changed E (acc_previous_interest_rate a) (acc_previous_interest_rate b) = Inr (acc_previous_interest_rate row)"
    "storeR_changed E (acc_negligible_amount a) (acc_negligible_amount b) = Inr (acc_negligible_amount row)"
proof -
  from assms(1,2) obtain r p n t where
    s: "storeR_changed E (acc_interest_rate a) (acc_interest_rate b) = Inr r"
      "storeR_changed E (acc_previous_interest_rate a) (acc_previous_interest_rate b) = Inr p"
      "storeR_changed E (acc_negligible_amount a) (acc_negligible_amount b) = Inr n"
    and t: "tbl_update account_pk account_ok (b\<lparr>acc_interest_rate := r, acc_previous_interest_rate := p,
        acc_negligible_amount := n\<rparr>) (db_accounts d1) = Inr t" "d' = d1\<lparr>db_accounts := t\<rparr>"
    by (auto simp: save_account_def flush_account_def monad_simps)
  have "get_account_row (acc_debtor_id b) (acc_creditor_id b) d' = Some (b\<lparr>acc_interest_rate := r,
      acc_previous_interest_rate := p, acc_negligible_amount := n\<rparr>)"
    using accs.lookup_upd [OF assms(3) t(1), of "account_pk b"] assms(2)
    by (simp add: get_account_row_def t(2) account_pk_def)
  with assms(4) s show "storeR_changed E (acc_interest_rate a) (acc_interest_rate b) = Inr (acc_interest_rate row)"
    "storeR_changed E (acc_previous_interest_rate a) (acc_previous_interest_rate b) = Inr (acc_previous_interest_rate row)"
    "storeR_changed E (acc_negligible_amount a) (acc_negligible_amount b) = Inr (acc_negligible_amount row)" by auto
qed

section \<open>The effect of each procedure\<close>

lemma update_debtor_info_InrD:
  assumes run: "update_debtor_info E ts i j iri sha ctype req d = Inr d'" and wf: "db_wf d"
  shows "d' = d \<or> (\<exists>a row. j \<noteq> ROOT_CREDITOR_ID \<and> \<not> is_old_request ts req \<and> get_account i j d = Some a
     \<and> settings_effect i j d d' row \<and> acc_principal row = acc_principal a \<and> (acc_debtor_info_iri row, acc_debtor_info_sha256 row,
          acc_debtor_info_content_type row) = (iri, sha, ctype) \<and> \<not> is_deleted row)"
proof (cases "d' = d")
  case False
  with run obtain a b d1 where acc: "j \<noteq> ROOT_CREDITOR_ID" "\<not> is_old_request ts req" "get_account i j d = Some a"
    and sig: "insert_account_update_signal E (touch E ts
                  (a\<lparr>acc_debtor_info_iri := iri, acc_debtor_info_sha256 := sha,
                     acc_debtor_info_content_type := ctype\<rparr>)) ts d = Inr (b, d1)"
    and save: "save_account E b d1 = Inr d'"
    by (auto simp: update_debtor_info_def Let_def bindR_eq_Inr split: if_splits option.splits)
  from signal_then_save_loaded [OF wf get_account_SomeD [OF acc(3), THEN conjunct1] _ sig save] obtain row where
    "settings_effect i j d d' row" "stored_reals ((touch E ts
                  (a\<lparr>acc_debtor_info_iri := iri, acc_debtor_info_sha256 := sha,
                     acc_debtor_info_content_type := ctype\<rparr>))
          \<lparr>acc_last_heartbeat_ts := ts, acc_pending_account_update := False\<rparr>) row" by auto
  moreover from this(2) have "\<not> is_deleted row" using get_account_SomeD [OF acc(3)] by (auto simp: stored_reals_def)
  ultimately show ?thesis using acc by (auto simp: stored_reals_def touch_def)
qed simp

lemma change_interest_rate_InrD:
  assumes run: "change_interest_rate E ts i j r req delay d = Inr d'" and wf: "db_wf d"
  shows "d' = d \<or> (\<exists>a row. j \<noteq> ROOT_CREDITOR_ID \<and> \<not> is_old_request ts req \<and> get_account i j d = Some a
     \<and> clamp_interest_rate r \<noteq> NaN
     \<and> fle (fadd delay (float_of_int SECONDS_IN_DAY)) (total_seconds (ts - acc_last_interest_rate_change_ts a))
     \<and> acc_last_interest_rate_change_ts a \<le> ts
     \<and> settings_effect i j d d' row \<and> acc_principal row = acc_principal a
     \<and> (acc_interest_rate a = clamp_interest_rate r \<and> acc_interest_rate row = acc_interest_rate a
        \<or> store_real E (clamp_interest_rate r) = Some (acc_interest_rate row))
     \<and> (acc_previous_interest_rate row = acc_interest_rate a
        \<or> store_real E (acc_interest_rate a) = Some (acc_previous_interest_rate row))
     \<and> acc_last_interest_rate_change_ts row = ts \<and> \<not> is_deleted row)"
proof (cases "d' = d")
  case False
  let ?r = "clamp_interest_rate r"
  from run False obtain a where acc: "j \<noteq> ROOT_CREDITOR_ID" "\<not> is_old_request ts req" "get_account i j d = Some a"
      "?r \<noteq> NaN"
    and interval: "fle (fadd delay (float_of_int SECONDS_IN_DAY)) (total_seconds (ts - acc_last_interest_rate_change_ts a))"
    by (auto simp: change_interest_rate_def Let_def split: if_splits option.splits)
  from run False acc obtain z b d1 where le: "acc_last_interest_rate_change_ts a \<le> ts"
    and sig: "insert_account_update_signal E (touch E ts
                       (a\<lparr>acc_interest := z, acc_previous_interest_rate := acc_interest_rate a,
                          acc_interest_rate := ?r, acc_last_interest_rate_change_ts := ts\<rparr>)) ts d = Inr (b, d1)"
    and save: "save_account E b d1 = Inr d'"
    by (auto simp: change_interest_rate_def Let_def bindR_eq_Inr assertR_eq_Inr split: if_splits)
  let ?c = "(touch E ts (a\<lparr>acc_interest := z, acc_previous_interest_rate := acc_interest_rate a,
                          acc_interest_rate := ?r, acc_last_interest_rate_change_ts := ts\<rparr>))
          \<lparr>acc_last_heartbeat_ts := ts, acc_pending_account_update := False\<rparr>"
  note old = get_account_SomeD [OF acc(3), THEN conjunct1]
  from signal_then_save_loaded [OF wf old _ sig save] obtain row where
    row: "settings_effect i j d d' row" "stored_reals ?c row" by auto
  have b: "b = ?c" "db_accounts d1 = db_accounts d" using insert_account_update_signal_InrD [OF sig] by auto
  have keys: "acc_debtor_id b = i" "acc_creditor_id b = j" using get_account_row_pk [OF wf old] by (simp_all add: b)
  have old1: "get_account_row (acc_debtor_id b) (acc_creditor_id b) d1 = Some a"
    using old by (simp add: keys) (simp add: get_account_row_def b(2))
  from save_account_reals [OF save old1] wf b(2) row(1) keys have
    "storeR_changed E (acc_interest_rate a) ?r = Inr (acc_interest_rate row)"
    "storeR_changed E (acc_previous_interest_rate a) (acc_interest_rate a) = Inr (acc_previous_interest_rate row)"
    by (auto simp: settings_effect_def b db_wf_accs get_account_row_def)
  then have "acc_interest_rate a = ?r \<and> acc_interest_rate row = acc_interest_rate a
        \<or> store_real E ?r = Some (acc_interest_rate row)"
    "acc_previous_interest_rate row = acc_interest_rate a
        \<or> store_real E (acc_interest_rate a) = Some (acc_previous_interest_rate row)"
    by (auto simp: storeR_changed_def storeR_def split: if_splits option.splits)
  moreover have "\<not> is_deleted row" using row(2) get_account_SomeD [OF acc(3)] by (auto simp: stored_reals_def)
  ultimately show ?thesis using acc interval le row by (auto simp: stored_reals_def touch_def)
qed simp

text \<open>The account that a configuration message finds or creates.\<close>

lemma configured_account:
  assumes load: "(case get_account_row i j d of
        None \<Rightarrow> bindR (create_account E i j ts its d) (\<lambda>(a, d). Inr (a, True, d))
      | Some a \<Rightarrow> (case clear_deleted_flag a of (a, init) \<Rightarrow> Inr (a, init, d))) = Inr (a, b, d0)"
    and wf: "db_wf d"
  shows "\<exists>old B. accounts_step (db_accounts d) B \<and> (\<forall>k. principals k B = principals k (db_accounts d))
      \<and> only_row (i, j) (db_accounts d) B \<and> d0 = d\<lparr>db_accounts := B\<rparr>
      \<and> tbl_lookup account_pk (i, j) B = Some old \<and> acc_principal old = stored_principal i j d
      \<and> lock_fields a = lock_fields old \<and> acc_principal a = acc_principal old
      \<and> (b \<longleftrightarrow> get_account i j d = None) \<and> \<not> is_deleted a"
proof (cases "get_account_row i j d")
  case (Some r)
  then have r: "a = fst (clear_deleted_flag r)" "b = is_deleted r" "d0 = d"
    using load by (auto simp: clear_deleted_flag_def split: if_splits)
  then show ?thesis using Some accounts_step_refl [OF db_wf_accs [OF wf]]
    by (intro exI [of _ r] exI [of _ "db_accounts d"])
      (simp add: get_account_row_def stored_principal_def clear_deleted_flag_def get_account_def get_account_instance_def)
next
  case None
  then have run: "create_account E i j ts its d = Inr (a, d0)" and b: "b" using load by (auto simp: bindR_eq_Inr)
  obtain B row where B: "d0 = d\<lparr>db_accounts := B\<rparr>" "accounts_step (db_accounts d) B"
      "\<forall>k. principals k B = principals k (db_accounts d)" "tbl_lookup account_pk (i, j) B = Some row"
      "lock_fields a = lock_fields row" "acc_principal row = 0"
    and a: "a = new_account E i j (date_of ts) its" and ins: "insert_account E a d = Inr d0"
    by (rule created_account [OF run wf None])
  have "account_pk a = (i, j)" "acc_principal a = 0" "\<not> is_deleted a"
    by (simp_all add: a new_account_def account_pk_def is_deleted_def)
  then show ?thesis using B b None only_row_insert [OF ins]
    by (intro exI [of _ row] exI [of _ B])
      (simp add: stored_principal_def get_account_def get_account_instance_def)
qed

lemma configured_negligible:
  assumes "save_account E b d = Inr d'" and "account_pk b = (i, j)" and "acc_negligible_amount b = n"
    and "tbl_lookup account_pk (i, j) (db_accounts d) = Some old" and "tbl_wf account_pk account_ok (db_accounts d)"
    and "get_account_row i j d' = Some row"
  shows "acc_negligible_amount row = n \<or> store_real E n = Some (acc_negligible_amount row)"
proof -
  have "acc_debtor_id b = i" "acc_creditor_id b = j" using assms(2) by (simp_all add: account_pk_def)
  with save_account_reals(3) [OF assms(1) _ assms(5)] assms(3,4,6)
  have "storeR_changed E (acc_negligible_amount old) n = Inr (acc_negligible_amount row)"
    by (simp add: get_account_row_def)
  then show ?thesis by (auto simp: storeR_changed_def storeR_def split: if_splits option.splits)
qed

text \<open>The account update that announces a configuration.\<close>

definition announces_config ::
    "env \<Rightarrow> account_update_signal \<Rightarrow> int \<Rightarrow> int \<Rightarrow> datetime \<Rightarrow> int \<Rightarrow> pyfloat \<Rightarrow> int \<Rightarrow> pystr \<Rightarrow> bool" where
  "announces_config E u i j cts cseq n flags dat \<longleftrightarrow>
     aus_debtor_id u = i \<and> aus_creditor_id u = j \<and> aus_last_config_ts u = cts \<and> aus_last_config_seqnum u = cseq
     \<and> store_real E n = Some (aus_negligible_amount u) \<and> aus_config_flags u = flags \<and> aus_config_data u = dat"

lemma update_signal_announces:
  assumes "insert_account_update_signal E a ts d = Inr (b, d1)"
  shows "\<exists>u. db_account_update_signals d1 = db_account_update_signals d @ [u]
    \<and> announces_config E u (acc_debtor_id a) (acc_creditor_id a) (acc_last_config_ts a) (acc_last_config_seqnum a)
         (acc_negligible_amount a) (acc_config_flags a) (acc_config_data a)"
  using assms
  by (auto simp: insert_account_update_signal_def add_account_update_signal_def Let_def monad_simps storeR_def
      announces_config_def account_update_signal_of_def split: option.splits)

lemma try_to_configure_InrD:
  assumes run: "try_to_configure E ts its i j cts cseq n flags dat acc d = Inr (b, d')" and wf: "db_wf d"
    and acc: "acc = get_account_row i j d"
  shows "if is_valid_config E j n dat then
     \<exists>row. settings_effect i j d d' row \<and> acc_principal row = contain_principal_overflow (stored_principal i j d)
       \<and> acc_config_flags row = flags \<and> acc_config_data row = dat
       \<and> acc_last_config_ts row = cts \<and> acc_last_config_seqnum row = cseq
       \<and> (acc_negligible_amount row = n \<or> store_real E n = Some (acc_negligible_amount row))
       \<and> (\<exists>u. db_account_update_signals d' = db_account_update_signals d @ [u]
            \<and> announces_config E u i j cts cseq n flags dat)
       \<and> (b \<longleftrightarrow> get_account i j d = None) \<and> \<not> is_deleted row
     else \<not> b \<and> (\<exists>x. store_real E n = Some x \<and> d' = d\<lparr>db_rejected_config_signals := db_rejected_config_signals d
        @ [\<lparr>rcs_debtor_id = i, rcs_creditor_id = j, rcs_config_ts = cts, rcs_config_seqnum = cseq,
            rcs_config_flags = flags, rcs_config_data = dat, rcs_negligible_amount = x,
            rcs_rejection_code = RC_INVALID_CONFIGURATION, rcs_inserted_at = None\<rparr>]\<rparr>)"
proof (cases "is_valid_config E j n dat")
  case False
  then show ?thesis using run
    by (auto simp: try_to_configure_def add_rejected_config_signal_def monad_simps storeR_def split: option.splits)
next
  case True
  let ?set = "\<lambda>a. a\<lparr>acc_config_flags := flags, acc_config_data := dat,
                  acc_negligible_amount := n, acc_last_config_ts := cts, acc_last_config_seqnum := cseq\<rparr>"
  from run True obtain a d0 c e d1 where
    load: "(case acc of None \<Rightarrow>
                   bindR (create_account E i j ts its d) (\<lambda>(a, d). Inr (a, True, d))
               | Some a \<Rightarrow> (case clear_deleted_flag a of (a, init) \<Rightarrow> Inr (a, init, d))) = Inr (a, b, d0)"
    and app: "apply_account_change E (?set a) 0 (Fin 0) ts = Inr c"
    and sig: "insert_account_update_signal E c ts d0 = Inr (e, d1)"
    and save: "save_account E e d1 = Inr d'"
    by (auto simp: try_to_configure_def Let_def bindR_eq_Inr)
  from configured_account [OF load [unfolded acc] wf]
  obtain old B where B: "accounts_step (db_accounts d) B" "\<forall>k. principals k B = principals k (db_accounts d)"
      "only_row (i, j) (db_accounts d) B" "d0 = d\<lparr>db_accounts := B\<rparr>"
      "tbl_lookup account_pk (i, j) B = Some old" "acc_principal old = stored_principal i j d"
      "lock_fields a = lock_fields old" "acc_principal a = acc_principal old" "b \<longleftrightarrow> get_account i j d = None"
      "\<not> is_deleted a" by blast
  obtain x sf where c: "c = (touch E ts ((?set a)\<lparr>acc_interest := x, acc_status_flags := sf,
            acc_principal := contain_principal_overflow (acc_principal a)\<rparr>))\<lparr>acc_pending_account_update := True\<rparr>"
    using apply_account_change_InrD [OF app] by auto
  have lc: "lock_fields c = lock_fields old" using B(7) by (simp add: c)
  have accs: "db_accounts d0 = B" by (simp add: B(4))
  from signal_then_save [OF _ _ _ _ refl _ B(6) lc sig save] B accs obtain row where
    row: "settings_effect i j d d' row"
      "stored_reals (c\<lparr>acc_last_heartbeat_ts := ts, acc_pending_account_update := False\<rparr>) row" by auto
  have keys: "acc_debtor_id c = i" "acc_creditor_id c = j" "account_pk e = (i, j)"
    and e: "e = c\<lparr>acc_last_heartbeat_ts := ts, acc_pending_account_update := False\<rparr>" "db_accounts d1 = B"
    using lc accs B(1,5,7) insert_account_update_signal_InrD [OF sig]
    by (auto simp: lock_fields_def account_pk_def accounts_step_def accs.lookup_iff)
  have "acc_negligible_amount row = n \<or> store_real E n = Some (acc_negligible_amount row)"
    by (rule configured_negligible [OF save keys(3)])
      (use B(1,5) row(1) wf in \<open>simp_all add: e c touch_def accounts_step_def settings_effect_invariant(5)\<close>)
  moreover have "\<exists>u. db_account_update_signals d' = db_account_update_signals d @ [u]
      \<and> announces_config E u i j cts cseq n flags dat"
    using update_signal_announces [OF sig] save_account_InrD [OF save] keys(1,2) B(4) by (auto simp: c touch_def)
  moreover have "acc_principal row = contain_principal_overflow (stored_principal i j d)
       \<and> acc_config_flags row = flags \<and> acc_config_data row = dat
       \<and> acc_last_config_ts row = cts \<and> acc_last_config_seqnum row = cseq"
    using row(2) B(6,8) by (auto simp: stored_reals_def c touch_def)
  moreover have "\<not> is_deleted row"
    using row(2) apply_account_change_deleted [OF app] B(10) by (auto simp: stored_reals_def)
  ultimately show ?thesis using row(1) B(9) True by auto
qed

end
