(* ===== verification/FetchApi.thy ===== *)
theory FetchApi
  imports Configuration
begin

text \<open>
  How the accounts servers ask each other about accounts: the two HTTP routes of
  \<open>swpt_accounts/routes.py\<close>, and the client \<open>swpt_accounts/fetch_api_client.py\<close> with its
  cache of root configuration data.  HTTP itself is outside of the program: the response to a
  request is a parameter, an error when the request raised.

  The cache is an \<open>OrderedDict\<close> (\<open>dict_put\<close>); its times are Python floats.
\<close>

section \<open>The routes\<close>

text \<open>A response is a body and a status code.\<close>

type_synonym response = "pystr \<times> int"

definition reachable :: "int \<Rightarrow> int \<Rightarrow> db \<Rightarrow> response" where
  "reachable debtorId creditorId d =
     ([], if is_reachable_account debtorId creditorId d then 204 else 404)"

definition config :: "int \<Rightarrow> int \<Rightarrow> db \<Rightarrow> response" where
  "config debtorId creditorId d =
     (case get_account_config_data debtorId creditorId d of
        None \<Rightarrow> ([], 404)
      | Some config_data \<Rightarrow> (config_data, 200))"

section \<open>Requests\<close>

text \<open>
  Only the errors of the request itself are caught (and logged); an error status raises one of them
  (\<open>raise_for_status\<close>), so that any other status than 204 means that the account can not be reached.
\<close>

definition get_if_account_is_reachable :: "response result \<Rightarrow> bool result" where
  "get_if_account_is_reachable r =
     (case r of
        Inr (_, status_code) \<Rightarrow> Inr (status_code = 204)
      | Inl e \<Rightarrow> if e = RequestException then Inr False else Inl e)"

definition make_root_config_data_request ::
    "(pystr \<Rightarrow> root_config_dict option) \<Rightarrow> response result \<Rightarrow> root_config_data option result" where
  "make_root_config_data_request loads r =
     bindR r (\<lambda>(body, status_code).
     if status_code = 200 then bindR (parse_root_config_data loads body) (\<lambda>c. Inr (Some c))
     else if status_code = 404 then Inr None
     else Inl RuntimeError)"

section \<open>The cache\<close>

type_synonym config_cache = "(int \<times> root_config_data option \<times> pyfloat) list"

definition clear_root_config_data :: "config_cache \<Rightarrow> config_cache" where
  "clear_root_config_data c = []"

definition lookup_root_config_data :: "int \<Rightarrow> pyfloat \<Rightarrow> config_cache \<Rightarrow> root_config_data option result" where
  "lookup_root_config_data debtor_id cutoff_ts c =
     (case map_of c debtor_id of
        None \<Rightarrow> Inl KeyError
      | Some (config_data, ts) \<Rightarrow> if flt ts cutoff_ts then Inl KeyError else Inr config_data)"

fun evict :: "int \<Rightarrow> config_cache \<Rightarrow> config_cache" where
  "evict max_size [] = []"
| "evict max_size (e # c) = (if max_size \<le> int (length (e # c)) then evict max_size c else e # c)"

definition register_root_config_data ::
    "int \<Rightarrow> int \<Rightarrow> root_config_data option \<Rightarrow> pyfloat \<Rightarrow> config_cache \<Rightarrow> config_cache" where
  "register_root_config_data max_size debtor_id config_data now c =
     dict_put debtor_id (config_data, now) (evict max_size c)"

section \<open>Fetching a list\<close>

text \<open>
  \<open>asyncio.gather\<close> starts one coroutine per debtor.  Each looks into the cache before its first
  \<open>await\<close>, so all lookups see the cache as it was; the requests that the misses make finish in
  any order.  \<open>completed\<close> lists the debtors whose request has finished, in that order, with the clock at
  that moment; a request that raises registers nothing.
\<close>

definition fetch_result ::
    "(pystr \<Rightarrow> root_config_dict option) \<Rightarrow> (int \<Rightarrow> response result) \<Rightarrow> pyfloat \<Rightarrow> config_cache \<Rightarrow> int \<Rightarrow>
     root_config_data option result" where
  "fetch_result loads http cutoff_ts c debtor_id =
     (case lookup_root_config_data debtor_id cutoff_ts c of
        Inr config_data \<Rightarrow> Inr config_data
      | Inl e \<Rightarrow> make_root_config_data_request loads (http debtor_id))"

definition register_response ::
    "int \<Rightarrow> (pystr \<Rightarrow> root_config_dict option) \<Rightarrow> (int \<Rightarrow> response result) \<Rightarrow> int \<times> pyfloat \<Rightarrow> config_cache \<Rightarrow>
     config_cache" where
  "register_response max_size loads http dt c =
     (case make_root_config_data_request loads (http (fst dt)) of
        Inl e \<Rightarrow> c
      | Inr config_data \<Rightarrow> register_root_config_data max_size (fst dt) config_data (snd dt) c)"

definition fetch_root_config_data_list ::
    "int \<Rightarrow> (pystr \<Rightarrow> root_config_dict option) \<Rightarrow> (int \<Rightarrow> response result) \<Rightarrow> int list \<Rightarrow> pyfloat \<Rightarrow>
     (int \<times> pyfloat) list \<Rightarrow> config_cache \<Rightarrow> root_config_data option result list \<times> config_cache" where
  "fetch_root_config_data_list max_size loads http debtor_ids cutoff_ts completed c =
     (map (fetch_result loads http cutoff_ts c) debtor_ids,
      fold (register_response max_size loads http) completed c)"

definition get_root_config_data_dict ::
    "int \<Rightarrow> (pystr \<Rightarrow> root_config_dict option) \<Rightarrow> (int \<Rightarrow> response result) \<Rightarrow> int list \<Rightarrow> pyfloat \<Rightarrow> pyfloat \<Rightarrow>
     (int \<times> pyfloat) list \<Rightarrow> config_cache \<Rightarrow> (int \<rightharpoonup> root_config_data option) \<times> config_cache" where
  "get_root_config_data_dict max_size loads http debtor_ids cache_seconds now completed c =
     (let cutoff_ts = fsub now cache_seconds;
          (results, c) = fetch_root_config_data_list max_size loads http debtor_ids cutoff_ts completed c;
          result_dict = map_of (map (\<lambda>i. (i, None)) debtor_ids)
      in (foldl (\<lambda>m (i, r). case r of Inl e \<Rightarrow> m | Inr x \<Rightarrow> m(i \<mapsto> x)) result_dict (zip debtor_ids results), c))"

section \<open>The interface of an expiring cache\<close>

text \<open>
  What the client of a bounded cache may rely on: a value that was just put is found, and whatever is
  found was put at some time.  Any entry may have been evicted.
\<close>

locale expiring_cache =
  fixes invar :: "'c \<Rightarrow> bool"
    and look :: "'c \<Rightarrow> 'k \<Rightarrow> 'v option"
    and put :: "'k \<Rightarrow> 'v \<Rightarrow> 'c \<Rightarrow> 'c"
  assumes invar_put: "invar c \<Longrightarrow> invar (put k v c)"
    and look_put_same: "invar c \<Longrightarrow> look (put k v c) k = Some v"
    and look_put_other: "invar c \<Longrightarrow> k' \<noteq> k \<Longrightarrow> look (put k v c) k' = Some w \<Longrightarrow> look c k' = Some w"
begin

lemma look_put: "invar c \<Longrightarrow> look (put k v c) k' = Some w \<Longrightarrow> (k', w) = (k, v) \<or> look c k' = Some w"
  by (cases "k' = k") (auto simp: look_put_same dest: look_put_other)

lemma invar_puts: "invar c \<Longrightarrow> invar (fold (\<lambda>(k, v). put k v) kvs c)"
  by (induction kvs arbitrary: c) (auto simp: invar_put)

lemma look_puts:
  "invar c \<Longrightarrow> look (fold (\<lambda>(k, v). put k v) kvs c) k = Some v \<Longrightarrow> (k, v) \<in> set kvs \<or> look c k = Some v"
proof (induction kvs arbitrary: c)
  case (Cons kv kvs)
  obtain k' v' where kv: "kv = (k', v')" by (cases kv)
  have "(k, v) \<in> set kvs \<or> look (put k' v' c) k = Some v"
    using Cons.IH [of "put k' v' c"] Cons.prems invar_put by (simp add: kv)
  then show ?case using look_put [OF Cons.prems(1)] by (auto simp: kv)
qed simp

end

lemma evict_drop: "evict m c = drop (length c - nat (m - 1)) c"
proof (induction m c rule: evict.induct)
  case (2 m e c)
  show ?case
  proof (cases "m \<le> int (length (e # c))")
    case True
    then have "length (e # c) - nat (m - 1) = Suc (length c - nat (m - 1))" by auto
    then show ?thesis using 2 True by simp
  next
    case False
    then have "length (e # c) - nat (m - 1) = 0" by auto
    then show ?thesis using False by simp
  qed
qed simp

text \<open>Keys stay distinct, so an entry that survives is the one that is found.\<close>

lemma map_of_drop:
  assumes "distinct (map fst c)" and "map_of (drop n c) k = Some v"
  shows "map_of c k = Some v"
proof -
  have "(k, v) \<in> set c" using map_of_SomeD [OF assms(2)] by (meson in_set_dropD)
  then show ?thesis using assms(1) by simp
qed

definition cache_ok :: "config_cache \<Rightarrow> bool" where
  "cache_ok c \<longleftrightarrow> distinct (map fst c)"

lemma cache_ok_evict: "cache_ok c \<Longrightarrow> cache_ok (evict m c)"
  by (simp add: cache_ok_def evict_drop drop_map [symmetric])

lemma cache_ok_register: "cache_ok c \<Longrightarrow> cache_ok (register_root_config_data m i cfg now c)"
  using cache_ok_evict [of c m]
  by (auto simp: cache_ok_def register_root_config_data_def keys_dict_put)

lemma length_register:
  "int (length (register_root_config_data m i cfg now c)) \<le> max 1 m"
proof -
  have "int (length (evict m c)) \<le> max 0 (m - 1)" by (simp add: evict_drop)
  moreover have "length (dict_put i (cfg, now) c') \<le> Suc (length c')" for c'
    using arg_cong [OF keys_dict_put [of i "(cfg, now)" c'], of length] by (simp split: if_splits)
  from this [of "evict m c"] have "int (length (register_root_config_data m i cfg now c)) \<le> int (length (evict m c)) + 1"
    by (simp add: register_root_config_data_def)
  ultimately show ?thesis by linarith
qed

interpretation config_cache: expiring_cache cache_ok map_of
  "\<lambda>k v c. register_root_config_data m k (fst v) (snd v) c" for m
proof
  fix c k k' v w
  assume ok: "cache_ok c"
  show "cache_ok (register_root_config_data m k (fst v) (snd v) c)" by (rule cache_ok_register [OF ok])
  show "map_of (register_root_config_data m k (fst v) (snd v) c) k = Some v"
    by (simp add: register_root_config_data_def map_of_dict_put)
  assume "k' \<noteq> k" "map_of (register_root_config_data m k (fst v) (snd v) c) k' = Some w"
  then have "map_of (evict m c) k' = Some w" by (simp add: register_root_config_data_def map_of_dict_put)
  then show "map_of c k' = Some w"
    using map_of_drop [of c "length c - nat (m - 1)" k' w] ok by (simp only: evict_drop cache_ok_def)
qed

section \<open>What the client gets\<close>

lemma register_responses_puts:
  "\<exists>kvs. fold (register_response m loads http) completed c
       = fold (\<lambda>(k, v). register_root_config_data m k (fst v) (snd v)) kvs c
     \<and> (\<forall>(k, v) \<in> set kvs. make_root_config_data_request loads (http k) = Inr (fst v) \<and> (k, snd v) \<in> set completed)"
proof (induction completed arbitrary: c)
  case Nil
  then show ?case by (intro exI [of _ "[]"]) simp
next
  case (Cons dt completed)
  obtain kvs where kvs: "fold (register_response m loads http) completed (register_response m loads http dt c)
       = fold (\<lambda>(k, v). register_root_config_data m k (fst v) (snd v)) kvs (register_response m loads http dt c)"
     "\<forall>(k, v) \<in> set kvs. make_root_config_data_request loads (http k) = Inr (fst v) \<and> (k, snd v) \<in> set completed"
    using Cons.IH by blast
  show ?case
  proof (cases "make_root_config_data_request loads (http (fst dt))")
    case (Inl e)
    then have "register_response m loads http dt c = c" by (simp add: register_response_def)
    then show ?thesis using kvs by (intro exI [of _ kvs]) auto
  next
    case (Inr x)
    then have "register_response m loads http dt c = register_root_config_data m (fst dt) x (snd dt) c"
      by (simp add: register_response_def)
    then show ?thesis using kvs Inr by (intro exI [of _ "(fst dt, x, snd dt) # kvs"]) auto
  qed
qed

lemma result_dict_foldl:
  "foldl (\<lambda>m (i, r). case r of Inl e \<Rightarrow> m | Inr x \<Rightarrow> m(i \<mapsto> x)) m0 (map (\<lambda>i. (i, f i)) ids)
   = (\<lambda>i. if i \<in> set ids then (case f i of Inl e \<Rightarrow> m0 i | Inr x \<Rightarrow> Some x) else m0 i)"
proof (induction ids arbitrary: m0)
  case (Cons k ids)
  show ?case unfolding list.map foldl_Cons prod.case Cons.IH
    by (cases "f k") (auto simp: fun_eq_iff split: sum.splits)
qed simp

lemma map_of_const: "map_of (map (\<lambda>i. (i, v)) ids) i = (if i \<in> set ids then Some v else None)"
  by (induction ids) auto

lemma get_root_config_data_dict_eq:
  "fst (get_root_config_data_dict m loads http ids secs now completed c)
   = (\<lambda>i. if i \<in> set ids then Some (case fetch_result loads http (fsub now secs) c i of Inl e \<Rightarrow> None | Inr x \<Rightarrow> x)
          else None)"
proof -
  have "zip ids (map (fetch_result loads http (fsub now secs) c) ids)
      = map (\<lambda>i. (i, fetch_result loads http (fsub now secs) c i)) ids"
    by (induction ids) auto
  then show ?thesis
    by (simp add: get_root_config_data_dict_def fetch_root_config_data_list_def Let_def result_dict_foldl map_of_const
        fun_eq_iff split: sum.splits)
qed

section \<open>Properties\<close>

text \<open>
  C36. \<open>get_root_config_data_dict\<close> answers for exactly the debtors it is asked about, each with a cached
  value that is not older than the cutoff or, failing that, with the answer to its own request; a request
  that fails yields \<open>None\<close> and never an outdated value.
\<close>

theorem fetched_configs_are_fresh:
  "fst (get_root_config_data_dict m loads http ids secs now completed c) i
   = (if i \<notin> set ids then None
      else Some (case map_of c i of
          Some (x, ts) \<Rightarrow> if flt ts (fsub now secs)
            then (case make_root_config_data_request loads (http i) of Inr y \<Rightarrow> y | Inl e \<Rightarrow> None) else x
        | None \<Rightarrow> (case make_root_config_data_request loads (http i) of Inr y \<Rightarrow> y | Inl e \<Rightarrow> None)))"
  by (simp add: get_root_config_data_dict_eq fetch_result_def lookup_root_config_data_def
      split: option.splits sum.splits)

text \<open>
  The cache stays a dictionary of bounded size, and holds nothing but what it held before and the
  answers to the requests that have completed, with the time they were registered.
\<close>

theorem cache_stays_sound:
  assumes "cache_ok c" and "int (length c) \<le> max 1 m"
    and c': "c' = snd (get_root_config_data_dict m loads http ids secs now completed c)"
  shows "cache_ok c' \<and> int (length c') \<le> max 1 m
    \<and> (\<forall>i x ts. map_of c' i = Some (x, ts) \<longrightarrow> map_of c i = Some (x, ts)
          \<or> make_root_config_data_request loads (http i) = Inr x \<and> (i, ts) \<in> set completed)"
proof -
  have fold: "c' = fold (register_response m loads http) completed c"
    by (simp add: c' get_root_config_data_dict_def fetch_root_config_data_list_def Let_def)
  obtain kvs where kvs: "c' = fold (\<lambda>(k, v). register_root_config_data m k (fst v) (snd v)) kvs c"
     "\<forall>(k, v) \<in> set kvs. make_root_config_data_request loads (http k) = Inr (fst v) \<and> (k, snd v) \<in> set completed"
    using register_responses_puts unfolding fold by blast
  have "int (length c') \<le> max 1 m"
  proof (cases kvs rule: rev_cases)
    case Nil
    then show ?thesis using kvs assms(2) by simp
  next
    case (snoc ys y)
    then show ?thesis using length_register by (simp add: kvs(1) split: prod.splits)
  qed
  moreover have "cache_ok c'" unfolding kvs(1) by (rule config_cache.invar_puts [OF assms(1)])
  moreover have "map_of c i = Some (x, ts)
          \<or> make_root_config_data_request loads (http i) = Inr x \<and> (i, ts) \<in> set completed"
    if "map_of c' i = Some (x, ts)" for i x ts
    using config_cache.look_puts [OF assms(1) that [unfolded kvs(1)]] kvs(2) by auto
  ultimately show ?thesis by blast
qed

theorem cache_stays_sound_witness:
  "cache_ok [(5, None, Fin 1)] \<and> int (length [(5::int, None :: root_config_data option, Fin 1)]) \<le> max 1 1
   \<and> cache_ok (snd (get_root_config_data_dict 1 (\<lambda>_. None) (\<lambda>_. Inr ([], 404)) [6] (Fin 0) (Fin 2) [(6, Fin 3)]
        [(5, None, Fin 1)]))"
  using cache_stays_sound [of "[(5, None, Fin 1)]" 1, OF _ _ refl] by (simp add: cache_ok_def)

text \<open>
  A registered value is found again until it is older than the cutoff, so no second request is made;
  and the cache evicts in the order of first insertion: refreshing an entry does not move it to the end, and
  neither does a lookup (it is not a least-recently-used cache).
\<close>

theorem cache_register_then_lookup:
  "lookup_root_config_data i cutoff_ts (register_root_config_data m i x now c)
     = (if flt now cutoff_ts then Inl KeyError else Inr x)
   \<and> map fst (register_root_config_data m i x now c)
     = (let kept = drop (length c - nat (m - 1)) (map fst c) in if i \<in> set kept then kept else kept @ [i])"
  by (simp add: lookup_root_config_data_def register_root_config_data_def map_of_dict_put keys_dict_put
      evict_drop drop_map)

end
