(* ===== verification/DueInterest.thy ===== *)
theory DueInterest
  imports Balance
begin

text \<open>
  \<open>Account.calc_due_interest\<close> of \<open>swpt_accounts/models.py\<close> splits the time that an amount has
  been due at the last change of the interest rate.  The two parts are rounded separately,
  so they need not add up exactly; the function asserts that they do up to a thousandth.
  The lemmas bound the rounding errors and show that no assertion can fail.
\<close>

section \<open>The error of one rounding\<close>

lemma round53_error: "\<bar>round53 x - x\<bar> \<le> \<bar>x\<bar> / 10 ^ 10 + 1 / 10 ^ 20"
proof (cases "x = 0")
  case False
  let ?e = "round_exp 2 53 (- 1074) x"
  have err: "\<bar>round53 x - x\<bar> \<le> 2 powi ?e / 2"
    using round_to_error [of 2 53 "- 1074" x] by (simp add: round53_def)
  have lead: "2 powi ilog 2 \<bar>x\<bar> \<le> \<bar>x\<bar>" using ilog_bounds [of "\<bar>x\<bar>" 2] False by simp
  have "(2::rat) powi ?e \<le> 2 powi (- 70) + 2 powi (ilog 2 \<bar>x\<bar> - 52)"
  proof (cases "ilog 2 \<bar>x\<bar> - 52 \<le> - 1074")
    case True
    then have "?e = - 1074" by (simp add: round_exp_def)
    then have "(2::rat) powi ?e \<le> 2 powi (- 70)" by (simp only:) (rule power_int_increasing; simp)
    moreover have "(0::rat) \<le> 2 powi (ilog 2 \<bar>x\<bar> - 52)" by simp
    ultimately show ?thesis by linarith
  next
    case False
    then have e: "?e = ilog 2 \<bar>x\<bar> - 52" by (simp add: round_exp_def)
    have "(0::rat) \<le> 2 powi (- 70)" by (rule zero_le_power_int) simp
    then show ?thesis unfolding e by linarith
  qed
  also have "(2::rat) powi (ilog 2 \<bar>x\<bar> - 52) = 2 powi ilog 2 \<bar>x\<bar> / 2 ^ 52"
    by (simp add: power_int_diff)
  also have "\<dots> \<le> \<bar>x\<bar> / 2 ^ 52" using lead by (intro divide_right_mono) auto
  also have "(2::rat) powi (- 70) = 1 / 2 ^ 70" unfolding power_int_minus power_int_numeral by (simp only: divide_inverse)
  finally have "2 powi ?e \<le> 1 / 2 ^ 70 + \<bar>x\<bar> / 2 ^ 52" by simp
  then have "2 powi ?e / 2 \<le> (1 / 2 ^ 70 + \<bar>x\<bar> / 2 ^ 52) / 2" by (rule divide_right_mono) simp
  with err have "\<bar>round53 x - x\<bar> \<le> (1 / 2 ^ 70 + \<bar>x\<bar> / 2 ^ 52) / 2" by (rule order_trans)
  also have "\<dots> \<le> \<bar>x\<bar> / 10 ^ 10 + 1 / 10 ^ 20"
  proof -
    have "\<bar>x\<bar> * (1 / 2 ^ 53) \<le> \<bar>x\<bar> * (1 / 10 ^ 10)" by (rule mult_left_mono) simp_all
    then show ?thesis by simp
  qed
  finally show ?thesis .
qed simp

lemma round53_close:
  assumes "1 / 10 ^ 7 \<le> \<bar>x\<bar> \<or> x = 0"
  shows "\<bar>round53 x - x\<bar> \<le> \<bar>x\<bar> / 10000"
  using assms round53_error [of x] by auto

section \<open>Durations in seconds\<close>

definition secs :: "int \<Rightarrow> rat" where
  "secs td = round53 (of_int td / 10 ^ 6)"

lemma total_seconds_secs:
  assumes "\<bar>td\<bar> \<le> 2 ^ 100"
  shows "total_seconds td = Fin (secs td)"
proof -
  have "\<bar>of_int td / 10 ^ 6 :: rat\<bar> \<le> \<bar>of_int td\<bar>" by (simp add: field_simps)
  also have "\<dots> \<le> of_int (2 ^ 100)" using assms by (simp only: of_int_abs [symmetric] of_int_le_iff)
  finally have "\<bar>of_int td / 10 ^ 6 :: rat\<bar> \<le> 2 ^ 100" by simp
  then show ?thesis unfolding total_seconds_def int_truediv_def secs_def using rnd64_small by simp
qed

lemma secs_mono: "s \<le> t \<Longrightarrow> secs s \<le> secs t"
  unfolding secs_def by (intro round53_mono divide_right_mono) auto

lemma secs_0 [simp]: "secs 0 = 0"
  by (simp add: secs_def)

lemma round53_idem: "round53 (round53 x) = round53 x"
proof (cases "x = 0")
  case False
  let ?e = "round_exp 2 53 (- 1074) x"
  let ?m = "round_half_even (x / 2 powi ?e)"
  have eq: "round53 x = of_int ?m * 2 powi ?e" using False by (simp add: round53_def round_to_def Let_def)
  have le: "\<bar>?m\<bar> \<le> 2 ^ 53"
  proof -
    have "\<bar>x\<bar> < 2 powi (ilog 2 \<bar>x\<bar> + 1)" using ilog_bounds [of "\<bar>x\<bar>" 2] False by simp
    also have "\<dots> \<le> 2 powi (?e + 53)" by (rule power_int_increasing) (auto simp: round_exp_def)
    also have "\<dots> = 2 powi ?e * 2 ^ 53" by (simp add: power_int_add)
    finally have "\<bar>x / 2 powi ?e\<bar> \<le> of_int (2 ^ 53)"
      by (simp add: abs_divide divide_le_eq mult.commute)
    then have "x / 2 powi ?e \<le> of_int (2 ^ 53)" "of_int (- (2 ^ 53)) \<le> x / 2 powi ?e" by linarith+
    from this [THEN round_half_even_mono] show ?thesis unfolding round_half_even_of_int by linarith
  qed
  have emin: "- 1074 \<le> ?e" by (simp add: round_exp_def)
  show ?thesis
  proof (cases "\<bar>?m\<bar> = 2 ^ 53")
    case True
    then have "?m = 2 ^ 53 \<or> ?m = - (2 ^ 53)" by linarith
    moreover have "round53 (2 powi (?e + 53)) = 2 powi (?e + 53)" using emin by (intro round53_powi) simp
    moreover have "(2 :: rat) powi (?e + 53) = 2 ^ 53 * 2 powi ?e" by (simp add: power_int_add mult.commute)
    ultimately show ?thesis unfolding eq by (auto simp: round53_minus)
  next
    case False
    then have "\<bar>?m\<bar> < 2 ^ 53" using le by linarith
    then have "(of_int \<bar>?m\<bar> :: rat) < of_int (2 ^ 53)" by (simp only: of_int_less_iff)
    then have "\<bar>of_int ?m\<bar> < (of_nat 2 :: rat) ^ 53" by simp
    from round_to_exact [OF _ emin this] have "round53 (of_int ?m * 2 powi ?e) = of_int ?m * 2 powi ?e"
      by (simp add: round53_def)
    then show ?thesis by (simp only: eq)
  qed
qed simp

lemma secs_fixed: "round53 (secs t) = secs t"
  by (simp add: secs_def round53_idem)

lemma round53_abs_le: "\<bar>x\<bar> \<le> 300 \<Longrightarrow> \<bar>round53 x\<bar> \<le> 300"
  using round53_mono [of x 300] round53_mono [of "- 300" x] round53_minus [of 300] round53_of_int [of 300]
  by (simp add: abs_le_iff)

lemma secs_nonneg: "0 \<le> t \<Longrightarrow> 0 \<le> secs t"
  using secs_mono [of 0 t] by simp

lemma secs_close:
  assumes "0 \<le> t"
  shows "\<bar>secs t - of_int t / 10 ^ 6\<bar> \<le> of_int t / 10 ^ 10"
proof -
  have "t = 0 \<or> 1 \<le> t" using assms by linarith
  then have "1 / 10 ^ 7 \<le> \<bar>of_int t / 10 ^ 6 :: rat\<bar> \<or> of_int t / 10 ^ 6 = (0::rat)" by auto
  from round53_close [OF this] show ?thesis using assms by (simp add: secs_def)
qed

lemma secs_large: "1 \<le> t \<Longrightarrow> 1 / 10 ^ 7 \<le> secs t"
proof -
  assume t: "1 \<le> t"
  then have "(1::rat) \<le> of_int t" by simp
  moreover have "\<bar>secs t - of_int t / 1000000\<bar> \<le> of_int t / 10000000000" using secs_close [of t] t by simp
  ultimately have "1 / 10000000 \<le> secs t" by linarith
  then show ?thesis by simp
qed

lemma secs_whole: "\<bar>n\<bar> < 2 ^ 53 \<Longrightarrow> secs (n * 10 ^ 6) = of_int n"
  by (simp add: secs_def)

section \<open>The two parts of a duration\<close>

lemma rounded_sum:
  fixes p q s r A B :: rat
  assumes "\<bar>r - (p + q)\<bar> \<le> (p + q) / 10000" and "\<bar>p - A / 1000000\<bar> \<le> A / 10000000000"
    and "\<bar>q - B / 1000000\<bar> \<le> B / 10000000000"
    and "\<bar>s - (A + B) / 1000000\<bar> \<le> (A + B) / 10000000000" and "0 \<le> A" "0 \<le> B"
  shows "\<bar>r - s\<bar> \<le> s / 1000"
proof -
  define X where "X = (A + B) / 1000000"
  have pq: "p + q \<le> X + X / 10000" and s: "X - X / 10000 \<le> s" "s \<le> X + X / 10000"
    and pq': "X - X / 10000 \<le> p + q" and X: "0 \<le> X"
    using assms(2-4) [THEN abs_le_D1] assms(2-4) [THEN abs_le_D2] assms(5,6)
    by (simp_all add: X_def field_simps)
  have "r - (p + q) \<le> (p + q) / 10000" "(p + q) - r \<le> (p + q) / 10000"
    using abs_le_D1 [OF assms(1)] abs_le_D2 [OF assms(1)] by simp_all
  with pq pq' s X have "r - s \<le> s / 1000" "- (r - s) \<le> s / 1000" by simp_all
  then show ?thesis by (rule abs_leI)
qed

lemma secs_split:
  assumes "0 \<le> a" and "0 \<le> b"
  shows "\<bar>round53 (secs a + secs b) - secs (a + b)\<bar> \<le> secs (a + b) / 1000"
proof (cases "a = 0 \<and> b = 0")
  case False
  then have "1 \<le> a \<or> 1 \<le> b" using assms by linarith
  then have "1 / 10 ^ 7 \<le> secs a + secs b"
    using secs_large [of a] secs_large [of b] secs_nonneg [OF assms(1)] secs_nonneg [OF assms(2)] by linarith
  then have "\<bar>secs a + secs b\<bar> = secs a + secs b" and "1 / 10 ^ 7 \<le> \<bar>secs a + secs b\<bar>"
    using secs_nonneg [OF assms(1)] secs_nonneg [OF assms(2)] by simp_all
  then have 1: "\<bar>round53 (secs a + secs b) - (secs a + secs b)\<bar> \<le> (secs a + secs b) / 10000"
    using round53_close [of "secs a + secs b"] by simp
  have 2: "\<bar>secs a - of_int a / 1000000\<bar> \<le> of_int a / 10000000000"
    "\<bar>secs b - of_int b / 1000000\<bar> \<le> of_int b / 10000000000"
    "\<bar>secs (a + b) - (of_int a + of_int b) / 1000000\<bar> \<le> (of_int a + of_int b) / 10000000000"
    using secs_close [OF assms(1)] secs_close [OF assms(2)] secs_close [of "a + b"] assms by simp_all
  have 3: "(0::rat) \<le> of_int a" "(0::rat) \<le> of_int b" using assms by simp_all
  show ?thesis by (rule rounded_sum [OF 1 2 3])
qed simp

section \<open>No assertion fails\<close>

text \<open>The two parts, as the function computes them from integer differences of time stamps.\<close>

lemma due_parts:
  assumes a: "a + b = t" "0 \<le> b" "0 \<le> t" and small: "\<bar>a\<bar> \<le> 2 ^ 100" "t \<le> 2 ^ 100"
  obtains x y where "pymax (total_seconds a) (Fin 0) = Fin x" "pymin (total_seconds b) (total_seconds t) = Fin y"
    "0 \<le> x" "x \<le> secs t" "0 \<le> y" "y \<le> secs t" "\<bar>round53 (x + y) - secs t\<bar> \<le> secs t / 1000"
proof (cases "0 \<le> a")
  case True
  then have le: "a \<le> t" "b \<le> t" using a by linarith+
  have ts: "total_seconds a = Fin (secs a)" "total_seconds b = Fin (secs b)" "total_seconds t = Fin (secs t)"
    using True a le small by (auto intro!: total_seconds_secs)
  have "secs a \<le> secs t" "secs b \<le> secs t" "0 \<le> secs a" "0 \<le> secs b"
    using le True a secs_mono secs_nonneg by simp_all
  then show thesis
    using secs_split [OF True a(2)] ts a(1) by (intro that [of "secs a" "secs b"]) (auto simp: pymax_def pymin_def)
next
  case False
  then have le: "t \<le> b" "\<bar>b\<bar> \<le> 2 ^ 100 + 2 ^ 100" using a small by linarith+
  have ts: "total_seconds a = Fin (secs a)" "total_seconds t = Fin (secs t)"
    using a small by (auto intro!: total_seconds_secs)
  have neg: "secs a \<le> 0" using False secs_mono [of a 0] by simp
  have "fle (total_seconds t) (total_seconds b)" using le(1) by (rule total_seconds_mono)
  then have min: "pymin (total_seconds b) (total_seconds t) = Fin (secs t)"
    unfolding ts by (cases "total_seconds b") (auto simp: pymin_def flt_def)
  have max: "pymax (total_seconds a) (Fin 0) = Fin 0" using neg by (auto simp: pymax_def ts)
  have fixed: "round53 (secs t) = secs t" by (rule secs_fixed)
  show thesis
    using secs_nonneg [OF a(3)] by (intro that [OF max min]) (simp_all add: fixed)
qed

text \<open>The last assertion: the parts add up to the whole but for rounding.\<close>

lemma rounded_parts_close:
  assumes t: "0 \<le> t" "total_seconds t = Fin (secs t)" "secs t \<le> 5 * 10 ^ 9"
    and xy: "0 \<le> x" "x \<le> secs t" "0 \<le> y" "y \<le> secs t" "\<bar>round53 (x + y) - secs t\<bar> \<le> secs t / 1000"
  shows "fle (fabs (fsub (fadd (Fin x) (Fin y)) (total_seconds t))) (fdiv_const (total_seconds t) 1000)"
proof -
  have f1: "fadd (Fin x) (Fin y) = Fin (round53 (x + y))"
    using xy t(3) by (auto intro!: rnd64_small)
  have d: "\<bar>round53 (x + y) - secs t\<bar> \<le> 10 ^ 10"
    using xy(5) t(3) by simp
  have f2: "fsub (Fin (round53 (x + y))) (Fin (secs t)) = Fin (round53 (round53 (x + y) - secs t))"
    using d by (auto simp: fsub_def intro!: rnd64_small)
  have f3: "fdiv_const (Fin (secs t)) 1000 = Fin (round53 (secs t / 1000))"
    using t(3) secs_nonneg [OF t(1)] by (auto intro!: rnd64_small)
  have "round53 (x + y) - secs t \<le> secs t / 1000" "- (secs t / 1000) \<le> round53 (x + y) - secs t"
    using xy(5) by (simp_all only: abs_le_iff) linarith+
  from this [THEN round53_mono] have "\<bar>round53 (round53 (x + y) - secs t)\<bar> \<le> round53 (secs t / 1000)"
    by (simp add: abs_le_iff round53_minus)
  then show ?thesis unfolding t(2) f1 f2 f3 fabs_def by auto
qed

lemma calc_due_interest_total:
  assumes M: "libm_ok M" and rates: "valid_rate (acc_previous_interest_rate a)" "valid_rate (acc_interest_rate a)"
    and now: "\<bar>now - due\<bar> \<le> 5 * 10 ^ 15" and chg: "\<bar>acc_last_interest_rate_change_ts a - due\<bar> \<le> 2 ^ 99"
  shows "\<exists>v. calc_due_interest M a amount due now = Inr v"
proof -
  define t where "t = max due now - due"
  define c where "c = min (acc_last_interest_rate_change_ts a) (max due now)"
  have t: "0 \<le> t" "t \<le> 5 * 10 ^ 15" using now by (auto simp: t_def)
  have "(c - due) + (max due now - c) = t" by (simp add: t_def)
  moreover have "0 \<le> max due now - c" by (simp add: c_def)
  moreover have "\<bar>c - due\<bar> \<le> 2 ^ 100" "t \<le> 2 ^ 100" using t chg now by (auto simp: c_def)
  ultimately obtain x y where parts:
    "pymax (total_seconds (c - due)) (Fin 0) = Fin x"
    "pymin (total_seconds (max due now - c)) (total_seconds t) = Fin y"
    "0 \<le> x" "x \<le> secs t" "0 \<le> y" "y \<le> secs t" "\<bar>round53 (x + y) - secs t\<bar> \<le> secs t / 1000"
    using due_parts t(1) by blast
  have ts: "total_seconds t = Fin (secs t)" using t by (intro total_seconds_secs) simp
  have big: "secs t \<le> 5 * 10 ^ 9"
  proof -
    have "secs t \<le> secs (5 * 10 ^ 9 * 10 ^ 6)" using t by (intro secs_mono) simp
    also have "\<dots> = of_int (5 * 10 ^ 9)" by (rule secs_whole) simp
    finally show ?thesis by simp
  qed
  obtain k1 where k1: "calc_k M (acc_previous_interest_rate a) = Inr (Fin k1)" "\<bar>k1\<bar> \<le> max_k"
    using calc_k_valid [OF M rates(1)] by blast
  obtain k2 where k2: "calc_k M (acc_interest_rate a) = Inr (Fin k2)" "\<bar>k2\<bar> \<le> max_k"
    using calc_k_valid [OF M rates(2)] by blast
  have growth: "\<bar>k * z\<bar> \<le> 300" if "\<bar>k\<bar> \<le> max_k" "0 \<le> z" "z \<le> secs t" for k z :: rat
  proof -
    have "\<bar>k\<bar> * z \<le> max_k * (5 * 10 ^ 9)" using that big max_k_bounds(1) by (intro mult_mono) auto
    then show ?thesis using that(2) by (simp add: abs_mult max_k_value)
  qed
  have p1: "\<bar>k1 * x\<bar> \<le> 300" and p2: "\<bar>k2 * y\<bar> \<le> 300" using growth k1(2) k2(2) parts by auto
  have r1: "\<bar>round53 (k1 * x)\<bar> \<le> 300" and r2: "\<bar>round53 (k2 * y)\<bar> \<le> 300"
    using p1 p2 round53_abs_le by simp_all
  have m1: "fmul (Fin k1) (Fin x) = Fin (round53 (k1 * x))" "fmul (Fin k2) (Fin y) = Fin (round53 (k2 * y))"
    using p1 p2 by (auto intro!: rnd64_small)
  have sum: "fadd (Fin (round53 (k1 * x))) (Fin (round53 (k2 * y))) = Fin (round53 (round53 (k1 * x) + round53 (k2 * y)))"
    using r1 r2 by (auto intro!: rnd64_small)
  have "round53 (round53 (k1 * x) + round53 (k2 * y)) \<le> 700"
    using round53_mono [of "round53 (k1 * x) + round53 (k2 * y)" 700] round53_of_int [of 700] r1 r2 by simp
  then obtain e where e: "m_exp M (round53 (round53 (k1 * x) + round53 (k2 * y))) = Some e"
    using libm_okD(3) [OF M] by blast
  have a1: "fle (Fin 0) (total_seconds t)" using secs_nonneg [OF t(1)] by (simp add: ts)
  note a2 = rounded_parts_close [OF t(1) ts big parts(3-7)]
  show ?thesis
    unfolding calc_due_interest_def Let_def c_def [symmetric] t_def [symmetric] parts(1,2) k1(1) k2(1)
    using a1 a2 parts(3-6) ts e by (simp add: m1 sum assertR_def del: fmul.simps fadd.simps)
qed

end
