(* ===== verification/Config.thy ===== *)
theory Config
  imports FetchApi DueInterest
begin

text \<open>
  The settings of \<open>swpt_accounts/__init__.py\<close>: the numeric configuration variables with their
  defaults, the sanity check that the application factory makes, and how Python turns a
  floating-point number of days into a \<open>timedelta\<close>.  The connection strings and pool sizes, which only
  the libraries read, are left out.
\<close>

section \<open>Durations\<close>

text \<open>A \<open>timedelta\<close> has less than a billion days.\<close>

definition mk_timedelta :: "int \<Rightarrow> timedelta result" where
  "mk_timedelta td =
     (if - 999999999 * microseconds_per_day \<le> td \<and> td < 1000000000 * microseconds_per_day
      then Inr td else Inl OverflowError)"

definition int_trunc :: "rat \<Rightarrow> int" where
  "int_trunc x = (if 0 \<le> x then \<lfloor>x\<rfloor> else \<lceil>x\<rceil>)"

text \<open>
  \<open>timedelta(days=x)\<close>: the whole days are exact, the fraction of a day is multiplied in double
  precision, and the sum is rounded half-even to a microsecond.
\<close>

fun timedelta_days :: "pyfloat \<Rightarrow> timedelta result" where
  "timedelta_days (Fin x) =
     (let whole_days = int_trunc x;
          fraction_us = round53 ((x - of_int whole_days) * of_int microseconds_per_day);
          whole_us = whole_days * microseconds_per_day + int_trunc fraction_us
      in mk_timedelta (round_half_even (of_int whole_us + (fraction_us - of_int (int_trunc fraction_us)))))"
| "timedelta_days NaN = Inl ValueError"
| "timedelta_days _ = Inl OverflowError"

definition datetime_sub :: "datetime \<Rightarrow> timedelta \<Rightarrow> datetime result" where
  "datetime_sub ts td = datetime_add ts (- td)"

lemma datetime_sub_eq_Inr [monad_simps]:
  "datetime_sub ts td = Inr r \<longleftrightarrow> r = ts - td \<and> DATETIME_MIN \<le> r \<and> r \<le> DATETIME_MAX"
  by (auto simp: datetime_sub_def datetime_add_def)

lemma int_trunc_of_int [simp]: "int_trunc (of_int n) = n"
  by (simp add: int_trunc_def)

lemma timedelta_days_whole:
  assumes "\<bar>n\<bar> < 999999999"
  shows "timedelta_days (Fin (of_int n)) = Inr (n * microseconds_per_day)"
  using assms int_trunc_of_int [of 0]
  by (simp add: Let_def mk_timedelta_def microseconds_per_day_def)
    (use round_half_even_of_int [of "n * 86400000000"] in \<open>simp; linarith\<close>)

section \<open>Settings\<close>

record app_config =
  APP_PROCESS_BALANCE_CHANGES_THREADS :: int
  APP_PROCESS_BALANCE_CHANGES_WAIT :: pyfloat
  APP_PROCESS_BALANCE_CHANGES_MAX_COUNT :: int
  APP_PROCESS_TRANSFER_REQUESTS_THREADS :: int
  APP_PROCESS_TRANSFER_REQUESTS_WAIT :: pyfloat
  APP_PROCESS_TRANSFER_REQUESTS_MAX_COUNT :: int
  APP_PROCESS_FINALIZATION_REQUESTS_THREADS :: int
  APP_PROCESS_FINALIZATION_REQUESTS_WAIT :: pyfloat
  APP_PROCESS_FINALIZATION_REQUESTS_MAX_COUNT :: int
  APP_FLUSH_REJECTED_TRANSFERS_BURST_COUNT :: int
  APP_FLUSH_PREPARED_TRANSFERS_BURST_COUNT :: int
  APP_FLUSH_FINALIZED_TRANSFERS_BURST_COUNT :: int
  APP_FLUSH_ACCOUNT_TRANSFERS_BURST_COUNT :: int
  APP_FLUSH_ACCOUNT_UPDATES_BURST_COUNT :: int
  APP_FLUSH_ACCOUNT_PURGES_BURST_COUNT :: int
  APP_FLUSH_REJECTED_CONFIGS_BURST_COUNT :: int
  APP_FLUSH_PENDING_BALANCE_CHANGES_BURST_COUNT :: int
  APP_ACCOUNTS_SCAN_HOURS :: pyfloat
  APP_PREPARED_TRANSFERS_SCAN_DAYS :: pyfloat
  APP_REGISTERED_BALANCE_CHANGES_SCAN_DAYS :: pyfloat
  APP_INTRANET_EXTREME_DELAY_DAYS :: pyfloat
  APP_SIGNALBUS_MAX_DELAY_DAYS :: pyfloat
  APP_ACCOUNT_HEARTBEAT_DAYS :: pyfloat
  APP_PREPARED_TRANSFER_REMAINDER_DAYS :: pyfloat
  APP_PREPARED_TRANSFER_MAX_DELAY_DAYS :: pyfloat
  APP_FETCH_API_TIMEOUT_SECONDS :: pyfloat
  APP_FETCH_DNS_CACHE_SECONDS :: pyfloat
  APP_FETCH_CONNECTIONS :: int
  APP_FETCH_DATA_CACHE_SIZE :: int
  APP_MIN_INTEREST_CAPITALIZATION_DAYS :: pyfloat
  APP_MAX_INTEREST_TO_PRINCIPAL_RATIO :: pyfloat
  APP_DELETION_ATTEMPTS_MIN_DAYS :: pyfloat
  APP_ACCOUNTS_SCAN_BLOCKS_PER_QUERY :: int
  APP_ACCOUNTS_SCAN_BEAT_MILLISECS :: int
  APP_PREPARED_TRANSFERS_SCAN_BLOCKS_PER_QUERY :: int
  APP_PREPARED_TRANSFERS_SCAN_BEAT_MILLISECS :: int
  APP_REGISTERED_BALANCE_CHANGES_SCAN_BLOCKS_PER_QUERY :: int
  APP_REGISTERED_BALANCE_CHANGES_SCAN_BEAT_MILLISECS :: int
  APP_REGISTERED_BALANCE_CHANGES_RETENTION_DATETIME :: datetime

text \<open>The defaults, before environment variables override them.\<close>

definition Configuration :: app_config where
  "Configuration =
     \<lparr>APP_PROCESS_BALANCE_CHANGES_THREADS = 1,
      APP_PROCESS_BALANCE_CHANGES_WAIT = Fin 5,
      APP_PROCESS_BALANCE_CHANGES_MAX_COUNT = 500000,
      APP_PROCESS_TRANSFER_REQUESTS_THREADS = 1,
      APP_PROCESS_TRANSFER_REQUESTS_WAIT = Fin 5,
      APP_PROCESS_TRANSFER_REQUESTS_MAX_COUNT = 500000,
      APP_PROCESS_FINALIZATION_REQUESTS_THREADS = 1,
      APP_PROCESS_FINALIZATION_REQUESTS_WAIT = Fin 5,
      APP_PROCESS_FINALIZATION_REQUESTS_MAX_COUNT = 500000,
      APP_FLUSH_REJECTED_TRANSFERS_BURST_COUNT = 10000,
      APP_FLUSH_PREPARED_TRANSFERS_BURST_COUNT = 10000,
      APP_FLUSH_FINALIZED_TRANSFERS_BURST_COUNT = 10000,
      APP_FLUSH_ACCOUNT_TRANSFERS_BURST_COUNT = 10000,
      APP_FLUSH_ACCOUNT_UPDATES_BURST_COUNT = 10000,
      APP_FLUSH_ACCOUNT_PURGES_BURST_COUNT = 10000,
      APP_FLUSH_REJECTED_CONFIGS_BURST_COUNT = 10000,
      APP_FLUSH_PENDING_BALANCE_CHANGES_BURST_COUNT = 10000,
      APP_ACCOUNTS_SCAN_HOURS = Fin 8,
      APP_PREPARED_TRANSFERS_SCAN_DAYS = Fin 1,
      APP_REGISTERED_BALANCE_CHANGES_SCAN_DAYS = Fin 7,
      APP_INTRANET_EXTREME_DELAY_DAYS = Fin 14,
      APP_SIGNALBUS_MAX_DELAY_DAYS = Fin 7,
      APP_ACCOUNT_HEARTBEAT_DAYS = Fin 7,
      APP_PREPARED_TRANSFER_REMAINDER_DAYS = Fin 7,
      APP_PREPARED_TRANSFER_MAX_DELAY_DAYS = Fin 30,
      APP_FETCH_API_TIMEOUT_SECONDS = Fin 5,
      APP_FETCH_DNS_CACHE_SECONDS = Fin 10,
      APP_FETCH_CONNECTIONS = 100,
      APP_FETCH_DATA_CACHE_SIZE = 1000,
      APP_MIN_INTEREST_CAPITALIZATION_DAYS = Fin 14,
      APP_MAX_INTEREST_TO_PRINCIPAL_RATIO = rnd64 (1 / 10000),
      APP_DELETION_ATTEMPTS_MIN_DAYS = Fin 14,
      APP_ACCOUNTS_SCAN_BLOCKS_PER_QUERY = 40,
      APP_ACCOUNTS_SCAN_BEAT_MILLISECS = 25,
      APP_PREPARED_TRANSFERS_SCAN_BLOCKS_PER_QUERY = 40,
      APP_PREPARED_TRANSFERS_SCAN_BEAT_MILLISECS = 25,
      APP_REGISTERED_BALANCE_CHANGES_SCAN_BLOCKS_PER_QUERY = 40,
      APP_REGISTERED_BALANCE_CHANGES_SCAN_BEAT_MILLISECS = 25,
      APP_REGISTERED_BALANCE_CHANGES_RETENTION_DATETIME = T0\<rparr>"

text \<open>\<open>now\<close> is the clock when the application is created.\<close>

definition check_config_sanity :: "datetime \<Rightarrow> app_config \<Rightarrow> unit result" where
  "check_config_sanity now c =
     (if flt (APP_PREPARED_TRANSFER_MAX_DELAY_DAYS c) (APP_SIGNALBUS_MAX_DELAY_DAYS c)
      then Inl RuntimeError
      else if \<not> (flt (Fin 0) (APP_MAX_INTEREST_TO_PRINCIPAL_RATIO c)
                 \<and> fle (APP_MAX_INTEREST_TO_PRINCIPAL_RATIO c) (rnd64 (1 / 10)))
      then Inl RuntimeError
      else if flt (Fin 92) (APP_MIN_INTEREST_CAPITALIZATION_DAYS c) then Inl RuntimeError
      else if flt (Fin 48) (APP_ACCOUNTS_SCAN_HOURS c) then Inl RuntimeError
      else
        bindR (timedelta_days (APP_INTRANET_EXTREME_DELAY_DAYS c)) (\<lambda>extreme_delay.
        bindR (datetime_sub now extreme_delay) (\<lambda>latest.
        if latest < APP_REGISTERED_BALANCE_CHANGES_RETENTION_DATETIME c then Inl RuntimeError else Inr ())))"

text \<open>The delay of the signal bus in seconds, as the actors and chores compute it.\<close>

definition signalbus_max_delay_seconds :: "app_config \<Rightarrow> pyfloat" where
  "signalbus_max_delay_seconds c = fmul (APP_SIGNALBUS_MAX_DELAY_DAYS c) (float_of_int SECONDS_IN_DAY)"

section \<open>The defaults are sane\<close>

lemma default_ratio: "0 < round53 (1 / 10000)" "round53 (1 / 10000) \<le> round53 (1 / 10)"
proof -
  show "0 < round53 (1 / 10000)" using abs_le_D2 [OF round53_error [of "1 / 10000"]] by simp
  show "round53 (1 / 10000) \<le> round53 (1 / 10)" by (simp add: round53_mono)
qed

lemma default_ratio_float [simp]:
  "rnd64 (1 / 10000) = Fin (round53 (1 / 10000))" "rnd64 (1 / 10) = Fin (round53 (1 / 10))"
  using moderate_ge [of 1] by (simp_all add: rnd64_moderate)

lemma default_configuration_sane:
  assumes "14 * microseconds_per_day \<le> now" and "now \<le> DATETIME_MAX"
  shows "check_config_sanity now Configuration = Inr ()"
proof -
  have "timedelta_days (Fin 14) = Inr (14 * microseconds_per_day)" using timedelta_days_whole [of 14] by simp
  then show ?thesis
    using assms default_ratio
    by (simp add: check_config_sanity_def Configuration_def datetime_sub_def datetime_add_def T0_def DATETIME_MIN_def
        microseconds_per_day_def)
qed

text \<open>Settings that pass the check.\<close>

lemma sane_config:
  assumes "check_config_sanity now c = Inr u"
  shows "flt (Fin 0) (APP_MAX_INTEREST_TO_PRINCIPAL_RATIO c)"
    "\<not> flt (APP_PREPARED_TRANSFER_MAX_DELAY_DAYS c) (APP_SIGNALBUS_MAX_DELAY_DAYS c)"
    "\<exists>delay. timedelta_days (APP_INTRANET_EXTREME_DELAY_DAYS c) = Inr delay
       \<and> APP_REGISTERED_BALANCE_CHANGES_RETENTION_DATETIME c \<le> now - delay"
  using assms by (auto simp: check_config_sanity_def monad_simps split: if_splits)

end
