(* ===== verification/IsoTime.thy ===== *)
theory IsoTime
  imports Prelude
begin

text \<open>
  The part of Python's \<open>datetime\<close> module by which time stamps travel in messages: \<open>isoformat\<close> of a time in
  UTC, and \<open>fromisoformat\<close> as Python 3.7 parses it (from the UTF-8 bytes of the string, with any character
  as the separator, fractions of three or six digits, and an optional offset), with the calendar arithmetic
  between them.  The main result is that the parser reads back what \<open>isoformat\<close> writes.
\<close>

section \<open>UTF-8\<close>

definition is_surrogate :: "nat \<Rightarrow> bool" where
  "is_surrogate c \<longleftrightarrow> 55296 \<le> c \<and> c < 57344"

definition utf8_char :: "nat \<Rightarrow> nat list" where
  "utf8_char c =
     (if c < 128 then [c]
      else if c < 2048 then [192 + c div 64, 128 + c mod 64]
      else if c < 65536 then [224 + c div 4096, 128 + c div 64 mod 64, 128 + c mod 64]
      else [240 + c div 262144, 128 + c div 4096 mod 64, 128 + c div 64 mod 64, 128 + c mod 64])"

text \<open>\<open>str.encode('utf8')\<close>; a \<open>UnicodeEncodeError\<close> is a \<open>ValueError\<close>.\<close>

definition encode_utf8 :: "pystr \<Rightarrow> nat list result" where
  "encode_utf8 s = (if \<exists>c \<in> set s. is_surrogate c then Inl ValueError else Inr (concat (map utf8_char s)))"

lemma encode_utf8_ascii: "isascii s \<Longrightarrow> encode_utf8 s = Inr s"
proof -
  assume "isascii s"
  then have "concat (map utf8_char s) = s" by (induction s) (auto simp: isascii_def utf8_char_def)
  then show ?thesis using \<open>isascii s\<close> by (auto simp: encode_utf8_def isascii_def is_surrogate_def)
qed

lemma encode_utf8_length:
  assumes "encode_utf8 s = Inr b"
  shows "length s \<le> length b" "length b \<le> 4 * length s"
proof -
  have b: "b = concat (map utf8_char s)" using assms by (simp add: encode_utf8_def split: if_splits)
  have len: "1 \<le> length (utf8_char c)" "length (utf8_char c) \<le> 4" for c by (simp_all add: utf8_char_def)
  show "length s \<le> length b" unfolding b
  proof (induction s)
    case (Cons c s)
    then show ?case using len(1) [of c] by simp
  qed simp
  show "length b \<le> 4 * length s" unfolding b
  proof (induction s)
    case (Cons c s)
    then show ?case using len(2) [of c] by simp
  qed simp
qed

section \<open>The calendar\<close>

definition is_leap :: "int \<Rightarrow> bool" where
  "is_leap year \<longleftrightarrow> year mod 4 = 0 \<and> (year mod 100 \<noteq> 0 \<or> year mod 400 = 0)"

definition month_lengths :: "bool \<Rightarrow> int list" where
  "month_lengths leap = [31, if leap then 29 else 28, 31, 30, 31, 30, 31, 31, 30, 31, 30, 31]"

definition days_before_year :: "int \<Rightarrow> int" where
  "days_before_year year = (let y = year - 1 in y * 365 + y div 4 - y div 100 + y div 400)"

definition days_before_month :: "bool \<Rightarrow> nat \<Rightarrow> int" where
  "days_before_month leap month = sum_list (take (month - 1) (month_lengths leap))"

text \<open>A date is the number of days since 1970-01-01, whose ordinal is 719163.\<close>

definition date_of_ymd :: "int \<Rightarrow> nat \<Rightarrow> int \<Rightarrow> date" where
  "date_of_ymd year month day =
     days_before_year year + days_before_month (is_leap year) month + day - 719163"

definition valid_ymd :: "int \<Rightarrow> nat \<Rightarrow> int \<Rightarrow> bool" where
  "valid_ymd year month day \<longleftrightarrow>
     1 \<le> year \<and> year \<le> 9999 \<and> 1 \<le> month \<and> month \<le> 12
     \<and> 1 \<le> day \<and> day \<le> month_lengths (is_leap year) ! (month - 1)"

text \<open>Month and day of the \<open>n\<close>-th day of a year, counted from 0.\<close>

fun month_day :: "nat \<Rightarrow> int list \<Rightarrow> int \<Rightarrow> nat \<times> int" where
  "month_day m [] n = (m, n + 1)"
| "month_day m (len # lens) n = (if n < len then (m, n + 1) else month_day (Suc m) lens (n - len))"

definition ymd_of_date :: "date \<Rightarrow> int \<times> nat \<times> int" where
  "ymd_of_date date =
     (let n = date + 719162;
          n400 = n div 146097; n = n mod 146097;
          n100 = n div 36524; n = n mod 36524;
          n4 = n div 1461; n = n mod 1461;
          n1 = n div 365; n = n mod 365;
          year = n400 * 400 + n100 * 100 + n4 * 4 + n1 + 1
      in if n1 = 4 \<or> n100 = 4 then (year - 1, 12, 31)
         else case month_day 1 (month_lengths (is_leap year)) n of (m, d) \<Rightarrow> (year, m, d))"

lemma month_day_spec:
  assumes "0 \<le> n" and "n < sum_list lens" and "month_day m0 lens n = (m, d)"
  shows "m0 \<le> m \<and> m < m0 + length lens \<and> 1 \<le> d \<and> d \<le> lens ! (m - m0)
    \<and> sum_list (take (m - m0) lens) + d = n + 1"
  using assms
proof (induction m0 lens n rule: month_day.induct)
  case (2 m0 len lens n)
  show ?case
  proof (cases "n < len")
    case False
    then have IH: "Suc m0 \<le> m \<and> m < Suc m0 + length lens \<and> 1 \<le> d \<and> d \<le> lens ! (m - Suc m0)
        \<and> sum_list (take (m - Suc m0) lens) + d = n - len + 1"
      using 2 by simp
    have "m - m0 = Suc (m - Suc m0)" using IH by linarith
    then show ?thesis using IH by auto
  qed (use 2 in auto)
qed simp

lemma mod_top: "0 < x \<Longrightarrow> x \<le> n \<Longrightarrow> x mod n = 0 \<longleftrightarrow> x = (n::int)"
  by (cases "x = n") auto

text \<open>Years are counted as \<open>a\<close> periods of 400 years, \<open>b\<close> centuries, \<open>c\<close> periods of 4 years and \<open>e\<close> years.\<close>

definition year_parts :: "int \<Rightarrow> int \<Rightarrow> int \<Rightarrow> int \<Rightarrow> bool" where
  "year_parts a b c e \<longleftrightarrow> 0 \<le> b \<and> b < 4 \<and> 0 \<le> c \<and> c < 25 \<and> 0 \<le> e \<and> e < 4"

lemma leap_parts:
  assumes "year_parts a b c e"
  shows "days_before_year (a * 400 + b * 100 + c * 4 + e + 1) = a * 146097 + b * 36524 + c * 1461 + e * 365"
    "is_leap (a * 400 + b * 100 + c * 4 + e + 1) \<longleftrightarrow> e = 3 \<and> (c \<noteq> 24 \<or> b = 3)"
proof -
  let ?y = "a * 400 + b * 100 + c * 4 + e"
  have b: "0 \<le> b" "b < 4" and c: "0 \<le> c" "c < 25" and e: "0 \<le> e" "e < 4"
    using assms by (simp_all add: year_parts_def)
  have y: "?y = (a * 100 + b * 25 + c) * 4 + e" "?y = (a * 4 + b) * 100 + (c * 4 + e)"
    "?y = a * 400 + (b * 100 + c * 4 + e)" by simp_all
  have "?y div 4 = a * 100 + b * 25 + c" unfolding y(1) using e by (intro int_div_pos_eq [where r = e]) auto
  moreover have "?y div 100 = a * 4 + b"
    unfolding y(2) using c e by (intro int_div_pos_eq [where r = "c * 4 + e"]) auto
  moreover have "?y div 400 = a"
    unfolding y(3) using b c e by (intro int_div_pos_eq [where r = "b * 100 + c * 4 + e"]) auto
  ultimately show "days_before_year (?y + 1) = a * 146097 + b * 36524 + c * 1461 + e * 365"
    by (simp add: days_before_year_def Let_def)
  have "(?y + 1) mod 4 = (e + 1) mod 4" unfolding y(1) by (metis add.assoc mod_mult_self3)
  then have m4: "(?y + 1) mod 4 = 0 \<longleftrightarrow> e = 3" using mod_top [of "e + 1" 4] e by auto
  have "(?y + 1) mod 100 = (c * 4 + e + 1) mod 100" unfolding y(2) by (metis add.assoc mod_mult_self3)
  moreover have "(c * 4 + e + 1) mod 100 = 0 \<longleftrightarrow> c * 4 + e + 1 = 100" using c e by (intro mod_top) linarith+
  moreover have "c * 4 + e + 1 = 100 \<longleftrightarrow> e = 3 \<and> c = 24" using c e by presburger
  ultimately have m100: "(?y + 1) mod 100 = 0 \<longleftrightarrow> e = 3 \<and> c = 24" by simp
  have "(?y + 1) mod 400 = (b * 100 + c * 4 + e + 1) mod 400" unfolding y(3) by (metis add.assoc mod_mult_self3)
  moreover have "(b * 100 + c * 4 + e + 1) mod 400 = 0 \<longleftrightarrow> b * 100 + c * 4 + e + 1 = 400"
    using b c e by (intro mod_top) linarith+
  ultimately have m400: "e = 3 \<and> c = 24 \<Longrightarrow> (?y + 1) mod 400 = 0 \<longleftrightarrow> b = 3" by auto
  show "is_leap (?y + 1) \<longleftrightarrow> e = 3 \<and> (c \<noteq> 24 \<or> b = 3)" unfolding is_leap_def using m4 m100 m400 by metis
qed

lemma month_lengths_sum: "sum_list (month_lengths leap) = (if leap then 366 else 365)" "length (month_lengths leap) = 12"
  by (simp_all add: month_lengths_def)

lemma date_of_parts:
  assumes "year_parts a b c e" and y: "y = a * 400 + b * 100 + c * 4 + e + 1" and "1 \<le> y" "y \<le> 9999"
    and "0 \<le> r" "r < (if is_leap y then 366 else 365)" and "month_day 1 (month_lengths (is_leap y)) r = (m, d)"
  shows "date_of_ymd y m d = a * 146097 + b * 36524 + c * 1461 + e * 365 + r - 719162 \<and> valid_ymd y m d"
proof -
  have "1 \<le> m \<and> m < 1 + 12 \<and> 1 \<le> d \<and> d \<le> month_lengths (is_leap y) ! (m - 1)
      \<and> sum_list (take (m - 1) (month_lengths (is_leap y))) + d = r + 1"
    using month_day_spec [OF assms(5) _ assms(7)] assms(6) by (simp add: month_lengths_sum)
  then show ?thesis using leap_parts(1) [OF assms(1)] assms(3,4)
    by (auto simp: date_of_ymd_def valid_ymd_def days_before_month_def y [symmetric])
qed

lemma ymd_of_date_parts:
  assumes "- 719162 \<le> date" and "date < 2932897" and "ymd_of_date date = (y, m, d)"
  obtains a b c e r where "year_parts a b c e" "0 \<le> a" "a \<le> 24" "y = a * 400 + b * 100 + c * 4 + e + 1"
    "date + 719162 = a * 146097 + b * 36524 + c * 1461 + e * 365 + r" "0 \<le> r" "r < (if is_leap y then 366 else 365)"
    "month_day 1 (month_lengths (is_leap y)) r = (m, d)"
proof -
  define n where "n = date + 719162"
  define a where "a = n div 146097"
  define n1 where "n1 = n mod 146097"
  define b where "b = n1 div 36524"
  define n2 where "n2 = n1 mod 36524"
  define c where "c = n2 div 1461"
  define n3 where "n3 = n2 mod 1461"
  define e where "e = n3 div 365"
  define r where "r = n3 mod 365"
  have n: "n = a * 146097 + n1" "n1 = b * 36524 + n2" "n2 = c * 1461 + n3" "n3 = e * 365 + r"
    by (simp_all add: a_def n1_def b_def n2_def c_def n3_def e_def r_def)
  have bounds: "0 \<le> n" "n < 3652059" "0 \<le> n1" "n1 < 146097" "0 \<le> n2" "n2 < 36524" "0 \<le> n3" "n3 < 1461" "0 \<le> r" "r < 365"
    using assms by (simp_all add: n_def n1_def n2_def n3_def r_def)
  have pos: "0 \<le> a" "0 \<le> b" "0 \<le> c" "0 \<le> e"
    using bounds by (simp_all add: a_def b_def c_def e_def pos_imp_zdiv_nonneg_iff)
  have res: "(y, m, d) = (if e = 4 \<or> b = 4 then (a * 400 + b * 100 + c * 4 + e, 12, 31)
      else case month_day 1 (month_lengths (is_leap (a * 400 + b * 100 + c * 4 + e + 1))) r of (m, d) \<Rightarrow>
        (a * 400 + b * 100 + c * 4 + e + 1, m, d))"
    using assms(3) [symmetric] unfolding ymd_of_date_def Let_def n_def [symmetric]
    unfolding a_def [symmetric] n1_def [symmetric] unfolding b_def [symmetric] n2_def [symmetric]
    unfolding c_def [symmetric] n3_def [symmetric] unfolding e_def [symmetric] r_def [symmetric] by simp
  have le: "b \<le> 4" "c \<le> 24" "e \<le> 4" using n bounds by linarith+
  have last: "month_day 1 (month_lengths True) 365 = (12, 31)" by (simp add: month_lengths_def)
  consider (b4) "b = 4" | (e4) "b \<noteq> 4" "e = 4" | (plain) "b \<noteq> 4" "e \<noteq> 4" by blast
  then have "\<exists>b' c' e' r'. year_parts a b' c' e' \<and> y = a * 400 + b' * 100 + c' * 4 + e' + 1
    \<and> n = a * 146097 + b' * 36524 + c' * 1461 + e' * 365 + r' \<and> 0 \<le> r' \<and> r' < (if is_leap y then 366 else 365)
    \<and> month_day 1 (month_lengths (is_leap y)) r' = (m, d)"
  proof cases
    case b4
    then have z: "c = 0" "e = 0" "r = 0" using n bounds pos by linarith+
    have "year_parts a 3 24 3" by (simp add: year_parts_def)
    moreover from this have "is_leap y" using leap_parts(2) [of a 3 24 3] res b4 z by (simp add: add.commute)
    moreover have "y = a * 400 + 400" "m = 12" "d = 31" using res b4 z by auto
    ultimately show ?thesis by - (rule exI [of _ 3], rule exI [of _ 24], rule exI [of _ 3], rule exI [of _ 365], use n z b4 last in simp_all)
  next
    case e4
    then have "c \<noteq> 24" "r = 0" using n bounds by linarith+
    then have c: "year_parts a b c 3" using pos le e4 by (simp add: year_parts_def)
    have "is_leap y" using leap_parts(2) [OF c] res e4 \<open>c \<noteq> 24\<close> by (simp add: algebra_simps)
    moreover have "y = a * 400 + b * 100 + c * 4 + 4" "m = 12" "d = 31" using res e4 by auto
    ultimately show ?thesis by - (rule exI [of _ b], rule exI [of _ c], rule exI [of _ 3], rule exI [of _ 365], use c n e4 \<open>r = 0\<close> last in simp_all)
  next
    case plain
    then have "year_parts a b c e" using pos le by (simp add: year_parts_def)
    moreover have "y = a * 400 + b * 100 + c * 4 + e + 1" "month_day 1 (month_lengths (is_leap y)) r = (m, d)"
      using res plain by (auto split: prod.splits)
    moreover have "n = a * 146097 + b * 36524 + c * 1461 + e * 365 + r" by (simp only: n add.assoc)
    ultimately show ?thesis
      by - (rule exI [of _ b], rule exI [of _ c], rule exI [of _ e], rule exI [of _ r], use bounds(9,10) in auto)
  qed
  moreover have "a \<le> 24" using n bounds by linarith
  ultimately obtain b' c' e' r' where "year_parts a b' c' e'" "y = a * 400 + b' * 100 + c' * 4 + e' + 1" "a \<le> 24"
    "n = a * 146097 + b' * 36524 + c' * 1461 + e' * 365 + r'" "0 \<le> r'" "r' < (if is_leap y then 366 else 365)"
    "month_day 1 (month_lengths (is_leap y)) r' = (m, d)" by (elim exE conjE)
  then show thesis using pos(1) by (intro that [of a b' c' e' r']) (simp_all add: n_def)
qed

lemma date_roundtrip:
  assumes "- 719162 \<le> date" and "date < 2932897" and "ymd_of_date date = (y, m, d)"
  shows "date_of_ymd y m d = date \<and> valid_ymd y m d"
proof -
  obtain a b c e r where parts: "year_parts a b c e" "0 \<le> a" "a \<le> 24" "y = a * 400 + b * 100 + c * 4 + e + 1"
    "date + 719162 = a * 146097 + b * 36524 + c * 1461 + e * 365 + r" "0 \<le> r" "r < (if is_leap y then 366 else 365)"
    "month_day 1 (month_lengths (is_leap y)) r = (m, d)"
    by (rule ymd_of_date_parts [OF assms])
  have "1 \<le> y" using parts(1,2,4) by (simp add: year_parts_def)
  moreover have "y \<le> 9999"
  proof (cases "a = 24 \<and> b = 3 \<and> c = 24")
    case True
    then show ?thesis using parts assms(2) by (simp add: year_parts_def)
  next
    case False
    then show ?thesis using parts(1,3,4) unfolding year_parts_def by linarith
  qed
  ultimately show ?thesis using date_of_parts [OF parts(1,4) _ _ parts(6-8)] parts(5) by simp
qed

section \<open>Writing\<close>

text \<open>Decimal digits, padded with zeros to a width.\<close>

fun digits :: "nat \<Rightarrow> nat \<Rightarrow> pystr" where
  "digits 0 n = []"
| "digits (Suc w) n = digits w (n div 10) @ [48 + n mod 10]"

text \<open>\<open>date.isoformat()\<close>, and \<open>datetime.isoformat()\<close> of a time in UTC.\<close>

definition date_isoformat :: "date \<Rightarrow> pystr" where
  "date_isoformat date =
     (case ymd_of_date date of (year, month, day) \<Rightarrow>
        digits 4 (nat year) @ lit ''-'' @ digits 2 month @ lit ''-'' @ digits 2 (nat day))"

definition time_isoformat :: "int \<Rightarrow> pystr" where
  "time_isoformat us_of_day =
     (let us = us_of_day mod 1000000; s = us_of_day div 1000000 in
        digits 2 (nat (s div 3600)) @ lit '':'' @ digits 2 (nat (s div 60 mod 60)) @ lit '':''
        @ digits 2 (nat (s mod 60)) @ (if us = 0 then [] else lit ''.'' @ digits 6 (nat us)))"

definition isoformat :: "datetime \<Rightarrow> pystr" where
  "isoformat ts =
     date_isoformat (date_of ts) @ lit ''T'' @ time_isoformat (ts mod microseconds_per_day) @ lit ''+00:00''"

section \<open>Reading\<close>

text \<open>
  The C parser walks through the bytes up to their terminating zero.  A position is the list of the bytes
  from there on.
\<close>

fun parse_digits :: "nat \<Rightarrow> nat \<Rightarrow> nat list \<Rightarrow> (nat \<times> nat list) option" where
  "parse_digits 0 acc s = Some (acc, s)"
| "parse_digits (Suc k) acc [] = None"
| "parse_digits (Suc k) acc (c # s) =
     (if 48 \<le> c \<and> c \<le> 57 then parse_digits k (10 * acc + (c - 48)) s else None)"

definition peek :: "nat list \<Rightarrow> nat" where
  "peek s = (case s of [] \<Rightarrow> 0 | c # _ \<Rightarrow> c)"

definition parse_isoformat_date :: "nat list \<Rightarrow> (nat \<times> nat \<times> nat) option" where
  "parse_isoformat_date s =
     (case parse_digits 4 0 s of None \<Rightarrow> None | Some (year, s) \<Rightarrow>
        if peek s \<noteq> 45 then None else
        case parse_digits 2 0 (tl s) of None \<Rightarrow> None | Some (month, s) \<Rightarrow>
        if peek s \<noteq> 45 then None else
        case parse_digits 2 0 (tl s) of None \<Rightarrow> None | Some (day, s) \<Rightarrow> Some (year, month, day))"

text \<open>
  \<open>parse_hh_mm_ss_ff\<close> reads at most three numbers of two digits up to the position that is \<open>n\<close> bytes
  ahead.  \<open>Ended b vals\<close>: that position is reached, and (if \<open>b\<close>) the byte before it is not a zero;
  \<open>More\<close>: a fraction of a second follows.
\<close>

datatype hms = Malformed | Ended bool "nat list" | More "nat list" int "nat list"

fun parse_hms :: "nat \<Rightarrow> nat list \<Rightarrow> int \<Rightarrow> nat list \<Rightarrow> hms" where
  "parse_hms 0 vals n s = More vals n s"
| "parse_hms (Suc i) vals n s =
     (case parse_digits 2 0 s of
        None \<Rightarrow> Malformed
      | Some (v, s) \<Rightarrow>
          if n - 3 \<le> 0 then Ended (peek s \<noteq> 0) (vals @ [v])
          else if peek s = 58 then parse_hms i (vals @ [v]) (n - 3) (tl s)
          else if peek s = 46 then More (vals @ [v]) (n - 3) (tl s)
          else Malformed)"

definition hms_vals :: "nat list \<Rightarrow> nat \<times> nat \<times> nat" where
  "hms_vals vals =
     (case vals of [h, m, s] \<Rightarrow> (h, m, s) | [h, m] \<Rightarrow> (h, m, 0) | [h] \<Rightarrow> (h, 0, 0) | _ \<Rightarrow> (0, 0, 0))"

definition parse_hh_mm_ss_ff :: "int \<Rightarrow> nat list \<Rightarrow> (bool \<times> (nat \<times> nat \<times> nat) \<times> nat) option" where
  "parse_hh_mm_ss_ff n s =
     (case parse_hms 3 [] n s of
        Malformed \<Rightarrow> None
      | Ended b vals \<Rightarrow> Some (b, hms_vals vals, 0)
      | More vals len_remains s \<Rightarrow>
          if len_remains \<noteq> 6 \<and> len_remains \<noteq> 3 then None
          else (case parse_digits (nat len_remains) 0 s of
              None \<Rightarrow> None
            | Some (us, s) \<Rightarrow> Some (peek s \<noteq> 0, hms_vals vals, if len_remains = 3 then us * 1000 else us)))"

text \<open>The UTC offset is in microseconds; an offset of zero seconds is UTC whatever its microseconds are.\<close>

definition parse_isoformat_time :: "nat list \<Rightarrow> ((nat \<times> nat \<times> nat) \<times> nat \<times> int option) option" where
  "parse_isoformat_time s =
     (let tzinfo_pos = length (takeWhile (\<lambda>c. c \<noteq> 43 \<and> c \<noteq> 45) s) in
      case parse_hh_mm_ss_ff (int tzinfo_pos) s of
        None \<Rightarrow> None
      | Some (rv, hms, us) \<Rightarrow>
          if tzinfo_pos = length s then (if rv then None else Some (hms, us, None))
          else
            let tzlen = length s - tzinfo_pos in
            if tzlen \<notin> {6, 9, 16} then None
            else (case parse_hh_mm_ss_ff (int tzlen - 1) (drop (tzinfo_pos + 1) s) of
                None \<Rightarrow> None
              | Some (rv, (h, m, sec), tz_us) \<Rightarrow>
                  if rv then None
                  else
                    let offset = int h * 3600 + int m * 60 + int sec in
                    Some (hms, us, Some (if offset = 0 then 0
                      else (if s ! tzinfo_pos = 45 then -1 else 1) * (offset * 1000000 + int tz_us)))))"

text \<open>A \<open>datetime\<close> object: local time without an offset, or a moment.\<close>

datatype pydatetime = Naive int | Aware datetime

definition fromisoformat :: "pystr \<Rightarrow> pydatetime result" where
  "fromisoformat dtstr =
     bindR (encode_utf8 (if 11 \<le> length dtstr \<and> is_surrogate (dtstr ! 10) then dtstr[10 := 84] else dtstr)) (\<lambda>b.
     case parse_isoformat_date b of
       None \<Rightarrow> Inl ValueError
     | Some (year, month, day) \<Rightarrow>
         let separator = (if length b \<le> 10 then 0 else if b ! 10 < 128 then 1
              else if b ! 10 div 16 = 14 then 3 else if b ! 10 div 16 = 15 then 4 else 2)
         in case (if length b \<le> 10 then Some ((0, 0, 0), 0, None)
                  else parse_isoformat_time (drop (10 + separator) b)) of
              None \<Rightarrow> Inl ValueError
            | Some ((h, m, s), us, tz) \<Rightarrow>
                if valid_ymd (int year) month (int day) \<and> h \<le> 23 \<and> m \<le> 59 \<and> s \<le> 59
                then
                  let local = date_of_ymd (int year) month (int day) * microseconds_per_day
                        + (int h * 3600 + int m * 60 + int s) * 1000000 + int us
                  in case tz of
                       None \<Rightarrow> Inr (Naive local)
                     | Some offset \<Rightarrow>
                         if \<bar>offset\<bar> < microseconds_per_day then Inr (Aware (local - offset)) else Inl ValueError
                else Inl ValueError)"

text \<open>Comparing or subtracting a naive and an aware \<open>datetime\<close> is a \<open>TypeError\<close>.\<close>

definition awareR :: "pydatetime \<Rightarrow> datetime result" where
  "awareR dt = (case dt of Naive _ \<Rightarrow> Inl TypeError | Aware ts \<Rightarrow> Inr ts)"

section \<open>Reading what was written\<close>

lemma length_digits [simp]: "length (digits w n) = w"
  by (induction w n rule: digits.induct) auto

lemma digits_ascii [simp]: "c \<in> set (digits w n) \<Longrightarrow> 48 \<le> c \<and> c \<le> 57"
  by (induction w n rule: digits.induct) auto

lemma parse_digits_append:
  "parse_digits (j + k) acc s = (case parse_digits j acc s of None \<Rightarrow> None | Some (v, s') \<Rightarrow> parse_digits k v s')"
  by (induction j acc s rule: parse_digits.induct) auto

lemma parse_digits_digits:
  "n < 10 ^ w \<Longrightarrow> parse_digits w acc (digits w n @ s) = Some (10 ^ w * acc + n, s)"
proof (induction w n arbitrary: s rule: digits.induct)
  case (2 w n)
  have "parse_digits w acc (digits w (n div 10) @ ((48 + n mod 10) # s))
      = Some (10 ^ w * acc + n div 10, (48 + n mod 10) # s)"
    using 2 by (intro "2.IH") (simp add: less_mult_imp_div_less mult.commute)
  then show ?case using parse_digits_append [of w 1 acc "digits w (n div 10) @ ((48 + n mod 10) # s)"] by simp
qed simp

lemma peek_Cons [simp]: "peek (c # s) = c" "peek [] = 0"
  by (simp_all add: peek_def)

lemma parse_date_isoformat:
  assumes "- 719162 \<le> date" and "date < 2932897"
  shows "\<exists>y m d. (\<forall>s. parse_isoformat_date (date_isoformat date @ s) = Some (y, m, d))
    \<and> valid_ymd (int y) m (int d) \<and> date_of_ymd (int y) m (int d) = date"
proof -
  obtain y m d where ymd: "ymd_of_date date = (y, m, d)" by (cases "ymd_of_date date")
  have v: "date_of_ymd y m d = date" "valid_ymd y m d" using date_roundtrip [OF assms ymd] by auto
  have "d \<le> 31"
  proof -
    have "x \<in> set (month_lengths leap) \<Longrightarrow> x \<le> 31" for x leap by (auto simp: month_lengths_def)
    moreover have "m - 1 < length (month_lengths (is_leap y))" using v(2) by (auto simp: valid_ymd_def month_lengths_sum)
    ultimately have "month_lengths (is_leap y) ! (m - 1) \<le> 31" using nth_mem by blast
    then show ?thesis using v(2) by (simp add: valid_ymd_def)
  qed
  then have "nat y < 10 ^ 4" "m < 10 ^ 2" "nat d < 10 ^ 2" "0 \<le> y" "0 \<le> d"
    using v(2) by (auto simp: valid_ymd_def)
  then have "\<forall>s. parse_isoformat_date (date_isoformat date @ s) = Some (nat y, m, nat d)"
    by (simp add: parse_isoformat_date_def date_isoformat_def ymd parse_digits_digits del: parse_digits.simps digits.simps)
  then show ?thesis using v \<open>0 \<le> y\<close> \<open>0 \<le> d\<close> by auto
qed

lemma parse_hms_digits:
  assumes "h < 100" "m < 100" "s < 100"
  shows "parse_hh_mm_ss_ff 8 (digits 2 h @ 58 # digits 2 m @ 58 # digits 2 s @ rest) = Some (peek rest \<noteq> 0, (h, m, s), 0)"
    "us < 1000000 \<Longrightarrow> parse_hh_mm_ss_ff 15 (digits 2 h @ 58 # digits 2 m @ 58 # digits 2 s @ 46 # digits 6 us @ rest)
       = Some (peek rest \<noteq> 0, (h, m, s), us)"
  using assms
  by (simp_all add: parse_hh_mm_ss_ff_def numeral_3_eq_3 parse_digits_digits hms_vals_def
      del: parse_digits.simps digits.simps)

lemma takeWhile_before: "(\<forall>c \<in> set xs. P c) \<Longrightarrow> \<not> P d \<Longrightarrow> takeWhile P (xs @ d # ys) = xs"
  by (induction xs) auto

lemma split_time:
  assumes "0 \<le> t" and "t < microseconds_per_day"
  shows "\<exists>h m s us :: nat. int h = t div 1000000 div 3600 \<and> int m = t div 1000000 div 60 mod 60
    \<and> int s = t div 1000000 mod 60 \<and> int us = t mod 1000000 \<and> h \<le> 23 \<and> m \<le> 59 \<and> s \<le> 59 \<and> us < 1000000
    \<and> (int h * 3600 + int m * 60 + int s) * 1000000 + int us = t"
proof -
  define x where "x = t div 1000000"
  have x: "0 \<le> x" "x < 86400" using assms by (simp_all add: x_def microseconds_per_day_def)
  have "x div 3600 = x div 60 div 60" using zdiv_zmult2_eq [of 60 x 60] by simp
  moreover have "A * 3600 + B * 60 + C = (A * 60 + B) * 60 + C" for A B C :: int by simp
  ultimately have "x div 3600 * 3600 + x div 60 mod 60 * 60 + x mod 60 = (x div 60 div 60 * 60 + x div 60 mod 60) * 60 + x mod 60"
    by (simp only:)
  then have "x div 3600 * 3600 + x div 60 mod 60 * 60 + x mod 60 = x" by (simp only: div_mult_mod_eq)
  then have sum: "(x div 3600 * 3600 + x div 60 mod 60 * 60 + x mod 60) * 1000000 + t mod 1000000 = t"
    by (simp only: x_def div_mult_mod_eq)
  have b: "x div 3600 \<le> 23" "x div 60 mod 60 \<le> 59" "x mod 60 \<le> 59" "t mod 1000000 < 1000000"
    using x zdiv_mono1 [of x 86399 3600] pos_mod_bound [of 60 "x div 60"] pos_mod_bound [of 60 x] by simp_all
  have "0 \<le> x div 3600" "0 \<le> x div 60 mod 60" "0 \<le> x mod 60" "0 \<le> t mod 1000000"
    using zdiv_mono1 [of 0 x 3600] x by simp_all
  then obtain h m s us :: nat where n: "x div 3600 = int h" "x div 60 mod 60 = int m" "x mod 60 = int s"
      "t mod 1000000 = int us" by (meson zero_le_imp_eq_int)
  have "h \<le> 23" "m \<le> 59" "s \<le> 59" "us < 1000000" using b unfolding n by simp_all
  then show ?thesis using sum unfolding x_def [symmetric] n by blast
qed

lemma parse_time_isoformat:
  assumes "0 \<le> t" and "t < microseconds_per_day"
  shows "\<exists>h m s us. parse_isoformat_time (time_isoformat t @ lit ''+00:00'') = Some ((h, m, s), us, Some 0)
    \<and> h \<le> 23 \<and> m \<le> 59 \<and> s \<le> 59 \<and> (int h * 3600 + int m * 60 + int s) * 1000000 + int us = t"
proof -
  obtain h m s us where ints: "int h = t div 1000000 div 3600" "int m = t div 1000000 div 60 mod 60"
      "int s = t div 1000000 mod 60" "int us = t mod 1000000"
    and bounds: "h \<le> 23" "m \<le> 59" "s \<le> 59" "us < 1000000"
    and sum: "(int h * 3600 + int m * 60 + int s) * 1000000 + int us = t"
    using split_time [OF assms] by blast
  have nats: "nat (t div 1000000 div 3600) = h" "nat (t div 1000000 div 60 mod 60) = m"
      "nat (t div 1000000 mod 60) = s" "nat (t mod 1000000) = us" by (simp_all add: ints [symmetric])
  define hms where "hms = digits 2 h @ 58 # digits 2 m @ 58 # digits 2 s"
  have no_sign: "\<forall>c \<in> set (digits w n). c \<noteq> 43 \<and> c \<noteq> 45" for w n
    by (auto dest!: digits_ascii)
  have parse: "parse_hh_mm_ss_ff 8 (hms @ rest) = Some (peek rest \<noteq> 0, (h, m, s), 0)"
    "us < 1000000 \<Longrightarrow> parse_hh_mm_ss_ff 15 (hms @ 46 # digits 6 us @ rest) = Some (peek rest \<noteq> 0, (h, m, s), us)" for rest
    using parse_hms_digits(1) [of h m s rest] parse_hms_digits(2) [of h m s us rest] bounds unfolding hms_def by (simp_all del: digits.simps)
  have hms: "length hms = 8" "\<forall>c \<in> set hms. c \<noteq> 43 \<and> c \<noteq> 45"
    unfolding hms_def by (simp_all del: digits.simps) (auto simp del: digits.simps dest: no_sign [rule_format])
  have time: "time_isoformat t = hms @ (if us = 0 then [] else 46 # digits 6 us)"
  proof -
    have "t mod 1000000 = 0 \<longleftrightarrow> us = 0" by (simp add: ints(4) [symmetric])
    then show ?thesis
      unfolding time_isoformat_def Let_def nats by (simp add: hms_def del: digits.simps)
  qed
  have zone: "parse_hh_mm_ss_ff 5 (lit ''00:00'') = Some (False, (0, 0, 0), 0)"
    by (simp add: parse_hh_mm_ss_ff_def numeral_3_eq_3 numeral_2_eq_2 hms_vals_def)
  have "parse_isoformat_time (time_isoformat t @ lit ''+00:00'') = Some ((h, m, s), us, Some 0)"
  proof (cases "us = 0")
    case True
    have "takeWhile (\<lambda>c. c \<noteq> 43 \<and> c \<noteq> 45) (hms @ 43 # lit ''00:00'') = hms"
      using hms(2) by (intro takeWhile_before) auto
    then show ?thesis using parse(1) [of "43 # lit ''00:00''"] zone hms(1)
      by (simp add: time True parse_isoformat_time_def)
  next
    case False
    have "takeWhile (\<lambda>c. c \<noteq> 43 \<and> c \<noteq> 45) ((hms @ 46 # digits 6 us) @ 43 # lit ''00:00'') = hms @ 46 # digits 6 us"
      using hms(2) no_sign by (intro takeWhile_before) (auto simp del: digits.simps)
    then show ?thesis using parse(2) [OF bounds(4), of "43 # lit ''00:00''"] zone hms(1) False
      by (simp add: time parse_isoformat_time_def del: digits.simps)
  qed
  then show ?thesis using bounds sum by blast
qed

lemma isoformat_ascii: "isascii (isoformat ts)"
proof -
  have "isascii (digits w n)" for w n by (auto simp: isascii_def dest!: digits_ascii)
  moreover have "isascii (s @ t) \<longleftrightarrow> isascii s \<and> isascii t" for s t by (auto simp: isascii_def)
  moreover have "isascii (lit ''-'')" "isascii (lit '':'')" "isascii (lit ''.'')" "isascii (lit ''T'')" "isascii (lit ''+00:00'')"
    "isascii []" by (simp_all add: isascii_def)
  ultimately show ?thesis
    by (simp add: isoformat_def date_isoformat_def time_isoformat_def Let_def del: digits.simps list.map split: prod.splits)
qed

lemma isoformat_roundtrip:
  assumes "DATETIME_MIN \<le> ts" and "ts \<le> DATETIME_MAX"
  shows "fromisoformat (isoformat ts) = Inr (Aware ts)"
proof -
  have "- 719162 \<le> date_of ts" "date_of ts < 2932897"
    using assms by (simp_all add: date_of_def microseconds_per_day_def DATETIME_MIN_def DATETIME_MAX_def)
  then obtain y m d where date: "valid_ymd (int y) m (int d)" "date_of_ymd (int y) m (int d) = date_of ts"
      "\<forall>s. parse_isoformat_date (date_isoformat (date_of ts) @ s) = Some (y, m, d)"
    using parse_date_isoformat by meson
  have "0 \<le> ts mod microseconds_per_day" "ts mod microseconds_per_day < microseconds_per_day"
    by (simp_all add: microseconds_per_day_def)
  then obtain h mi s us where time: "parse_isoformat_time (time_isoformat (ts mod microseconds_per_day) @ lit ''+00:00'')
      = Some ((h, mi, s), us, Some 0)" "h \<le> 23" "mi \<le> 59" "s \<le> 59"
      "(int h * 3600 + int mi * 60 + int s) * 1000000 + int us = ts mod microseconds_per_day"
    using parse_time_isoformat by meson
  define D where "D = date_isoformat (date_of ts)"
  define T where "T = time_isoformat (ts mod microseconds_per_day) @ lit ''+00:00''"
  have iso: "isoformat ts = D @ 84 # T" by (simp add: isoformat_def D_def T_def)
  have len: "length D = 10" by (simp add: D_def date_isoformat_def split: prod.splits)
  have sep: "(D @ 84 # T) ! 10 = 84" by (simp add: nth_append len)
  have enc: "encode_utf8 (isoformat ts) = Inr (D @ 84 # T)" using encode_utf8_ascii [OF isoformat_ascii] iso by metis
  have "\<not> is_surrogate (isoformat ts ! 10)" by (simp add: iso sep is_surrogate_def)
  moreover have "parse_isoformat_date (D @ 84 # T) = Some (y, m, d)" unfolding D_def using date(3) by blast
  moreover have "drop 11 (D @ 84 # T) = T" by (simp add: len)
  moreover have "date_of ts * microseconds_per_day + (int h * 3600 + int mi * 60 + int s) * 1000000 + int us = ts"
    using time(5) by (simp add: date_of_def add.assoc)
  moreover have "0 < microseconds_per_day" by (simp add: microseconds_per_day_def)
  ultimately show ?thesis using date(1,2) time(1-4) unfolding fromisoformat_def T_def [symmetric]
    by (simp add: enc sep len Let_def)
qed

end
