(* ===== verification/Payments.thy ===== *)
theory Payments
  imports Invariants Samples
begin

text \<open>
  Payments between an account and its debtor, in \<open>swpt_accounts/procedures.py\<close>:
  \<open>make_debtor_payment\<close>, the capitalization of interest (\<open>capitalize_interest\<close>) and the
  deletion of accounts (\<open>try_to_delete_account\<close>).  \<open>payment_effect\<close> says what such a payment
  may change; the lemmas show that each of the three does exactly that.
\<close>

section \<open>Payments from and to the debtor\<close>

definition make_debtor_payment ::
    "env \<Rightarrow> datetime \<Rightarrow> datetime \<Rightarrow> pystr \<Rightarrow> int \<Rightarrow> int \<Rightarrow> int \<Rightarrow> pystr \<Rightarrow> pystr \<Rightarrow> db \<Rightarrow> db result" where
  "make_debtor_payment E current_ts insert_ts coordinator_type debtor_id creditor_id amount
       transfer_note_format transfer_note d =
     bindR (assertR (coordinator_type \<noteq> CT_DIRECT)) (\<lambda>_.
     bindR (lock_or_create_account E debtor_id creditor_id current_ts insert_ts d) (\<lambda>(a, d).
     bindR (make_debtor_payment_on E coordinator_type a amount current_ts transfer_note_format
              transfer_note d) (\<lambda>(a, d).
     save_account E a d)))"

definition capitalize_interest :: "env \<Rightarrow> datetime \<Rightarrow> int \<Rightarrow> int \<Rightarrow> timedelta \<Rightarrow> db \<Rightarrow> db result" where
  "capitalize_interest E current_ts debtor_id creditor_id min_capitalization_interval d =
     bindR (datetime_add current_ts (- min_capitalization_interval)) (\<lambda>capitalization_cutoff_ts.
     case get_account debtor_id creditor_id d of
       None \<Rightarrow> Inr d
     | Some a \<Rightarrow>
         if acc_last_interest_capitalization_ts a \<le> capitalization_cutoff_ts then
           bindR (calc_account_accumulated_interest E a current_ts) (\<lambda>i.
           bindR (dec_floor i) (\<lambda>n.
           let accumulated_interest = contain_principal_overflow n in
           if accumulated_interest \<noteq> 0 then
             bindR (make_debtor_payment_on E CT_INTEREST
                      (a\<lparr>acc_last_interest_capitalization_ts := current_ts\<rparr>)
                      accumulated_interest current_ts [] [] d) (\<lambda>(a, d).
             save_account E a d)
           else Inr d))
         else Inr d)"

definition try_to_delete_account :: "env \<Rightarrow> datetime \<Rightarrow> int \<Rightarrow> int \<Rightarrow> db \<Rightarrow> db result" where
  "try_to_delete_account E current_ts debtor_id creditor_id d =
     (if creditor_id = ROOT_CREDITOR_ID then Inr d
      else case get_account debtor_id creditor_id d of
        None \<Rightarrow> Inr d
      | Some a \<Rightarrow>
          let a = a\<lparr>acc_last_deletion_attempt_ts := current_ts\<rparr> in
          bindR (if acc_config_flags a AND CONFIG_SCHEDULED_FOR_DELETION_FLAG \<noteq> 0
                    \<and> acc_pending_transfers_count a = 0 then
                   bindR (Account_calc_current_balance E a current_ts) (\<lambda>balance.
                   is_negligible_balance balance (acc_negligible_amount a))
                 else Inr False) (\<lambda>can_be_deleted.
          bindR (if can_be_deleted then
                   bindR (if acc_principal a \<noteq> 0 then
                            make_debtor_payment_on E CT_DELETE a (- acc_principal a) current_ts [] [] d
                          else Inr (a, d)) (\<lambda>(a, d).
                   mark_account_as_deleted E a current_ts d)
                 else Inr (a, d)) (\<lambda>(a, d).
          save_account E a d)))"

section \<open>What a payment changes\<close>

text \<open>
  A payment of \<open>amt\<close> to the account \<open>(i, j)\<close> changes its principal and sends the opposite
  change to the debtor's account; other accounts keep their rows.
\<close>

definition payment_effect :: "datetime \<Rightarrow> int \<Rightarrow> int \<Rightarrow> int \<Rightarrow> db \<Rightarrow> db \<Rightarrow> bool" where
  "payment_effect ts i j amt d d' \<longleftrightarrow>
     (\<exists>t u T new row. d' = d\<lparr>db_accounts := t, db_account_update_signals := u, db_account_transfer_signals := T,
          db_pending_balance_change_signals := db_pending_balance_change_signals d @ new,
          db_next_change_id := db_next_change_id d + int (length new)\<rparr>
        \<and> accounts_step (db_accounts d) t
        \<and> tbl_lookup account_pk (i, j) t = Some row
        \<and> (\<forall>k. principals k t = principals k (db_accounts d)
             + (if i = k then acc_principal row - stored_principal i j d else 0))
        \<and> (if amt \<noteq> 0 \<and> j \<noteq> ROOT_CREDITOR_ID then
             acc_principal row = contain_principal_overflow (stored_principal i j d + amt)
             \<and> (\<exists>s. new = [s] \<and> pbs_principal_delta s = - amt \<and> pbs_debtor_id s = i
                   \<and> pbs_other_creditor_id s = j \<and> pbs_creditor_id s = ROOT_CREDITOR_ID
                   \<and> pbs_committed_at s = ts \<and> pbs_change_id s = db_next_change_id d)
           else acc_principal row = stored_principal i j d \<and> new = [])
        \<and> only_row (i, j) (db_accounts d) t
        \<and> (is_deleted row \<longrightarrow> acc_principal row = 0 \<and> acc_pending_transfers_count row = 0))"

lemma payment_then_save:
  assumes acc: "acc_debtor_id a = i" "acc_creditor_id a = j" "lock_fields a = lock_fields old"
      "acc_principal a = acc_principal old" "acc_principal old = stored_principal i j d"
    and t0: "accounts_step (db_accounts d) t0" "\<forall>k. principals k t0 = principals k (db_accounts d)"
      "tbl_lookup account_pk (i, j) t0 = Some old" "only_row (i, j) (db_accounts d) t0"
    and pay: "make_debtor_payment_on E ct a amt ts fmt note
        (d\<lparr>db_accounts := t0, db_account_update_signals := u\<rparr>) = Inr (b, d1)"
    and c: "lock_fields c = lock_fields b" "acc_principal c = acc_principal b"
      "is_deleted c \<Longrightarrow> acc_principal c = 0 \<and> acc_pending_transfers_count c = 0"
    and save: "save_account E c (d1\<lparr>db_account_update_signals := u'\<rparr>) = Inr d'"
  shows "payment_effect ts i j amt d d'"
proof -
  note eff = make_debtor_payment_on_effect [OF pay]
  have b: "lock_fields b = lock_fields old" "acc_debtor_id b = i" "acc_creditor_id b = j"
    using eff acc by auto
  have pk: "account_pk c = (i, j)" using b lock_fields_eqD [OF c(1)] by (simp add: account_pk_def)
  then have deb: "acc_debtor_id c = i" by (simp add: account_pk_def)
  have accounts: "db_accounts d1 = t0"
    using eff by (auto simp: add_pending_balance_change_signal_def split: if_splits)
  from save_account_step [OF save, of "db_accounts d" old] obtain t row where
    t: "d' = d1\<lparr>db_account_update_signals := u', db_accounts := t\<rparr>" "accounts_step (db_accounts d) t"
      "\<forall>k. principals k t = principals k (db_accounts d) + (if i = k then acc_principal b - acc_principal old else 0)"
      "tbl_lookup account_pk (i, j) t = Some row" "acc_principal row = acc_principal b"
      "is_deleted row = is_deleted c" "acc_pending_transfers_count row = acc_pending_transfers_count c"
    using t0 b c(1,2) deb by (auto simp: accounts pk)
  have only: "only_row (i, j) (db_accounts d) t"
    using only_row_trans [OF t0(4)] only_row_save [OF save] by (simp add: accounts pk t(1))
  have deleted: "is_deleted row \<longrightarrow> acc_principal row = 0 \<and> acc_pending_transfers_count row = 0"
    using c t(5-7) by simp
  show ?thesis
  proof (cases "amt \<noteq> 0 \<and> j \<noteq> ROOT_CREDITOR_ID")
    case True
    then obtain T where d1: "d1 = (add_pending_balance_change_signal (debtor_payment_signal a ct amt ts fmt note)
        (d\<lparr>db_accounts := t0, db_account_update_signals := u\<rparr>))\<lparr>db_account_transfer_signals := T\<rparr>"
      and p: "acc_principal b = contain_principal_overflow (acc_principal a + amt)"
      using eff acc(2) by auto
    let ?s = "(debtor_payment_signal a ct amt ts fmt note)\<lparr>pbs_change_id := db_next_change_id d\<rparr>"
    show ?thesis unfolding payment_effect_def
      by (rule exI [of _ t], rule exI [of _ u'], rule exI [of _ T], rule exI [of _ "[?s]"], rule exI [of _ row])
        (use True t p acc only deleted in \<open>simp add: d1 add_pending_balance_change_signal_def debtor_payment_signal_def\<close>)
  next
    case False
    then have eq: "b = a" "d1 = d\<lparr>db_accounts := t0, db_account_update_signals := u\<rparr>" using eff acc(2) by auto
    show ?thesis unfolding payment_effect_def
      by (rule exI [of _ t], rule exI [of _ u'], rule exI [of _ "db_account_transfer_signals d"],
        rule exI [of _ "[]"], rule exI [of _ row])
        (use False t acc only deleted in \<open>simp add: eq\<close>)
  qed
qed

lemma make_debtor_payment_InrD:
  assumes run: "make_debtor_payment E ts its ct i j amt fmt note d = Inr d'" and wf: "db_wf d"
  shows "payment_effect ts i j amt d d'"
proof -
  from run obtain a d0 b d1 where
    lock: "lock_or_create_account E i j ts its d = Inr (a, d0)"
    and pay: "make_debtor_payment_on E ct a amt ts fmt note d0 = Inr (b, d1)"
    and save: "save_account E b d1 = Inr d'"
    by (auto simp: make_debtor_payment_def bindR_eq_Inr)
  from lock_or_create_account_InrD [OF lock wf] obtain t0 u old where
    d0: "d0 = d\<lparr>db_accounts := t0, db_account_update_signals := u\<rparr>"
    and t0: "accounts_step (db_accounts d) t0" "\<forall>k. principals k t0 = principals k (db_accounts d)"
      "tbl_lookup account_pk (i, j) t0 = Some old"
    and a: "acc_debtor_id a = i" "acc_creditor_id a = j" "lock_fields a = lock_fields old"
      "acc_principal a = acc_principal old" "acc_principal old = stored_principal i j d" by blast
  have only: "only_row (i, j) (db_accounts d) t0" using only_row_lock [OF lock] by (simp add: d0)
  have alive: "\<not> is_deleted b" using make_debtor_payment_on_deleted [OF pay] lock_or_create_account_alive [OF lock] by simp
  have "d1\<lparr>db_account_update_signals := db_account_update_signals d1\<rparr> = d1" by simp
  then show ?thesis
    using payment_then_save [OF a t0 only pay [unfolded d0], of b "db_account_update_signals d1" d'] save alive by simp
qed

text \<open>An account that is already there.\<close>

lemma stored_account:
  assumes "get_account i j d = Some a" and "db_wf d"
  shows "acc_debtor_id a = i" "acc_creditor_id a = j" "acc_principal a = stored_principal i j d"
    "tbl_lookup account_pk (i, j) (db_accounts d) = Some a" "account_ok a" "a \<in> set (db_accounts d)"
    "accounts_step (db_accounts d) (db_accounts d)"
proof -
  have row: "get_account_row i j d = Some a" using get_account_SomeD [OF assms(1)] by simp
  show "acc_debtor_id a = i" "acc_creditor_id a = j" "account_ok a" "a \<in> set (db_accounts d)"
    using get_account_row_pk [OF assms(2) row] by simp_all
  show "acc_principal a = stored_principal i j d" using row by (simp add: stored_principal_def)
  show "tbl_lookup account_pk (i, j) (db_accounts d) = Some a" using row by (simp add: get_account_row_def)
  show "accounts_step (db_accounts d) (db_accounts d)" by (rule accounts_step_refl [OF db_wf_accs [OF assms(2)]])
qed

lemma capitalize_interest_InrD:
  assumes run: "capitalize_interest E ts i j m d = Inr d'" and wf: "db_wf d"
  shows "d' = d \<or> (\<exists>amt a x. payment_effect ts i j amt d d' \<and> amt \<noteq> 0 \<and> get_account i j d = Some a
    \<and> acc_last_interest_capitalization_ts a \<le> ts - m
    \<and> calc_account_accumulated_interest E a ts = Inr (Fin x)
    \<and> amt = contain_principal_overflow \<lfloor>x\<rfloor>)"
proof (cases "d' = d")
  case False
  obtain a where a: "get_account i j d = Some a"
    using run False by (cases "get_account i j d") (simp_all add: capitalize_interest_def bindR_eq_Inr)
  have le: "acc_last_interest_capitalization_ts a \<le> ts - m"
    using run False a by (auto simp: capitalize_interest_def bindR_eq_Inr datetime_add_eq_Inr split: if_splits)
  then obtain z n where z: "calc_account_accumulated_interest E a ts = Inr z" "dec_floor z = Inr n"
    and rest: "(if contain_principal_overflow n \<noteq> 0 then
             bindR (make_debtor_payment_on E CT_INTEREST
                      (a\<lparr>acc_last_interest_capitalization_ts := ts\<rparr>)
                      (contain_principal_overflow n) ts [] [] d) (\<lambda>(a, d). save_account E a d)
           else Inr d) = Inr d'"
    using run a by (auto simp: capitalize_interest_def bindR_eq_Inr datetime_add_eq_Inr Let_def)
  obtain x where x: "z = Fin x" "n = \<lfloor>x\<rfloor>" using z(2) by (auto simp: dec_floor_eq_Inr)
  define amt where "amt = contain_principal_overflow n"
  from rest False obtain b d1 where
    amt: "amt \<noteq> 0"
    and pay: "make_debtor_payment_on E CT_INTEREST (a\<lparr>acc_last_interest_capitalization_ts := ts\<rparr>)
                      amt ts [] [] d = Inr (b, d1)"
    and save: "save_account E b d1 = Inr d'"
    by (auto simp: bindR_eq_Inr amt_def split: if_splits)
  note st = stored_account [OF a wf]
  have pay': "make_debtor_payment_on E CT_INTEREST (a\<lparr>acc_last_interest_capitalization_ts := ts\<rparr>) amt ts [] []
      (d\<lparr>db_accounts := db_accounts d, db_account_update_signals := db_account_update_signals d\<rparr>) = Inr (b, d1)"
    and save': "save_account E b (d1\<lparr>db_account_update_signals := db_account_update_signals d1\<rparr>) = Inr d'"
    using pay save by simp_all
  have "payment_effect ts i j amt d d'"
    by (rule payment_then_save [OF _ _ _ _ _ st(7) _ st(4) _ pay' refl refl _ save'])
      (use st make_debtor_payment_on_deleted [OF pay] get_account_SomeD [OF a] in simp_all)
  then show ?thesis using a le x z amt by (auto simp: amt_def)
qed simp


lemma no_locks:
  "pending_count k t = 0 \<Longrightarrow> locked_sum k t = 0"
proof -
  assume "pending_count k t = 0"
  then have "\<forall>pt \<in> set t. \<not> pt_of k pt"
  proof (induction t)
    case (Cons a t)
    then show ?case using pending_count_nonneg [of k t] by (auto simp: pending_count_def split: if_splits)
  qed simp
  then show ?thesis unfolding locked_sum_def by (intro total_zero) auto
qed

lemma is_deleted_marked: "acc_status_flags a = f OR STATUS_DELETED_FLAG \<Longrightarrow> is_deleted a"
proof -
  assume "acc_status_flags a = f OR STATUS_DELETED_FLAG"
  then have "acc_status_flags a AND STATUS_DELETED_FLAG = STATUS_DELETED_FLAG"
    by (auto simp: bit_eq_iff bit_simps)
  then show ?thesis by (simp add: is_deleted_def STATUS_DELETED_FLAG_def)
qed

lemma save_account_row:
  assumes "save_account E c d = Inr d'" and "db_wf_accounts = tbl_wf account_pk account_ok (db_accounts d)"
    and "db_wf_accounts"
  shows "\<exists>r p n. get_account_row (acc_debtor_id c) (acc_creditor_id c) d'
     = Some (c\<lparr>acc_interest_rate := r, acc_previous_interest_rate := p, acc_negligible_amount := n\<rparr>)"
proof -
  from save_account_InrD [OF assms(1)] obtain old r p n t where
    "get_account_row (acc_debtor_id c) (acc_creditor_id c) d = Some old"
    and t: "tbl_update account_pk account_ok
         (c\<lparr>acc_interest_rate := r, acc_previous_interest_rate := p, acc_negligible_amount := n\<rparr>)
         (db_accounts d) = Inr t" "d' = d\<lparr>db_accounts := t\<rparr>" by blast
  then show ?thesis
    using accs.lookup_upd [OF assms(3) [unfolded assms(2)] t(1), of "account_pk c"]
    by (auto simp: get_account_row_def account_pk_def)
qed

lemma deletion_refused:
  assumes a: "get_account i j d = Some a" and wf: "db_wf d"
    and save: "save_account E (a\<lparr>acc_last_deletion_attempt_ts := ts\<rparr>) d = Inr d'"
  shows "payment_effect ts i j 0 d d'" "\<exists>row. get_account_row i j d' = Some row \<and> \<not> is_deleted row"
proof -
  let ?a = "a\<lparr>acc_last_deletion_attempt_ts := ts\<rparr>"
  note st = stored_account [OF a wf]
  have pay: "make_debtor_payment_on E CT_DELETE ?a 0 ts [] [] (d\<lparr>db_accounts := db_accounts d,
      db_account_update_signals := db_account_update_signals d\<rparr>) = Inr (?a, d)"
    by (simp add: make_debtor_payment_on_def int_bounds)
  have save': "save_account E ?a (d\<lparr>db_account_update_signals := db_account_update_signals d\<rparr>) = Inr d'"
    using save by simp
  show "payment_effect ts i j 0 d d'"
    by (rule payment_then_save [OF _ _ _ _ _ st(7) _ st(4) _ pay refl refl _ save'])
      (use st get_account_SomeD [OF a] in simp_all)
  from save_account_row [OF save refl] db_wf_accs [OF wf] st obtain row where
    row: "get_account_row i j d' = Some row" "acc_status_flags row = acc_status_flags a" by fastforce
  then show "\<exists>row. get_account_row i j d' = Some row \<and> \<not> is_deleted row"
    using get_account_SomeD [OF a] by (simp add: is_deleted_def)
qed

lemma unused_account_unlocked:
  assumes "get_account i j d = Some a" and "db_wf d" and "locks_within d" and "acc_pending_transfers_count a = 0"
  shows "acc_total_locked_amount a = 0"
proof -
  note st = stored_account [OF assms(1,2)]
  have "pending_count (account_pk a) (db_prepared_transfers d) = 0"
      "acc_total_locked_amount a \<le> locked_sum (account_pk a) (db_prepared_transfers d)"
    using assms(3,4) st(6) by (auto simp: locks_within_def)
  then have "acc_total_locked_amount a \<le> 0" using no_locks by fastforce
  then show ?thesis using st(5) by (simp add: account_ok_def)
qed

lemma deletion_performed:
  assumes a: "get_account i j d = Some a" and j: "j \<noteq> ROOT_CREDITOR_ID" and wf: "db_wf d" and locks: "locks_within d"
    and count: "acc_pending_transfers_count a = 0"
    and pay: "make_debtor_payment_on E CT_DELETE (a\<lparr>acc_last_deletion_attempt_ts := ts\<rparr>) (- acc_principal a) ts [] [] d
      = Inr (b, d1)"
    and mark: "mark_account_as_deleted E b ts d1 = Inr (c, d2)" and save: "save_account E c d2 = Inr d'"
  shows "payment_effect ts i j (- acc_principal a) d d'"
    "\<exists>row. get_account_row i j d' = Some row \<and> is_deleted row \<and> acc_principal row = 0 \<and> acc_interest row = Fin 0
      \<and> acc_total_locked_amount row = 0 \<and> acc_pending_transfers_count row = 0"
proof -
  note st = stored_account [OF a wf]
  note locked = unused_account_unlocked [OF a wf locks count]
  note effb = make_debtor_payment_on_effect [OF pay]
  have pb: "acc_principal b = 0" using effb j st(2) by (auto split: if_splits)
  have lb: "lock_fields b = lock_fields a" using effb by simp
  from insert_account_update_signal_InrD [OF mark [unfolded mark_account_as_deleted_def]] obtain x where
    c: "c = (touch E ts (b\<lparr>acc_principal := 0, acc_interest := Fin 0, acc_total_locked_amount := 0,
           acc_status_flags := acc_status_flags b OR STATUS_DELETED_FLAG\<rparr>))
           \<lparr>acc_last_heartbeat_ts := ts, acc_pending_account_update := False\<rparr>"
    and d2: "d2 = d1\<lparr>db_account_update_signals := db_account_update_signals d1 @ [x]\<rparr>" by blast
  have lb0: "lock_fields (b\<lparr>acc_total_locked_amount := 0\<rparr>) = lock_fields b"
    using lb locked by (simp add: lock_fields_def account_pk_def)
  have "lock_fields c = lock_fields (b\<lparr>acc_total_locked_amount := 0\<rparr>)"
    by (simp add: c) (simp add: lock_fields_def account_pk_def)
  then have lc: "lock_fields c = lock_fields b" using lb0 by simp
  have pay': "make_debtor_payment_on E CT_DELETE (a\<lparr>acc_last_deletion_attempt_ts := ts\<rparr>) (- acc_principal a) ts [] []
      (d\<lparr>db_accounts := db_accounts d, db_account_update_signals := db_account_update_signals d\<rparr>) = Inr (b, d1)"
    using pay by simp
  have count_c: "acc_pending_transfers_count c = 0" using lc lb count by (simp add: lock_fields_def)
  show "payment_effect ts i j (- acc_principal a) d d'"
    by (rule payment_then_save [OF _ _ _ _ _ st(7) _ st(4) _ pay' lc _ _ save [unfolded d2]])
      (use st pb c count_c in simp_all)
  have wf2: "tbl_wf account_pk account_ok (db_accounts d2)"
    using effb db_wf_accs [OF wf] by (auto simp: d2 add_pending_balance_change_signal_def split: if_splits)
  have keys: "acc_debtor_id c = i" "acc_creditor_id c = j" using effb st by (simp_all add: c)
  from save_account_row [OF save refl wf2] obtain r p n where
    row: "get_account_row i j d' = Some (c\<lparr>acc_interest_rate := r, acc_previous_interest_rate := p, acc_negligible_amount := n\<rparr>)"
    (is "_ = Some ?row") by (auto simp: keys)
  have "is_deleted ?row" by (rule is_deleted_marked [of _ "acc_status_flags b"]) (simp add: c)
  moreover have "acc_principal ?row = 0" "acc_interest ?row = Fin 0" by (simp_all add: c)
  moreover have "acc_total_locked_amount ?row = 0" "acc_pending_transfers_count ?row = 0"
    using lc lb count locked by (simp_all add: lock_fields_def)
  ultimately show "\<exists>row. get_account_row i j d' = Some row \<and> is_deleted row \<and> acc_principal row = 0 \<and> acc_interest row = Fin 0
      \<and> acc_total_locked_amount row = 0 \<and> acc_pending_transfers_count row = 0"
    using row by blast
qed

lemma try_to_delete_account_parts:
  assumes run: "try_to_delete_account E ts i j d = Inr d'" and a: "get_account i j d = Some a" and j: "j \<noteq> ROOT_CREDITOR_ID"
  obtains (refused) "save_account E (a\<lparr>acc_last_deletion_attempt_ts := ts\<rparr>) d = Inr d'"
  | (performed) b d1 c d2 x where "acc_config_flags a AND CONFIG_SCHEDULED_FOR_DELETION_FLAG \<noteq> 0"
      "acc_pending_transfers_count a = 0" "Account_calc_current_balance E a ts = Inr x"
      "is_negligible_balance x (acc_negligible_amount a) = Inr True"
      "make_debtor_payment_on E CT_DELETE (a\<lparr>acc_last_deletion_attempt_ts := ts\<rparr>) (- acc_principal a) ts [] [] d = Inr (b, d1)"
      "mark_account_as_deleted E b ts d1 = Inr (c, d2)" "save_account E c d2 = Inr d'"
proof -
  let ?a = "a\<lparr>acc_last_deletion_attempt_ts := ts\<rparr>"
  let ?sched = "acc_config_flags a AND CONFIG_SCHEDULED_FOR_DELETION_FLAG \<noteq> 0"
  have fields: "acc_config_flags ?a = acc_config_flags a" "acc_principal ?a = acc_principal a"
      "acc_pending_transfers_count ?a = acc_pending_transfers_count a"
      "acc_negligible_amount ?a = acc_negligible_amount a"
      "Account_calc_current_balance E ?a ts = Account_calc_current_balance E a ts"
    by (simp_all add: Account_calc_current_balance_def)
  have pay: "(if acc_principal a \<noteq> 0 then make_debtor_payment_on E CT_DELETE ?a (- acc_principal a) ts [] [] d else Inr (?a, d))
      = make_debtor_payment_on E CT_DELETE ?a (- acc_principal a) ts [] [] d"
    by (simp add: make_debtor_payment_on_def int_bounds)
  have "\<exists>can. (if ?sched \<and> acc_pending_transfers_count a = 0 then
                   bindR (Account_calc_current_balance E a ts) (\<lambda>balance.
                   is_negligible_balance balance (acc_negligible_amount a))
                 else Inr False) = Inr can
    \<and> (\<exists>c d2. (if can then
                   bindR (make_debtor_payment_on E CT_DELETE ?a (- acc_principal a) ts [] [] d) (\<lambda>(a, d).
                   mark_account_as_deleted E a ts d)
                 else Inr (?a, d)) = Inr (c, d2) \<and> save_account E c d2 = Inr d')"
    using run a j unfolding try_to_delete_account_def Let_def
    by (simp only: if_False option.simps bindR_eq_Inr fields split_paired_Ex case_prod_conv pay)
  then show thesis using refused performed by (auto simp: bindR_eq_Inr split: if_splits)
qed

lemma try_to_delete_account_InrD:
  assumes run: "try_to_delete_account E ts i j d = Inr d'" and wf: "db_wf d" and locks: "locks_within d"
  shows "d' = d \<or> (\<exists>amt a row. payment_effect ts i j amt d d' \<and> get_account i j d = Some a
    \<and> j \<noteq> ROOT_CREDITOR_ID \<and> get_account_row i j d' = Some row
    \<and> (if is_deleted row then
         amt = - acc_principal a \<and> acc_principal row = 0 \<and> acc_interest row = Fin 0
         \<and> acc_pending_transfers_count row = 0 \<and> acc_total_locked_amount row = 0
         \<and> acc_config_flags a AND CONFIG_SCHEDULED_FOR_DELETION_FLAG \<noteq> 0
         \<and> acc_pending_transfers_count a = 0
         \<and> (\<exists>b. Account_calc_current_balance E a ts = Inr b
              \<and> is_negligible_balance b (acc_negligible_amount a) = Inr True)
       else amt = 0))"
proof (cases "j = ROOT_CREDITOR_ID \<or> get_account i j d = None")
  case True
  then show ?thesis using run by (auto simp: try_to_delete_account_def split: if_splits)
next
  case False
  then obtain a where a: "get_account i j d = Some a" and j: "j \<noteq> ROOT_CREDITOR_ID" by auto
  from run a j show ?thesis
  proof (cases rule: try_to_delete_account_parts)
    case refused
    from deletion_refused [OF a wf this] show ?thesis using a j by fastforce
  next
    case (performed b d1 c d2 x)
    from deletion_performed [OF a j wf locks performed(2,5-7)] show ?thesis using a j performed(1-4) by fastforce
  qed
qed

end
