(* ===== verification/Chores.thy ===== *)
theory Chores
  imports Config IsoTime Payments
begin

text \<open>
  The chores of \<open>swpt_accounts/chores.py\<close>: messages that the account scanner sends to the chores broker, and
  the actors that receive them, check them, and call one procedure.  Time stamps travel in ISO format.
  \<open>current_ts\<close> is the clock the called procedure reads.
\<close>

datatype chore =
    change_interest_rate_chore int int pyfloat pystr
  | update_debtor_info_chore int int "pystr option" "pystr option" "pystr option" pystr
  | capitalize_interest_chore int int
  | try_to_delete_account_chore int int

text \<open>
  The procedures that take a time stamp look at it only for accounts that are not the root account; a
  naive one then raises.
\<close>

definition with_aware :: "pydatetime \<Rightarrow> int \<Rightarrow> (datetime \<Rightarrow> db result) \<Rightarrow> db \<Rightarrow> db result" where
  "with_aware ts creditor_id procedure d =
     (case ts of
        Aware t \<Rightarrow> procedure t
      | Naive _ \<Rightarrow> if creditor_id = ROOT_CREDITOR_ID then Inr d else Inl TypeError)"

definition change_interest_rate_actor ::
    "env \<Rightarrow> app_config \<Rightarrow> datetime \<Rightarrow> int \<Rightarrow> int \<Rightarrow> pyfloat \<Rightarrow> pystr \<Rightarrow> db \<Rightarrow> db result" where
  "change_interest_rate_actor E c current_ts debtor_id creditor_id interest_rate ts d =
     bindR (assertR (is_int64 debtor_id)) (\<lambda>_.
     bindR (assertR (is_int64 creditor_id)) (\<lambda>_.
     bindR (assertR (interest_rate \<noteq> NaN)) (\<lambda>_.
     bindR (fromisoformat ts) (\<lambda>parsed_ts.
     with_aware parsed_ts creditor_id (\<lambda>t.
       change_interest_rate E current_ts debtor_id creditor_id interest_rate (Some t)
         (signalbus_max_delay_seconds c) d) d))))"

definition update_debtor_info_actor ::
    "env \<Rightarrow> datetime \<Rightarrow> int \<Rightarrow> int \<Rightarrow> pystr option \<Rightarrow> pystr option \<Rightarrow> pystr option \<Rightarrow> pystr \<Rightarrow> db \<Rightarrow> db result" where
  "update_debtor_info_actor E current_ts debtor_id creditor_id debtor_info_iri debtor_info_content_type
       debtor_info_sha256 ts d =
     bindR (case debtor_info_sha256 of
              None \<Rightarrow> Inr None
            | Some h \<Rightarrow> if h = [] then Inr (Some []) else bindR (b16decode h) (\<lambda>b. Inr (Some b))) (\<lambda>sha256.
     bindR (assertR (is_int64 debtor_id)) (\<lambda>_.
     bindR (assertR (is_int64 creditor_id)) (\<lambda>_.
     bindR (assertR (case debtor_info_iri of None \<Rightarrow> True | Some s \<Rightarrow> length s \<le> 200)) (\<lambda>_.
     bindR (assertR (case debtor_info_content_type of None \<Rightarrow> True | Some s \<Rightarrow> length s \<le> 100 \<and> isascii s)) (\<lambda>_.
     bindR (assertR (case sha256 of None \<Rightarrow> True | Some b \<Rightarrow> length b = 32)) (\<lambda>_.
     bindR (fromisoformat ts) (\<lambda>parsed_ts.
     with_aware parsed_ts creditor_id (\<lambda>t.
       update_debtor_info E current_ts debtor_id creditor_id debtor_info_iri sha256
         debtor_info_content_type (Some t) d) d)))))))"

definition capitalize_interest_actor :: "env \<Rightarrow> app_config \<Rightarrow> datetime \<Rightarrow> int \<Rightarrow> int \<Rightarrow> db \<Rightarrow> db result" where
  "capitalize_interest_actor E c current_ts debtor_id creditor_id d =
     bindR (assertR (is_int64 debtor_id)) (\<lambda>_.
     bindR (assertR (is_int64 creditor_id)) (\<lambda>_.
     bindR (timedelta_days (APP_MIN_INTEREST_CAPITALIZATION_DAYS c)) (\<lambda>min_interval.
     capitalize_interest E current_ts debtor_id creditor_id min_interval d)))"

definition try_to_delete_account_actor :: "env \<Rightarrow> datetime \<Rightarrow> int \<Rightarrow> int \<Rightarrow> db \<Rightarrow> db result" where
  "try_to_delete_account_actor E current_ts debtor_id creditor_id d =
     bindR (assertR (is_int64 debtor_id)) (\<lambda>_.
     bindR (assertR (is_int64 creditor_id)) (\<lambda>_.
     try_to_delete_account E current_ts debtor_id creditor_id d))"

fun perform_chore :: "env \<Rightarrow> app_config \<Rightarrow> datetime \<Rightarrow> chore \<Rightarrow> db \<Rightarrow> db result" where
  "perform_chore E c current_ts (change_interest_rate_chore i j r ts) d =
     change_interest_rate_actor E c current_ts i j r ts d"
| "perform_chore E c current_ts (update_debtor_info_chore i j iri ctype sha256 ts) d =
     update_debtor_info_actor E current_ts i j iri ctype sha256 ts d"
| "perform_chore E c current_ts (capitalize_interest_chore i j) d = capitalize_interest_actor E c current_ts i j d"
| "perform_chore E c current_ts (try_to_delete_account_chore i j) d = try_to_delete_account_actor E current_ts i j d"

section \<open>A chore that passes its checks is one call of its procedure\<close>

lemma with_aware_InrD: "with_aware dt j f d = Inr d' \<Longrightarrow> d' = d \<or> (\<exists>t. f t = Inr d')"
  by (cases dt) (auto simp: with_aware_def split: if_splits)

lemma perform_chore_InrD:
  assumes "perform_chore E c ts x d = Inr d'"
  shows "d' = d
    \<or> (\<exists>i j r t delay. change_interest_rate E ts i j r t delay d = Inr d')
    \<or> (\<exists>i j iri sha ctype t. update_debtor_info E ts i j iri sha ctype t d = Inr d')
    \<or> (\<exists>i j iv. capitalize_interest E ts i j iv d = Inr d')
    \<or> (\<exists>i j. try_to_delete_account E ts i j d = Inr d')"
proof (cases x)
  case (change_interest_rate_chore i j r s)
  then show ?thesis using assms
    by (auto simp: change_interest_rate_actor_def monad_simps dest!: with_aware_InrD)
next
  case (update_debtor_info_chore i j iri ctype sha s)
  then show ?thesis using assms
    by (auto simp: update_debtor_info_actor_def monad_simps simp del: option.case_eq_if split del: option.splits
        dest!: with_aware_InrD)
next
  case (capitalize_interest_chore i j)
  then show ?thesis using assms by (auto simp: capitalize_interest_actor_def monad_simps)
next
  case (try_to_delete_account_chore i j)
  then show ?thesis using assms by (auto simp: try_to_delete_account_actor_def monad_simps)
qed

end
