(* ===== verification/Preparation.thy ===== *)
theory Preparation
  imports Invariants Samples "HOL-Library.Multiset"
begin

text \<open>
  The first phase of a transfer in \<open>swpt_accounts/procedures.py\<close>: \<open>prepare_transfer\<close> queues
  a request, and \<open>process_transfer_requests\<close> answers all queued requests of one sender,
  locking an amount and storing a prepared transfer for those it accepts.  \<open>skip\<close> tells
  the queue rows that another transaction holds a lock on: \<open>FOR UPDATE SKIP LOCKED\<close> leaves
  them out.
\<close>

section \<open>Queueing requests\<close>

definition prepare_transfer ::
    "env \<Rightarrow> pystr \<Rightarrow> int \<Rightarrow> int \<Rightarrow> int \<Rightarrow> int \<Rightarrow> int \<Rightarrow> int \<Rightarrow> int option \<Rightarrow> datetime \<Rightarrow> int \<Rightarrow>
     pyfloat \<Rightarrow> db \<Rightarrow> db result" where
  "prepare_transfer E coordinator_type coordinator_id coordinator_request_id min_locked_amount
       max_locked_amount debtor_id creditor_id recipient_creditor_id ts max_commit_delay
       min_interest_rate d =
     (case recipient_creditor_id of
        None \<Rightarrow>
          Inr (add_rejected_transfer_signal
            \<lparr>rts_debtor_id = debtor_id, rts_sender_creditor_id = creditor_id,
             rts_coordinator_type = coordinator_type, rts_coordinator_id = coordinator_id,
             rts_coordinator_request_id = coordinator_request_id,
             rts_status_code = SC_RECIPIENT_IS_UNREACHABLE, rts_total_locked_amount = 0,
             rts_inserted_at = None\<rparr> d)
      | Some recipient \<Rightarrow>
          bindR (datetime_add ts (timedelta_seconds max_commit_delay)) (\<lambda>deadline.
          insert_transfer_request E
            \<lparr>tr_debtor_id = debtor_id, tr_sender_creditor_id = creditor_id,
             tr_transfer_request_id = 0, tr_coordinator_type = coordinator_type,
             tr_coordinator_id = coordinator_id,
             tr_coordinator_request_id = coordinator_request_id,
             tr_min_locked_amount = min_locked_amount, tr_max_locked_amount = max_locked_amount,
             tr_deadline = deadline, tr_min_interest_rate = min_interest_rate,
             tr_recipient_creditor_id = recipient\<rparr> d))"

section \<open>Preparing transfers\<close>

definition rejected_transfer_signal_of :: "transfer_request \<Rightarrow> pystr \<Rightarrow> int \<Rightarrow> rejected_transfer_signal" where
  "rejected_transfer_signal_of tr status_code total_locked_amount =
     \<lparr>rts_debtor_id = tr_debtor_id tr, rts_sender_creditor_id = tr_sender_creditor_id tr,
      rts_coordinator_type = tr_coordinator_type tr, rts_coordinator_id = tr_coordinator_id tr,
      rts_coordinator_request_id = tr_coordinator_request_id tr, rts_status_code = status_code,
      rts_total_locked_amount = total_locked_amount, rts_inserted_at = None\<rparr>"

definition reject :: "transfer_request \<Rightarrow> pystr \<Rightarrow> int \<Rightarrow> rejected_transfer_signal result" where
  "reject tr status_code total_locked_amount =
     bindR (assertR (0 \<le> total_locked_amount)) (\<lambda>_.
     Inr (rejected_transfer_signal_of tr status_code total_locked_amount))"

definition lock_amount :: "int \<Rightarrow> account \<Rightarrow> account" where
  "lock_amount amount a =
     a\<lparr>acc_total_locked_amount := min (acc_total_locked_amount a + amount) MAX_INT64,
       acc_pending_transfers_count := acc_pending_transfers_count a + 1,
       acc_last_transfer_id := acc_last_transfer_id a + 1\<rparr>"

definition prepared_transfer_row ::
    "transfer_request \<Rightarrow> int \<Rightarrow> int \<Rightarrow> datetime \<Rightarrow> datetime \<Rightarrow> prepared_transfer" where
  "prepared_transfer_row tr transfer_id amount deadline current_ts =
     \<lparr>pt_debtor_id = tr_debtor_id tr, pt_sender_creditor_id = tr_sender_creditor_id tr,
      pt_transfer_id = transfer_id,
      pt_coordinator_type = tr_coordinator_type tr, pt_coordinator_id = tr_coordinator_id tr,
      pt_coordinator_request_id = tr_coordinator_request_id tr,
      pt_recipient_creditor_id = tr_recipient_creditor_id tr, pt_prepared_at = current_ts,
      pt_min_interest_rate = tr_min_interest_rate tr, pt_demurrage_rate = INTEREST_RATE_FLOOR,
      pt_deadline = deadline, pt_locked_amount = amount, pt_last_reminder_ts = None\<rparr>"

definition prepared_transfer_signal_of ::
    "transfer_request \<Rightarrow> int \<Rightarrow> int \<Rightarrow> datetime \<Rightarrow> datetime \<Rightarrow> prepared_transfer_signal" where
  "prepared_transfer_signal_of tr transfer_id amount deadline current_ts =
     \<lparr>pts_debtor_id = tr_debtor_id tr, pts_sender_creditor_id = tr_sender_creditor_id tr,
      pts_transfer_id = transfer_id,
      pts_coordinator_type = tr_coordinator_type tr, pts_coordinator_id = tr_coordinator_id tr,
      pts_coordinator_request_id = tr_coordinator_request_id tr, pts_locked_amount = amount,
      pts_recipient_creditor_id = tr_recipient_creditor_id tr, pts_prepared_at = current_ts,
      pts_demurrage_rate = INTEREST_RATE_FLOOR, pts_deadline = deadline,
      pts_min_interest_rate = tr_min_interest_rate tr, pts_inserted_at = Some current_ts\<rparr>"

definition prepare ::
    "env \<Rightarrow> transfer_request \<Rightarrow> account \<Rightarrow> datetime \<Rightarrow> int \<Rightarrow> int \<Rightarrow> db \<Rightarrow>
     (prepared_transfer_signal \<times> account \<times> db) result" where
  "prepare E tr a current_ts commit_period amount d =
     (let a = lock_amount amount a;
          transfer_commit_period =
            (if flt INTEREST_RATE_FLOOR (tr_min_interest_rate tr)
             then min commit_period SECONDS_IN_DAY else commit_period)
      in bindR (datetime_add current_ts (timedelta_seconds transfer_commit_period)) (\<lambda>latest.
         let deadline = min latest (tr_deadline tr) in
         bindR (insert_prepared_transfer E
                  (prepared_transfer_row tr (acc_last_transfer_id a) amount deadline current_ts) d) (\<lambda>d.
         Inr (prepared_transfer_signal_of tr (acc_last_transfer_id a) amount deadline current_ts, a, d))))"

definition process_transfer_request ::
    "env \<Rightarrow> transfer_request \<Rightarrow> account option \<Rightarrow> datetime \<Rightarrow> int \<Rightarrow> db \<Rightarrow>
     ((rejected_transfer_signal + prepared_transfer_signal) \<times> account option \<times> db) result" where
  "process_transfer_request E tr sender_account current_ts commit_period d =
     (let d = delete_transfer_request tr d;
          rejected = (\<lambda>code locked. bindR (reject tr code locked) (\<lambda>s. Inr (Inl s, sender_account, d)))
      in case sender_account of
        None \<Rightarrow> rejected SC_SENDER_IS_UNREACHABLE 0
      | Some a \<Rightarrow>
          bindR (assertR (acc_debtor_id a = tr_debtor_id tr)) (\<lambda>_.
          bindR (assertR (acc_creditor_id a = tr_sender_creditor_id tr)) (\<lambda>_.
          if MAX_INT32 \<le> acc_pending_transfers_count a then
            rejected SC_TOO_MANY_TRANSFERS (acc_total_locked_amount a)
          else if tr_sender_creditor_id tr = tr_recipient_creditor_id tr then
            rejected SC_RECIPIENT_SAME_AS_SENDER (acc_total_locked_amount a)
          else if flt (acc_interest_rate a) (tr_min_interest_rate tr) then
            rejected SC_TOO_LOW_INTEREST_RATE (acc_total_locked_amount a)
          else
            bindR (get_available_amount_of E a current_ts) (\<lambda>available_amount.
            let expendable_amount = available_amount - get_min_account_balance (tr_sender_creditor_id tr);
                expendable_amount = min expendable_amount (tr_max_locked_amount tr);
                expendable_amount = max 0 expendable_amount
            in if expendable_amount < tr_min_locked_amount tr then
                 rejected SC_INSUFFICIENT_AVAILABLE_AMOUNT (acc_total_locked_amount a)
               else
                 bindR (prepare E tr a current_ts commit_period expendable_amount d) (\<lambda>(s, a, d).
                 Inr (Inr s, Some a, d))))))"

record transfer_loop =
  tl_account :: "account option"
  tl_rejected :: "rejected_transfer_signal list"
  tl_prepared :: "prepared_transfer_signal list"
  tl_db :: db

definition transfer_loop_body ::
    "env \<Rightarrow> datetime \<Rightarrow> int \<Rightarrow> transfer_request \<Rightarrow> transfer_loop \<Rightarrow> transfer_loop result" where
  "transfer_loop_body E current_ts commit_period tr l =
     bindR (process_transfer_request E tr (tl_account l) current_ts commit_period (tl_db l)) (\<lambda>(s, a, d).
     Inr (case s of
            Inl r \<Rightarrow> l\<lparr>tl_account := a, tl_db := d, tl_rejected := tl_rejected l @ [r]\<rparr>
          | Inr p \<Rightarrow> l\<lparr>tl_account := a, tl_db := d, tl_prepared := tl_prepared l @ [p]\<rparr>))"

definition transfer_requests_of :: "int \<Rightarrow> int \<Rightarrow> db \<Rightarrow> transfer_request list" where
  "transfer_requests_of debtor_id creditor_id d =
     [tr \<leftarrow> db_transfer_requests d. tr_debtor_id tr = debtor_id \<and> tr_sender_creditor_id tr = creditor_id]"

definition process_transfer_requests ::
    "env \<Rightarrow> (transfer_request \<Rightarrow> bool) \<Rightarrow> datetime \<Rightarrow> int \<Rightarrow> int \<Rightarrow> int \<Rightarrow> db \<Rightarrow> db result" where
  "process_transfer_requests E skip current_ts debtor_id creditor_id commit_period d =
     (let requests = [tr \<leftarrow> transfer_requests_of debtor_id creditor_id d. \<not> skip tr]
      in if requests \<noteq> [] then
           let sender_account = get_account debtor_id creditor_id d in
           bindR (foldR (transfer_loop_body E current_ts commit_period) requests
                    \<lparr>tl_account = sender_account, tl_rejected = [], tl_prepared = [], tl_db = d\<rparr>) (\<lambda>l.
           let d = fold add_rejected_transfer_signal (tl_rejected l) (tl_db l) in
           bindR (foldR (add_prepared_transfer_signal E) (tl_prepared l) d) (\<lambda>d.
           save_sender E (tl_account l) d))
         else Inr d)"

definition get_accounts_with_transfer_requests :: "int option \<Rightarrow> db \<Rightarrow> (int \<times> int) list" where
  "get_accounts_with_transfer_requests max_count d =
     (let q = remdups (map (\<lambda>tr. (tr_debtor_id tr, tr_sender_creditor_id tr)) (db_transfer_requests d))
      in case max_count of None \<Rightarrow> q | Some n \<Rightarrow> take (nat n) q)"

section \<open>What one request changes\<close>


lemma delete_transfer_request_simps [simp]:
  "db_accounts (delete_transfer_request tr d) = db_accounts d"
  "db_prepared_transfers (delete_transfer_request tr d) = db_prepared_transfers d"
  "db_transfer_requests (delete_transfer_request tr d)
     = tbl_delete transfer_request_pk (transfer_request_pk tr) (db_transfer_requests d)"
  by (simp_all add: delete_transfer_request_def)

lemma get_account_row_cong: "db_accounts d = db_accounts d' \<Longrightarrow> get_account_row i j d = get_account_row i j d'"
  by (simp add: get_account_row_def)

lemma lock_amount_simps [simp]:
  "acc_debtor_id (lock_amount n a) = acc_debtor_id a"
  "acc_creditor_id (lock_amount n a) = acc_creditor_id a"
  "account_pk (lock_amount n a) = account_pk a"
  "acc_last_transfer_id (lock_amount n a) = acc_last_transfer_id a + 1"
  "acc_pending_transfers_count (lock_amount n a) = acc_pending_transfers_count a + 1"
  "acc_total_locked_amount (lock_amount n a) = min (acc_total_locked_amount a + n) MAX_INT64"
  "acc_principal (lock_amount n a) = acc_principal a"
  "acc_interest (lock_amount n a) = acc_interest a"
  "acc_interest_rate (lock_amount n a) = acc_interest_rate a"
  "acc_last_change_ts (lock_amount n a) = acc_last_change_ts a"
  "acc_status_flags (lock_amount n a) = acc_status_flags a"
  by (simp_all add: lock_amount_def account_pk_def)

lemma prepared_transfer_row_simps [simp]:
  "pt_debtor_id (prepared_transfer_row tr i n dl ts) = tr_debtor_id tr"
  "pt_sender_creditor_id (prepared_transfer_row tr i n dl ts) = tr_sender_creditor_id tr"
  "pt_transfer_id (prepared_transfer_row tr i n dl ts) = i"
  "pt_min_interest_rate (prepared_transfer_row tr i n dl ts) = tr_min_interest_rate tr"
  "pt_locked_amount (prepared_transfer_row tr i n dl ts) = n"
  "pt_deadline (prepared_transfer_row tr i n dl ts) = dl"
  "pt_coordinator_type (prepared_transfer_row tr i n dl ts) = tr_coordinator_type tr"
  "pt_coordinator_id (prepared_transfer_row tr i n dl ts) = tr_coordinator_id tr"
  "pt_coordinator_request_id (prepared_transfer_row tr i n dl ts) = tr_coordinator_request_id tr"
  by (simp_all add: prepared_transfer_row_def)

lemma reject_InrD: "reject tr c n = Inr s \<Longrightarrow> s = rejected_transfer_signal_of tr c n \<and> 0 \<le> n"
  by (simp add: reject_def monad_simps)

lemma prepare_InrD [effects]:
  assumes "prepare E tr a ts cp amt d = Inr (p, a', d')"
  shows "a' = lock_amount amt a \<and>
    (\<exists>deadline r t. deadline \<le> tr_deadline tr
       \<and> deadline \<le> ts + timedelta_seconds cp
       \<and> p = prepared_transfer_signal_of tr (acc_last_transfer_id a + 1) amt deadline ts
       \<and> get_account_row (tr_debtor_id tr) (tr_sender_creditor_id tr) d \<noteq> None
       \<and> tbl_insert prepared_transfer_pk prepared_transfer_ok
           (prepared_transfer_row tr (acc_last_transfer_id a + 1) amt deadline ts\<lparr>pt_min_interest_rate := r\<rparr>)
           (db_prepared_transfers d) = Inr t
       \<and> d' = d\<lparr>db_prepared_transfers := t\<rparr>)"
proof -
  define period where "period =
    (if flt INTEREST_RATE_FLOOR (tr_min_interest_rate tr) then min cp SECONDS_IN_DAY else cp)"
  define deadline where "deadline = min (ts + timedelta_seconds period) (tr_deadline tr)"
  have "deadline \<le> tr_deadline tr" "deadline \<le> ts + timedelta_seconds cp"
    by (auto simp: deadline_def period_def timedelta_seconds_def)
  moreover obtain d1 where d1: "insert_prepared_transfer E
        (prepared_transfer_row tr (acc_last_transfer_id a + 1) amt deadline ts) d = Inr d1"
    and *: "p = prepared_transfer_signal_of tr (acc_last_transfer_id a + 1) amt deadline ts"
      "a' = lock_amount amt a" "d' = d1"
    using assms
    by (simp add: prepare_def Let_def monad_simps deadline_def period_def)
  moreover from d1 obtain r t where
      "get_account_row (tr_debtor_id tr) (tr_sender_creditor_id tr) d \<noteq> None"
      "tbl_insert prepared_transfer_pk prepared_transfer_ok
           (prepared_transfer_row tr (acc_last_transfer_id a + 1) amt deadline ts\<lparr>pt_min_interest_rate := r\<rparr>)
           (db_prepared_transfers d) = Inr t" "d1 = d\<lparr>db_prepared_transfers := t\<rparr>"
    by (simp add: insert_prepared_transfer_def Let_def monad_simps) blast
  ultimately show ?thesis by blast
qed

lemma process_transfer_request_InrD [effects]:
  assumes "process_transfer_request E tr sa ts cp d = Inr (s, sa', d')"
  shows "(\<exists>code n. s = Inl (rejected_transfer_signal_of tr code n) \<and> sa' = sa
            \<and> d' = delete_transfer_request tr d)
    \<or> (\<exists>a avail amt p a'. sa = Some a \<and> s = Inr p \<and> sa' = Some a'
          \<and> acc_debtor_id a = tr_debtor_id tr \<and> acc_creditor_id a = tr_sender_creditor_id tr
          \<and> acc_pending_transfers_count a < MAX_INT32
          \<and> tr_sender_creditor_id tr \<noteq> tr_recipient_creditor_id tr
          \<and> \<not> flt (acc_interest_rate a) (tr_min_interest_rate tr)
          \<and> get_available_amount_of E a ts = Inr avail
          \<and> amt = max 0 (min (avail - get_min_account_balance (tr_sender_creditor_id tr))
                            (tr_max_locked_amount tr))
          \<and> tr_min_locked_amount tr \<le> amt
          \<and> prepare E tr a ts cp amt (delete_transfer_request tr d) = Inr (p, a', d'))"
proof (cases sa)
  case None
  with assms show ?thesis
    by (auto simp: process_transfer_request_def Let_def monad_simps dest: reject_InrD)
next
  case (Some a)
  with assms show ?thesis
    by (auto simp: process_transfer_request_def Let_def monad_simps not_less not_le dest!: reject_InrD
        split: if_splits)
qed

text \<open>One iteration of the loop of \<open>process_transfer_requests\<close>.\<close>

lemma transfer_loop_body_cases [consumes 1, case_names rejected prepared]:
  assumes "transfer_loop_body E ts cp tr l = Inr l'"
  obtains code n where "l' = l\<lparr>tl_db := delete_transfer_request tr (tl_db l),
        tl_rejected := tl_rejected l @ [rejected_transfer_signal_of tr code n]\<rparr>"
  | a avail amt deadline r t where "tl_account l = Some a"
      "acc_debtor_id a = tr_debtor_id tr" "acc_creditor_id a = tr_sender_creditor_id tr"
      "acc_pending_transfers_count a < MAX_INT32"
      "tr_sender_creditor_id tr \<noteq> tr_recipient_creditor_id tr"
      "\<not> flt (acc_interest_rate a) (tr_min_interest_rate tr)"
      "get_available_amount_of E a ts = Inr avail"
      "amt = max 0 (min (avail - get_min_account_balance (tr_sender_creditor_id tr))
                            (tr_max_locked_amount tr))"
      "tr_min_locked_amount tr \<le> amt"
      "deadline \<le> tr_deadline tr" "deadline \<le> ts + timedelta_seconds cp"
      "tbl_insert prepared_transfer_pk prepared_transfer_ok
           (prepared_transfer_row tr (acc_last_transfer_id a + 1) amt deadline ts\<lparr>pt_min_interest_rate := r\<rparr>)
           (db_prepared_transfers (tl_db l)) = Inr t"
      "l' = l\<lparr>tl_account := Some (lock_amount amt a),
        tl_db := (delete_transfer_request tr (tl_db l))\<lparr>db_prepared_transfers := t\<rparr>,
        tl_prepared := tl_prepared l
          @ [prepared_transfer_signal_of tr (acc_last_transfer_id a + 1) amt deadline ts]\<rparr>"
proof -
  obtain s sa' d' where p: "process_transfer_request E tr (tl_account l) ts cp (tl_db l) = Inr (s, sa', d')"
    and l': "l' = (case s of
            Inl r \<Rightarrow> l\<lparr>tl_account := sa', tl_db := d', tl_rejected := tl_rejected l @ [r]\<rparr>
          | Inr p \<Rightarrow> l\<lparr>tl_account := sa', tl_db := d', tl_prepared := tl_prepared l @ [p]\<rparr>)"
    using assms by (auto simp: transfer_loop_body_def monad_simps)
  from process_transfer_request_InrD [OF p] show thesis
  proof (elim disjE exE conjE, goal_cases)
    case (1 code n)
    then show thesis using l' that(1) by simp
  next
    case (2 a avail amt p a')
    from prepare_InrD [OF this(12)] obtain deadline r t where
      *: "deadline \<le> tr_deadline tr" "deadline \<le> ts + timedelta_seconds cp"
         "p = prepared_transfer_signal_of tr (acc_last_transfer_id a + 1) amt deadline ts"
         "tbl_insert prepared_transfer_pk prepared_transfer_ok
           (prepared_transfer_row tr (acc_last_transfer_id a + 1) amt deadline ts\<lparr>pt_min_interest_rate := r\<rparr>)
           (db_prepared_transfers (tl_db l)) = Inr t"
         "d' = (delete_transfer_request tr (tl_db l))\<lparr>db_prepared_transfers := t\<rparr>"
         "a' = lock_amount amt a"
      by auto
    from that(2) [OF 2(1,4,5,6,7,8,9,10,11) *(1,2,4)] show thesis
      using l' 2 * by simp
  qed
qed


section \<open>The loop over the requests of a sender\<close>

definition request_id :: "transfer_request \<Rightarrow> pystr \<times> int \<times> int" where
  "request_id tr = (tr_coordinator_type tr, tr_coordinator_id tr, tr_coordinator_request_id tr)"

definition rejected_id :: "rejected_transfer_signal \<Rightarrow> pystr \<times> int \<times> int" where
  "rejected_id s = (rts_coordinator_type s, rts_coordinator_id s, rts_coordinator_request_id s)"

definition prepared_id :: "prepared_transfer_signal \<Rightarrow> pystr \<times> int \<times> int" where
  "prepared_id s = (pts_coordinator_type s, pts_coordinator_id s, pts_coordinator_request_id s)"

lemma answer_ids [simp]:
  "rejected_id (rejected_transfer_signal_of tr c n) = request_id tr"
  "prepared_id (prepared_transfer_signal_of tr i n dl ts) = request_id tr"
  "prepared_id (p\<lparr>pts_min_interest_rate := r\<rparr>) = prepared_id p"
  by (simp_all add: rejected_id_def prepared_id_def request_id_def rejected_transfer_signal_of_def
      prepared_transfer_signal_of_def)

lemma transfer_loop_answers:
  "foldR (transfer_loop_body E ts cp) trs l = Inr l' \<Longrightarrow>
   mset (map rejected_id (tl_rejected l')) + mset (map prepared_id (tl_prepared l'))
   = mset (map rejected_id (tl_rejected l)) + mset (map prepared_id (tl_prepared l))
     + mset (map request_id trs)"
proof (induction trs arbitrary: l)
  case Nil
  then show ?case by simp
next
  case (Cons tr trs)
  then obtain m where m: "transfer_loop_body E ts cp tr l = Inr m"
    and "foldR (transfer_loop_body E ts cp) trs m = Inr l'" by (auto simp: monad_simps)
  then show ?case using Cons.IH by (cases rule: transfer_loop_body_cases [OF m]) simp_all
qed

text \<open>Only two tables change inside the loop.\<close>

lemma transfer_loop_frame:
  "foldR (transfer_loop_body E ts cp) trs l = Inr l' \<Longrightarrow>
   \<exists>Y. tl_db l' = (tl_db l)\<lparr>db_transfer_requests :=
           filter (\<lambda>r. transfer_request_pk r \<notin> transfer_request_pk ` set trs) (db_transfer_requests (tl_db l)),
         db_prepared_transfers := Y\<rparr>"
proof (induction trs arbitrary: l)
  case Nil
  show ?case using Nil by (intro exI [of _ "db_prepared_transfers (tl_db l)"]) simp
next
  case (Cons tr trs)
  then obtain m where m: "transfer_loop_body E ts cp tr l = Inr m"
    and "foldR (transfer_loop_body E ts cp) trs m = Inr l'" by (auto simp: monad_simps)
  with Cons.IH obtain Y where "tl_db l' = (tl_db m)\<lparr>db_transfer_requests :=
           filter (\<lambda>r. transfer_request_pk r \<notin> transfer_request_pk ` set trs) (db_transfer_requests (tl_db m)),
         db_prepared_transfers := Y\<rparr>" by blast
  then show ?case
    by (cases rule: transfer_loop_body_cases [OF m])
      (auto simp: delete_transfer_request_def tbl_delete_def intro!: exI [of _ Y] filter_cong)
qed

text \<open>The account of the loop differs from the loaded one in its lock fields only.\<close>

definition same_but_locks :: "account \<Rightarrow> account \<Rightarrow> bool" where
  "same_but_locks a b \<longleftrightarrow>
     b = a\<lparr>acc_total_locked_amount := acc_total_locked_amount b,
           acc_pending_transfers_count := acc_pending_transfers_count b,
           acc_last_transfer_id := acc_last_transfer_id b\<rparr>"

lemma same_but_locks_refl [simp]: "same_but_locks a a"
  by (simp add: same_but_locks_def)

lemma same_but_locks_lock: "same_but_locks a b \<Longrightarrow> same_but_locks a (lock_amount n b)"
  unfolding same_but_locks_def lock_amount_def by (cases a; cases b) simp

lemma same_but_locks_eqs:
  assumes "same_but_locks a b"
  shows "acc_debtor_id b = acc_debtor_id a" "acc_creditor_id b = acc_creditor_id a"
    "account_pk b = account_pk a" "acc_principal b = acc_principal a"
    "acc_interest b = acc_interest a" "acc_interest_rate b = acc_interest_rate a"
    "acc_previous_interest_rate b = acc_previous_interest_rate a"
    "acc_negligible_amount b = acc_negligible_amount a"
    "acc_last_change_ts b = acc_last_change_ts a" "acc_status_flags b = acc_status_flags a"
    "Account_calc_current_balance E b ts = Account_calc_current_balance E a ts"
  by (subst assms [unfolded same_but_locks_def];
      simp add: account_pk_def Account_calc_current_balance_def)+

lemma transfer_loop_account:
  assumes "foldR (transfer_loop_body E ts cp) trs l = Inr l'" and "tl_account l = Some a"
  shows "\<exists>b. tl_account l' = Some b \<and> same_but_locks a b"
  by (rule foldR_invariant [OF assms(1), of "\<lambda>l. \<exists>b. tl_account l = Some b \<and> same_but_locks a b"])
    (use assms(2) in \<open>auto elim!: transfer_loop_body_cases intro: same_but_locks_lock\<close>)



text \<open>The rows and the signals that the loop adds, and what they lock.\<close>

definition announces :: "prepared_transfer_signal \<Rightarrow> prepared_transfer \<Rightarrow> bool" where
  "announces s pt \<longleftrightarrow>
     pts_debtor_id s = pt_debtor_id pt \<and> pts_sender_creditor_id s = pt_sender_creditor_id pt
     \<and> pts_transfer_id s = pt_transfer_id pt \<and> pts_coordinator_type s = pt_coordinator_type pt
     \<and> pts_coordinator_id s = pt_coordinator_id pt
     \<and> pts_coordinator_request_id s = pt_coordinator_request_id pt
     \<and> pts_locked_amount s = pt_locked_amount pt
     \<and> pts_recipient_creditor_id s = pt_recipient_creditor_id pt
     \<and> pts_deadline s = pt_deadline pt"

definition honours :: "datetime \<Rightarrow> int \<Rightarrow> transfer_request \<Rightarrow> prepared_transfer \<Rightarrow> bool" where
  "honours ts commit_period tr pt \<longleftrightarrow>
     (pt_debtor_id pt, pt_sender_creditor_id pt) = (tr_debtor_id tr, tr_sender_creditor_id tr)
     \<and> (pt_coordinator_type pt, pt_coordinator_id pt, pt_coordinator_request_id pt) = request_id tr
     \<and> pt_recipient_creditor_id pt = tr_recipient_creditor_id tr
     \<and> pt_recipient_creditor_id pt \<noteq> pt_sender_creditor_id pt
     \<and> tr_min_locked_amount tr \<le> pt_locked_amount pt
     \<and> pt_locked_amount pt \<le> max 0 (tr_max_locked_amount tr) \<and> 0 \<le> pt_locked_amount pt
     \<and> pt_deadline pt \<le> tr_deadline tr \<and> pt_deadline pt \<le> ts + timedelta_seconds commit_period
     \<and> pt_prepared_at pt = ts \<and> pt_demurrage_rate pt = INTEREST_RATE_FLOOR"

definition locks_for :: "account \<Rightarrow> account \<Rightarrow> prepared_transfer list \<Rightarrow> bool" where
  "locks_for a b new \<longleftrightarrow>
     same_but_locks a b
     \<and> map pt_transfer_id new = [acc_last_transfer_id a + 1..acc_last_transfer_id b]
     \<and> acc_last_transfer_id b = acc_last_transfer_id a + int (length new)
     \<and> acc_pending_transfers_count b = acc_pending_transfers_count a + int (length new)
     \<and> acc_total_locked_amount b \<le> acc_total_locked_amount a + total pt_locked_amount new
     \<and> (acc_total_locked_amount a + total pt_locked_amount new \<le> MAX_INT64 \<longrightarrow>
          acc_total_locked_amount b = acc_total_locked_amount a + total pt_locked_amount new)
     \<and> (\<forall>pt \<in> set new. pt_of (account_pk a) pt \<and> 0 \<le> pt_locked_amount pt)"

lemma same_but_locks_trans: "same_but_locks a b \<Longrightarrow> same_but_locks b c \<Longrightarrow> same_but_locks a c"
  unfolding same_but_locks_def by (cases a; cases b; cases c) simp

lemma locks_for_Nil [simp]: "locks_for a a []"
  by (simp add: locks_for_def)

lemma locks_for_Cons:
  assumes "pt_transfer_id pt = acc_last_transfer_id a + 1" "pt_locked_amount pt = n" "0 \<le> n"
    and "pt_of (account_pk a) pt" and b: "locks_for (lock_amount n a) b new"
  shows "locks_for a b (pt # new)"
proof -
  have s: "same_but_locks a b"
    using b same_but_locks_lock [of a a n] by (auto simp: locks_for_def intro: same_but_locks_trans)
  have nonneg: "0 \<le> total pt_locked_amount new"
    using b by (intro total_nonneg) (auto simp: locks_for_def)
  have "[acc_last_transfer_id a + 1..acc_last_transfer_id b]
      = (acc_last_transfer_id a + 1) # [acc_last_transfer_id a + 1 + 1..acc_last_transfer_id b]"
    using b by (intro upto_rec1) (simp add: locks_for_def)
  then have "map pt_transfer_id (pt # new) = [acc_last_transfer_id a + 1..acc_last_transfer_id b]"
    using assms by (simp add: locks_for_def)
  then show ?thesis using assms s nonneg
    by (simp add: locks_for_def min_def algebra_simps split: if_splits)
qed

lemma transfer_loop_locks:
  "foldR (transfer_loop_body E ts cp) trs l = Inr l' \<Longrightarrow>
   \<exists>new sigs. db_prepared_transfers (tl_db l') = db_prepared_transfers (tl_db l) @ new
     \<and> tl_prepared l' = tl_prepared l @ sigs \<and> list_all2 announces sigs new
     \<and> (\<forall>pt \<in> set new. \<exists>tr \<in> set trs. honours ts cp tr pt)
     \<and> (case tl_account l of
          None \<Rightarrow> new = [] \<and> tl_account l' = None
        | Some a \<Rightarrow> \<exists>b. tl_account l' = Some b \<and> locks_for a b new)"
proof (induction trs arbitrary: l)
  case Nil
  show ?case using Nil by (intro exI [of _ "[]"]) (auto split: option.split)
next
  case (Cons tr trs)
  then obtain m where m: "transfer_loop_body E ts cp tr l = Inr m"
    and "foldR (transfer_loop_body E ts cp) trs m = Inr l'" by (auto simp: monad_simps)
  with Cons.IH obtain new sigs where
    IH: "db_prepared_transfers (tl_db l') = db_prepared_transfers (tl_db m) @ new"
      "tl_prepared l' = tl_prepared m @ sigs" "list_all2 announces sigs new"
      "\<forall>pt \<in> set new. \<exists>tr \<in> set trs. honours ts cp tr pt"
      "case tl_account m of
          None \<Rightarrow> new = [] \<and> tl_account l' = None
        | Some a \<Rightarrow> \<exists>b. tl_account l' = Some b \<and> locks_for a b new" by blast
  from m show ?case
  proof (cases rule: transfer_loop_body_cases)
    case (rejected code n)
    with IH show ?thesis by (intro exI [of _ new] exI [of _ sigs]) auto
  next
    case (prepared a avail amt deadline r t)
    define pt where "pt = prepared_transfer_row tr (acc_last_transfer_id a + 1) amt deadline ts
      \<lparr>pt_min_interest_rate := r\<rparr>"
    define s where "s = prepared_transfer_signal_of tr (acc_last_transfer_id a + 1) amt deadline ts"
    have t: "t = db_prepared_transfers (tl_db l) @ [pt]"
      using prepared(12) by (simp add: pts.ins_Inr pt_def)
    have a: "announces s pt"
      by (simp add: announces_def s_def pt_def prepared_transfer_signal_of_def prepared_transfer_row_def)
    have h: "honours ts cp tr pt" using prepared
      by (auto simp: honours_def pt_def prepared_transfer_row_def request_id_def)
    obtain b where b: "tl_account l' = Some b" "locks_for (lock_amount amt a) b new"
      using IH(5) prepared(13) by auto
    have "locks_for a b (pt # new)"
      by (rule locks_for_Cons [OF _ _ _ _ b(2)])
        (use prepared in \<open>auto simp: pt_def pt_of_def account_pk_def\<close>)
    then show ?thesis using IH prepared t a h b
      by (intro exI [of _ "pt # new"] exI [of _ "s # sigs"]) (auto simp: s_def pt_def)
  qed
qed




text \<open>No overbooking: the total locked amount never passes what the account can spend.\<close>

lemma get_available_amount_same_but_locks:
  assumes "same_but_locks a b" "Account_calc_current_balance E a ts = Inr bal" "dec_floor bal = Inr n"
  shows "get_available_amount_of E b ts = Inr (contain_principal_overflow (n - acc_total_locked_amount b))"
  using assms by (simp add: get_available_amount_of_def same_but_locks_eqs)

lemma locked_within_available:
  assumes "amt = max 0 (min (contain_principal_overflow (n - L) - get_min_account_balance c) m)"
  shows "min (L + amt) MAX_INT64 \<le> max L (n - get_min_account_balance c)"
proof -
  have "contain_principal_overflow (n - L) - get_min_account_balance c
      \<le> max (n - L - get_min_account_balance c) 0"
    using contain_le [of "n - L"] by (auto simp: get_min_account_balance_def int_bounds)
  then show ?thesis using assms by auto
qed

lemma transfer_loop_no_overbooking:
  assumes run: "foldR (transfer_loop_body E ts cp) trs l = Inr l'" and a: "tl_account l = Some a"
    and bal: "Account_calc_current_balance E a ts = Inr bal" "dec_floor bal = Inr n"
  shows "\<exists>b. tl_account l' = Some b \<and> acc_total_locked_amount b
           \<le> max (acc_total_locked_amount a) (n - get_min_account_balance (acc_creditor_id a))"
proof -
  let ?P = "\<lambda>l. \<exists>b. tl_account l = Some b \<and> same_but_locks a b \<and> acc_total_locked_amount b
           \<le> max (acc_total_locked_amount a) (n - get_min_account_balance (acc_creditor_id a))"
  have "?P l'"
  proof (rule foldR_invariant [OF run, of ?P])
    show "?P l" using a by simp
  next
    fix tr u v
    assume u: "?P u" and step: "transfer_loop_body E ts cp tr u = Inr v"
    from step show "?P v"
    proof (cases rule: transfer_loop_body_cases)
      case (rejected code k)
      then show ?thesis using u by simp
    next
      case (prepared b avail amt deadline r t)
      then have b: "same_but_locks a b" and le: "acc_total_locked_amount b
           \<le> max (acc_total_locked_amount a) (n - get_min_account_balance (acc_creditor_id a))"
        using u by auto
      have "avail = contain_principal_overflow (n - acc_total_locked_amount b)"
        using prepared(7) get_available_amount_same_but_locks [OF b bal] by simp
      then have "min (acc_total_locked_amount b + amt) MAX_INT64
          \<le> max (acc_total_locked_amount b) (n - get_min_account_balance (acc_creditor_id b))"
        using prepared(3,8) by (intro locked_within_available) simp
      then show ?thesis using b le prepared(13)
        by (auto simp: same_but_locks_eqs(2) same_but_locks_lock)
    qed
  qed
  then show ?thesis by blast
qed

lemma transfer_loop_wf:
  "foldR (transfer_loop_body E ts cp) trs l = Inr l' \<Longrightarrow>
   tbl_wf prepared_transfer_pk prepared_transfer_ok (db_prepared_transfers (tl_db l)) \<Longrightarrow>
   tbl_wf prepared_transfer_pk prepared_transfer_ok (db_prepared_transfers (tl_db l'))"
  by (erule foldR_invariant [where P = "\<lambda>l. tbl_wf prepared_transfer_pk prepared_transfer_ok
        (db_prepared_transfers (tl_db l))"])
    (auto elim!: transfer_loop_body_cases dest: pts.ins_wf)

section \<open>The whole procedure\<close>

lemma fold_add_rejected:
  "fold add_rejected_transfer_signal R d
     = d\<lparr>db_rejected_transfer_signals := db_rejected_transfer_signals d @ R\<rparr>"
  by (induction R arbitrary: d) (simp_all add: add_rejected_transfer_signal_def)

lemma add_prepared_transfer_signal_InrD [effects]:
  "add_prepared_transfer_signal E s d = Inr d' \<Longrightarrow>
   \<exists>r. d' = d\<lparr>db_prepared_transfer_signals :=
      db_prepared_transfer_signals d @ [s\<lparr>pts_min_interest_rate := r\<rparr>]\<rparr>"
  by (auto simp: add_prepared_transfer_signal_def monad_simps)

lemma announces_stored [simp]: "announces (s\<lparr>pts_min_interest_rate := r\<rparr>) pt = announces s pt"
  by (simp add: announces_def)

lemma foldR_add_prepared:
  "foldR (add_prepared_transfer_signal E) P d = Inr d' \<Longrightarrow>
   \<exists>Q. d' = d\<lparr>db_prepared_transfer_signals := db_prepared_transfer_signals d @ Q\<rparr>
     \<and> map prepared_id Q = map prepared_id P \<and> (\<forall>X. list_all2 announces P X \<longrightarrow> list_all2 announces Q X)"
proof (induction P arbitrary: d)
  case Nil
  then show ?case by (intro exI [of _ "[]"]) simp
next
  case (Cons s P)
  then obtain r where "foldR (add_prepared_transfer_signal E) P (d\<lparr>db_prepared_transfer_signals :=
      db_prepared_transfer_signals d @ [s\<lparr>pts_min_interest_rate := r\<rparr>]\<rparr>) = Inr d'"
    by (auto simp: monad_simps dest: add_prepared_transfer_signal_InrD)
  from Cons.IH [OF this] obtain Q where
    "d' = d\<lparr>db_prepared_transfer_signals :=
       db_prepared_transfer_signals d @ s\<lparr>pts_min_interest_rate := r\<rparr> # Q\<rparr>"
    "map prepared_id Q = map prepared_id P" "\<forall>X. list_all2 announces P X \<longrightarrow> list_all2 announces Q X"
    by auto
  then show ?case
    by (intro exI [of _ "s\<lparr>pts_min_interest_rate := r\<rparr> # Q"])
      (auto simp: list_all2_Cons1)
qed

text \<open>The lock fields are written back as they are in memory.\<close>

lemma save_account_same_but_locks:
  assumes "same_but_locks a b" and "get_account_row (acc_debtor_id a) (acc_creditor_id a) d = Some a"
    and "save_account E b d = Inr d'"
  shows "\<exists>t. tbl_update account_pk account_ok b (db_accounts d) = Inr t \<and> d' = d\<lparr>db_accounts := t\<rparr>
     \<and> account_fits b"
proof -
  note eqs = same_but_locks_eqs [OF assms(1)]
  have same: "b\<lparr>acc_interest_rate := acc_interest_rate a, acc_previous_interest_rate := acc_previous_interest_rate a,
      acc_negligible_amount := acc_negligible_amount a\<rparr> = b"
    by (simp flip: eqs)
  from save_account_InrD [OF assms(3)] assms(2) show ?thesis by (auto simp: eqs same)
qed

definition handled_requests :: "(transfer_request \<Rightarrow> bool) \<Rightarrow> int \<Rightarrow> int \<Rightarrow> db \<Rightarrow> transfer_request list" where
  "handled_requests skip i j d = [tr \<leftarrow> transfer_requests_of i j d. \<not> skip tr]"

text \<open>The account row \<open>a\<close> is written back as \<open>b\<close>, with the locks of the new transfers.\<close>

definition writes_locks ::
    "env \<Rightarrow> datetime \<Rightarrow> db \<Rightarrow> account \<Rightarrow> account \<Rightarrow> prepared_transfer list \<Rightarrow> account list \<Rightarrow> bool" where
  "writes_locks E ts d a b new t \<longleftrightarrow>
     locks_for a b new \<and> account_fits b
     \<and> tbl_update account_pk account_ok b (db_accounts d) = Inr t
     \<and> (\<forall>bal n. Account_calc_current_balance E a ts = Inr bal \<longrightarrow> dec_floor bal = Inr n \<longrightarrow>
          acc_total_locked_amount b
            \<le> max (acc_total_locked_amount a) (n - get_min_account_balance (acc_creditor_id a)))"

lemma process_transfer_requests_idle:
  "process_transfer_requests E skip ts i j cp d = Inr d' \<Longrightarrow>
   handled_requests skip i j d = [] \<Longrightarrow> d' = d"
  by (simp add: process_transfer_requests_def handled_requests_def)

text \<open>The loop of \<open>process_transfer_requests\<close> and the signals after it, before the account is written.\<close>

lemma transfer_requests_looped:
  assumes run: "process_transfer_requests E skip ts i j cp d = Inr d'" and wf: "db_wf d"
    and trs: "trs = handled_requests skip i j d" and ne: "trs \<noteq> []"
  obtains l d2 Q new where
    "foldR (transfer_loop_body E ts cp) trs
       \<lparr>tl_account = get_account i j d, tl_rejected = [], tl_prepared = [], tl_db = d\<rparr> = Inr l"
    "save_sender E (tl_account l) d2 = Inr d'"
    "d2 = d\<lparr>db_transfer_requests := [tr \<leftarrow> db_transfer_requests d. tr \<notin> set trs],
        db_prepared_transfers := db_prepared_transfers d @ new,
        db_rejected_transfer_signals := db_rejected_transfer_signals d @ tl_rejected l,
        db_prepared_transfer_signals := db_prepared_transfer_signals d @ Q\<rparr>"
    "mset (map rejected_id (tl_rejected l)) + mset (map prepared_id Q) = mset (map request_id trs)"
    "list_all2 announces Q new" "\<forall>pt \<in> set new. \<exists>tr \<in> set trs. honours ts cp tr pt"
    "tbl_wf prepared_transfer_pk prepared_transfer_ok (db_prepared_transfers d @ new)"
    "case get_account i j d of None \<Rightarrow> new = [] \<and> tl_account l = None
        | Some a \<Rightarrow> \<exists>b. tl_account l = Some b \<and> locks_for a b new"
proof -
  define l0 where "l0 = \<lparr>tl_account = get_account i j d, tl_rejected = [], tl_prepared = [], tl_db = d\<rparr>"
  have l0 [simp]: "tl_db l0 = d" "tl_account l0 = get_account i j d" "tl_rejected l0 = []" "tl_prepared l0 = []"
    by (simp_all add: l0_def)
  from run ne obtain l d2 where
    loop: "foldR (transfer_loop_body E ts cp) trs l0 = Inr l"
    and sigs: "foldR (add_prepared_transfer_signal E) (tl_prepared l)
       (fold add_rejected_transfer_signal (tl_rejected l) (tl_db l)) = Inr d2"
    and save: "save_sender E (tl_account l) d2 = Inr d'"
    by (auto simp: process_transfer_requests_def trs handled_requests_def l0_def Let_def bindR_eq_Inr)
  have mem: "(transfer_request_pk r \<notin> transfer_request_pk ` set trs) = (r \<notin> set trs)"
    if "r \<in> set (db_transfer_requests d)" for r
    using that trs.pk_inj [OF db_wf_trs [OF wf]] by (auto simp: trs handled_requests_def transfer_requests_of_def)
  obtain new where new: "db_prepared_transfers (tl_db l) = db_prepared_transfers d @ new"
      "list_all2 announces (tl_prepared l) new"
      "\<forall>pt \<in> set new. \<exists>tr \<in> set trs. honours ts cp tr pt"
      "case get_account i j d of None \<Rightarrow> new = [] \<and> tl_account l = None
        | Some a \<Rightarrow> \<exists>b. tl_account l = Some b \<and> locks_for a b new"
    using transfer_loop_locks [OF loop] by auto
  have wf': "tbl_wf prepared_transfer_pk prepared_transfer_ok (db_prepared_transfers d @ new)"
    using transfer_loop_wf [OF loop] new(1) db_wf_pts [OF wf] by simp
  obtain Y where Y: "tl_db l = d\<lparr>db_transfer_requests :=
        filter (\<lambda>r. transfer_request_pk r \<notin> transfer_request_pk ` set trs) (db_transfer_requests d),
        db_prepared_transfers := Y\<rparr>"
    using transfer_loop_frame [OF loop] by auto
  have frame: "tl_db l = d\<lparr>db_transfer_requests := [tr \<leftarrow> db_transfer_requests d. tr \<notin> set trs],
        db_prepared_transfers := db_prepared_transfers d @ new\<rparr>"
    using Y new(1) mem by (simp cong: filter_cong)
  obtain Q where Q: "d2 = (tl_db l)\<lparr>db_rejected_transfer_signals :=
          db_rejected_transfer_signals d @ tl_rejected l,
        db_prepared_transfer_signals := db_prepared_transfer_signals d @ Q\<rparr>"
      "map prepared_id Q = map prepared_id (tl_prepared l)" "list_all2 announces Q new"
    using foldR_add_prepared [OF sigs] new(2) by (auto simp: fold_add_rejected frame)
  have answers: "mset (map rejected_id (tl_rejected l)) + mset (map prepared_id Q) = mset (map request_id trs)"
    using transfer_loop_answers [OF loop] Q(2) by simp
  show thesis
    by (rule that [OF loop [unfolded l0_def] save _ answers Q(3) new(3) wf' new(4)]) (simp add: Q(1) frame)
qed

lemma process_transfer_requests_InrD:
  assumes run: "process_transfer_requests E skip ts i j cp d = Inr d'" and wf: "db_wf d"
    and trs: "trs = handled_requests skip i j d" and ne: "trs \<noteq> []"
  obtains R Q new t where "d' = d\<lparr>db_transfer_requests := [tr \<leftarrow> db_transfer_requests d. tr \<notin> set trs],
        db_prepared_transfers := db_prepared_transfers d @ new,
        db_rejected_transfer_signals := db_rejected_transfer_signals d @ R,
        db_prepared_transfer_signals := db_prepared_transfer_signals d @ Q, db_accounts := t\<rparr>"
    "mset (map rejected_id R) + mset (map prepared_id Q) = mset (map request_id trs)"
    "list_all2 announces Q new"
    "\<forall>pt \<in> set new. \<exists>tr \<in> set trs. honours ts cp tr pt"
    "tbl_wf prepared_transfer_pk prepared_transfer_ok (db_prepared_transfers d @ new)"
    "get_account i j d = None \<longrightarrow> new = [] \<and> t = db_accounts d"
    "\<forall>a. get_account i j d = Some a \<longrightarrow> (\<exists>b. writes_locks E ts d a b new t)"
proof -
  obtain l d2 Q new where
    loop: "foldR (transfer_loop_body E ts cp) trs
       \<lparr>tl_account = get_account i j d, tl_rejected = [], tl_prepared = [], tl_db = d\<rparr> = Inr l"
    and save: "save_sender E (tl_account l) d2 = Inr d'"
    and d2: "d2 = d\<lparr>db_transfer_requests := [tr \<leftarrow> db_transfer_requests d. tr \<notin> set trs],
        db_prepared_transfers := db_prepared_transfers d @ new,
        db_rejected_transfer_signals := db_rejected_transfer_signals d @ tl_rejected l,
        db_prepared_transfer_signals := db_prepared_transfer_signals d @ Q\<rparr>"
    and signals: "mset (map rejected_id (tl_rejected l)) + mset (map prepared_id Q) = mset (map request_id trs)"
      "list_all2 announces Q new" "\<forall>pt \<in> set new. \<exists>tr \<in> set trs. honours ts cp tr pt"
      "tbl_wf prepared_transfer_pk prepared_transfer_ok (db_prepared_transfers d @ new)"
    and new: "case get_account i j d of None \<Rightarrow> new = [] \<and> tl_account l = None
        | Some a \<Rightarrow> \<exists>b. tl_account l = Some b \<and> locks_for a b new"
    by (rule transfer_requests_looped [OF run wf trs ne])
  show thesis
  proof (cases "get_account i j d")
    case None
    with new have "d' = d2" "new = []" using save by (auto simp: save_sender_def)
    then show ?thesis using None signals
      by (intro that [where R = "tl_rejected l" and Q = Q and new = new and t = "db_accounts d"]) (simp_all add: d2)
  next
    case (Some a)
    with new obtain b where b: "tl_account l = Some b" "locks_for a b new" by auto
    then have sbl: "same_but_locks a b" by (simp add: locks_for_def)
    have row: "get_account_row (acc_debtor_id a) (acc_creditor_id a) d2 = Some a"
      using get_account_SomeD [OF Some] get_account_row_pk [OF wf, of i j a] by (simp add: d2 get_account_row_def)
    obtain t where t: "tbl_update account_pk account_ok b (db_accounts d) = Inr t"
      "d' = d2\<lparr>db_accounts := t\<rparr>" "account_fits b"
      using save_account_same_but_locks [OF sbl row] save b(1) by (auto simp: save_sender_def d2)
    have "acc_total_locked_amount b
        \<le> max (acc_total_locked_amount a) (n - get_min_account_balance (acc_creditor_id a))"
      if "Account_calc_current_balance E a ts = Inr bal" "dec_floor bal = Inr n" for bal n
      using transfer_loop_no_overbooking [OF loop _ that] b(1) Some by auto
    then show ?thesis
      by (intro that [where R = "tl_rejected l" and Q = Q and new = new and t = t])
        (use Some signals t b in \<open>auto simp: writes_locks_def d2\<close>)
  qed
qed


section \<open>Invariants\<close>

lemma writes_locks_rewrites:
  assumes wf: "db_wf d" and a: "get_account i j d = Some a" and b: "locks_for a b new"
    and t: "tbl_update account_pk account_ok b (db_accounts d) = Inr t"
    and tables: "db_accounts d' = t" "db_prepared_transfers d' = db_prepared_transfers d @ new"
  shows "rewrites_account i j a b d d'"
proof -
  have "account_pk b = account_pk a" using b by (simp add: locks_for_def same_but_locks_eqs)
  moreover have "\<forall>pt \<in> set new. pt_of (account_pk a) pt" using b by (simp add: locks_for_def)
  then have "[pt \<leftarrow> new. \<not> pt_of (account_pk a) pt] = []" by (simp add: filter_empty_conv)
  ultimately show ?thesis using wf get_account_SomeD [OF a] t by (simp add: rewrites_account_def tables)
qed

lemma process_transfer_requests_invariant:
  assumes run: "process_transfer_requests E skip ts i j cp d = Inr d'"
    and inv: "db_wf d" "locks_within d" "ids_fresh d"
  shows "db_wf d' \<and> locks_within d' \<and> ids_fresh d'"
proof (cases "handled_requests skip i j d = []")
  case True
  then show ?thesis using process_transfer_requests_idle [OF run] inv by (simp add: handled_requests_def)
next
  case False
  obtain R Q new t where d': "d' = d\<lparr>db_transfer_requests :=
        [tr \<leftarrow> db_transfer_requests d. tr \<notin> set (handled_requests skip i j d)],
        db_prepared_transfers := db_prepared_transfers d @ new,
        db_rejected_transfer_signals := db_rejected_transfer_signals d @ R,
        db_prepared_transfer_signals := db_prepared_transfer_signals d @ Q, db_accounts := t\<rparr>"
    and "mset (map rejected_id R) + mset (map prepared_id Q)
        = mset (map request_id (handled_requests skip i j d))"
    and "list_all2 announces Q new"
    and "\<forall>pt \<in> set new. \<exists>tr \<in> set (handled_requests skip i j d). honours ts cp tr pt"
    and pts: "tbl_wf prepared_transfer_pk prepared_transfer_ok (db_prepared_transfers d @ new)"
    and none: "get_account i j d = None \<longrightarrow> new = [] \<and> t = db_accounts d"
    and some: "\<forall>a. get_account i j d = Some a \<longrightarrow> (\<exists>b. writes_locks E ts d a b new t)"
    by (rule process_transfer_requests_InrD [OF run inv(1) refl False], rule that)
  have trs: "tbl_wf transfer_request_pk transfer_request_ok
      [tr \<leftarrow> db_transfer_requests d. tr \<notin> set (handled_requests skip i j d)]"
    using inv(1) by (auto simp: db_wf_def tbl_wf_def list_all_iff distinct_map_filter)
  show ?thesis
  proof (cases "get_account i j d")
    case None
    with none d' inv trs show ?thesis
      by (simp add: db_wf_def locks_within_def ids_fresh_def)
  next
    case (Some a)
    then obtain b where b: "locks_for a b new" "tbl_update account_pk account_ok b (db_accounts d) = Inr t"
      using some by (auto simp: writes_locks_def)
    have new: "\<forall>pt \<in> set new. pt_of (account_pk a) pt" using b(1) by (simp add: locks_for_def)
    have rw: "rewrites_account i j a b d d'"
      using writes_locks_rewrites [OF inv(1) Some b, of d'] by (simp add: d')
    have row: "get_account_row i j d = Some a" using get_account_SomeD [OF Some] by simp
    then have a: "a \<in> set (db_accounts d)" using get_account_row_pk [OF inv(1)] by simp
    have "db_wf d'"
      by (rule rewrites_account_db_wf [OF rw]) (use inv(1) trs pts in \<open>simp_all add: d' db_wf_def\<close>)
    moreover have "locks_within d'"
      by (rule rewrites_account_locks_within [OF rw inv(2)])
        (use inv(2) a b(1) in \<open>auto simp: d' locks_within_def locks_for_def locks_of_one_account [OF new]\<close>)
    moreover have "ids_fresh d'"
    proof (rule rewrites_account_ids_fresh [OF rw inv(3)])
      fix pt assume pt: "pt \<in> set (db_prepared_transfers d')" "pt_of (account_pk a) pt"
      have "pt_transfer_id pt \<le> acc_last_transfer_id b" if "pt \<in> set new"
      proof -
        have "pt_transfer_id pt \<in> set (map pt_transfer_id new)" using that by simp
        then show ?thesis using b(1) unfolding locks_for_def by (metis atLeastAtMost_iff set_upto)
      qed
      moreover have "acc_last_transfer_id a \<le> acc_last_transfer_id b" using b(1) by (simp add: locks_for_def)
      ultimately show "pt_transfer_id pt \<le> acc_last_transfer_id b"
        using pt inv(3) a by (fastforce simp: d' ids_fresh_def)
    qed
    ultimately show ?thesis by simp
  qed
qed

lemma process_transfer_requests_exact:
  assumes run: "process_transfer_requests E skip ts i j cp d = Inr d'"
    and inv: "db_wf d" "locks_agree d"
    and small: "locked_sum (i, j) (db_prepared_transfers d') \<le> MAX_INT64"
  shows "locks_agree d'"
proof (cases "handled_requests skip i j d = []")
  case True
  then show ?thesis using process_transfer_requests_idle [OF run] inv by simp
next
  case False
  obtain R Q new t where d': "d' = d\<lparr>db_transfer_requests :=
        [tr \<leftarrow> db_transfer_requests d. tr \<notin> set (handled_requests skip i j d)],
        db_prepared_transfers := db_prepared_transfers d @ new,
        db_rejected_transfer_signals := db_rejected_transfer_signals d @ R,
        db_prepared_transfer_signals := db_prepared_transfer_signals d @ Q, db_accounts := t\<rparr>"
    and "mset (map rejected_id R) + mset (map prepared_id Q)
        = mset (map request_id (handled_requests skip i j d))"
    and "list_all2 announces Q new"
    and "\<forall>pt \<in> set new. \<exists>tr \<in> set (handled_requests skip i j d). honours ts cp tr pt"
    and "tbl_wf prepared_transfer_pk prepared_transfer_ok (db_prepared_transfers d @ new)"
    and none: "get_account i j d = None \<longrightarrow> new = [] \<and> t = db_accounts d"
    and some: "\<forall>a. get_account i j d = Some a \<longrightarrow> (\<exists>b. writes_locks E ts d a b new t)"
    by (rule process_transfer_requests_InrD [OF run inv(1) refl False], rule that)
  show ?thesis
  proof (cases "get_account i j d")
    case None
    with none d' inv show ?thesis by (simp add: locks_agree_def)
  next
    case (Some a)
    then obtain b where b: "locks_for a b new" "tbl_update account_pk account_ok b (db_accounts d) = Inr t"
      using some by (auto simp: writes_locks_def)
    have rw: "rewrites_account i j a b d d'"
      using writes_locks_rewrites [OF inv(1) Some b, of d'] by (simp add: d')
    have a: "a \<in> set (db_accounts d)" "account_pk a = (i, j)"
      using get_account_SomeD [OF Some] get_account_row_pk [OF inv(1)] by (auto simp: account_pk_def)
    have new: "\<forall>pt \<in> set new. pt_of (account_pk a) pt" using b(1) by (simp add: locks_for_def)
    show ?thesis
      by (rule rewrites_account_locks_agree [OF rw inv(2)])
        (use inv(2) a b(1) small in \<open>auto simp: d' locks_agree_def locks_for_def locks_of_one_account [OF new [unfolded a(2)]]\<close>)
  qed
qed

section \<open>The procedure returns\<close>

text \<open>
  A queued request as the database holds it: in the column ranges, its REAL column
  unchanged by another round trip.
\<close>

definition stored_request :: "env \<Rightarrow> transfer_request \<Rightarrow> bool" where
  "stored_request E tr \<longleftrightarrow> transfer_request_fits tr \<and> transfer_request_ok tr
     \<and> store_real E (tr_min_interest_rate tr) = Some (tr_min_interest_rate tr)"

definition commit_period_fits :: "datetime \<Rightarrow> int \<Rightarrow> bool" where
  "commit_period_fits ts commit_period \<longleftrightarrow>
     0 \<le> commit_period \<and> DATETIME_MIN \<le> ts \<and> ts + timedelta_seconds commit_period \<le> DATETIME_MAX"

text \<open>The account can take part in \<open>k\<close> more preparations.\<close>

definition can_lock :: "account \<Rightarrow> account \<Rightarrow> nat \<Rightarrow> db \<Rightarrow> bool" where
  "can_lock a b k d \<longleftrightarrow>
     same_but_locks a b \<and> account_fits b \<and> account_ok b
     \<and> acc_last_transfer_id b + int k \<le> MAX_INT64
     \<and> get_account_row (acc_debtor_id a) (acc_creditor_id a) d \<noteq> None
     \<and> (\<forall>pt \<in> set (db_prepared_transfers d).
          pt_of (account_pk a) pt \<longrightarrow> pt_transfer_id pt \<le> acc_last_transfer_id b)"

lemma prepare_total:
  assumes tr: "stored_request E tr" and period: "commit_period_fits ts cp"
    and keys: "acc_debtor_id a = tr_debtor_id tr" "acc_creditor_id a = tr_sender_creditor_id tr"
    and b: "can_lock a b (Suc k) d" and amt: "0 \<le> amt" "amt \<le> MAX_INT64"
  shows "\<exists>p d'. prepare E tr b ts cp amt d = Inr (p, lock_amount amt b, d')"
proof -
  define period where "period =
    (if flt INTEREST_RATE_FLOOR (tr_min_interest_rate tr) then min cp SECONDS_IN_DAY else cp)"
  have range: "DATETIME_MIN \<le> ts + timedelta_seconds period" "ts + timedelta_seconds period \<le> DATETIME_MAX"
    using period by (auto simp: period_def commit_period_fits_def timedelta_seconds_def SECONDS_IN_DAY_def)
  define row where "row = prepared_transfer_row tr (acc_last_transfer_id b + 1) amt
      (min (ts + timedelta_seconds period) (tr_deadline tr)) ts"
  have last: "0 \<le> acc_last_transfer_id b" "acc_last_transfer_id b + 1 \<le> MAX_INT64"
    using b by (auto simp: can_lock_def account_ok_def)
  have "\<forall>pt \<in> set (db_prepared_transfers d). prepared_transfer_pk pt \<noteq> prepared_transfer_pk row"
    using b keys by (auto simp: can_lock_def row_def prepared_transfer_pk_def pt_of_def account_pk_def)
  then have absent: "tbl_lookup prepared_transfer_pk (prepared_transfer_pk row) (db_prepared_transfers d) = None"
    by (simp add: tbl_lookup_None)
  have fits: "prepared_transfer_fits row"
    using tr amt last
    by (auto simp: prepared_transfer_fits_def row_def stored_request_def transfer_request_fits_def
        is_int64_def int_bounds prepared_transfer_row_def)
  have ok: "prepared_transfer_ok row"
    using tr amt last
    by (auto simp: prepared_transfer_ok_def row_def stored_request_def transfer_request_ok_def
        prepared_transfer_row_def INTEREST_RATE_FLOOR_def pg_le_def)
  have real: "store_real E (pt_min_interest_rate row) = Some (pt_min_interest_rate row)"
    using tr by (simp add: row_def stored_request_def)
  have parent: "get_account_row (pt_debtor_id row) (pt_sender_creditor_id row) d \<noteq> None"
    using b keys by (simp add: can_lock_def row_def)
  have same: "row\<lparr>pt_min_interest_rate := pt_min_interest_rate row\<rparr> = row" by simp
  have "insert_prepared_transfer E row d
      = Inr (d\<lparr>db_prepared_transfers := db_prepared_transfers d @ [row]\<rparr>)"
    using fits ok real parent absent
    by (simp add: insert_prepared_transfer_def storeR_def same Let_def dataR_def integrityR_def tbl_insert_def)
  then show ?thesis using range
    by (simp add: prepare_def Let_def datetime_add_def row_def [symmetric] period_def [symmetric])
qed

lemma account_ok_lock_amount:
  assumes "account_fits b" "account_ok b" "0 \<le> amt" "amt \<le> MAX_INT64"
    and "acc_pending_transfers_count b < MAX_INT32" "acc_last_transfer_id b + 1 \<le> MAX_INT64"
  shows "account_fits (lock_amount amt b)" "account_ok (lock_amount amt b)"
  using assms by (auto simp: account_fits_def account_ok_def lock_amount_def is_int64_def is_int32_def
      int_bounds split: option.splits)

lemma transfer_loop_step_total:
  assumes tr: "stored_request E tr" and period: "commit_period_fits ts cp"
    and keys: "acc_debtor_id a = tr_debtor_id tr" "acc_creditor_id a = tr_sender_creditor_id tr"
    and b: "tl_account l = Some b" "can_lock a b (Suc k) (tl_db l)"
    and bal: "Account_calc_current_balance E a ts = Inr bal" "dec_floor bal = Inr n"
  shows "\<exists>l' b'. transfer_loop_body E ts cp tr l = Inr l' \<and> tl_account l' = Some b'
    \<and> can_lock a b' k (tl_db l')"
proof -
  let ?d = "delete_transfer_request tr (tl_db l)"
  have sbl: "same_but_locks a b" using b by (simp add: can_lock_def)
  note eqs = same_but_locks_eqs [OF sbl]
  have avail: "get_available_amount_of E b ts
      = Inr (contain_principal_overflow (n - acc_total_locked_amount b))"
    by (rule get_available_amount_same_but_locks [OF sbl bal])
  define amt where "amt = max 0 (min (contain_principal_overflow (n - acc_total_locked_amount b)
      - get_min_account_balance (tr_sender_creditor_id tr)) (tr_max_locked_amount tr))"
  have amt: "0 \<le> amt" "amt \<le> MAX_INT64"
    using tr by (auto simp: amt_def stored_request_def transfer_request_fits_def is_int64_def int_bounds)
  have nonneg: "0 \<le> acc_total_locked_amount b" using b by (simp add: can_lock_def account_ok_def)
  have d: "can_lock a b (Suc k) ?d"
    using b(2) by (simp add: can_lock_def get_account_row_def)
  obtain p d' where p: "prepare E tr b ts cp amt ?d = Inr (p, lock_amount amt b, d')"
    using prepare_total [OF tr period keys d amt] by blast
  have rejected: "\<exists>s. reject tr code (acc_total_locked_amount b) = Inr s" for code
    using nonneg by (simp add: reject_def)
  have "\<exists>s sa' d'. process_transfer_request E tr (Some b) ts cp (tl_db l) = Inr (s, sa', d')"
    using keys p rejected
    by (auto simp: process_transfer_request_def Let_def eqs avail assertR_def amt_def [symmetric] reject_def
        nonneg)
  then obtain l' where l': "transfer_loop_body E ts cp tr l = Inr l'"
    using b(1) by (auto simp: transfer_loop_body_def)
  then show ?thesis
  proof (cases rule: transfer_loop_body_cases)
    case (rejected code m)
    then show ?thesis using l' b by (auto simp: can_lock_def get_account_row_def)
  next
    case (prepared b' avail' amt' deadline r t)
    have "b' = b" using prepared(1) b(1) by simp
    have "amt' = amt" using prepared(7,8) avail by (simp add: amt_def \<open>b' = b\<close>)
    have ok: "account_fits (lock_amount amt b)" "account_ok (lock_amount amt b)"
      using account_ok_lock_amount [of b amt] amt b(2) prepared(4) by (auto simp: can_lock_def \<open>b' = b\<close>)
    have "t = db_prepared_transfers (tl_db l)
        @ [prepared_transfer_row tr (acc_last_transfer_id b + 1) amt deadline ts\<lparr>pt_min_interest_rate := r\<rparr>]"
      using prepared(12) by (simp add: pts.ins_Inr \<open>b' = b\<close> \<open>amt' = amt\<close>)
    then have "can_lock a (lock_amount amt b) k (tl_db l')"
      using b(2) ok prepared(13)
      by (force simp: can_lock_def get_account_row_def same_but_locks_lock)
    then show ?thesis using l' prepared(13) \<open>b' = b\<close> \<open>amt' = amt\<close> by auto
  qed
qed

lemma transfer_loop_total:
  assumes "\<forall>tr \<in> set trs. stored_request E tr \<and> acc_debtor_id a = tr_debtor_id tr
      \<and> acc_creditor_id a = tr_sender_creditor_id tr"
    and period: "commit_period_fits ts cp"
    and bal: "Account_calc_current_balance E a ts = Inr bal" "dec_floor bal = Inr n"
    and "tl_account l = Some b" "can_lock a b (length trs) (tl_db l)"
  shows "\<exists>l' b'. foldR (transfer_loop_body E ts cp) trs l = Inr l' \<and> tl_account l' = Some b'
    \<and> can_lock a b' 0 (tl_db l')"
  using assms(1,5,6)
proof (induction trs arbitrary: l b)
  case Nil
  then show ?case by simp
next
  case (Cons tr trs)
  then obtain m b' where "transfer_loop_body E ts cp tr l = Inr m" "tl_account m = Some b'"
      "can_lock a b' (length trs) (tl_db m)"
    using transfer_loop_step_total [OF _ period _ _ _ _ bal, of tr l b "length trs"] by auto
  then show ?case using Cons by auto
qed

lemma transfer_loop_unreachable:
  "tl_account l = None \<Longrightarrow>
   \<exists>l'. foldR (transfer_loop_body E ts cp) trs l = Inr l' \<and> tl_account l' = None"
proof (induction trs arbitrary: l)
  case Nil
  then show ?case by simp
next
  case (Cons tr trs)
  then show ?case by (simp add: transfer_loop_body_def process_transfer_request_def reject_def Let_def)
qed

lemma transfer_loop_signals_storable:
  assumes "foldR (transfer_loop_body E ts cp) trs l = Inr l'" and "tl_prepared l = []"
    and "\<forall>tr \<in> set trs. stored_request E tr"
  shows "\<forall>s \<in> set (tl_prepared l'). store_real E (pts_min_interest_rate s) \<noteq> None"
  by (rule foldR_invariant [OF assms(1)])
    (use assms(2,3) in \<open>auto elim!: transfer_loop_body_cases
       simp: prepared_transfer_signal_of_def stored_request_def\<close>)

lemma foldR_add_prepared_total:
  "\<forall>s \<in> set P. store_real E (pts_min_interest_rate s) \<noteq> None \<Longrightarrow>
   \<exists>d'. foldR (add_prepared_transfer_signal E) P d = Inr d'"
  by (induction P arbitrary: d) (auto simp: add_prepared_transfer_signal_def storeR_def)

lemma save_account_total:
  assumes "same_but_locks a b" "account_fits b" "account_ok b"
    and "get_account_row (acc_debtor_id a) (acc_creditor_id a) d = Some a"
  shows "\<exists>d'. save_account E b d = Inr d'"
proof -
  note eqs = same_but_locks_eqs [OF assms(1)]
  have "flush_account E a b = Inr b" by (rule flush_account_same) (simp_all add: eqs)
  then show ?thesis using assms by (simp add: save_account_def eqs dataR_def tbl_update_def)
qed

definition can_prepare ::
    "env \<Rightarrow> (transfer_request \<Rightarrow> bool) \<Rightarrow> datetime \<Rightarrow> int \<Rightarrow> int \<Rightarrow> int \<Rightarrow> db \<Rightarrow> bool" where
  "can_prepare E skip ts i j commit_period d \<longleftrightarrow>
     commit_period_fits ts commit_period
     \<and> (\<forall>tr \<in> set (handled_requests skip i j d). stored_request E tr)
     \<and> (case get_account i j d of
          None \<Rightarrow> True
        | Some a \<Rightarrow> account_fits a
            \<and> acc_last_transfer_id a + int (length (handled_requests skip i j d)) \<le> MAX_INT64
            \<and> (case Account_calc_current_balance E a ts of Inr (Fin b) \<Rightarrow> True | _ \<Rightarrow> False))"

lemma process_transfer_requests_total:
  assumes inv: "db_wf d" "ids_fresh d" and can: "can_prepare E skip ts i j cp d"
  shows "\<exists>d'. process_transfer_requests E skip ts i j cp d = Inr d'"
proof (cases "handled_requests skip i j d = []")
  case True
  then show ?thesis by (simp add: process_transfer_requests_def handled_requests_def)
next
  case False
  let ?trs = "handled_requests skip i j d"
  define l0 where "l0 = \<lparr>tl_account = get_account i j d, tl_rejected = [], tl_prepared = [], tl_db = d\<rparr>"
  have l0 [simp]: "tl_db l0 = d" "tl_account l0 = get_account i j d" "tl_prepared l0 = []"
    by (simp_all add: l0_def)
  have trs: "\<forall>tr \<in> set ?trs. stored_request E tr" using can by (simp add: can_prepare_def)
  have "\<exists>l. foldR (transfer_loop_body E ts cp) ?trs l0 = Inr l
      \<and> (\<forall>b. tl_account l = Some b \<longrightarrow> (\<exists>a. get_account i j d = Some a \<and> can_lock a b 0 (tl_db l)))"
  proof (cases "get_account i j d")
    case None
    then show ?thesis using transfer_loop_unreachable [of l0 E ts cp ?trs] by auto
  next
    case (Some a)
    then obtain bal where bal: "Account_calc_current_balance E a ts = Inr (Fin bal)"
      using can by (auto simp: can_prepare_def split: sum.splits pyfloat.splits)
    have a: "a \<in> set (db_accounts d)" "acc_debtor_id a = i" "acc_creditor_id a = j" "account_ok a"
      using get_account_row_pk [OF inv(1)] get_account_SomeD [OF Some] by auto
    have "can_lock a a (length ?trs) d"
      using a can Some inv(2) get_account_SomeD [OF Some]
      by (auto simp: can_lock_def can_prepare_def ids_fresh_def)
    then show ?thesis
      using transfer_loop_total [OF _ _ bal, of ?trs cp _ l0 a] trs can a Some
      by (fastforce simp: can_prepare_def handled_requests_def transfer_requests_of_def)
  qed
  then obtain l where l: "foldR (transfer_loop_body E ts cp) ?trs l0 = Inr l"
    and b: "\<And>b. tl_account l = Some b \<Longrightarrow> \<exists>a. get_account i j d = Some a \<and> can_lock a b 0 (tl_db l)"
    by blast
  obtain d2 where d2: "foldR (add_prepared_transfer_signal E) (tl_prepared l)
       (fold add_rejected_transfer_signal (tl_rejected l) (tl_db l)) = Inr d2"
    using foldR_add_prepared_total transfer_loop_signals_storable [OF l _ trs] by fastforce
  have accounts: "db_accounts d2 = db_accounts d"
    using foldR_add_prepared [OF d2] transfer_loop_frame [OF l] by (auto simp: fold_add_rejected)
  have "\<exists>d'. save_sender E (tl_account l) d2 = Inr d'"
  proof (cases "tl_account l")
    case None
    then show ?thesis by (simp add: save_sender_def)
  next
    case (Some b')
    from b [OF this] obtain a where a: "get_account i j d = Some a" "can_lock a b' 0 (tl_db l)" by blast
    then have "get_account_row (acc_debtor_id a) (acc_creditor_id a) d2 = Some a"
      using get_account_row_pk [OF inv(1)] get_account_SomeD accounts by (fastforce simp: get_account_row_def)
    then show ?thesis using save_account_total [of a b'] a(2) Some
      by (simp add: save_sender_def can_lock_def)
  qed
  then show ?thesis using l d2 False
    by (simp add: process_transfer_requests_def handled_requests_def l0_def Let_def)
qed

end
