(* ===== verification/Finalization.thy ===== *)
theory Finalization
  imports Invariants Samples
begin

text \<open>
  The second phase of a transfer in \<open>swpt_accounts/procedures.py\<close>: \<open>finalize_transfer\<close> queues
  a request, and \<open>process_finalization_requests\<close> commits or dismisses the prepared transfers
  of one sender.  A committed amount leaves the sender's principal and becomes a
  \<open>PendingBalanceChangeSignal\<close> for the recipient.  \<open>skip\<close> tells the queue rows that another
  transaction holds a lock on.
\<close>

section \<open>Queueing requests\<close>

definition finalize_transfer ::
    "datetime \<Rightarrow> int \<Rightarrow> int \<Rightarrow> int \<Rightarrow> pystr \<Rightarrow> int \<Rightarrow> int \<Rightarrow> int \<Rightarrow> pystr \<Rightarrow> pystr \<Rightarrow> datetime option \<Rightarrow>
     db \<Rightarrow> db result" where
  "finalize_transfer current_ts debtor_id creditor_id transfer_id coordinator_type coordinator_id
       coordinator_request_id committed_amount transfer_note_format transfer_note ts d =
     (case insert_finalization_request
          \<lparr>fr_debtor_id = debtor_id, fr_sender_creditor_id = creditor_id,
           fr_transfer_id = transfer_id, fr_coordinator_type = coordinator_type,
           fr_coordinator_id = coordinator_id, fr_coordinator_request_id = coordinator_request_id,
           fr_committed_amount = committed_amount, fr_transfer_note_format = transfer_note_format,
           fr_transfer_note = transfer_note,
           fr_ts = (case ts of None \<Rightarrow> current_ts | Some t \<Rightarrow> t)\<rparr> d of
        Inl IntegrityError \<Rightarrow> Inr d
      | r \<Rightarrow> r)"

section \<open>Finalizing transfers\<close>

definition prepared_transfer_join_clause :: "finalization_request \<Rightarrow> prepared_transfer \<Rightarrow> bool" where
  "prepared_transfer_join_clause fr pt \<longleftrightarrow>
     fr_debtor_id fr = pt_debtor_id pt
     \<and> fr_sender_creditor_id fr = pt_sender_creditor_id pt
     \<and> fr_transfer_id fr = pt_transfer_id pt
     \<and> fr_coordinator_type fr = pt_coordinator_type pt
     \<and> fr_coordinator_id fr = pt_coordinator_id pt
     \<and> fr_coordinator_request_id fr = pt_coordinator_request_id pt"

definition unlock_amount :: "int \<Rightarrow> account \<Rightarrow> account" where
  "unlock_amount amount a =
     a\<lparr>acc_total_locked_amount := max 0 (acc_total_locked_amount a - amount),
       acc_pending_transfers_count := max 0 (acc_pending_transfers_count a - 1)\<rparr>"

definition finalized_transfer_signal_of ::
    "prepared_transfer \<Rightarrow> datetime \<Rightarrow> int \<Rightarrow> int \<Rightarrow> pystr \<Rightarrow> finalized_transfer_signal" where
  "finalized_transfer_signal_of pt current_ts committed_amount total_locked_amount status_code =
     \<lparr>fts_debtor_id = pt_debtor_id pt, fts_sender_creditor_id = pt_sender_creditor_id pt,
      fts_transfer_id = pt_transfer_id pt, fts_coordinator_type = pt_coordinator_type pt,
      fts_coordinator_id = pt_coordinator_id pt,
      fts_coordinator_request_id = pt_coordinator_request_id pt,
      fts_prepared_at = pt_prepared_at pt, fts_finalized_at = current_ts,
      fts_committed_amount = committed_amount, fts_total_locked_amount = total_locked_amount,
      fts_status_code = status_code, fts_inserted_at = None\<rparr>"

definition recipient_change_signal ::
    "prepared_transfer \<Rightarrow> finalization_request \<Rightarrow> datetime \<Rightarrow> int \<Rightarrow> pending_balance_change_signal" where
  "recipient_change_signal pt fr current_ts committed_amount =
     \<lparr>pbs_debtor_id = pt_debtor_id pt,
      pbs_other_creditor_id = pt_sender_creditor_id pt, pbs_change_id = 0,
      pbs_creditor_id = pt_recipient_creditor_id pt,
      pbs_coordinator_type = pt_coordinator_type pt,
      pbs_transfer_note_format = fr_transfer_note_format fr,
      pbs_transfer_note = fr_transfer_note fr, pbs_committed_at = current_ts,
      pbs_principal_delta = committed_amount, pbs_inserted_at = None\<rparr>"

definition finalize_prepared_transfer ::
    "env \<Rightarrow> prepared_transfer \<Rightarrow> finalization_request \<Rightarrow> account \<Rightarrow> int \<Rightarrow> datetime \<Rightarrow> db \<Rightarrow>
     (pending_balance_change_signal option \<times> account \<times> db) result" where
  "finalize_prepared_transfer E pt fr a expendable_amount current_ts d =
     (let a = unlock_amount (pt_locked_amount pt) a in
      bindR (calc_status_code E pt (fr_committed_amount fr) expendable_amount (acc_interest_rate a)
               current_ts) (\<lambda>status_code.
      let committed_amount = (if status_code = SC_OK then fr_committed_amount fr else 0) in
      bindR (add_finalized_transfer_signal
               (finalized_transfer_signal_of pt current_ts committed_amount (acc_total_locked_amount a)
                  status_code) d) (\<lambda>d.
      if 0 < committed_amount then
        bindR (insert_account_transfer_signal a (pt_coordinator_type pt) (pt_recipient_creditor_id pt)
                 current_ts (- committed_amount) (fr_transfer_note_format fr) (fr_transfer_note fr)
                 (contain_principal_overflow (acc_principal a - committed_amount)) d) (\<lambda>(a, d).
        Inr (Some (recipient_change_signal pt fr current_ts committed_amount), a, d))
      else
        bindR (assertR (committed_amount = 0)) (\<lambda>_. Inr (None, a, d)))))"

record finalization_loop =
  fl_account :: "account option"
  fl_principal_delta :: int
  fl_signals :: "pending_balance_change_signal list"
  fl_db :: db

definition finalization_expendable_amount :: "int \<Rightarrow> int \<Rightarrow> account \<Rightarrow> int \<Rightarrow> int" where
  "finalization_expendable_amount starting_balance min_account_balance a principal_delta =
     starting_balance + principal_delta - acc_total_locked_amount a - min_account_balance"

definition finalization_loop_body ::
    "env \<Rightarrow> datetime \<Rightarrow> int \<Rightarrow> int \<Rightarrow> finalization_request \<times> prepared_transfer option \<Rightarrow>
     finalization_loop \<Rightarrow> finalization_loop result" where
  "finalization_loop_body E current_ts starting_balance min_account_balance request l =
     (case request of (fr, pt) \<Rightarrow>
       bindR (case (fl_account l, pt) of
                (Some a, Some pt) \<Rightarrow>
                  bindR (finalize_prepared_transfer E pt fr a
                           (finalization_expendable_amount starting_balance min_account_balance a
                              (fl_principal_delta l))
                           current_ts (fl_db l)) (\<lambda>(signal, a, d).
                  bindR (case signal of
                           Some s \<Rightarrow> bindR (assertR (0 < pbs_principal_delta s)) (\<lambda>_.
                                     Inr (pbs_principal_delta s, fl_signals l @ [s]))
                         | None \<Rightarrow> Inr (0, fl_signals l)) (\<lambda>(committed_amount, signals).
                  Inr (l\<lparr>fl_account := Some a,
                         fl_principal_delta := fl_principal_delta l - committed_amount,
                         fl_signals := signals,
                         fl_db := delete_prepared_transfer pt d\<rparr>)))
              | _ \<Rightarrow> Inr l) (\<lambda>l.
       Inr (l\<lparr>fl_db := delete_finalization_request fr (fl_db l)\<rparr>)))"

definition finalization_requests_of :: "int \<Rightarrow> int \<Rightarrow> db \<Rightarrow> finalization_request list" where
  "finalization_requests_of debtor_id creditor_id d =
     [fr \<leftarrow> db_finalization_requests d.
        fr_debtor_id fr = debtor_id \<and> fr_sender_creditor_id fr = creditor_id]"

definition join_prepared_transfers ::
    "db \<Rightarrow> finalization_request list \<Rightarrow> (finalization_request \<times> prepared_transfer option) list" where
  "join_prepared_transfers d frs =
     map (\<lambda>fr. (fr, find (prepared_transfer_join_clause fr) (db_prepared_transfers d))) frs"

definition process_finalization_requests ::
    "env \<Rightarrow> (finalization_request \<Rightarrow> bool) \<Rightarrow> datetime \<Rightarrow> int \<Rightarrow> int \<Rightarrow> db \<Rightarrow> db result" where
  "process_finalization_requests E skip current_ts debtor_id sender_creditor_id d =
     (let requests = join_prepared_transfers d
            [fr \<leftarrow> finalization_requests_of debtor_id sender_creditor_id d. \<not> skip fr]
      in if requests \<noteq> [] then
           let sender_account = get_account debtor_id sender_creditor_id d in
           bindR (case sender_account of
                    Some a \<Rightarrow> bindR (Account_calc_current_balance E a current_ts) dec_floor
                  | None \<Rightarrow> Inr 0) (\<lambda>starting_balance.
           bindR (foldR (finalization_loop_body E current_ts starting_balance
                          (get_min_account_balance sender_creditor_id)) requests
                    \<lparr>fl_account = sender_account, fl_principal_delta = 0, fl_signals = [], fl_db = d\<rparr>)
             (\<lambda>l.
           bindR (if fl_principal_delta l \<noteq> 0 then
                    (case fl_account l of
                       None \<Rightarrow> Inl AssertionError
                     | Some a \<Rightarrow>
                         bindR (apply_account_change E a (fl_principal_delta l) (Fin 0) current_ts)
                           (\<lambda>a. Inr (Some a)))
                  else Inr (fl_account l)) (\<lambda>a.
           let d = fold add_pending_balance_change_signal (fl_signals l) (fl_db l) in
           save_sender E a d)))
         else Inr d)"

definition get_accounts_with_finalization_requests :: "int option \<Rightarrow> db \<Rightarrow> (int \<times> int) list" where
  "get_accounts_with_finalization_requests max_count d =
     (let q = remdups (map (\<lambda>fr. (fr_debtor_id fr, fr_sender_creditor_id fr))
                         (db_finalization_requests d))
      in case max_count of None \<Rightarrow> q | Some n \<Rightarrow> take (nat n) q)"

section \<open>What one finalization changes\<close>

lemma delete_simps [simp]:
  "db_accounts (delete_finalization_request fr d) = db_accounts d"
  "db_accounts (delete_prepared_transfer pt d) = db_accounts d"
  "db_prepared_transfers (delete_finalization_request fr d) = db_prepared_transfers d"
  "db_prepared_transfers (delete_prepared_transfer pt d)
     = tbl_delete prepared_transfer_pk (prepared_transfer_pk pt) (db_prepared_transfers d)"
  by (simp_all add: delete_finalization_request_def delete_prepared_transfer_def)

text \<open>Finalizing changes an account's locks and its transfer number, nothing else.\<close>

definition same_but_finalized :: "account \<Rightarrow> account \<Rightarrow> bool" where
  "same_but_finalized a b \<longleftrightarrow>
     b = a\<lparr>acc_total_locked_amount := acc_total_locked_amount b,
           acc_pending_transfers_count := acc_pending_transfers_count b,
           acc_last_transfer_number := acc_last_transfer_number b,
           acc_last_transfer_committed_at := acc_last_transfer_committed_at b\<rparr>"

lemma same_but_finalized_refl [simp]: "same_but_finalized a a"
  by (simp add: same_but_finalized_def)

lemma same_but_finalized_trans:
  "same_but_finalized a b \<Longrightarrow> same_but_finalized b c \<Longrightarrow> same_but_finalized a c"
  unfolding same_but_finalized_def by (cases a; cases b; cases c) simp

lemma same_but_finalized_eqs:
  assumes "same_but_finalized a b"
  shows "acc_debtor_id b = acc_debtor_id a" "acc_creditor_id b = acc_creditor_id a"
    "account_pk b = account_pk a" "acc_principal b = acc_principal a"
    "acc_interest b = acc_interest a" "acc_interest_rate b = acc_interest_rate a"
    "acc_previous_interest_rate b = acc_previous_interest_rate a"
    "acc_negligible_amount b = acc_negligible_amount a"
    "acc_last_change_ts b = acc_last_change_ts a" "acc_status_flags b = acc_status_flags a"
    "acc_last_transfer_id b = acc_last_transfer_id a" "acc_creation_date b = acc_creation_date a"
    "Account_calc_current_balance E b ts = Account_calc_current_balance E a ts"
  by (subst assms [unfolded same_but_finalized_def];
      simp add: account_pk_def Account_calc_current_balance_def)+

lemma unlock_amount_simps [simp]:
  "acc_total_locked_amount (unlock_amount n a) = max 0 (acc_total_locked_amount a - n)"
  "acc_pending_transfers_count (unlock_amount n a) = max 0 (acc_pending_transfers_count a - 1)"
  "acc_interest_rate (unlock_amount n a) = acc_interest_rate a"
  "acc_principal (unlock_amount n a) = acc_principal a"
  "acc_creditor_id (unlock_amount n a) = acc_creditor_id a"
  "acc_last_transfer_number (unlock_amount n a) = acc_last_transfer_number a"
  by (simp_all add: unlock_amount_def)

lemma same_but_finalized_unlock: "same_but_finalized a (unlock_amount n a)"
  by (simp add: same_but_finalized_def unlock_amount_def)

lemma get_is_reserved_le: "get_is_reserved M pt c ts = Inr True \<Longrightarrow> c \<le> pt_locked_amount pt"
  by (auto simp: get_is_reserved_def split: if_splits)

text \<open>A status \<open>OK\<close> means that nothing is committed, or it is expendable or has been reserved.\<close>

lemma calc_status_code_OK:
  assumes "calc_status_code M pt c x r ts = Inr SC_OK"
  shows "c = 0 \<or> c \<le> x + pt_locked_amount pt \<or> c \<le> pt_locked_amount pt"
  using assms get_is_reserved_le [of M pt c ts]
  by (auto simp: calc_status_code_def monad_simps get_is_expendable_def split: if_splits)

lemma calc_status_code_nonneg: "calc_status_code M pt c x r ts = Inr code \<Longrightarrow> 0 \<le> c"
  by (auto simp: calc_status_code_def monad_simps)

lemma finalize_prepared_transfer_InrD [effects]:
  assumes "finalize_prepared_transfer E pt fr a x ts d = Inr (s, b, d')"
  obtains code c F T where
    "calc_status_code E pt (fr_committed_amount fr) x (acc_interest_rate a) ts = Inr code"
    "c = (if code = SC_OK then fr_committed_amount fr else 0)" "0 \<le> c"
    "s = (if 0 < c then Some (recipient_change_signal pt fr ts c) else None)"
    "same_but_finalized a b"
    "acc_total_locked_amount b = max 0 (acc_total_locked_amount a - pt_locked_amount pt)"
    "acc_pending_transfers_count b = max 0 (acc_pending_transfers_count a - 1)"
    "tbl_insert fts_pk (\<lambda>_. True)
       (finalized_transfer_signal_of pt ts c (acc_total_locked_amount b) code)
       (db_finalized_transfer_signals d) = Inr F"
    "d' = d\<lparr>db_finalized_transfer_signals := F, db_account_transfer_signals := T\<rparr>"
proof -
  let ?u = "unlock_amount (pt_locked_amount pt) a"
  from assms obtain code where
    code: "calc_status_code E pt (fr_committed_amount fr) x (acc_interest_rate a) ts = Inr code"
    by (auto simp: finalize_prepared_transfer_def Let_def monad_simps)
  define c where "c = (if code = SC_OK then fr_committed_amount fr else 0)"
  have c: "0 \<le> c" using calc_status_code_nonneg [OF code] by (simp add: c_def)
  define sig where "sig = finalized_transfer_signal_of pt ts c (acc_total_locked_amount ?u) code"
  from assms obtain F where F: "tbl_insert fts_pk (\<lambda>_. True) sig (db_finalized_transfer_signals d) = Inr F"
    and rest: "(if 0 < c then
        bindR (insert_account_transfer_signal ?u (pt_coordinator_type pt) (pt_recipient_creditor_id pt)
                 ts (- c) (fr_transfer_note_format fr) (fr_transfer_note fr)
                 (contain_principal_overflow (acc_principal ?u - c))
                 (d\<lparr>db_finalized_transfer_signals := F\<rparr>)) (\<lambda>(a, d).
        Inr (Some (recipient_change_signal pt fr ts c), a, d))
      else bindR (assertR (c = 0)) (\<lambda>_. Inr (None, ?u, d\<lparr>db_finalized_transfer_signals := F\<rparr>)))
      = Inr (s, b, d')"
    using code
    by (auto simp only: finalize_prepared_transfer_def Let_def bindR_eq_Inr add_finalized_transfer_signal_def
      c_def sig_def unlock_amount_simps sum.inject)
  show thesis
  proof (cases "0 < c")
    case False
    then have b: "b = ?u" "s = None" and d': "d' = d\<lparr>db_finalized_transfer_signals := F\<rparr>"
      using rest by (auto simp: monad_simps)
    show thesis
      by (rule that [OF code c_def c, where F = F and T = "db_account_transfer_signals d"])
        (use False F in \<open>simp_all add: b d' sig_def same_but_finalized_unlock\<close>)
  next
    case True
    from rest obtain d1 where ins: "insert_account_transfer_signal ?u (pt_coordinator_type pt)
        (pt_recipient_creditor_id pt) ts (- c) (fr_transfer_note_format fr) (fr_transfer_note fr)
        (contain_principal_overflow (acc_principal ?u - c))
        (d\<lparr>db_finalized_transfer_signals := F\<rparr>) = Inr (b, d')"
      and s: "s = Some (recipient_change_signal pt fr ts c)"
      using True by (auto simp: monad_simps)
    have b: "same_but_finalized ?u b" "acc_total_locked_amount b = acc_total_locked_amount ?u"
        "acc_pending_transfers_count b = acc_pending_transfers_count ?u"
      using insert_account_transfer_signal_InrD [OF ins] by (auto simp: same_but_finalized_def)
    obtain T where d': "d' = d\<lparr>db_finalized_transfer_signals := F, db_account_transfer_signals := T\<rparr>"
      using insert_account_transfer_signal_InrD [OF ins]
      by (cases d) auto
    show thesis
      by (rule that [OF code c_def c _ _ _ _ _ d'])
        (use True s b F same_but_finalized_trans [OF same_but_finalized_unlock b(1)] in
         \<open>simp_all add: sig_def\<close>)
  qed
qed

text \<open>
  What happened to one pair of a finalization request and its prepared transfer: the amount
  committed and the status code.
\<close>

record outcome =
  out_fr :: finalization_request
  out_pt :: prepared_transfer
  out_amount :: int
  out_code :: pystr

definition outcome_ok :: "outcome \<Rightarrow> bool" where
  "outcome_ok x \<longleftrightarrow> 0 \<le> out_amount x
     \<and> out_amount x = (if out_code x = SC_OK then fr_committed_amount (out_fr x) else 0)"

text \<open>
  The report of one outcome, field by field: which transfer it is about, when it was prepared and
  finalized, and the committed amount and the status code of the outcome.
\<close>

definition reports :: "datetime \<Rightarrow> finalized_transfer_signal \<Rightarrow> outcome \<Rightarrow> bool" where
  "reports ts s x \<longleftrightarrow>
     fts_debtor_id s = pt_debtor_id (out_pt x)
     \<and> fts_sender_creditor_id s = pt_sender_creditor_id (out_pt x)
     \<and> fts_transfer_id s = pt_transfer_id (out_pt x)
     \<and> fts_coordinator_type s = pt_coordinator_type (out_pt x)
     \<and> fts_coordinator_id s = pt_coordinator_id (out_pt x)
     \<and> fts_coordinator_request_id s = pt_coordinator_request_id (out_pt x)
     \<and> fts_prepared_at s = pt_prepared_at (out_pt x) \<and> fts_finalized_at s = ts
     \<and> fts_committed_amount s = out_amount x \<and> fts_status_code s = out_code x
     \<and> fts_inserted_at s = None"

text \<open>
  The verdicts of a batch: \<open>x\<close> is the sender's balance above the minimum, \<open>t\<close> what is locked. Each
  request is judged by what is expendable when its turn comes; then the committed amount is spent and
  the lock of the transfer is released.
\<close>

fun judged :: "env \<Rightarrow> datetime \<Rightarrow> pyfloat \<Rightarrow> int \<Rightarrow> int \<Rightarrow> finalized_transfer_signal list \<Rightarrow>
    (finalization_request \<times> prepared_transfer) list \<Rightarrow> bool" where
  "judged E ts r x t (s # F) ((fr, pt) # ps) \<longleftrightarrow>
     calc_status_code E pt (fr_committed_amount fr) (x - t) r ts = Inr (fts_status_code s)
     \<and> fts_committed_amount s = (if fts_status_code s = SC_OK then fr_committed_amount fr else 0)
     \<and> fts_total_locked_amount s = max 0 (t - pt_locked_amount pt)
     \<and> judged E ts r (x - fts_committed_amount s) (fts_total_locked_amount s) F ps"
| "judged E ts r x t F ps \<longleftrightarrow> F = [] \<and> ps = []"

definition change_signals :: "datetime \<Rightarrow> outcome list \<Rightarrow> pending_balance_change_signal list" where
  "change_signals ts outs =
     map (\<lambda>x. recipient_change_signal (out_pt x) (out_fr x) ts (out_amount x))
       (filter (\<lambda>x. 0 < out_amount x) outs)"

text \<open>The payment that a committed transfer sends, field by field: to the recipient, from the sender.\<close>

definition pays_recipient :: "datetime \<Rightarrow> pending_balance_change_signal \<Rightarrow> outcome \<Rightarrow> bool" where
  "pays_recipient ts s x \<longleftrightarrow>
     pbs_debtor_id s = pt_debtor_id (out_pt x)
     \<and> pbs_creditor_id s = pt_recipient_creditor_id (out_pt x)
     \<and> pbs_other_creditor_id s = pt_sender_creditor_id (out_pt x)
     \<and> pbs_principal_delta s = out_amount x \<and> 0 < pbs_principal_delta s
     \<and> pbs_coordinator_type s = pt_coordinator_type (out_pt x)
     \<and> pbs_transfer_note_format s = fr_transfer_note_format (out_fr x)
     \<and> pbs_transfer_note s = fr_transfer_note (out_fr x)
     \<and> pbs_committed_at s = ts \<and> pbs_inserted_at s = None"

fun matched :: "(finalization_request \<times> prepared_transfer option) list \<Rightarrow>
    (finalization_request \<times> prepared_transfer) list" where
  "matched [] = []"
| "matched ((fr, Some pt) # rs) = (fr, pt) # matched rs"
| "matched ((fr, None) # rs) = matched rs"

lemma change_signals_simps [simp]:
  "change_signals ts [] = []"
  "change_signals ts (x # outs) =
     (if 0 < out_amount x then [recipient_change_signal (out_pt x) (out_fr x) ts (out_amount x)] else [])
       @ change_signals ts outs"
  by (simp_all add: change_signals_def)

lemma finalization_loop_body_cases [consumes 1, case_names skipped finalized]:
  assumes "finalization_loop_body E ts sb mb (fr, po) l = Inr l'"
  obtains "fl_account l = None \<or> po = None" "l' = l\<lparr>fl_db := delete_finalization_request fr (fl_db l)\<rparr>"
  | a pt b x F T where "fl_account l = Some a" "po = Some pt"
      "out_fr x = fr" "out_pt x = pt" "outcome_ok x"
      "calc_status_code E pt (fr_committed_amount fr)
         (finalization_expendable_amount sb mb a (fl_principal_delta l)) (acc_interest_rate a) ts
       = Inr (out_code x)"
      "same_but_finalized a b"
      "acc_total_locked_amount b = max 0 (acc_total_locked_amount a - pt_locked_amount pt)"
      "acc_pending_transfers_count b = max 0 (acc_pending_transfers_count a - 1)"
      "F = finalized_transfer_signal_of pt ts (out_amount x) (acc_total_locked_amount b) (out_code x)"
      "l' = \<lparr>fl_account = Some b, fl_principal_delta = fl_principal_delta l - out_amount x,
         fl_signals = fl_signals l @ change_signals ts [x],
         fl_db = (delete_finalization_request fr (delete_prepared_transfer pt (fl_db l)))
           \<lparr>db_finalized_transfer_signals := db_finalized_transfer_signals (fl_db l) @ [F],
            db_account_transfer_signals := T\<rparr>\<rparr>"
proof (cases "fl_account l = None \<or> po = None")
  case True
  then show thesis using assms that(1)
    by (cases "fl_account l"; cases po) (simp_all add: finalization_loop_body_def)
next
  case False
  then obtain a pt where a: "fl_account l = Some a" "po = Some pt" by auto
  let ?x = "finalization_expendable_amount sb mb a (fl_principal_delta l)"
  from assms a obtain s b d where
    fin: "finalize_prepared_transfer E pt fr a ?x ts (fl_db l) = Inr (s, b, d)"
    by (auto simp: finalization_loop_body_def bindR_eq_Inr)
  from fin show thesis
  proof (cases rule: finalize_prepared_transfer_InrD)
    case (1 code c F T)
    define x where "x = \<lparr>out_fr = fr, out_pt = pt, out_amount = c, out_code = code\<rparr>"
    have l': "l' = \<lparr>fl_account = Some b, fl_principal_delta = fl_principal_delta l - out_amount x,
         fl_signals = fl_signals l @ change_signals ts [x],
         fl_db = (delete_finalization_request fr (delete_prepared_transfer pt (fl_db l)))
           \<lparr>db_finalized_transfer_signals := db_finalized_transfer_signals (fl_db l)
              @ [finalized_transfer_signal_of pt ts c (acc_total_locked_amount b) code],
            db_account_transfer_signals := T\<rparr>\<rparr>"
      using assms a fin 1
      by (cases l) (auto simp: finalization_loop_body_def x_def recipient_change_signal_def tbl_insert_def
          delete_finalization_request_def delete_prepared_transfer_def assertR_def split: if_splits)
    show thesis
      by (rule that(2) [OF a, of x b _ T])
        (use 1 l' in \<open>simp_all add: x_def outcome_ok_def\<close>)
  qed
qed

text \<open>The whole loop: one outcome for each matched request, if the account is there.\<close>

lemma finalization_loop_outcomes:
  assumes "foldR (finalization_loop_body E ts sb mb) rs l = Inr l'" and "fl_account l = Some a"
  shows "\<exists>outs F T b. map (\<lambda>x. (out_fr x, out_pt x)) outs = matched rs
     \<and> (\<forall>x \<in> set outs. outcome_ok x)
     \<and> fl_signals l' = fl_signals l @ change_signals ts outs
     \<and> fl_principal_delta l' = fl_principal_delta l - total out_amount outs
     \<and> list_all2 (reports ts) F outs
     \<and> judged E ts (acc_interest_rate a) (sb - mb + fl_principal_delta l) (acc_total_locked_amount a) F (matched rs)
     \<and> fl_db l' = (fl_db l)\<lparr>db_finalization_requests :=
            filter (\<lambda>r. finalization_request_pk r \<notin> finalization_request_pk ` fst ` set rs)
              (db_finalization_requests (fl_db l)),
          db_prepared_transfers :=
            filter (\<lambda>r. prepared_transfer_pk r \<notin> prepared_transfer_pk ` snd ` set (matched rs))
              (db_prepared_transfers (fl_db l)),
          db_finalized_transfer_signals := db_finalized_transfer_signals (fl_db l) @ F,
          db_account_transfer_signals := T\<rparr>
     \<and> fl_account l' = Some b \<and> same_but_finalized a b"
  using assms
proof (induction rs arbitrary: l a)
  case Nil
  then show ?case
    by (intro exI [of _ "[]"] exI [of _ "db_account_transfer_signals (fl_db l)"] exI [of _ a]) simp
next
  case (Cons r rs)
  obtain fr po where r: "r = (fr, po)" by (cases r)
  from Cons.prems obtain m where m: "finalization_loop_body E ts sb mb (fr, po) l = Inr m"
    and rest: "foldR (finalization_loop_body E ts sb mb) rs m = Inr l'" by (auto simp: monad_simps r)
  from m show ?case
  proof (cases rule: finalization_loop_body_cases)
    case skipped
    then have "po = None" using Cons.prems by simp
    from skipped Cons.prems have "fl_account m = Some a" by simp
    from Cons.IH [OF rest this] skipped(2) \<open>po = None\<close> show ?thesis
      by (elim exE) (rule exI, rule exI, rule exI, rule exI,
        auto simp: r delete_finalization_request_def tbl_delete_def conj_commute)
  next
    case (finalized a0 pt b x G T)
    then have "fl_account m = Some b" by simp
    from Cons.IH [OF rest this] obtain outs F T' b' where IH:
      "map (\<lambda>x. (out_fr x, out_pt x)) outs = matched rs" "\<forall>x \<in> set outs. outcome_ok x"
      "fl_signals l' = fl_signals m @ change_signals ts outs"
      "fl_principal_delta l' = fl_principal_delta m - total out_amount outs"
      "list_all2 (reports ts) F outs"
      "judged E ts (acc_interest_rate b) (sb - mb + fl_principal_delta m) (acc_total_locked_amount b) F (matched rs)"
      "fl_db l' = (fl_db m)\<lparr>db_finalization_requests :=
            filter (\<lambda>r. finalization_request_pk r \<notin> finalization_request_pk ` fst ` set rs)
              (db_finalization_requests (fl_db m)),
          db_prepared_transfers :=
            filter (\<lambda>r. prepared_transfer_pk r \<notin> prepared_transfer_pk ` snd ` set (matched rs))
              (db_prepared_transfers (fl_db m)),
          db_finalized_transfer_signals := db_finalized_transfer_signals (fl_db m) @ F,
          db_account_transfer_signals := T'\<rparr>"
      "fl_account l' = Some b'" "same_but_finalized b b'" by blast
    have [simp]: "a0 = a" using finalized(1) Cons.prems by simp
    have "reports ts G x" using finalized by (simp add: reports_def finalized_transfer_signal_of_def)
    moreover have "judged E ts (acc_interest_rate a) (sb - mb + fl_principal_delta l) (acc_total_locked_amount a)
        (G # F) (matched (r # rs))"
      using IH(6) finalized same_but_finalized_eqs(6) [OF finalized(7)]
      by (auto simp: r finalized_transfer_signal_of_def outcome_ok_def finalization_expendable_amount_def
          algebra_simps)
    moreover have "same_but_finalized a b'"
      using same_but_finalized_trans [OF _ IH(9)] finalized(7) by simp
    ultimately show ?thesis using IH finalized
      by (intro exI [of _ "x # outs"] exI [of _ "G # F"] exI [of _ T'] exI [of _ b'])
        (auto simp: r delete_finalization_request_def delete_prepared_transfer_def tbl_delete_def conj_commute)
  qed
qed

lemma finalization_loop_unreachable:
  "fl_account l = None \<Longrightarrow>
   foldR (finalization_loop_body E ts sb mb) rs l
     = Inr (l\<lparr>fl_db := (fl_db l)\<lparr>db_finalization_requests :=
            filter (\<lambda>r. finalization_request_pk r \<notin> finalization_request_pk ` fst ` set rs)
              (db_finalization_requests (fl_db l))\<rparr>\<rparr>)"
proof (induction rs arbitrary: l)
  case Nil
  then show ?case by simp
next
  case (Cons r rs)
  then show ?case
    by (cases r) (simp add: finalization_loop_body_def delete_finalization_request_def tbl_delete_def conj_commute)
qed

text \<open>Locks are released and the expendable amount does not fall below zero.\<close>

definition loop_expendable :: "int \<Rightarrow> int \<Rightarrow> finalization_loop \<Rightarrow> account \<Rightarrow> int" where
  "loop_expendable sb mb l a = finalization_expendable_amount sb mb a (fl_principal_delta l)"

definition locks_of :: "account \<Rightarrow> prepared_transfer list \<Rightarrow> bool" where
  "locks_of a P \<longleftrightarrow> acc_pending_transfers_count a = pending_count (account_pk a) P
     \<and> acc_total_locked_amount a \<le> locked_sum (account_pk a) P"

lemma locks_after_delete:
  assumes wf: "tbl_wf prepared_transfer_pk prepared_transfer_ok P" and pt: "pt \<in> set P" "pt_of k pt"
  shows "locked_sum k (tbl_delete prepared_transfer_pk (prepared_transfer_pk pt) P)
           = locked_sum k P - pt_locked_amount pt"
    and "pending_count k (tbl_delete prepared_transfer_pk (prepared_transfer_pk pt) P) = pending_count k P - 1"
    and "pt_locked_amount pt \<le> locked_sum k P" and "1 \<le> pending_count k P"
proof -
  have look: "tbl_lookup prepared_transfer_pk (prepared_transfer_pk pt) P = Some pt"
    using wf pt by (simp add: pts.lookup_iff)
  show s: "locked_sum k (tbl_delete prepared_transfer_pk (prepared_transfer_pk pt) P)
           = locked_sum k P - pt_locked_amount pt"
    and c: "pending_count k (tbl_delete prepared_transfer_pk (prepared_transfer_pk pt) P) = pending_count k P - 1"
    using pts.del_total [OF wf look] pt(2) by (simp_all add: locked_sum_def pending_count_def)
  have "\<forall>x \<in> set (tbl_delete prepared_transfer_pk (prepared_transfer_pk pt) P). 0 \<le> pt_locked_amount x"
    using pts.wf_ok [OF wf] by (auto simp: pts.del_set prepared_transfer_ok_def)
  from locked_sum_nonneg [OF this, of k] pending_count_nonneg [of k] s c
  show "pt_locked_amount pt \<le> locked_sum k P" "1 \<le> pending_count k P"
    by (auto dest: spec) (smt (verit) pending_count_nonneg)
qed

lemma expendable_step:
  assumes ok: "outcome_ok x" "out_pt x = pt"
    and code: "calc_status_code E pt (fr_committed_amount (out_fr x))
        (finalization_expendable_amount sb mb a delta) r ts = Inr (out_code x)"
    and locked: "pt_locked_amount pt \<le> acc_total_locked_amount a"
    and b: "acc_total_locked_amount b = max 0 (acc_total_locked_amount a - pt_locked_amount pt)"
    and nonneg: "0 \<le> pt_locked_amount pt"
  shows "min 0 (finalization_expendable_amount sb mb a delta)
    \<le> finalization_expendable_amount sb mb b (delta - out_amount x)"
proof (cases "out_code x = SC_OK")
  case True
  then have "calc_status_code E pt (out_amount x) (finalization_expendable_amount sb mb a delta) r ts = Inr SC_OK"
    using ok code by (simp add: outcome_ok_def)
  from calc_status_code_OK [OF this] show ?thesis
    using ok locked b nonneg by (auto simp: finalization_expendable_amount_def outcome_ok_def)
next
  case False
  then show ?thesis using ok locked b nonneg
    by (auto simp: finalization_expendable_amount_def outcome_ok_def)
qed

lemma finalization_step_locks:
  assumes body: "finalization_loop_body E ts sb mb (fr, Some pt) l = Inr m" and a: "fl_account l = Some a"
    and wf: "tbl_wf prepared_transfer_pk prepared_transfer_ok (db_prepared_transfers (fl_db l))"
    and pt: "pt \<in> set (db_prepared_transfers (fl_db l))" "pt_of (account_pk a) pt"
    and locks: "locks_of a (db_prepared_transfers (fl_db l))"
  shows "\<exists>b. fl_account m = Some b \<and> account_pk b = account_pk a
     \<and> db_prepared_transfers (fl_db m) = tbl_delete prepared_transfer_pk (prepared_transfer_pk pt)
          (db_prepared_transfers (fl_db l))
     \<and> locks_of b (db_prepared_transfers (fl_db m))
     \<and> (0 \<le> acc_total_locked_amount a \<longrightarrow>
          0 \<le> acc_total_locked_amount b \<and> acc_total_locked_amount b \<le> acc_total_locked_amount a)
     \<and> (acc_total_locked_amount a = locked_sum (account_pk a) (db_prepared_transfers (fl_db l)) \<longrightarrow>
          acc_total_locked_amount b = locked_sum (account_pk a) (db_prepared_transfers (fl_db m))
          \<and> min 0 (loop_expendable sb mb l a) \<le> loop_expendable sb mb m b)"
  using body
proof (cases rule: finalization_loop_body_cases)
  case skipped
  then show ?thesis using a by simp
next
  case (finalized a0 pt0 b x G T)
  have [simp]: "a0 = a" "pt0 = pt" using finalized(1,2) a by simp_all
  have P': "db_prepared_transfers (fl_db m) = tbl_delete prepared_transfer_pk (prepared_transfer_pk pt)
      (db_prepared_transfers (fl_db l))"
    using finalized by simp
  have pk: "account_pk b = account_pk a" using finalized same_but_finalized_eqs(3) by auto
  have nonneg: "0 \<le> pt_locked_amount pt" using pts.wf_ok [OF wf pt(1)] by (simp add: prepared_transfer_ok_def)
  note del = locks_after_delete [OF wf pt]
  have "locks_of b (db_prepared_transfers (fl_db m))"
    using locks finalized(8,9) del by (auto simp: locks_of_def pk P')
  moreover have "acc_total_locked_amount b = locked_sum (account_pk a) (db_prepared_transfers (fl_db m))
      \<and> min 0 (loop_expendable sb mb l a) \<le> loop_expendable sb mb m b"
    if "acc_total_locked_amount a = locked_sum (account_pk a) (db_prepared_transfers (fl_db l))"
    using that finalized del nonneg expendable_step [OF finalized(5,4) _ _ _ nonneg [folded \<open>pt0 = pt\<close>], of E sb mb a
        "fl_principal_delta l" "acc_interest_rate a" ts b]
    by (simp add: P' loop_expendable_def)
  ultimately show ?thesis using finalized(8) nonneg pk P' finalized by auto
qed

lemma finalization_loop_locks:
  assumes "foldR (finalization_loop_body E ts sb mb) rs l = Inr l'" and "fl_account l = Some a"
    and "tbl_wf prepared_transfer_pk prepared_transfer_ok (db_prepared_transfers (fl_db l))"
    and "distinct (map (\<lambda>p. prepared_transfer_pk (snd p)) (matched rs))"
    and "\<forall>p \<in> set (matched rs). snd p \<in> set (db_prepared_transfers (fl_db l)) \<and> pt_of (account_pk a) (snd p)"
    and "locks_of a (db_prepared_transfers (fl_db l))"
  shows "\<exists>b. fl_account l' = Some b \<and> account_pk b = account_pk a
     \<and> locks_of b (db_prepared_transfers (fl_db l'))
     \<and> (0 \<le> acc_total_locked_amount a \<longrightarrow>
          0 \<le> acc_total_locked_amount b \<and> acc_total_locked_amount b \<le> acc_total_locked_amount a)
     \<and> (acc_total_locked_amount a = locked_sum (account_pk a) (db_prepared_transfers (fl_db l)) \<longrightarrow>
          acc_total_locked_amount b = locked_sum (account_pk a) (db_prepared_transfers (fl_db l'))
          \<and> min 0 (loop_expendable sb mb l a) \<le> loop_expendable sb mb l' b)"
  using assms
proof (induction rs arbitrary: l a)
  case Nil
  then show ?case by (intro exI [of _ a]) simp
next
  case (Cons r rs)
  obtain fr po where r: "r = (fr, po)" by (cases r)
  from Cons.prems obtain m where m: "finalization_loop_body E ts sb mb (fr, po) l = Inr m"
    and rest: "foldR (finalization_loop_body E ts sb mb) rs m = Inr l'" by (auto simp: monad_simps r)
  from m show ?case
  proof (cases rule: finalization_loop_body_cases)
    case skipped
    then have po: "po = None" using Cons.prems by simp
    from skipped Cons.prems have acc: "fl_account m = Some a" by simp
    show ?thesis
      using Cons.IH [OF rest acc] Cons.prems skipped(2) po by (simp add: r loop_expendable_def)
  next
    case (finalized a0 pt b0 x G T)
    have po: "po = Some pt" by (fact finalized(2))
    have pt: "pt \<in> set (db_prepared_transfers (fl_db l))" "pt_of (account_pk a) pt"
      using Cons.prems(5) po by (simp_all add: r)
    obtain b where b: "fl_account m = Some b" "account_pk b = account_pk a"
      and P': "db_prepared_transfers (fl_db m) = tbl_delete prepared_transfer_pk (prepared_transfer_pk pt)
        (db_prepared_transfers (fl_db l))"
      and locks: "locks_of b (db_prepared_transfers (fl_db m))"
      and bounds: "0 \<le> acc_total_locked_amount a \<longrightarrow>
          0 \<le> acc_total_locked_amount b \<and> acc_total_locked_amount b \<le> acc_total_locked_amount a"
        "acc_total_locked_amount a = locked_sum (account_pk a) (db_prepared_transfers (fl_db l)) \<longrightarrow>
          acc_total_locked_amount b = locked_sum (account_pk a) (db_prepared_transfers (fl_db m))
          \<and> min 0 (loop_expendable sb mb l a) \<le> loop_expendable sb mb m b"
      using finalization_step_locks [OF m [unfolded po] Cons.prems(2,3) pt Cons.prems(6)] by blast
    have "tbl_wf prepared_transfer_pk prepared_transfer_ok (db_prepared_transfers (fl_db m))"
      unfolding P' by (rule pts.del_wf [OF Cons.prems(3)])
    moreover have "distinct (map (\<lambda>p. prepared_transfer_pk (snd p)) (matched rs))"
      using Cons.prems(4) po by (simp add: r)
    moreover have "\<forall>p \<in> set (matched rs). snd p \<in> set (db_prepared_transfers (fl_db m)) \<and> pt_of (account_pk b) (snd p)"
      using Cons.prems(4,5) po unfolding P' b(2) pts.del_set by (force simp: r)
    ultimately have "\<exists>c. fl_account l' = Some c \<and> account_pk c = account_pk a
       \<and> locks_of c (db_prepared_transfers (fl_db l'))
       \<and> (0 \<le> acc_total_locked_amount b \<longrightarrow>
          0 \<le> acc_total_locked_amount c \<and> acc_total_locked_amount c \<le> acc_total_locked_amount b)
       \<and> (acc_total_locked_amount b = locked_sum (account_pk a) (db_prepared_transfers (fl_db m)) \<longrightarrow>
          acc_total_locked_amount c = locked_sum (account_pk a) (db_prepared_transfers (fl_db l'))
          \<and> min 0 (loop_expendable sb mb m b) \<le> loop_expendable sb mb l' c)"
      using Cons.IH [OF rest b(1) _ _ _ locks] unfolding b(2) by simp
    then show ?thesis using bounds by auto
  qed
qed

section \<open>The whole procedure\<close>

definition handled_finalizations ::
    "(finalization_request \<Rightarrow> bool) \<Rightarrow> int \<Rightarrow> int \<Rightarrow> db \<Rightarrow> finalization_request list" where
  "handled_finalizations skip i j d = [fr \<leftarrow> finalization_requests_of i j d. \<not> skip fr]"

definition finalization_pairs ::
    "(finalization_request \<Rightarrow> bool) \<Rightarrow> int \<Rightarrow> int \<Rightarrow> db \<Rightarrow> (finalization_request \<times> prepared_transfer) list" where
  "finalization_pairs skip i j d = matched (join_prepared_transfers d (handled_finalizations skip i j d))"

text \<open>The change IDs of new signals come from the sequence.\<close>

fun number_changes :: "int \<Rightarrow> pending_balance_change_signal list \<Rightarrow> pending_balance_change_signal list" where
  "number_changes n [] = []"
| "number_changes n (s # ss) = s\<lparr>pbs_change_id := n\<rparr> # number_changes (n + 1) ss"

lemma fold_add_pending:
  "fold add_pending_balance_change_signal S d = d\<lparr>db_pending_balance_change_signals :=
      db_pending_balance_change_signals d @ number_changes (db_next_change_id d) S,
    db_next_change_id := db_next_change_id d + int (length S)\<rparr>"
  by (induction S arbitrary: d) (simp_all add: add_pending_balance_change_signal_def)

lemma total_number_changes [simp]:
  "total pbs_principal_delta (number_changes n S) = total pbs_principal_delta S"
  by (induction S arbitrary: n) simp_all

lemma number_changes_pay:
  "list_all2 (pays_recipient ts) (number_changes n (change_signals ts outs)) [x \<leftarrow> outs. 0 < out_amount x]"
  by (induction outs arbitrary: n) (simp_all add: pays_recipient_def recipient_change_signal_def)

lemma total_change_signals:
  "\<forall>x \<in> set outs. outcome_ok x \<Longrightarrow>
   total pbs_principal_delta (change_signals ts outs) = total out_amount outs"
proof (induction outs)
  case Nil
  then show ?case by simp
next
  case (Cons x outs)
  then have "0 \<le> out_amount x" by (simp add: outcome_ok_def)
  then show ?case using Cons by (auto simp: recipient_change_signal_def)
qed

lemma matched_mem: "(fr, pt) \<in> set (matched rs) \<longleftrightarrow> (fr, Some pt) \<in> set rs"
  by (induction rs rule: matched.induct) auto

lemma join_pk: "prepared_transfer_join_clause fr pt \<Longrightarrow> finalization_request_pk fr = prepared_transfer_pk pt"
  by (simp add: prepared_transfer_join_clause_def finalization_request_pk_def prepared_transfer_pk_def)

lemma join_mem:
  "(fr, pt) \<in> set (matched (join_prepared_transfers d frs)) \<Longrightarrow>
   fr \<in> set frs \<and> pt \<in> set (db_prepared_transfers d) \<and> prepared_transfer_join_clause fr pt"
  by (fastforce simp: matched_mem join_prepared_transfers_def find_Some_iff dest: sym)

lemma join_distinct:
  "distinct (map finalization_request_pk frs) \<Longrightarrow>
   distinct (map (\<lambda>p. prepared_transfer_pk (snd p)) (matched (join_prepared_transfers d frs)))"
proof (induction frs)
  case Nil
  then show ?case by (simp add: join_prepared_transfers_def)
next
  case (Cons fr frs)
  have mem: "\<exists>fr' \<in> set frs. finalization_request_pk fr' = prepared_transfer_pk pt"
    if "(fr', pt) \<in> set (matched (join_prepared_transfers d frs))" for fr' pt
    using join_mem [OF that] join_pk by blast
  show ?case
  proof (cases "find (prepared_transfer_join_clause fr) (db_prepared_transfers d)")
    case None
    then show ?thesis using Cons by (simp add: join_prepared_transfers_def)
  next
    case (Some pt)
    then have "finalization_request_pk fr = prepared_transfer_pk pt" by (auto simp: find_Some_iff join_pk)
    then show ?thesis using Cons Some mem
      by (force simp: join_prepared_transfers_def)
  qed
qed

lemma finalization_pairs_props:
  assumes "db_wf d"
  shows "distinct (map (\<lambda>p. prepared_transfer_pk (snd p)) (finalization_pairs skip i j d))"
    and "\<forall>p \<in> set (finalization_pairs skip i j d).
      snd p \<in> set (db_prepared_transfers d) \<and> pt_of (i, j) (snd p)"
proof -
  have "distinct (map finalization_request_pk (handled_finalizations skip i j d))"
    using db_wf_frs [OF assms]
    by (simp add: handled_finalizations_def finalization_requests_of_def tbl_wf_def distinct_map_filter)
  then show "distinct (map (\<lambda>p. prepared_transfer_pk (snd p)) (finalization_pairs skip i j d))"
    unfolding finalization_pairs_def by (rule join_distinct)
  show "\<forall>p \<in> set (finalization_pairs skip i j d). snd p \<in> set (db_prepared_transfers d) \<and> pt_of (i, j) (snd p)"
    by (auto simp: finalization_pairs_def handled_finalizations_def finalization_requests_of_def
        prepared_transfer_join_clause_def pt_of_def dest!: join_mem)
qed

lemma process_finalization_requests_idle:
  "process_finalization_requests E skip ts i j d = Inr d' \<Longrightarrow>
   handled_finalizations skip i j d = [] \<Longrightarrow> d' = d"
  by (simp add: process_finalization_requests_def handled_finalizations_def join_prepared_transfers_def)

definition finalized_account ::
    "env \<Rightarrow> datetime \<Rightarrow> db \<Rightarrow> db \<Rightarrow> account \<Rightarrow> account \<Rightarrow> int \<Rightarrow> bool" where
  "finalized_account E ts d d' a b committed \<longleftrightarrow>
     account_pk b = account_pk a \<and> acc_interest_rate b = acc_interest_rate a
     \<and> acc_last_transfer_id b = acc_last_transfer_id a \<and> is_deleted b = is_deleted a
     \<and> acc_principal b = (if committed = 0 then acc_principal a
                          else contain_principal_overflow (acc_principal a - committed))
     \<and> (locks_of a (db_prepared_transfers d) \<longrightarrow> locks_of b (db_prepared_transfers d')
        \<and> acc_total_locked_amount b \<le> acc_total_locked_amount a)
     \<and> (locks_of a (db_prepared_transfers d)
          \<and> acc_total_locked_amount a = locked_sum (account_pk a) (db_prepared_transfers d) \<longrightarrow>
          acc_total_locked_amount b = locked_sum (account_pk a) (db_prepared_transfers d')
          \<and> (\<forall>bal n. Account_calc_current_balance E a ts = Inr bal \<longrightarrow> dec_floor bal = Inr n \<longrightarrow>
               min 0 (n - acc_total_locked_amount a - get_min_account_balance (acc_creditor_id a))
               \<le> n - committed - acc_total_locked_amount b - get_min_account_balance (acc_creditor_id a)))"

lemma finalization_filters:
  assumes wf: "db_wf d" and outs: "map (\<lambda>x. (out_fr x, out_pt x)) outs = finalization_pairs skip i j d"
  shows "filter (\<lambda>r. finalization_request_pk r \<notin> finalization_request_pk ` fst
          ` set (join_prepared_transfers d (handled_finalizations skip i j d))) (db_finalization_requests d)
      = [fr \<leftarrow> db_finalization_requests d. fr \<notin> set (handled_finalizations skip i j d)]"
    "filter (\<lambda>r. prepared_transfer_pk r \<notin> prepared_transfer_pk ` snd ` set (finalization_pairs skip i j d))
        (db_prepared_transfers d) = [pt \<leftarrow> db_prepared_transfers d. pt \<notin> out_pt ` set outs]"
proof -
  have fst: "fst ` set (join_prepared_transfers d (handled_finalizations skip i j d)) = set (handled_finalizations skip i j d)"
    by (force simp: join_prepared_transfers_def)
  show "filter (\<lambda>r. finalization_request_pk r \<notin> finalization_request_pk ` fst
          ` set (join_prepared_transfers d (handled_finalizations skip i j d))) (db_finalization_requests d)
      = [fr \<leftarrow> db_finalization_requests d. fr \<notin> set (handled_finalizations skip i j d)]"
    unfolding fst using frs.pk_inj [OF db_wf_frs [OF wf]]
    by (intro filter_cong) (auto simp: handled_finalizations_def finalization_requests_of_def)
  have snd: "snd ` set (finalization_pairs skip i j d) = out_pt ` set outs"
    by (simp flip: outs add: image_image)
  have "\<forall>pt \<in> snd ` set (finalization_pairs skip i j d). pt \<in> set (db_prepared_transfers d)"
    using finalization_pairs_props(2) [OF wf] by auto
  then show "filter (\<lambda>r. prepared_transfer_pk r \<notin> prepared_transfer_pk ` snd ` set (finalization_pairs skip i j d))
        (db_prepared_transfers d) = [pt \<leftarrow> db_prepared_transfers d. pt \<notin> out_pt ` set outs]"
    unfolding snd using pts.pk_inj [OF db_wf_pts [OF wf]] by (intro filter_cong) auto
qed

text \<open>The sender's account after the loop, with the amounts that have left it.\<close>

lemma finalization_applied:
  assumes applied: "(if delta \<noteq> 0 then (case Some c of
          None \<Rightarrow> Inl AssertionError
        | Some a \<Rightarrow> bindR (apply_account_change E a delta (Fin 0) ts) (\<lambda>a. Inr (Some a)))
      else Inr (Some c)) = Inr ao"
    and c: "same_but_finalized a c"
  obtains b where "ao = Some b" "account_pk b = account_pk a" "acc_debtor_id b = acc_debtor_id a"
    "acc_creditor_id b = acc_creditor_id a" "acc_interest_rate b = acc_interest_rate a"
    "acc_previous_interest_rate b = acc_previous_interest_rate a"
    "acc_negligible_amount b = acc_negligible_amount a" "acc_last_transfer_id b = acc_last_transfer_id a"
    "acc_total_locked_amount b = acc_total_locked_amount c"
    "acc_pending_transfers_count b = acc_pending_transfers_count c" "is_deleted b = is_deleted a"
    "acc_principal b = (if delta = 0 then acc_principal a else contain_principal_overflow (acc_principal a + delta))"
proof (cases "delta = 0")
  case True
  then show thesis using applied by (intro that [of c]) (simp_all add: is_deleted_def same_but_finalized_eqs [OF c])
next
  case False
  then obtain b where "ao = Some b" "apply_account_change E c delta (Fin 0) ts = Inr b"
    using applied by (auto simp: monad_simps)
  then show thesis using False
    by (intro that [of b]) (simp_all add: apply_account_change_frame [of E c] apply_account_change_deleted [of E c]
        is_deleted_def [of a] is_deleted_def [of c] same_but_finalized_eqs [OF c])
qed

text \<open>The account after the loop, when its locks agreed with the prepared transfers before it.\<close>

lemma finalized_account_lemma:
  assumes loop: "foldR (finalization_loop_body E ts sb (get_min_account_balance j))
        (join_prepared_transfers d (handled_finalizations skip i j d))
        \<lparr>fl_account = Some a, fl_principal_delta = 0, fl_signals = [], fl_db = d\<rparr> = Inr l"
    and wf: "db_wf d" and row: "get_account_row i j d = Some a"
    and bal: "Account_calc_current_balance E a ts = Inr bal" "dec_floor bal = Inr sb"
    and P': "db_prepared_transfers d' = db_prepared_transfers (fl_db l)"
    and c: "fl_account l = Some c" "same_but_finalized a c" and delta: "fl_principal_delta l = - committed"
    and b: "account_pk b = account_pk a" "acc_interest_rate b = acc_interest_rate a"
      "acc_last_transfer_id b = acc_last_transfer_id a"
      "acc_total_locked_amount b = acc_total_locked_amount c"
      "acc_pending_transfers_count b = acc_pending_transfers_count c" "is_deleted b = is_deleted a"
      "acc_principal b = (if committed = 0 then acc_principal a
                          else contain_principal_overflow (acc_principal a - committed))"
  shows "finalized_account E ts d d' a b committed"
proof -
  let ?rs = "join_prepared_transfers d (handled_finalizations skip i j d)"
  let ?l0 = "\<lparr>fl_account = Some a, fl_principal_delta = 0, fl_signals = [], fl_db = d\<rparr>"
  note a = get_account_row_pk [OF wf row]
  have k: "account_pk a = (i, j)" using a by (simp add: account_pk_def)
  have "\<forall>p \<in> set (matched ?rs). snd p \<in> set (db_prepared_transfers d) \<and> pt_of (account_pk a) (snd p)"
      "distinct (map (\<lambda>p. prepared_transfer_pk (snd p)) (matched ?rs))"
    using finalization_pairs_props [OF wf, of skip i j] unfolding finalization_pairs_def k by simp_all
  then have "locks_of a (db_prepared_transfers d) \<Longrightarrow>
      locks_of c (db_prepared_transfers d') \<and> acc_total_locked_amount c \<le> acc_total_locked_amount a
     \<and> (acc_total_locked_amount a = locked_sum (account_pk a) (db_prepared_transfers d) \<longrightarrow>
          acc_total_locked_amount c = locked_sum (account_pk a) (db_prepared_transfers d')
          \<and> min 0 (loop_expendable sb (get_min_account_balance j) ?l0 a)
             \<le> loop_expendable sb (get_min_account_balance j) l c)"
    using finalization_loop_locks [OF loop, of a] db_wf_pts [OF wf] c(1) a
    by (auto simp: P' account_ok_def)
  then show ?thesis
    using b bal a same_but_finalized_eqs(3) [OF c(2)]
    by (auto simp: finalized_account_def locks_of_def loop_expendable_def finalization_expendable_amount_def delta)
qed

lemma process_finalization_requests_InrD:
  assumes run: "process_finalization_requests E skip ts i j d = Inr d'" and wf: "db_wf d"
    and ne: "handled_finalizations skip i j d \<noteq> []" and a: "get_account i j d = Some a"
  obtains outs F T b t where
    "d' = d\<lparr>db_finalization_requests :=
          [fr \<leftarrow> db_finalization_requests d. fr \<notin> set (handled_finalizations skip i j d)],
        db_prepared_transfers := [pt \<leftarrow> db_prepared_transfers d. pt \<notin> out_pt ` set outs],
        db_finalized_transfer_signals := db_finalized_transfer_signals d @ F,
        db_account_transfer_signals := T,
        db_pending_balance_change_signals := db_pending_balance_change_signals d
          @ number_changes (db_next_change_id d) (change_signals ts outs),
        db_next_change_id := db_next_change_id d + int (length (change_signals ts outs)),
        db_accounts := t\<rparr>"
    "map (\<lambda>x. (out_fr x, out_pt x)) outs = finalization_pairs skip i j d"
    "\<forall>x \<in> set outs. outcome_ok x"
    "list_all2 (reports ts) F outs"
    "tbl_update account_pk account_ok b (db_accounts d) = Inr t"
    "account_fits b"
    "finalized_account E ts d d' a b (total out_amount outs)"
    "\<exists>bal n. Account_calc_current_balance E a ts = Inr bal \<and> dec_floor bal = Inr n
       \<and> judged E ts (acc_interest_rate a) (n - get_min_account_balance j) (acc_total_locked_amount a) F
            (finalization_pairs skip i j d)"
proof -
  let ?frs = "handled_finalizations skip i j d"
  let ?rs = "join_prepared_transfers d ?frs"
  let ?l0 = "\<lparr>fl_account = Some a, fl_principal_delta = 0, fl_signals = [], fl_db = d\<rparr>"
  have row: "get_account_row i j d = Some a" using get_account_SomeD [OF a] by simp
  note a_props = get_account_row_pk [OF wf row]
  have ne': "?rs \<noteq> []" using ne by (simp add: join_prepared_transfers_def)
  from run ne' a obtain bal sb l ao where
    bal: "Account_calc_current_balance E a ts = Inr bal" "dec_floor bal = Inr sb"
    and loop: "foldR (finalization_loop_body E ts sb (get_min_account_balance j)) ?rs ?l0 = Inr l"
    and applied: "(if fl_principal_delta l \<noteq> 0 then
                    (case fl_account l of
                       None \<Rightarrow> Inl AssertionError
                     | Some a \<Rightarrow>
                         bindR (apply_account_change E a (fl_principal_delta l) (Fin 0) ts)
                           (\<lambda>a. Inr (Some a)))
                  else Inr (fl_account l)) = Inr ao"
    and save: "save_sender E ao (fold add_pending_balance_change_signal (fl_signals l) (fl_db l)) = Inr d'"
    by (auto simp: process_finalization_requests_def handled_finalizations_def Let_def bindR_eq_Inr)
  obtain outs F T c where outs: "map (\<lambda>x. (out_fr x, out_pt x)) outs = finalization_pairs skip i j d"
      "\<forall>x \<in> set outs. outcome_ok x" "fl_signals l = change_signals ts outs"
      "fl_principal_delta l = - total out_amount outs" "list_all2 (reports ts) F outs"
    and db: "fl_db l = d\<lparr>db_finalization_requests :=
            filter (\<lambda>r. finalization_request_pk r \<notin> finalization_request_pk ` fst ` set ?rs)
              (db_finalization_requests d),
          db_prepared_transfers :=
            filter (\<lambda>r. prepared_transfer_pk r \<notin> prepared_transfer_pk ` snd ` set (finalization_pairs skip i j d))
              (db_prepared_transfers d),
          db_finalized_transfer_signals := db_finalized_transfer_signals d @ F,
          db_account_transfer_signals := T\<rparr>"
    and judged: "judged E ts (acc_interest_rate a) (sb - get_min_account_balance j) (acc_total_locked_amount a) F
        (finalization_pairs skip i j d)"
    and c: "fl_account l = Some c" "same_but_finalized a c"
    using finalization_loop_outcomes [OF loop, of a] by (auto simp: finalization_pairs_def)
  note pairs = finalization_pairs_props [OF wf, of skip i j] and filters = finalization_filters [OF wf outs(1)]
  obtain b where ao: "ao = Some b" and b: "account_pk b = account_pk a"
      "acc_debtor_id b = acc_debtor_id a" "acc_creditor_id b = acc_creditor_id a"
      "acc_interest_rate b = acc_interest_rate a"
      "acc_previous_interest_rate b = acc_previous_interest_rate a"
      "acc_negligible_amount b = acc_negligible_amount a" "acc_last_transfer_id b = acc_last_transfer_id a"
      "acc_total_locked_amount b = acc_total_locked_amount c"
      "acc_pending_transfers_count b = acc_pending_transfers_count c" "is_deleted b = is_deleted a"
      "acc_principal b = (if fl_principal_delta l = 0 then acc_principal a
                          else contain_principal_overflow (acc_principal a + fl_principal_delta l))"
    by (rule finalization_applied [OF applied [unfolded c(1)] c(2)])
  define d2 where "d2 = fold add_pending_balance_change_signal (fl_signals l) (fl_db l)"
  have d2: "d2 = d\<lparr>db_finalization_requests :=
          [fr \<leftarrow> db_finalization_requests d. fr \<notin> set ?frs],
        db_prepared_transfers := [pt \<leftarrow> db_prepared_transfers d. pt \<notin> out_pt ` set outs],
        db_finalized_transfer_signals := db_finalized_transfer_signals d @ F,
        db_account_transfer_signals := T,
        db_pending_balance_change_signals := db_pending_balance_change_signals d
          @ number_changes (db_next_change_id d) (change_signals ts outs),
        db_next_change_id := db_next_change_id d + int (length (change_signals ts outs))\<rparr>"
    by (simp add: d2_def fold_add_pending db filters outs(3))
  have row2: "get_account_row (acc_debtor_id b) (acc_creditor_id b) d2 = Some a"
    using row a_props by (simp add: b d2 get_account_row_def)
  from save have "save_account E b d2 = Inr d'" by (simp add: ao save_sender_def d2_def)
  from save_account_same_rates [OF row2 b(4,5,6) this] obtain t where
    t: "tbl_update account_pk account_ok b (db_accounts d) = Inr t" "d' = d2\<lparr>db_accounts := t\<rparr>" "account_fits b"
    by (auto simp: d2)
  have P': "db_prepared_transfers d' = db_prepared_transfers (fl_db l)"
    by (simp add: t(2) d2 db filters)
  have fin: "finalized_account E ts d d' a b (total out_amount outs)"
    by (rule finalized_account_lemma [OF loop wf row bal P' c outs(4)]) (use b outs(4) in auto)
  show thesis
    by (rule that [where outs = outs and F = F and T = T and b = b and t = t])
      (use outs t fin bal judged in \<open>auto simp: d2\<close>)
qed

lemma process_finalization_requests_unreachable:
  assumes run: "process_finalization_requests E skip ts i j d = Inr d'" and wf: "db_wf d"
    and a: "get_account i j d = None"
  shows "d' = d\<lparr>db_finalization_requests :=
          [fr \<leftarrow> db_finalization_requests d. fr \<notin> set (handled_finalizations skip i j d)]\<rparr>"
proof (cases "handled_finalizations skip i j d = []")
  case True
  then show ?thesis using process_finalization_requests_idle [OF run] by simp
next
  case False
  let ?rs = "join_prepared_transfers d (handled_finalizations skip i j d)"
  have "?rs \<noteq> []" using False by (simp add: join_prepared_transfers_def)
  then have "d' = d\<lparr>db_finalization_requests :=
            filter (\<lambda>r. finalization_request_pk r \<notin> finalization_request_pk ` fst ` set ?rs)
              (db_finalization_requests d)\<rparr>"
    using run a by (auto simp: process_finalization_requests_def handled_finalizations_def
        finalization_loop_unreachable save_sender_def)
  moreover have "fst ` set ?rs = set (handled_finalizations skip i j d)"
    by (force simp: join_prepared_transfers_def)
  moreover have "filter (\<lambda>r. finalization_request_pk r \<notin> finalization_request_pk ` set (handled_finalizations skip i j d))
              (db_finalization_requests d)
      = [fr \<leftarrow> db_finalization_requests d. fr \<notin> set (handled_finalizations skip i j d)]"
    using frs.pk_inj [OF db_wf_frs [OF wf]]
    by (intro filter_cong) (auto simp: handled_finalizations_def finalization_requests_of_def)
  ultimately show ?thesis by simp
qed

section \<open>The procedure returns\<close>

definition fts_free :: "prepared_transfer list \<Rightarrow> db \<Rightarrow> bool" where
  "fts_free P d \<longleftrightarrow>
     (\<forall>s \<in> set (db_finalized_transfer_signals d). \<forall>pt \<in> set P. fts_pk s \<noteq> prepared_transfer_pk pt)"

definition finalizable :: "datetime \<Rightarrow> finalization_request \<times> prepared_transfer \<Rightarrow> bool" where
  "finalizable ts p \<longleftrightarrow> (case p of (fr, pt) \<Rightarrow>
     0 \<le> fr_committed_amount fr \<and> pt_demurrage_rate pt = INTEREST_RATE_FLOOR
     \<and> \<bar>ts - pt_prepared_at pt\<bar> \<le> 2 ^ 100)"

lemma finalize_prepared_transfer_total:
  assumes "libm_ok E" and "finalizable ts (fr, pt)" and "ats_free a d" and "fts_free [pt] d"
  shows "\<exists>s b d'. finalize_prepared_transfer E pt fr a x ts d = Inr (s, b, d')
    \<and> ats_free b d' \<and> acc_last_transfer_number a \<le> acc_last_transfer_number b
    \<and> acc_last_transfer_number b \<le> acc_last_transfer_number a + 1
    \<and> (\<forall>S. s = Some S \<longrightarrow> 0 < pbs_principal_delta S)"
proof -
  obtain code where code: "calc_status_code E pt (fr_committed_amount fr) x (acc_interest_rate a) ts = Inr code"
    using calc_status_code_total [OF assms(1)] assms(2) by (fastforce simp: finalizable_def)
  define c where "c = (if code = SC_OK then fr_committed_amount fr else 0)"
  have c: "0 \<le> c" using assms(2) by (simp add: c_def finalizable_def)
  let ?u = "unlock_amount (pt_locked_amount pt) a"
  let ?s = "finalized_transfer_signal_of pt ts c (acc_total_locked_amount ?u) code"
  let ?d = "d\<lparr>db_finalized_transfer_signals := db_finalized_transfer_signals d @ [?s]\<rparr>"
  have "fts_pk ?s = prepared_transfer_pk pt"
    by (simp add: fts_pk_def prepared_transfer_pk_def finalized_transfer_signal_of_def)
  then have add: "add_finalized_transfer_signal ?s d = Inr ?d"
    using assms(4) by (auto simp: add_finalized_transfer_signal_def tbl_insert_def tbl_lookup_None fts_free_def)
  have free: "ats_free ?u ?d"
    using assms(3) by (simp add: ats_free_def unlock_amount_def)
  show ?thesis
  proof (cases "0 < c")
    case True
    from insert_account_transfer_signal_total [OF free, of "- c" "pt_coordinator_type pt"
        "pt_recipient_creditor_id pt" ts "fr_transfer_note_format fr" "fr_transfer_note fr"
        "contain_principal_overflow (acc_principal ?u - c)"] True code add c
    show ?thesis
      by (auto simp: finalize_prepared_transfer_def Let_def c_def [symmetric] recipient_change_signal_def)
  next
    case False
    then show ?thesis using code add c free
      by (auto simp: finalize_prepared_transfer_def Let_def c_def [symmetric] unlock_amount_def)
  qed
qed

definition can_finalize_loop :: "datetime \<Rightarrow> account \<Rightarrow> account \<Rightarrow>
    (finalization_request \<times> prepared_transfer) list \<Rightarrow> db \<Rightarrow> bool" where
  "can_finalize_loop ts a c ps d \<longleftrightarrow>
     same_but_finalized a c \<and> ats_free c d \<and> fts_free (map snd ps) d
     \<and> 0 \<le> acc_last_transfer_number c \<and> acc_last_transfer_number c + int (length ps) \<le> MAX_INT64
     \<and> 0 \<le> acc_total_locked_amount c \<and> acc_total_locked_amount c \<le> MAX_INT64
     \<and> 0 \<le> acc_pending_transfers_count c \<and> acc_pending_transfers_count c \<le> MAX_INT32"

lemma finalization_step_total:
  assumes "libm_ok E" and pt: "finalizable ts (fr, pt)" "0 \<le> pt_locked_amount pt"
    and once: "prepared_transfer_pk pt \<notin> prepared_transfer_pk ` snd ` set ps"
    and l: "fl_account l = Some c" "can_finalize_loop ts a c ((fr, pt) # ps) (fl_db l)"
  shows "\<exists>m b. finalization_loop_body E ts sb mb (fr, Some pt) l = Inr m \<and> fl_account m = Some b
    \<and> can_finalize_loop ts a b ps (fl_db m)"
proof -
  let ?x = "finalization_expendable_amount sb mb c (fl_principal_delta l)"
  have free: "ats_free c (fl_db l)" "fts_free [pt] (fl_db l)"
    using l(2) by (auto simp: can_finalize_loop_def fts_free_def)
  from finalize_prepared_transfer_total [OF assms(1) pt(1) free, of ?x] obtain s b d' where
    fin: "finalize_prepared_transfer E pt fr c ?x ts (fl_db l) = Inr (s, b, d')"
    and free': "ats_free b d'" and num: "acc_last_transfer_number c \<le> acc_last_transfer_number b"
      "acc_last_transfer_number b \<le> acc_last_transfer_number c + 1"
    and pos: "\<And>S. s = Some S \<Longrightarrow> 0 < pbs_principal_delta S" by blast
  obtain m where m: "finalization_loop_body E ts sb mb (fr, Some pt) l = Inr m"
    "fl_account m = Some b" "fl_db m = delete_finalization_request fr (delete_prepared_transfer pt d')"
    using fin l(1) pos by (cases s) (auto simp: finalization_loop_body_def)
  from fin obtain code n F T where
    b: "same_but_finalized c b"
    "acc_total_locked_amount b = max 0 (acc_total_locked_amount c - pt_locked_amount pt)"
    "acc_pending_transfers_count b = max 0 (acc_pending_transfers_count c - 1)"
    and F: "tbl_insert fts_pk (\<lambda>_. True)
     (finalized_transfer_signal_of pt ts n (acc_total_locked_amount b) code)
     (db_finalized_transfer_signals (fl_db l)) = Inr F"
    and d': "d' = (fl_db l)\<lparr>db_finalized_transfer_signals := F, db_account_transfer_signals := T\<rparr>"
    by (cases rule: finalize_prepared_transfer_InrD) blast
  have F': "F = db_finalized_transfer_signals (fl_db l)
      @ [finalized_transfer_signal_of pt ts n (acc_total_locked_amount b) code]"
    using F by (simp add: tbl_insert_def split: if_splits)
  have pk: "fts_pk (finalized_transfer_signal_of pt ts n k code) = prepared_transfer_pk pt" for k
    by (simp add: fts_pk_def prepared_transfer_pk_def finalized_transfer_signal_of_def)
  have "fts_free (map snd ps) (fl_db m)"
    using l(2) once unfolding m(3) d' F'
    by (force simp: can_finalize_loop_def fts_free_def pk delete_finalization_request_def delete_prepared_transfer_def)
  moreover have "ats_free b (fl_db m)"
    using free' by (simp add: m(3) ats_free_def delete_finalization_request_def delete_prepared_transfer_def)
  moreover have "same_but_finalized a b"
    using l(2) b(1) by (auto simp: can_finalize_loop_def intro: same_but_finalized_trans)
  ultimately have "can_finalize_loop ts a b ps (fl_db m)"
    using l(2) num b(2,3) pt(2) by (auto simp: can_finalize_loop_def)
  with m(1,2) show ?thesis by blast
qed

lemma finalization_loop_total:
  assumes "libm_ok E" and "\<forall>p \<in> set (matched rs). finalizable ts p \<and> 0 \<le> pt_locked_amount (snd p)"
    and "distinct (map (\<lambda>p. prepared_transfer_pk (snd p)) (matched rs))"
    and "fl_account l = Some c" and "can_finalize_loop ts a c (matched rs) (fl_db l)"
  shows "\<exists>l' b. foldR (finalization_loop_body E ts sb mb) rs l = Inr l' \<and> fl_account l' = Some b
    \<and> can_finalize_loop ts a b [] (fl_db l')"
  using assms(2-)
proof (induction rs arbitrary: l c)
  case Nil
  then show ?case by simp
next
  case (Cons r rs)
  obtain fr po where r: "r = (fr, po)" by (cases r)
  show ?case
  proof (cases po)
    case None
    let ?m = "l\<lparr>fl_db := delete_finalization_request fr (fl_db l)\<rparr>"
    have "finalization_loop_body E ts sb mb r l = Inr ?m"
      using None by (cases "fl_account l") (simp_all add: finalization_loop_body_def r)
    moreover have "can_finalize_loop ts a c (matched rs) (fl_db ?m)"
      using Cons.prems(4) None
      by (simp add: r can_finalize_loop_def ats_free_def fts_free_def delete_finalization_request_def)
    ultimately show ?thesis using Cons.IH [of ?m c] Cons.prems None by (simp add: r)
  next
    case (Some pt)
    then have "finalizable ts (fr, pt)" "0 \<le> pt_locked_amount pt"
        "prepared_transfer_pk pt \<notin> prepared_transfer_pk ` snd ` set (matched rs)"
        "can_finalize_loop ts a c ((fr, pt) # matched rs) (fl_db l)"
      using Cons.prems by (auto simp: r)
    from finalization_step_total [OF assms(1) this(1-3) Cons.prems(3) this(4)] obtain m b where
      "finalization_loop_body E ts sb mb r l = Inr m" "fl_account m = Some b"
      "can_finalize_loop ts a b (matched rs) (fl_db m)" using Some r by blast
    then show ?thesis using Cons.IH [of m b] Cons.prems Some by (simp add: r)
  qed
qed

definition can_finalize ::
    "env \<Rightarrow> (finalization_request \<Rightarrow> bool) \<Rightarrow> datetime \<Rightarrow> int \<Rightarrow> int \<Rightarrow> db \<Rightarrow> bool" where
  "can_finalize E skip ts i j d \<longleftrightarrow>
     (\<forall>p \<in> set (finalization_pairs skip i j d). finalizable ts p)
     \<and> fts_free (map snd (finalization_pairs skip i j d)) d
     \<and> (case get_account i j d of
          None \<Rightarrow> True
        | Some a \<Rightarrow> account_fits a \<and> ats_free a d
            \<and> is_int32 (increment_seqnum E (acc_last_change_seqnum a))
            \<and> 0 \<le> acc_status_flags a \<and> acc_status_flags a \<le> 3
            \<and> acc_last_transfer_number a + int (length (finalization_pairs skip i j d)) \<le> MAX_INT64
            \<and> (case Account_calc_current_balance E a ts of Inr (Fin b) \<Rightarrow> True | _ \<Rightarrow> False))"

lemma finalized_fits:
  assumes "same_but_finalized a b" and "account_fits a" "account_ok a"
    and "0 \<le> acc_last_transfer_number b" "acc_last_transfer_number b \<le> MAX_INT64"
    and "0 \<le> acc_total_locked_amount b" "acc_total_locked_amount b \<le> MAX_INT64"
    and "0 \<le> acc_pending_transfers_count b" "acc_pending_transfers_count b \<le> MAX_INT32"
  shows "account_fits b" "account_ok b"
proof -
  have "b = a\<lparr>acc_total_locked_amount := acc_total_locked_amount b,
       acc_pending_transfers_count := acc_pending_transfers_count b,
       acc_last_transfer_number := acc_last_transfer_number b,
       acc_last_transfer_committed_at := acc_last_transfer_committed_at b\<rparr>"
    using assms(1) by (simp add: same_but_finalized_def)
  then obtain n1 n2 n3 n4 where b: "b = a\<lparr>acc_total_locked_amount := n1, acc_pending_transfers_count := n2,
      acc_last_transfer_number := n3, acc_last_transfer_committed_at := n4\<rparr>" by blast
  show "account_fits b" "account_ok b"
    using assms(2-) by (auto simp: b account_fits_def account_ok_def is_int64_def is_int32_def int_bounds split: option.splits)
qed

lemma finalized_change_total:
  assumes sbf: "same_but_finalized a b" and x: "Account_calc_current_balance E a ts = Inr (Fin x)"
    and b: "account_fits b" "account_ok b"
    and seq: "is_int32 (increment_seqnum E (acc_last_change_seqnum a))" "0 \<le> acc_status_flags a" "acc_status_flags a \<le> 3"
  shows "\<exists>c. (if delta \<noteq> 0 then bindR (apply_account_change E b delta (Fin 0) ts) (\<lambda>a. Inr (Some a)) else Inr (Some b))
        = Inr (Some c) \<and> account_fits c \<and> account_ok c
      \<and> acc_debtor_id c = acc_debtor_id b \<and> acc_creditor_id c = acc_creditor_id b
      \<and> acc_interest_rate c = acc_interest_rate b \<and> acc_previous_interest_rate c = acc_previous_interest_rate b
      \<and> acc_negligible_amount c = acc_negligible_amount b"
proof (cases "delta = 0")
  case True
  then show ?thesis using b by simp
next
  case False
  note eqs = same_but_finalized_eqs [OF sbf]
  obtain c where c: "apply_account_change E b delta (Fin 0) ts = Inr c"
    using apply_account_change_total x eqs by metis
  have "acc_last_change_seqnum b = acc_last_change_seqnum a"
    by (subst sbf [unfolded same_but_finalized_def]) simp
  then have "account_fits c \<and> account_ok c"
    using apply_account_change_fits [OF c b] seq by (simp add: eqs)
  then show ?thesis using False c apply_account_change_frame [OF c] by simp
qed

lemma process_finalization_requests_total:
  assumes "libm_ok E" and wf: "db_wf d" and can: "can_finalize E skip ts i j d"
  shows "\<exists>d'. process_finalization_requests E skip ts i j d = Inr d'"
proof (cases "handled_finalizations skip i j d = []")
  case True
  then show ?thesis
    by (simp add: process_finalization_requests_def handled_finalizations_def join_prepared_transfers_def)
next
  case False
  let ?rs = "join_prepared_transfers d (handled_finalizations skip i j d)"
  have ne: "?rs \<noteq> []" using False by (simp add: join_prepared_transfers_def)
  show ?thesis
  proof (cases "get_account i j d")
    case None
    then show ?thesis using ne
      by (simp add: process_finalization_requests_def handled_finalizations_def [symmetric]
          finalization_loop_unreachable save_sender_def Let_def)
  next
    case (Some a)
    then have row: "get_account_row i j d = Some a" using get_account_SomeD by blast
    note a = get_account_row_pk [OF wf row]
    from can Some obtain x where x: "Account_calc_current_balance E a ts = Inr (Fin x)"
      by (auto simp: can_finalize_def split: sum.splits pyfloat.splits)
    let ?l0 = "\<lparr>fl_account = Some a, fl_principal_delta = 0, fl_signals = [], fl_db = d\<rparr>"
    note pairs = finalization_pairs_props [OF wf, of skip i j]
    have "\<forall>p \<in> set (matched ?rs). finalizable ts p \<and> 0 \<le> pt_locked_amount (snd p)"
      using can pairs(2) pts.wf_ok [OF db_wf_pts [OF wf]]
      by (auto simp: can_finalize_def finalization_pairs_def prepared_transfer_ok_def)
    moreover have "distinct (map (\<lambda>p. prepared_transfer_pk (snd p)) (matched ?rs))"
      using pairs(1) by (simp add: finalization_pairs_def)
    moreover have "can_finalize_loop ts a a (matched ?rs) (fl_db ?l0)"
      using can Some a by (auto simp: can_finalize_def can_finalize_loop_def account_ok_def account_fits_def
          is_int64_def is_int32_def finalization_pairs_def)
    ultimately obtain l b where
      l: "foldR (finalization_loop_body E ts \<lfloor>x\<rfloor> (get_min_account_balance j)) ?rs ?l0 = Inr l"
         "fl_account l = Some b" "can_finalize_loop ts a b [] (fl_db l)"
      using finalization_loop_total [OF assms(1), of ?rs ts ?l0 a a] by fastforce
    have sbf: "same_but_finalized a b" using l(3) by (simp add: can_finalize_loop_def)
    note eqs = same_but_finalized_eqs [OF sbf]
    have b: "account_fits b" "account_ok b"
      using finalized_fits [OF sbf] l(3) a can Some by (auto simp: can_finalize_def can_finalize_loop_def)
    obtain c where c: "(if fl_principal_delta l \<noteq> 0
        then bindR (apply_account_change E b (fl_principal_delta l) (Fin 0) ts) (\<lambda>a. Inr (Some a))
        else Inr (Some b)) = Inr (Some c)" "account_fits c" "account_ok c"
        "acc_debtor_id c = acc_debtor_id b" "acc_creditor_id c = acc_creditor_id b"
        "acc_interest_rate c = acc_interest_rate b" "acc_previous_interest_rate c = acc_previous_interest_rate b"
        "acc_negligible_amount c = acc_negligible_amount b"
      using finalized_change_total [OF sbf x b, of "fl_principal_delta l"] can Some by (auto simp: can_finalize_def)
    define d2 where "d2 = fold add_pending_balance_change_signal (fl_signals l) (fl_db l)"
    have "db_accounts d2 = db_accounts d"
      using finalization_loop_outcomes [OF l(1)] by (auto simp: d2_def fold_add_pending)
    then have "get_account_row (acc_debtor_id c) (acc_creditor_id c) d2 = Some a"
      using row a by (simp add: c eqs get_account_row_def)
    from save_account_same_rates_total [OF this] obtain d' where "save_account E c d2 = Inr d'"
      using c eqs by metis
    then show ?thesis using ne Some x l c(1)
      by (auto simp: process_finalization_requests_def handled_finalizations_def [symmetric] Let_def
          save_sender_def d2_def [symmetric] simp del: foldR.simps)
  qed
qed

section \<open>Invariants\<close>

lemma finalization_invariant_lemma:
  assumes run: "process_finalization_requests E skip ts i j d = Inr d'"
    and inv: "db_wf d" "locks_within d" "ids_fresh d"
  shows "db_wf d' \<and> locks_within d' \<and> ids_fresh d' \<and> (locks_agree d \<longrightarrow> locks_agree d')"
proof (cases "get_account i j d")
  case None
  from process_finalization_requests_unreachable [OF run inv(1) None]
  show ?thesis using inv
    by (auto simp: db_wf_def tbl_wf_def list_all_iff distinct_map_filter locks_within_def ids_fresh_def
        locks_agree_def)
next
  case (Some a)
  show ?thesis
  proof (cases "handled_finalizations skip i j d = []")
    case True
    then show ?thesis using process_finalization_requests_idle [OF run] inv by simp
  next
    case False
    obtain outs F T b t where
      d': "d' = d\<lparr>db_finalization_requests :=
          [fr \<leftarrow> db_finalization_requests d. fr \<notin> set (handled_finalizations skip i j d)],
        db_prepared_transfers := [pt \<leftarrow> db_prepared_transfers d. pt \<notin> out_pt ` set outs],
        db_finalized_transfer_signals := db_finalized_transfer_signals d @ F,
        db_account_transfer_signals := T,
        db_pending_balance_change_signals := db_pending_balance_change_signals d
          @ number_changes (db_next_change_id d) (change_signals ts outs),
        db_next_change_id := db_next_change_id d + int (length (change_signals ts outs)),
        db_accounts := t\<rparr>"
      and outs: "map (\<lambda>x. (out_fr x, out_pt x)) outs = finalization_pairs skip i j d"
      and "\<forall>x \<in> set outs. outcome_ok x" and "list_all2 (reports ts) F outs"
      and t: "tbl_update account_pk account_ok b (db_accounts d) = Inr t" and "account_fits b"
      and b: "finalized_account E ts d d' a b (total out_amount outs)"
      by (rule process_finalization_requests_InrD [OF run inv(1) False Some])
    have a: "account_pk a = (i, j)" "account_ok a" "a \<in> set (db_accounts d)"
      using get_account_row_pk [OF inv(1)] get_account_SomeD [OF Some] by (auto simp: account_pk_def)
    have "\<forall>p \<in> set (map (\<lambda>x. (out_fr x, out_pt x)) outs). pt_of (i, j) (snd p)"
      unfolding outs using finalization_pairs_props(2) [OF inv(1)] by blast
    then have "[pt \<leftarrow> db_prepared_transfers d'. \<not> pt_of (account_pk a) pt]
        = [pt \<leftarrow> db_prepared_transfers d. \<not> pt_of (account_pk a) pt]"
      by (auto simp: d' a(1) intro!: filter_cong)
    then have rw: "rewrites_account i j a b d d'"
      using inv(1) get_account_SomeD [OF Some] t b by (simp add: rewrites_account_def finalized_account_def d')
    have "db_wf d'"
      by (rule rewrites_account_db_wf [OF rw])
        (use inv(1) in \<open>auto simp: d' db_wf_def tbl_wf_def list_all_iff distinct_map_filter\<close>)
    moreover have locks: "locks_of b (db_prepared_transfers d')" "account_pk b = account_pk a"
      using b inv(2) a(3) by (auto simp: finalized_account_def locks_of_def locks_within_def)
    then have "locks_within d'"
      by (intro rewrites_account_locks_within [OF rw inv(2)]) (simp_all add: locks_of_def)
    moreover have "ids_fresh d'"
      by (rule rewrites_account_ids_fresh [OF rw inv(3)])
        (use b inv(3) a(3) in \<open>auto simp: d' finalized_account_def ids_fresh_def\<close>)
    moreover have "locks_agree d'" if "locks_agree d"
      by (rule rewrites_account_locks_agree [OF rw that])
        (use b that a(3) locks in \<open>auto simp: finalized_account_def locks_of_def locks_agree_def\<close>)
    ultimately show ?thesis by blast
  qed
qed

end
