(* ===== verification/BalanceChanges.thy ===== *)
theory BalanceChanges
  imports Invariants Samples
begin

text \<open>
  Crediting accounts, in \<open>swpt_accounts/procedures.py\<close>: a balance change is registered and
  queued once by \<open>insert_pending_balance_change\<close>, and the queued changes of one account are
  applied together by \<open>process_pending_balance_changes\<close>.
\<close>

section \<open>Registering balance changes\<close>

definition insert_pending_balance_change ::
    "int \<Rightarrow> int \<Rightarrow> int \<Rightarrow> int \<Rightarrow> pystr \<Rightarrow> pystr \<Rightarrow> pystr \<Rightarrow> datetime \<Rightarrow> int \<Rightarrow> datetime \<Rightarrow>
     db \<Rightarrow> db result" where
  "insert_pending_balance_change debtor_id other_creditor_id change_id creditor_id coordinator_type
       transfer_note_format transfer_note committed_at principal_delta cutoff_ts d =
     bindR (assertR (MIN_INT64 \<le> debtor_id \<and> debtor_id \<le> MAX_INT64)) (\<lambda>_.
     bindR (assertR (MIN_INT64 \<le> other_creditor_id \<and> other_creditor_id \<le> MAX_INT64)) (\<lambda>_.
     bindR (assertR (MIN_INT64 \<le> change_id \<and> change_id \<le> MAX_INT64)) (\<lambda>_.
     if committed_at < cutoff_ts then Inr d
     else if tbl_lookup registered_balance_change_pk (debtor_id, other_creditor_id, change_id)
               (db_registered_balance_changes d) = None then
       bindR (insert_registered_balance_change
         \<lparr>rbc_debtor_id = debtor_id, rbc_other_creditor_id = other_creditor_id,
          rbc_change_id = change_id, rbc_committed_at = committed_at, rbc_is_applied = False\<rparr> d) (\<lambda>d.
       insert_pending_change_row
         \<lparr>pbc_debtor_id = debtor_id, pbc_other_creditor_id = other_creditor_id,
          pbc_change_id = change_id, pbc_creditor_id = creditor_id,
          pbc_coordinator_type = coordinator_type, pbc_transfer_note_format = transfer_note_format,
          pbc_transfer_note = transfer_note, pbc_committed_at = committed_at,
          pbc_principal_delta = principal_delta\<rparr> d)
     else Inr d)))"

section \<open>Applying balance changes\<close>

record change_loop =
  cl_account :: account
  cl_applied_change_pks :: "(int \<times> int \<times> int) list"
  cl_principal_delta :: int
  cl_interest_delta :: pyfloat
  cl_db :: db

definition change_loop_body ::
    "env \<Rightarrow> datetime \<Rightarrow> pending_balance_change \<Rightarrow> change_loop \<Rightarrow> change_loop result" where
  "change_loop_body E current_ts change l =
     (let a = cl_account l; principal_delta = cl_principal_delta l + pbc_principal_delta change in
      bindR (calc_due_interest E a (pbc_principal_delta change) (pbc_committed_at change) current_ts)
        (\<lambda>due.
      bindR (insert_account_transfer_signal a (pbc_coordinator_type change)
               (pbc_other_creditor_id change) (pbc_committed_at change) (pbc_principal_delta change)
               (pbc_transfer_note_format change) (pbc_transfer_note change)
               (contain_principal_overflow (acc_principal a + principal_delta)) (cl_db l)) (\<lambda>(a, d).
      Inr \<lparr>cl_account = a,
           cl_applied_change_pks = cl_applied_change_pks l @ [pending_balance_change_pk change],
           cl_principal_delta = principal_delta,
           cl_interest_delta = fadd (cl_interest_delta l) due,
           cl_db = delete_pending_change change d\<rparr>)))"

definition mark_applied :: "(int \<times> int \<times> int) list \<Rightarrow> db \<Rightarrow> db" where
  "mark_applied pks d =
     d\<lparr>db_registered_balance_changes :=
         map (\<lambda>r. if registered_balance_change_pk r \<in> set pks then r\<lparr>rbc_is_applied := True\<rparr> else r)
           (db_registered_balance_changes d)\<rparr>"

definition pending_changes_of :: "int \<Rightarrow> int \<Rightarrow> db \<Rightarrow> pending_balance_change list" where
  "pending_changes_of debtor_id creditor_id d =
     [c \<leftarrow> db_pending_balance_changes d. pbc_debtor_id c = debtor_id \<and> pbc_creditor_id c = creditor_id]"

definition process_pending_balance_changes ::
    "env \<Rightarrow> (pending_balance_change \<Rightarrow> bool) \<Rightarrow> datetime \<Rightarrow> datetime \<Rightarrow> int \<Rightarrow> int \<Rightarrow> db \<Rightarrow> db result" where
  "process_pending_balance_changes E skip current_ts insert_ts debtor_id creditor_id d =
     (let changes = [c \<leftarrow> pending_changes_of debtor_id creditor_id d. \<not> skip c]
      in if changes \<noteq> [] then
           bindR (lock_or_create_account E debtor_id creditor_id current_ts insert_ts d) (\<lambda>(a, d).
           bindR (foldR (change_loop_body E current_ts) changes
                    \<lparr>cl_account = a, cl_applied_change_pks = [], cl_principal_delta = 0,
                     cl_interest_delta = Fin 0, cl_db = d\<rparr>) (\<lambda>l.
           bindR (apply_account_change E (cl_account l) (cl_principal_delta l) (cl_interest_delta l)
                    current_ts) (\<lambda>a.
           save_account E a (mark_applied (cl_applied_change_pks l) (cl_db l)))))
         else Inr d)"

definition get_accounts_with_pending_balance_changes :: "int option \<Rightarrow> db \<Rightarrow> (int \<times> int) list" where
  "get_accounts_with_pending_balance_changes max_count d =
     (let q = remdups (map (\<lambda>c. (pbc_debtor_id c, pbc_creditor_id c)) (db_pending_balance_changes d))
      in case max_count of None \<Rightarrow> q | Some n \<Rightarrow> take (nat n) q)"

section \<open>Registering a change once\<close>

lemma db_wf_rbcs: "db_wf d \<Longrightarrow>
    tbl_wf registered_balance_change_pk registered_balance_change_ok (db_registered_balance_changes d)"
  and db_wf_pbcs: "db_wf d \<Longrightarrow>
    tbl_wf pending_balance_change_pk pending_balance_change_ok (db_pending_balance_changes d)"
  by (simp_all add: db_wf_def)

text \<open>A change that is registered but not applied yet is pending, and only then.\<close>

definition changes_agree :: "db \<Rightarrow> bool" where
  "changes_agree d \<longleftrightarrow>
     (\<forall>r \<in> set (db_registered_balance_changes d). rbc_is_applied r \<longleftrightarrow>
        registered_balance_change_pk r \<notin> pending_balance_change_pk ` set (db_pending_balance_changes d))"

definition is_registered :: "int \<times> int \<times> int \<Rightarrow> db \<Rightarrow> bool" where
  "is_registered k d \<longleftrightarrow> k \<in> registered_balance_change_pk ` set (db_registered_balance_changes d)"

lemma insert_pending_balance_change_InrD:
  assumes "insert_pending_balance_change i j n c ct fmt note cat delta cutoff d = Inr d'"
  shows "(cat < cutoff \<or> is_registered (i, j, n) d) \<and> d' = d
    \<or> cutoff \<le> cat \<and> \<not> is_registered (i, j, n) d \<and> delta \<noteq> 0
      \<and> d' = d\<lparr>db_registered_balance_changes := db_registered_balance_changes d
            @ [\<lparr>rbc_debtor_id = i, rbc_other_creditor_id = j, rbc_change_id = n, rbc_committed_at = cat,
                rbc_is_applied = False\<rparr>],
          db_pending_balance_changes := db_pending_balance_changes d
            @ [\<lparr>pbc_debtor_id = i, pbc_other_creditor_id = j, pbc_change_id = n, pbc_creditor_id = c,
                pbc_coordinator_type = ct, pbc_transfer_note_format = fmt, pbc_transfer_note = note,
                pbc_committed_at = cat, pbc_principal_delta = delta\<rparr>]\<rparr>"
proof -
  have "tbl_lookup registered_balance_change_pk (i, j, n) (db_registered_balance_changes d) = None
      \<longleftrightarrow> \<not> is_registered (i, j, n) d"
    unfolding tbl_lookup_None is_registered_def by (metis image_eqI imageE)
  with assms show ?thesis
    by (auto simp: insert_pending_balance_change_def monad_simps insert_registered_balance_change_def
        insert_pending_change_row_def tbl_insert_def pending_balance_change_ok_def
        split: if_splits)
qed

lemma insert_pending_balance_change_invariant:
  assumes run: "insert_pending_balance_change i j n c ct fmt note cat delta cutoff d = Inr d'"
    and wf: "db_wf d" and agree: "changes_agree d"
  shows "db_wf d' \<and> changes_agree d'"
proof (cases "d' = d")
  case True
  then show ?thesis using wf agree by simp
next
  case False
  define r where "r = \<lparr>rbc_debtor_id = i, rbc_other_creditor_id = j, rbc_change_id = n, rbc_committed_at = cat,
      rbc_is_applied = False\<rparr>"
  define p where "p = \<lparr>pbc_debtor_id = i, pbc_other_creditor_id = j, pbc_change_id = n, pbc_creditor_id = c,
      pbc_coordinator_type = ct, pbc_transfer_note_format = fmt, pbc_transfer_note = note,
      pbc_committed_at = cat, pbc_principal_delta = delta\<rparr>"
  from insert_pending_balance_change_InrD [OF run] False
  have new: "\<not> is_registered (i, j, n) d" "delta \<noteq> 0"
    and d': "d' = d\<lparr>db_registered_balance_changes := db_registered_balance_changes d @ [r],
      db_pending_balance_changes := db_pending_balance_changes d @ [p]\<rparr>"
    by (auto simp: r_def p_def)
  have pk: "registered_balance_change_pk r = (i, j, n)" "pending_balance_change_pk p = (i, j, n)"
    by (simp_all add: r_def p_def registered_balance_change_pk_def pending_balance_change_pk_def)
  have pd: "pbc_principal_delta p = delta" by (simp add: p_def)
  have fk: "pending_balance_change_pk x \<in> registered_balance_change_pk ` set (db_registered_balance_changes d)"
    if "x \<in> set (db_pending_balance_changes d)" for x
    using wf that unfolding db_wf_def by (metis image_eqI)
  have fresh: "pending_balance_change_pk x \<noteq> (i, j, n)" if "x \<in> set (db_pending_balance_changes d)" for x
    using fk [OF that] new(1) by (auto simp: is_registered_def)
  then have fresh': "(i, j, n) \<notin> pending_balance_change_pk ` set (db_pending_balance_changes d)"
    by (metis imageE)
  have "db_wf d'"
  proof (rule db_wfI)
    show "tbl_wf registered_balance_change_pk registered_balance_change_ok (db_registered_balance_changes d')"
      using db_wf_rbcs [OF wf] new(1)
      by (auto simp: d' tbl_wf_def pk is_registered_def registered_balance_change_ok_def)
    show "tbl_wf pending_balance_change_pk pending_balance_change_ok (db_pending_balance_changes d')"
      using db_wf_pbcs [OF wf] new(2) fresh'
      by (simp add: d' tbl_wf_def pk pending_balance_change_ok_def pd)
    show "\<forall>x \<in> set (db_pending_balance_changes d'). \<exists>y \<in> set (db_registered_balance_changes d').
        registered_balance_change_pk y = pending_balance_change_pk x"
      using wf pk by (auto simp: d' db_wf_def)
  qed (use wf db_wf_fk [OF wf] in \<open>auto simp: d' db_wf_def\<close>)
  moreover have "changes_agree d'"
    unfolding changes_agree_def
  proof
    fix x assume "x \<in> set (db_registered_balance_changes d')"
    then have x: "x = r \<or> x \<in> set (db_registered_balance_changes d)" by (simp add: d' disj_commute)
    have img: "pending_balance_change_pk ` set (db_pending_balance_changes d')
        = insert (i, j, n) (pending_balance_change_pk ` set (db_pending_balance_changes d))"
      by (simp add: d' pk)
    from x show "rbc_is_applied x \<longleftrightarrow>
        registered_balance_change_pk x \<notin> pending_balance_change_pk ` set (db_pending_balance_changes d')"
    proof
      assume "x = r"
      then show ?thesis unfolding img using pk by (simp add: r_def)
    next
      assume old: "x \<in> set (db_registered_balance_changes d)"
      then have "registered_balance_change_pk x \<noteq> (i, j, n)" using new(1) by (force simp: is_registered_def)
      then show ?thesis unfolding img using agree old by (simp add: changes_agree_def)
    qed
  qed
  ultimately show ?thesis by simp
qed

section \<open>The loop over the changes of an account\<close>

lemma change_loop_summary:
  "foldR (change_loop_body E ts) cs l = Inr l' \<Longrightarrow>
   lock_fields (cl_account l') = lock_fields (cl_account l)
   \<and> is_deleted (cl_account l') = is_deleted (cl_account l)
   \<and> acc_principal (cl_account l') = acc_principal (cl_account l)
   \<and> acc_debtor_id (cl_account l') = acc_debtor_id (cl_account l)
   \<and> acc_creditor_id (cl_account l') = acc_creditor_id (cl_account l)
   \<and> cl_applied_change_pks l' = cl_applied_change_pks l @ map pending_balance_change_pk cs
   \<and> cl_principal_delta l' = cl_principal_delta l + total pbc_principal_delta cs
   \<and> (\<exists>T. cl_db l' = (cl_db l)\<lparr>db_account_transfer_signals := T,
        db_pending_balance_changes := filter (\<lambda>c. pending_balance_change_pk c \<notin> pending_balance_change_pk ` set cs)
          (db_pending_balance_changes (cl_db l))\<rparr>)"
proof (induction cs arbitrary: l)
  case Nil
  then show ?case by (auto intro: exI [of _ "db_account_transfer_signals (cl_db l)"])
next
  case (Cons c cs)
  then obtain m where m: "change_loop_body E ts c l = Inr m" and rest: "foldR (change_loop_body E ts) cs m = Inr l'"
    by (auto simp: monad_simps)
  from m obtain b d1 where
    sig: "insert_account_transfer_signal (cl_account l) (pbc_coordinator_type c)
               (pbc_other_creditor_id c) (pbc_committed_at c) (pbc_principal_delta c)
               (pbc_transfer_note_format c) (pbc_transfer_note c)
               (contain_principal_overflow (acc_principal (cl_account l)
                 + (cl_principal_delta l + pbc_principal_delta c))) (cl_db l) = Inr (b, d1)"
    and m': "cl_account m = b" "cl_applied_change_pks m = cl_applied_change_pks l @ [pending_balance_change_pk c]"
      "cl_principal_delta m = cl_principal_delta l + pbc_principal_delta c" "cl_db m = delete_pending_change c d1"
    by (auto simp: change_loop_body_def Let_def bindR_eq_Inr)
  from insert_account_transfer_signal_lock_fields [OF sig] obtain T where
    b: "lock_fields b = lock_fields (cl_account l)" "acc_principal b = acc_principal (cl_account l)"
      "acc_debtor_id b = acc_debtor_id (cl_account l)" "acc_creditor_id b = acc_creditor_id (cl_account l)"
      "d1 = (cl_db l)\<lparr>db_account_transfer_signals := T\<rparr>" by blast
  have alive: "is_deleted b = is_deleted (cl_account l)" by (rule insert_account_transfer_signal_deleted [OF sig])
  from Cons.IH [OF rest] obtain T' where IH:
    "lock_fields (cl_account l') = lock_fields b" "acc_principal (cl_account l') = acc_principal b"
    "is_deleted (cl_account l') = is_deleted b"
    "acc_debtor_id (cl_account l') = acc_debtor_id b" "acc_creditor_id (cl_account l') = acc_creditor_id b"
    "cl_applied_change_pks l' = cl_applied_change_pks m @ map pending_balance_change_pk cs"
    "cl_principal_delta l' = cl_principal_delta m + total pbc_principal_delta cs"
    "cl_db l' = (cl_db m)\<lparr>db_account_transfer_signals := T',
        db_pending_balance_changes := filter (\<lambda>c. pending_balance_change_pk c \<notin> pending_balance_change_pk ` set cs)
          (db_pending_balance_changes (cl_db m))\<rparr>" by (auto simp: m')
  have "cl_db l' = (cl_db l)\<lparr>db_account_transfer_signals := T',
        db_pending_balance_changes := filter (\<lambda>x. pending_balance_change_pk x \<notin> pending_balance_change_pk ` set (c # cs))
          (db_pending_balance_changes (cl_db l))\<rparr>"
    using IH(8) b(5) by (simp add: m' delete_pending_change_def tbl_delete_def conj_commute)
  then show ?case using IH b alive m' by auto
qed

definition handled_changes :: "(pending_balance_change \<Rightarrow> bool) \<Rightarrow> int \<Rightarrow> int \<Rightarrow> db \<Rightarrow> pending_balance_change list" where
  "handled_changes skip i j d = [c \<leftarrow> pending_changes_of i j d. \<not> skip c]"

lemma process_pending_idle:
  "process_pending_balance_changes E skip ts its i j d = Inr d' \<Longrightarrow> handled_changes skip i j d = [] \<Longrightarrow> d' = d"
  by (simp add: process_pending_balance_changes_def handled_changes_def)

lemma process_pending_InrD:
  assumes run: "process_pending_balance_changes E skip ts its i j d = Inr d'" and wf: "db_wf d"
    and cs: "cs = handled_changes skip i j d" and ne: "cs \<noteq> []"
  obtains t s T row where
    "d' = d\<lparr>db_accounts := t, db_account_update_signals := s, db_account_transfer_signals := T,
        db_pending_balance_changes := [c \<leftarrow> db_pending_balance_changes d. c \<notin> set cs],
        db_registered_balance_changes := map (\<lambda>r. if registered_balance_change_pk r
            \<in> pending_balance_change_pk ` set cs then r\<lparr>rbc_is_applied := True\<rparr> else r)
          (db_registered_balance_changes d)\<rparr>"
    "accounts_step (db_accounts d) t"
    "tbl_lookup account_pk (i, j) t = Some row" "\<not> is_deleted row"
    "acc_principal row = contain_principal_overflow (stored_principal i j d + total pbc_principal_delta cs)"
    "\<forall>k. principals k t = principals k (db_accounts d)
        + (if i = k then acc_principal row - stored_principal i j d else 0)"
proof -
  from run ne obtain a d1 l b where
    lock: "lock_or_create_account E i j ts its d = Inr (a, d1)"
    and loop: "foldR (change_loop_body E ts) cs \<lparr>cl_account = a, cl_applied_change_pks = [],
        cl_principal_delta = 0, cl_interest_delta = Fin 0, cl_db = d1\<rparr> = Inr l"
    and app: "apply_account_change E (cl_account l) (cl_principal_delta l) (cl_interest_delta l) ts = Inr b"
    and save: "save_account E b (mark_applied (cl_applied_change_pks l) (cl_db l)) = Inr d'"
    by (auto simp: process_pending_balance_changes_def cs handled_changes_def Let_def bindR_eq_Inr)
  from lock_or_create_account_InrD [OF lock wf] obtain t0 s old where
    d1: "d1 = d\<lparr>db_accounts := t0, db_account_update_signals := s\<rparr>"
    and t0: "accounts_step (db_accounts d) t0" "\<forall>k. principals k t0 = principals k (db_accounts d)"
      "tbl_lookup account_pk (i, j) t0 = Some old"
    and a: "acc_debtor_id a = i" "acc_creditor_id a = j" "lock_fields a = lock_fields old"
      "acc_principal a = acc_principal old" "acc_principal old = stored_principal i j d" by blast
  from change_loop_summary [OF loop] obtain T where
    l: "lock_fields (cl_account l) = lock_fields a" "acc_principal (cl_account l) = acc_principal a"
      "acc_debtor_id (cl_account l) = i" "acc_creditor_id (cl_account l) = j"
      "cl_applied_change_pks l = map pending_balance_change_pk cs"
      "cl_principal_delta l = total pbc_principal_delta cs"
      "cl_db l = d1\<lparr>db_account_transfer_signals := T,
        db_pending_balance_changes := filter (\<lambda>c. pending_balance_change_pk c \<notin> pending_balance_change_pk ` set cs)
          (db_pending_balance_changes d1)\<rparr>" by (auto simp: a)
  have pending: "filter (\<lambda>c. pending_balance_change_pk c \<notin> pending_balance_change_pk ` set cs)
          (db_pending_balance_changes d) = [c \<leftarrow> db_pending_balance_changes d. c \<notin> set cs]"
    using pbcs.pk_inj [OF db_wf_pbcs [OF wf]]
    by (intro filter_cong) (auto simp: cs handled_changes_def pending_changes_of_def)
  from apply_account_change_lock_fields [OF app] have
    b: "lock_fields b = lock_fields old" "acc_debtor_id b = i" "acc_creditor_id b = j"
      "acc_principal b = contain_principal_overflow (stored_principal i j d + total pbc_principal_delta cs)"
    using l a by auto
  have alive: "\<not> is_deleted b"
    using apply_account_change_deleted [OF app] change_loop_summary [OF loop] lock_or_create_account_alive [OF lock] by simp
  let ?d2 = "mark_applied (cl_applied_change_pks l) (cl_db l)"
  have acc2: "db_accounts ?d2 = t0" by (simp add: mark_applied_def l(7) d1)
  have pk: "account_pk b = (i, j)" using b by (simp add: account_pk_def)
  from save_account_step [OF save, of "db_accounts d" old] obtain t row where
    t: "d' = ?d2\<lparr>db_accounts := t\<rparr>" "accounts_step (db_accounts d) t"
      "\<forall>k. principals k t = principals k (db_accounts d)
          + (if i = k then acc_principal b - acc_principal old else 0)"
      "tbl_lookup account_pk (i, j) t = Some row" "acc_principal row = acc_principal b" "is_deleted row = is_deleted b"
    using t0 b by (auto simp: acc2 pk)
  show thesis
    by (rule that [where t = t and row = row and s = s and T = T])
      (use t b a alive in \<open>simp_all add: mark_applied_def l d1 pending\<close>)
qed

text \<open>Taking changes out of the queue and marking them in the register.\<close>

definition take_changes :: "pending_balance_change list \<Rightarrow> db \<Rightarrow> db" where
  "take_changes cs d = mark_applied (map pending_balance_change_pk cs)
     (d\<lparr>db_pending_balance_changes := [c \<leftarrow> db_pending_balance_changes d. c \<notin> set cs]\<rparr>)"

lemma take_changes_fields [simp]:
  "db_accounts (take_changes cs d) = db_accounts d" "db_prepared_transfers (take_changes cs d) = db_prepared_transfers d"
  "db_transfer_requests (take_changes cs d) = db_transfer_requests d"
  "db_finalization_requests (take_changes cs d) = db_finalization_requests d"
  "db_pending_balance_changes (take_changes cs d) = [c \<leftarrow> db_pending_balance_changes d. c \<notin> set cs]"
  by (simp_all add: take_changes_def mark_applied_def)

lemma mark_applied_keys:
  "map registered_balance_change_pk (db_registered_balance_changes (mark_applied ks d))
    = map registered_balance_change_pk (db_registered_balance_changes d)"
  by (simp add: mark_applied_def registered_balance_change_pk_def)

lemma take_changes_wf:
  assumes "db_wf d"
  shows "db_wf (take_changes cs d)"
proof -
  have keys: "map registered_balance_change_pk (db_registered_balance_changes (take_changes cs d))
      = map registered_balance_change_pk (db_registered_balance_changes d)"
    unfolding take_changes_def mark_applied_keys by simp
  have "tbl_wf registered_balance_change_pk registered_balance_change_ok (db_registered_balance_changes (take_changes cs d))"
    using db_wf_rbcs [OF assms] unfolding tbl_wf_def keys by (simp add: list_all_iff registered_balance_change_ok_def)
  moreover have "\<exists>r \<in> set (db_registered_balance_changes (take_changes cs d)).
      registered_balance_change_pk r = pending_balance_change_pk c" if "c \<in> set (db_pending_balance_changes d)" for c
  proof -
    have "pending_balance_change_pk c \<in> set (map registered_balance_change_pk (db_registered_balance_changes d))"
      using assms that unfolding db_wf_def by (metis image_eqI set_map)
    then show ?thesis unfolding keys [symmetric] set_map by (metis imageE)
  qed
  ultimately show ?thesis using assms by (simp add: db_wf_def tbl_wf_def distinct_map_filter list_all_iff)
qed

lemma take_changes_agree:
  assumes wf: "db_wf d" and agree: "changes_agree d" and cs: "set cs \<subseteq> set (db_pending_balance_changes d)"
  shows "changes_agree (take_changes cs d)"
  unfolding changes_agree_def
proof
  let ?mark = "\<lambda>r. if registered_balance_change_pk r \<in> pending_balance_change_pk ` set cs
      then r\<lparr>rbc_is_applied := True\<rparr> else r"
  fix x assume "x \<in> set (db_registered_balance_changes (take_changes cs d))"
  then obtain r where r: "r \<in> set (db_registered_balance_changes d)" "x = ?mark r"
    by (auto simp: take_changes_def mark_applied_def)
  have "inj_on pending_balance_change_pk (set (db_pending_balance_changes d))"
    using db_wf_pbcs [OF wf] by (simp add: tbl_wf_def distinct_map)
  then have pending: "pending_balance_change_pk ` set (db_pending_balance_changes (take_changes cs d))
      = pending_balance_change_pk ` set (db_pending_balance_changes d) - pending_balance_change_pk ` set cs"
    using inj_on_image_set_diff [of pending_balance_change_pk _ _ "set cs"] cs by (simp add: set_diff_eq [symmetric])
  have "registered_balance_change_pk x = registered_balance_change_pk r" by (simp add: r(2) registered_balance_change_pk_def)
  then show "rbc_is_applied x \<longleftrightarrow> registered_balance_change_pk x
      \<notin> pending_balance_change_pk ` set (db_pending_balance_changes (take_changes cs d))"
    using agree r unfolding pending changes_agree_def by auto
qed

lemma process_pending_invariant:
  assumes run: "process_pending_balance_changes E skip ts its i j d = Inr d'"
    and inv: "db_wf d" "locks_within d" "ids_fresh d" "changes_agree d"
  shows "db_wf d' \<and> locks_within d' \<and> ids_fresh d' \<and> changes_agree d' \<and> (locks_agree d \<longrightarrow> locks_agree d')"
proof (cases "handled_changes skip i j d = []")
  case True
  then show ?thesis using process_pending_idle [OF run] inv by simp
next
  case False
  let ?cs = "handled_changes skip i j d"
  obtain t s T row where
    d': "d' = d\<lparr>db_accounts := t, db_account_update_signals := s, db_account_transfer_signals := T,
        db_pending_balance_changes := [c \<leftarrow> db_pending_balance_changes d. c \<notin> set ?cs],
        db_registered_balance_changes := map (\<lambda>r. if registered_balance_change_pk r
            \<in> pending_balance_change_pk ` set ?cs then r\<lparr>rbc_is_applied := True\<rparr> else r)
          (db_registered_balance_changes d)\<rparr>"
    and step: "accounts_step (db_accounts d) t"
    by (rule process_pending_InrD [OF run inv(1) refl False])
  have taken: "d' = (take_changes ?cs (d\<lparr>db_accounts := t\<rparr>))\<lparr>db_account_update_signals := s, db_account_transfer_signals := T\<rparr>"
    by (simp add: d' take_changes_def mark_applied_def)
  have wf: "db_wf (d\<lparr>db_accounts := t\<rparr>)"
    by (rule accounts_step_db_wf [OF _ inv(1)]) (use step in simp_all)
  have "changes_agree (d\<lparr>db_accounts := t\<rparr>)" using inv(4) by (simp add: changes_agree_def)
  moreover have "set ?cs \<subseteq> set (db_pending_balance_changes (d\<lparr>db_accounts := t\<rparr>))"
    by (auto simp: handled_changes_def pending_changes_of_def)
  ultimately have "changes_agree d'" using take_changes_agree [OF wf] by (simp add: taken changes_agree_def)
  moreover have "db_wf d'" using take_changes_wf [OF wf] by (simp add: taken db_wf_def)
  moreover have "locks_within d'" "ids_fresh d'" "locks_agree d \<longrightarrow> locks_agree d'"
    using accounts_step_locks [of d d', OF _ inv(1)] step inv by (simp_all add: d')
  ultimately show ?thesis by simp
qed

section \<open>Applying changes once\<close>

lemma process_pending_only:
  assumes run: "process_pending_balance_changes E skip ts its i j d = Inr d'" and wf: "db_wf d"
  shows "only_row (i, j) (db_accounts d) (db_accounts d')"
proof (cases "handled_changes skip i j d = []")
  case True
  then show ?thesis using process_pending_idle [OF run] by simp
next
  case False
  with run obtain a d1 l b where
    lock: "lock_or_create_account E i j ts its d = Inr (a, d1)"
    and loop: "foldR (change_loop_body E ts) (handled_changes skip i j d) \<lparr>cl_account = a, cl_applied_change_pks = [],
        cl_principal_delta = 0, cl_interest_delta = Fin 0, cl_db = d1\<rparr> = Inr l"
    and app: "apply_account_change E (cl_account l) (cl_principal_delta l) (cl_interest_delta l) ts = Inr b"
    and save: "save_account E b (mark_applied (cl_applied_change_pks l) (cl_db l)) = Inr d'"
    by (auto simp: process_pending_balance_changes_def handled_changes_def Let_def bindR_eq_Inr)
  have a: "acc_debtor_id a = i" "acc_creditor_id a = j" using lock_or_create_account_InrD [OF lock wf] by auto
  have "db_accounts (mark_applied (cl_applied_change_pks l) (cl_db l)) = db_accounts d1"
      "account_pk b = (i, j)"
    using change_loop_summary [OF loop] apply_account_change_lock_fields [OF app] a
    by (auto simp: mark_applied_def account_pk_def)
  then show ?thesis using only_row_trans [OF only_row_lock [OF lock]] only_row_save [OF save] by simp
qed

text \<open>The signals sent for the changes are numbered consecutively and report the running principal.\<close>

definition reports_change :: "int \<Rightarrow> pending_balance_change list \<Rightarrow> account_transfer_signal \<Rightarrow> bool" where
  "reports_change p cs s \<longleftrightarrow>
     (\<exists>n < length cs. ats_acquired_amount s = pbc_principal_delta (cs ! n)
        \<and> ats_other_creditor_id s = pbc_other_creditor_id (cs ! n)
        \<and> ats_committed_at s = pbc_committed_at (cs ! n)
        \<and> ats_principal s = contain_principal_overflow (p + total pbc_principal_delta (take (Suc n) cs)))"

definition credit_chain :: "account \<Rightarrow> int \<Rightarrow> pending_balance_change list \<Rightarrow> account \<Rightarrow> account_transfer_signal list \<Rightarrow> bool" where
  "credit_chain a p cs b new \<longleftrightarrow>
     acc_last_transfer_number b = acc_last_transfer_number a + int (length new)
     \<and> acc_negligible_amount b = acc_negligible_amount a
     \<and> (\<forall>n < length new. ats_transfer_number (new ! n) = acc_last_transfer_number a + int n + 1
          \<and> ats_previous_transfer_number (new ! n) = acc_last_transfer_number a + int n)
     \<and> map ats_acquired_amount new = (if acc_creditor_id a = ROOT_CREDITOR_ID then []
          else filter (\<lambda>x. \<not> (0 < x \<and> fle (Fin (of_int x)) (acc_negligible_amount a))) (map pbc_principal_delta cs))
     \<and> (\<forall>s \<in> set new. reports_change p cs s)"

lemma reports_change_first:
  "ats_acquired_amount s = pbc_principal_delta c \<Longrightarrow> ats_other_creditor_id s = pbc_other_creditor_id c \<Longrightarrow>
   ats_committed_at s = pbc_committed_at c \<Longrightarrow> ats_principal s = contain_principal_overflow (p + pbc_principal_delta c) \<Longrightarrow>
   reports_change p (c # cs) s"
  unfolding reports_change_def by (intro exI [of _ 0]) simp

lemma reports_change_later:
  assumes "reports_change (p + pbc_principal_delta c) cs s"
  shows "reports_change p (c # cs) s"
proof -
  from assms obtain n where "n < length cs" "ats_acquired_amount s = pbc_principal_delta (cs ! n)"
      "ats_other_creditor_id s = pbc_other_creditor_id (cs ! n)" "ats_committed_at s = pbc_committed_at (cs ! n)"
      "ats_principal s = contain_principal_overflow (p + pbc_principal_delta c + total pbc_principal_delta (take (Suc n) cs))"
    unfolding reports_change_def by blast
  then show ?thesis unfolding reports_change_def by (intro exI [of _ "Suc n"]) (simp add: add.assoc)
qed

lemma credit_chain_silent:
  assumes "credit_chain a (p + pbc_principal_delta c) cs b new"
    and "acc_creditor_id a = ROOT_CREDITOR_ID
      \<or> 0 < pbc_principal_delta c \<and> fle (Fin (of_int (pbc_principal_delta c))) (acc_negligible_amount a)"
  shows "credit_chain a p (c # cs) b new"
  using assms by (auto simp: credit_chain_def reports_change_later)

lemma credit_chain_sent:
  assumes chain: "credit_chain a1 (p + pbc_principal_delta c) cs b new"
    and sent: "acc_creditor_id a \<noteq> ROOT_CREDITOR_ID"
      "\<not> (0 < pbc_principal_delta c \<and> fle (Fin (of_int (pbc_principal_delta c))) (acc_negligible_amount a))"
    and a1: "acc_last_transfer_number a1 = acc_last_transfer_number a + 1"
      "acc_negligible_amount a1 = acc_negligible_amount a" "acc_creditor_id a1 = acc_creditor_id a"
    and s: "ats_transfer_number s = acc_last_transfer_number a + 1"
      "ats_previous_transfer_number s = acc_last_transfer_number a" "ats_acquired_amount s = pbc_principal_delta c"
    and first: "reports_change p (c # cs) s"
  shows "credit_chain a p (c # cs) b (s # new)"
proof -
  have "ats_transfer_number ((s # new) ! n) = acc_last_transfer_number a + int n + 1
      \<and> ats_previous_transfer_number ((s # new) ! n) = acc_last_transfer_number a + int n"
    if "n < length (s # new)" for n
    using that chain s a1 by (cases n) (auto simp: credit_chain_def)
  then show ?thesis using chain sent a1 s(3) first
    by (auto simp: credit_chain_def reports_change_later)
qed

lemma insert_account_transfer_signal_chain:
  assumes "insert_account_transfer_signal a ct other cat amt fmt note pr d = Inr (b, d')"
  shows "(if acc_creditor_id a \<noteq> ROOT_CREDITOR_ID \<and> \<not> (0 < amt \<and> fle (Fin (of_int amt)) (acc_negligible_amount a))
     then b = a\<lparr>acc_last_transfer_number := acc_last_transfer_number a + 1,
            acc_last_transfer_committed_at := cat\<rparr>
        \<and> db_account_transfer_signals d' = db_account_transfer_signals d
           @ [account_transfer_signal_of b ct other cat amt fmt note pr (acc_last_transfer_number a)]
     else b = a \<and> db_account_transfer_signals d' = db_account_transfer_signals d)"
  using assms
  by (auto simp: insert_account_transfer_signal_def add_account_transfer_signal_def Let_def monad_simps
      tbl_insert_def split: if_splits)

lemma change_loop_chain:
  "foldR (change_loop_body E ts) cs l = Inr l' \<Longrightarrow>
   \<exists>new. db_account_transfer_signals (cl_db l') = db_account_transfer_signals (cl_db l) @ new
     \<and> credit_chain (cl_account l) (acc_principal (cl_account l) + cl_principal_delta l) cs (cl_account l') new"
proof (induction cs arbitrary: l)
  case Nil
  then show ?case by (auto simp: credit_chain_def)
next
  case (Cons c cs)
  then obtain m where m: "change_loop_body E ts c l = Inr m" and rest: "foldR (change_loop_body E ts) cs m = Inr l'"
    by (auto simp: monad_simps)
  let ?a = "cl_account l" and ?p = "acc_principal (cl_account l) + cl_principal_delta l"
  from m obtain b d1 where
    sig: "insert_account_transfer_signal ?a (pbc_coordinator_type c)
               (pbc_other_creditor_id c) (pbc_committed_at c) (pbc_principal_delta c)
               (pbc_transfer_note_format c) (pbc_transfer_note c)
               (contain_principal_overflow (acc_principal ?a + (cl_principal_delta l + pbc_principal_delta c))) (cl_db l) = Inr (b, d1)"
    and m': "cl_account m = b" "cl_principal_delta m = cl_principal_delta l + pbc_principal_delta c"
       "cl_db m = delete_pending_change c d1"
    by (auto simp: change_loop_body_def Let_def bindR_eq_Inr)
  from Cons.IH [OF rest] obtain new where
    new: "db_account_transfer_signals (cl_db l') = db_account_transfer_signals d1 @ new"
      "credit_chain b (acc_principal b + cl_principal_delta m) cs (cl_account l') new"
    by (auto simp: m' delete_pending_change_def)
  have start: "acc_principal b + cl_principal_delta m = ?p + pbc_principal_delta c"
    using insert_account_transfer_signal_lock_fields [OF sig] by (simp add: m')
  note sent = insert_account_transfer_signal_chain [OF sig]
  show ?case
  proof (cases "acc_creditor_id ?a \<noteq> ROOT_CREDITOR_ID
      \<and> \<not> (0 < pbc_principal_delta c \<and> fle (Fin (of_int (pbc_principal_delta c))) (acc_negligible_amount ?a))")
    case True
    define s where "s = account_transfer_signal_of b (pbc_coordinator_type c) (pbc_other_creditor_id c)
      (pbc_committed_at c) (pbc_principal_delta c) (pbc_transfer_note_format c) (pbc_transfer_note c)
      (contain_principal_overflow (acc_principal ?a + (cl_principal_delta l + pbc_principal_delta c)))
      (acc_last_transfer_number ?a)"
    have "reports_change ?p (c # cs) s"
      by (rule reports_change_first) (simp_all add: s_def account_transfer_signal_of_def add.assoc)
    moreover have "ats_transfer_number s = acc_last_transfer_number b"
        "ats_previous_transfer_number s = acc_last_transfer_number ?a" "ats_acquired_amount s = pbc_principal_delta c"
      by (simp_all add: s_def account_transfer_signal_of_def)
    ultimately have "credit_chain ?a ?p (c # cs) (cl_account l') (s # new)"
      using credit_chain_sent [OF new(2) [unfolded start]] True sent by auto
    then show ?thesis using new(1) sent True by (intro exI [of _ "s # new"]) (simp add: s_def)
  next
    case False
    then have "b = ?a" "db_account_transfer_signals d1 = db_account_transfer_signals (cl_db l)" using sent by auto
    then show ?thesis using new(1) credit_chain_silent [OF new(2) [unfolded start]] False by auto
  qed
qed

end
