(* ===== verification/Actors.thy ===== *)
theory Actors
  imports Chores FetchApi Preparation Finalization BalanceChanges
begin

text \<open>
  The actors of \<open>swpt_accounts/actors.py\<close>: the four messages that the server receives, their checks, and the
  procedure calls they lead to.  An actor whose check fails raises and changes nothing; an actor that
  calls several procedures commits after each of them.

  The parameters are the functions of the package \<open>swpt_lib\<close> that translate identifiers, and the tables of the
  Unicode database by which \<open>int\<close> reads digits and white space that are not ASCII.
\<close>

record wire =
  u64_to_i64 :: "int \<Rightarrow> int option"          \<comment> \<open>\<open>None\<close>: raises \<open>ValueError\<close>\<close>
  i64_to_u64 :: "int \<Rightarrow> int"
  unicode_decimal :: "nat \<Rightarrow> nat option"
  unicode_space :: "nat \<Rightarrow> bool"

section \<open>Reading an integer\<close>

text \<open>
  \<open>int(s)\<close>: decimal digits and white space become ASCII, anything else a question mark; then white space around
  an optional sign and digits, with single underscores between digits.
\<close>

definition to_ascii :: "wire \<Rightarrow> pystr \<Rightarrow> pystr" where
  "to_ascii W s =
     (if isascii s then s
      else map (\<lambda>c. if c < 128 then c else if unicode_space W c then 32
                     else case unicode_decimal W c of Some n \<Rightarrow> 48 + n | None \<Rightarrow> 63) s)"

definition is_space :: "nat \<Rightarrow> bool" where
  "is_space c \<longleftrightarrow> 9 \<le> c \<and> c \<le> 13 \<or> c = 32"

definition strip_spaces :: "pystr \<Rightarrow> pystr" where
  "strip_spaces s = rev (dropWhile is_space (rev (dropWhile is_space s)))"

text \<open>\<open>after_digit\<close> tells whether the character before was a digit.\<close>

fun read_decimal :: "bool \<Rightarrow> int \<Rightarrow> pystr \<Rightarrow> int option" where
  "read_decimal after_digit acc [] = (if after_digit then Some acc else None)"
| "read_decimal after_digit acc (c # s) =
     (if 48 \<le> c \<and> c \<le> 57 then read_decimal True (10 * acc + int (c - 48)) s
      else if c = 95 \<and> after_digit then read_decimal False acc s
      else None)"

definition py_int :: "wire \<Rightarrow> pystr \<Rightarrow> int result" where
  "py_int W s =
     (case (case strip_spaces (to_ascii W s) of
              [] \<Rightarrow> None
            | c # t \<Rightarrow> if c = 45 then map_option uminus (read_decimal False 0 t)
                       else if c = 43 then read_decimal False 0 t
                       else read_decimal False 0 (c # t)) of
        None \<Rightarrow> Inl ValueError
      | Some n \<Rightarrow> Inr n)"

section \<open>Checks\<close>

definition RE_TRANSFER_NOTE_FORMAT :: "pystr \<Rightarrow> bool" where
  "RE_TRANSFER_NOTE_FORMAT =
     match_anchored (\<lambda>s. length s \<le> 8 \<and> (\<forall>c \<in> set s. 48 \<le> c \<and> c \<le> 57 \<or> 65 \<le> c \<and> c \<le> 90 \<or> 97 \<le> c \<and> c \<le> 122
       \<or> c = 46 \<or> c = 45))"

text \<open>A timestamp must be aware and later than \<open>T0\<close>.\<close>

definition check_ts :: "pydatetime \<Rightarrow> datetime result" where
  "check_ts parsed_ts = bindR (awareR parsed_ts) (\<lambda>ts. bindR (assertR (T0 < ts)) (\<lambda>_. Inr ts))"

definition check_coordinator_type :: "pystr \<Rightarrow> unit result" where
  "check_coordinator_type s = assertR (length s \<le> 30 \<and> isascii s)"

text \<open>\<open>assert len(s) <= n and len(s.encode('utf8')) <= n\<close>\<close>

definition check_max_bytes :: "nat \<Rightarrow> pystr \<Rightarrow> unit result" where
  "check_max_bytes n s =
     bindR (assertR (length s \<le> n)) (\<lambda>_. bindR (encode_utf8 s) (\<lambda>b. assertR (length b \<le> n)))"

section \<open>Configuring an account\<close>

text \<open>A procedure commits when it returns; a later error does not undo it.\<close>

definition committed :: "db \<Rightarrow> db result \<Rightarrow> (db \<Rightarrow> db \<times> unit result) \<Rightarrow> db \<times> unit result" where
  "committed d r continue = (case r of Inl e \<Rightarrow> (d, Inl e) | Inr d' \<Rightarrow> continue d')"

record clocks =
  now_configure :: datetime
  now_insert :: datetime
  now_rate :: datetime
  now_info :: datetime

definition configure_and_initialize_account ::
    "env \<Rightarrow> app_config \<Rightarrow> clocks \<Rightarrow> (int list \<Rightarrow> int \<rightharpoonup> root_config_data option) \<Rightarrow>
     int \<Rightarrow> int \<Rightarrow> datetime \<Rightarrow> int \<Rightarrow> pyfloat \<Rightarrow> int \<Rightarrow> pystr \<Rightarrow> db \<Rightarrow> db \<times> unit result" where
  "configure_and_initialize_account E c t get_config_dict debtor_id creditor_id ts seqnum negligible_amount
       config_flags config_data d =
     (let delay = signalbus_max_delay_seconds c in
      case configure_account E (now_configure t) (now_insert t) debtor_id creditor_id ts seqnum negligible_amount
             config_flags config_data delay d of
        Inl e \<Rightarrow> (d, Inl e)
      | Inr (should_be_initialized, d) \<Rightarrow>
          if should_be_initialized then
            (case get_config_dict [debtor_id] debtor_id of
               Some (Some root_config_data) \<Rightarrow>
                 committed d (change_interest_rate E (now_rate t) debtor_id creditor_id
                                (rc_interest_rate_target root_config_data) None delay d) (\<lambda>d.
                 committed d (update_debtor_info E (now_info t) debtor_id creditor_id (rc_info_iri root_config_data)
                                (rc_info_sha256 root_config_data) (rc_info_content_type root_config_data) None d) (\<lambda>d.
                 (d, Inr ())))
             | _ \<Rightarrow> (d, Inr ()))
          else (d, Inr ()))"

text \<open>What the checks of the message yield: the parsed time stamp.\<close>

definition check_configure_account :: "int \<Rightarrow> int \<Rightarrow> pystr \<Rightarrow> int \<Rightarrow> int \<Rightarrow> pystr \<Rightarrow> datetime result" where
  "check_configure_account debtor_id creditor_id ts seqnum config_flags config_data =
     bindR (fromisoformat ts) (\<lambda>parsed_ts.
     bindR (assertR (is_int64 debtor_id)) (\<lambda>_.
     bindR (assertR (is_int64 creditor_id)) (\<lambda>_.
     bindR (check_ts parsed_ts) (\<lambda>t.
     bindR (assertR (is_int32 seqnum)) (\<lambda>_.
     bindR (assertR (is_int32 config_flags)) (\<lambda>_.
     bindR (check_max_bytes CONFIG_DATA_MAX_BYTES config_data) (\<lambda>_.
     Inr t)))))))"

definition configure_account_actor ::
    "env \<Rightarrow> app_config \<Rightarrow> clocks \<Rightarrow> (int list \<Rightarrow> int \<rightharpoonup> root_config_data option) \<Rightarrow>
     int \<Rightarrow> int \<Rightarrow> pystr \<Rightarrow> int \<Rightarrow> pyfloat \<Rightarrow> int \<Rightarrow> pystr \<Rightarrow> db \<Rightarrow> db \<times> unit result" where
  "configure_account_actor E c t get_config_dict debtor_id creditor_id ts seqnum negligible_amount config_flags
       config_data d =
     (case check_configure_account debtor_id creditor_id ts seqnum config_flags config_data of
        Inl e \<Rightarrow> (d, Inl e)
      | Inr parsed_ts \<Rightarrow>
          configure_and_initialize_account E c t get_config_dict debtor_id creditor_id parsed_ts seqnum
            negligible_amount config_flags config_data d)"

section \<open>Preparing and finalizing transfers\<close>

definition check_prepare_transfer ::
    "pystr \<Rightarrow> int \<Rightarrow> int \<Rightarrow> int \<Rightarrow> int \<Rightarrow> int \<Rightarrow> int \<Rightarrow> pystr \<Rightarrow> int \<Rightarrow> datetime result" where
  "check_prepare_transfer coordinator_type coordinator_id coordinator_request_id min_locked_amount max_locked_amount
       debtor_id creditor_id ts max_commit_delay =
     bindR (fromisoformat ts) (\<lambda>parsed_ts.
     bindR (check_coordinator_type coordinator_type) (\<lambda>_.
     bindR (assertR (is_int64 coordinator_id)) (\<lambda>_.
     bindR (assertR (is_int64 coordinator_request_id)) (\<lambda>_.
     bindR (assertR (0 \<le> min_locked_amount \<and> min_locked_amount \<le> max_locked_amount \<and> max_locked_amount \<le> MAX_INT64)) (\<lambda>_.
     bindR (assertR (is_int64 debtor_id)) (\<lambda>_.
     bindR (assertR (is_int64 creditor_id)) (\<lambda>_.
     bindR (check_ts parsed_ts) (\<lambda>t.
     bindR (assertR (0 \<le> max_commit_delay \<and> max_commit_delay \<le> MAX_INT32)) (\<lambda>_.
     Inr t)))))))))"

definition recipient_creditor_id :: "wire \<Rightarrow> pystr \<Rightarrow> int option" where
  "recipient_creditor_id W recipient = (case py_int W recipient of Inl e \<Rightarrow> None | Inr n \<Rightarrow> u64_to_i64 W n)"

text \<open>\<open>http_reachable debtor_id creditor_id\<close> is the response of the server of that account.\<close>

definition prepare_transfer_actor ::
    "env \<Rightarrow> wire \<Rightarrow> (int \<Rightarrow> int \<Rightarrow> response result) \<Rightarrow> pystr \<Rightarrow> int \<Rightarrow> int \<Rightarrow> int \<Rightarrow> int \<Rightarrow> int \<Rightarrow> int \<Rightarrow> pystr \<Rightarrow> pystr \<Rightarrow> int \<Rightarrow>
     pyfloat \<Rightarrow> db \<Rightarrow> db result" where
  "prepare_transfer_actor E W http_reachable coordinator_type coordinator_id coordinator_request_id min_locked_amount
       max_locked_amount debtor_id creditor_id recipient ts max_commit_delay min_interest_rate d =
     bindR (check_prepare_transfer coordinator_type coordinator_id coordinator_request_id min_locked_amount
              max_locked_amount debtor_id creditor_id ts max_commit_delay) (\<lambda>parsed_ts.
     bindR (case recipient_creditor_id W recipient of
              None \<Rightarrow> Inr None
            | Some r \<Rightarrow> bindR (get_if_account_is_reachable (http_reachable debtor_id r)) (\<lambda>is_reachable.
                Inr (if is_reachable then Some r else None))) (\<lambda>reachable_recipient.
     prepare_transfer E coordinator_type coordinator_id coordinator_request_id min_locked_amount max_locked_amount
       debtor_id creditor_id reachable_recipient parsed_ts max_commit_delay min_interest_rate d))"

definition check_finalize_transfer ::
    "int \<Rightarrow> int \<Rightarrow> int \<Rightarrow> pystr \<Rightarrow> int \<Rightarrow> int \<Rightarrow> int \<Rightarrow> pystr \<Rightarrow> pystr \<Rightarrow> pystr \<Rightarrow> datetime result" where
  "check_finalize_transfer debtor_id creditor_id transfer_id coordinator_type coordinator_id coordinator_request_id
       committed_amount transfer_note_format transfer_note ts =
     bindR (fromisoformat ts) (\<lambda>parsed_ts.
     bindR (assertR (is_int64 debtor_id)) (\<lambda>_.
     bindR (assertR (is_int64 creditor_id)) (\<lambda>_.
     bindR (assertR (is_int64 transfer_id)) (\<lambda>_.
     bindR (check_coordinator_type coordinator_type) (\<lambda>_.
     bindR (assertR (is_int64 coordinator_id)) (\<lambda>_.
     bindR (assertR (is_int64 coordinator_request_id)) (\<lambda>_.
     bindR (assertR (0 \<le> committed_amount \<and> committed_amount \<le> MAX_INT64)) (\<lambda>_.
     bindR (assertR (RE_TRANSFER_NOTE_FORMAT transfer_note_format)) (\<lambda>_.
     bindR (check_max_bytes TRANSFER_NOTE_MAX_BYTES transfer_note) (\<lambda>_.
     check_ts parsed_ts))))))))))"

definition finalize_transfer_actor ::
    "datetime \<Rightarrow> int \<Rightarrow> int \<Rightarrow> int \<Rightarrow> pystr \<Rightarrow> int \<Rightarrow> int \<Rightarrow> int \<Rightarrow> pystr \<Rightarrow> pystr \<Rightarrow> pystr \<Rightarrow> db \<Rightarrow> db result" where
  "finalize_transfer_actor current_ts debtor_id creditor_id transfer_id coordinator_type coordinator_id
       coordinator_request_id committed_amount transfer_note_format transfer_note ts d =
     bindR (check_finalize_transfer debtor_id creditor_id transfer_id coordinator_type coordinator_id
              coordinator_request_id committed_amount transfer_note_format transfer_note ts) (\<lambda>parsed_ts.
     finalize_transfer current_ts debtor_id creditor_id transfer_id coordinator_type coordinator_id
       coordinator_request_id committed_amount transfer_note_format transfer_note (Some parsed_ts) d)"

section \<open>Receiving balance changes\<close>

definition check_pending_balance_change ::
    "int \<Rightarrow> int \<Rightarrow> int \<Rightarrow> pystr \<Rightarrow> pystr \<Rightarrow> pystr \<Rightarrow> pystr \<Rightarrow> int \<Rightarrow> int \<Rightarrow> datetime result" where
  "check_pending_balance_change debtor_id creditor_id change_id coordinator_type transfer_note_format transfer_note
       committed_at principal_delta other_creditor_id =
     bindR (fromisoformat committed_at) (\<lambda>parsed_committed_at.
     bindR (assertR (is_int64 debtor_id)) (\<lambda>_.
     bindR (assertR (is_int64 creditor_id)) (\<lambda>_.
     bindR (assertR (is_int64 change_id)) (\<lambda>_.
     bindR (check_coordinator_type coordinator_type) (\<lambda>_.
     bindR (assertR (RE_TRANSFER_NOTE_FORMAT transfer_note_format)) (\<lambda>_.
     bindR (check_max_bytes TRANSFER_NOTE_MAX_BYTES transfer_note) (\<lambda>_.
     bindR (check_ts parsed_committed_at) (\<lambda>t.
     bindR (assertR (- MAX_INT64 \<le> principal_delta \<and> principal_delta \<le> MAX_INT64)) (\<lambda>_.
     bindR (assertR (is_int64 other_creditor_id)) (\<lambda>_.
     Inr t))))))))))"

definition on_pending_balance_change_signal ::
    "app_config \<Rightarrow> int \<Rightarrow> int \<Rightarrow> int \<Rightarrow> pystr \<Rightarrow> pystr \<Rightarrow> pystr \<Rightarrow> pystr \<Rightarrow> int \<Rightarrow> int \<Rightarrow> db \<Rightarrow> db result" where
  "on_pending_balance_change_signal c debtor_id creditor_id change_id coordinator_type transfer_note_format
       transfer_note committed_at principal_delta other_creditor_id d =
     bindR (check_pending_balance_change debtor_id creditor_id change_id coordinator_type transfer_note_format
              transfer_note committed_at principal_delta other_creditor_id) (\<lambda>parsed_committed_at.
     insert_pending_balance_change debtor_id other_creditor_id change_id creditor_id coordinator_type
       transfer_note_format transfer_note parsed_committed_at principal_delta
       (APP_REGISTERED_BALANCE_CHANGES_RETENTION_DATETIME c) d)"

end
