(* ===== verification/Messages.thy ===== *)
theory Messages
  imports Actors
begin

text \<open>
  The messages that the signals of \<open>swpt_accounts/events.py\<close> turn into.  A message is the list of its fields, by
  the names and in the order that the \<open>__marshmallow__\<close> schema of the signal class declares, with the values
  that the schema reads from the row.  How marshmallow writes numbers and dates into JSON is left to it;
  the fields of type \<open>Function\<close> and \<open>Constant\<close> are computed here, because the program says how.

  \<open>insert_ts\<close> is the time at which a row without an explicit \<open>inserted_at\<close> was inserted.
\<close>

datatype field_value = Integer int | Float pyfloat | String pystr | Date date | DateTime datetime

type_synonym message = "(string \<times> field_value) list"

section \<open>Numbers as strings\<close>

text \<open>\<open>str(n)\<close>\<close>

fun nat_digits :: "nat \<Rightarrow> pystr" where
  "nat_digits n = (if n < 10 then [48 + n] else nat_digits (n div 10) @ [48 + n mod 10])"

declare nat_digits.simps [simp del]

definition str_int :: "int \<Rightarrow> pystr" where
  "str_int n = (if n < 0 then 45 # nat_digits (nat (- n)) else nat_digits (nat n))"

text \<open>\<open>int(x)\<close> of a float.\<close>

fun int_of_float :: "pyfloat \<Rightarrow> int result" where
  "int_of_float (Fin x) = Inr (int_trunc x)"
| "int_of_float NaN = Inl ValueError"
| "int_of_float _ = Inl OverflowError"

section \<open>Event names\<close>

definition rejected_event_name :: "rejected_transfer_signal \<Rightarrow> pystr" where
  "rejected_event_name s = lit ''on_rejected_'' @ rts_coordinator_type s @ lit ''_transfer_signal''"

definition prepared_event_name :: "prepared_transfer_signal \<Rightarrow> pystr" where
  "prepared_event_name s = lit ''on_prepared_'' @ pts_coordinator_type s @ lit ''_transfer_signal''"

definition finalized_event_name :: "finalized_transfer_signal \<Rightarrow> pystr" where
  "finalized_event_name s = lit ''on_finalized_'' @ fts_coordinator_type s @ lit ''_transfer_signal''"

section \<open>Messages\<close>

definition inserted :: "datetime \<Rightarrow> datetime option \<Rightarrow> field_value" where
  "inserted insert_ts ts = DateTime (case ts of None \<Rightarrow> insert_ts | Some t \<Rightarrow> t)"

definition creditor_string :: "wire \<Rightarrow> int \<Rightarrow> field_value" where
  "creditor_string W creditor_id = String (str_int (i64_to_u64 W creditor_id))"

definition rejected_transfer_message :: "datetime \<Rightarrow> rejected_transfer_signal \<Rightarrow> message" where
  "rejected_transfer_message insert_ts s =
     [(''coordinator_type'', String (rts_coordinator_type s)),
      (''coordinator_id'', Integer (rts_coordinator_id s)),
      (''coordinator_request_id'', Integer (rts_coordinator_request_id s)),
      (''status_code'', String (rts_status_code s)),
      (''total_locked_amount'', Integer (rts_total_locked_amount s)),
      (''debtor_id'', Integer (rts_debtor_id s)),
      (''creditor_id'', Integer (rts_sender_creditor_id s)),
      (''ts'', inserted insert_ts (rts_inserted_at s))]"

definition prepared_transfer_message :: "wire \<Rightarrow> datetime \<Rightarrow> prepared_transfer_signal \<Rightarrow> message" where
  "prepared_transfer_message W insert_ts s =
     [(''debtor_id'', Integer (pts_debtor_id s)),
      (''creditor_id'', Integer (pts_sender_creditor_id s)),
      (''transfer_id'', Integer (pts_transfer_id s)),
      (''coordinator_type'', String (pts_coordinator_type s)),
      (''coordinator_id'', Integer (pts_coordinator_id s)),
      (''coordinator_request_id'', Integer (pts_coordinator_request_id s)),
      (''locked_amount'', Integer (pts_locked_amount s)),
      (''recipient'', creditor_string W (pts_recipient_creditor_id s)),
      (''prepared_at'', DateTime (pts_prepared_at s)),
      (''ts'', inserted insert_ts (pts_inserted_at s)),
      (''demurrage_rate'', Float (pts_demurrage_rate s)),
      (''deadline'', DateTime (pts_deadline s)),
      (''min_interest_rate'', Float (pts_min_interest_rate s))]"

definition finalized_transfer_message :: "finalized_transfer_signal \<Rightarrow> message" where
  "finalized_transfer_message s =
     [(''debtor_id'', Integer (fts_debtor_id s)),
      (''creditor_id'', Integer (fts_sender_creditor_id s)),
      (''transfer_id'', Integer (fts_transfer_id s)),
      (''coordinator_type'', String (fts_coordinator_type s)),
      (''coordinator_id'', Integer (fts_coordinator_id s)),
      (''coordinator_request_id'', Integer (fts_coordinator_request_id s)),
      (''prepared_at'', DateTime (fts_prepared_at s)),
      (''ts'', DateTime (fts_finalized_at s)),
      (''committed_amount'', Integer (fts_committed_amount s)),
      (''total_locked_amount'', Integer (fts_total_locked_amount s)),
      (''status_code'', String (fts_status_code s))]"

definition account_transfer_message :: "wire \<Rightarrow> datetime \<Rightarrow> account_transfer_signal \<Rightarrow> message" where
  "account_transfer_message W insert_ts s =
     [(''debtor_id'', Integer (ats_debtor_id s)),
      (''creditor_id'', Integer (ats_creditor_id s)),
      (''creation_date'', Date (ats_creation_date s)),
      (''transfer_number'', Integer (ats_transfer_number s)),
      (''coordinator_type'', String (ats_coordinator_type s)),
      (''committed_at'', DateTime (ats_committed_at s)),
      (''acquired_amount'', Integer (ats_acquired_amount s)),
      (''transfer_note_format'', String (ats_transfer_note_format s)),
      (''transfer_note'', String (ats_transfer_note s)),
      (''principal'', Integer (ats_principal s)),
      (''previous_transfer_number'', Integer (ats_previous_transfer_number s)),
      (''sender'', creditor_string W (ats_sender_creditor_id s)),
      (''recipient'', creditor_string W (ats_recipient_creditor_id s)),
      (''ts'', inserted insert_ts (ats_inserted_at s))]"

definition signal_ttl :: "app_config \<Rightarrow> int result" where
  "signal_ttl c = int_of_float (fmul (APP_SIGNALBUS_MAX_DELAY_DAYS c) (float_of_int SECONDS_IN_DAY))"

definition signal_commit_period :: "app_config \<Rightarrow> int result" where
  "signal_commit_period c = int_of_float (fmul (APP_PREPARED_TRANSFER_MAX_DELAY_DAYS c) (float_of_int SECONDS_IN_DAY))"

definition account_update_message ::
    "wire \<Rightarrow> app_config \<Rightarrow> datetime \<Rightarrow> account_update_signal \<Rightarrow> message result" where
  "account_update_message W c insert_ts s =
     bindR (signal_commit_period c) (\<lambda>commit_period.
     bindR (signal_ttl c) (\<lambda>ttl.
     Inr
     [(''debtor_id'', Integer (aus_debtor_id s)),
      (''creditor_id'', Integer (aus_creditor_id s)),
      (''last_change_ts'', DateTime (aus_last_change_ts s)),
      (''last_change_seqnum'', Integer (aus_last_change_seqnum s)),
      (''principal'', Integer (aus_principal s)),
      (''interest'', Float (aus_interest s)),
      (''interest_rate'', Float (aus_interest_rate s)),
      (''transfer_note_max_bytes'', Integer (int TRANSFER_NOTE_MAX_BYTES)),
      (''demurrage_rate'', Float INTEREST_RATE_FLOOR),
      (''commit_period'', Integer commit_period),
      (''last_interest_rate_change_ts'', DateTime (aus_last_interest_rate_change_ts s)),
      (''last_transfer_number'', Integer (aus_last_transfer_number s)),
      (''last_transfer_committed_at'', DateTime (aus_last_transfer_committed_at s)),
      (''last_config_ts'', DateTime (aus_last_config_ts s)),
      (''last_config_seqnum'', Integer (aus_last_config_seqnum s)),
      (''creation_date'', Date (aus_creation_date s)),
      (''negligible_amount'', Float (aus_negligible_amount s)),
      (''config_data'', String (aus_config_data s)),
      (''config_flags'', Integer (aus_config_flags s)),
      (''ts'', inserted insert_ts (aus_inserted_at s)),
      (''ttl'', Integer ttl),
      (''account_id'', creditor_string W (aus_creditor_id s)),
      (''debtor_info_iri'', String (case aus_debtor_info_iri s of None \<Rightarrow> [] | Some x \<Rightarrow> x)),
      (''debtor_info_content_type'', String (case aus_debtor_info_content_type s of None \<Rightarrow> [] | Some x \<Rightarrow> x)),
      (''debtor_info_sha256'', String (b16encode (case aus_debtor_info_sha256 s of None \<Rightarrow> [] | Some x \<Rightarrow> x)))]))"

definition account_purge_message :: "datetime \<Rightarrow> account_purge_signal \<Rightarrow> message" where
  "account_purge_message insert_ts s =
     [(''debtor_id'', Integer (aps_debtor_id s)),
      (''creditor_id'', Integer (aps_creditor_id s)),
      (''creation_date'', Date (aps_creation_date s)),
      (''ts'', inserted insert_ts (aps_inserted_at s))]"

definition rejected_config_message :: "datetime \<Rightarrow> rejected_config_signal \<Rightarrow> message" where
  "rejected_config_message insert_ts s =
     [(''debtor_id'', Integer (rcs_debtor_id s)),
      (''creditor_id'', Integer (rcs_creditor_id s)),
      (''config_ts'', DateTime (rcs_config_ts s)),
      (''config_seqnum'', Integer (rcs_config_seqnum s)),
      (''negligible_amount'', Float (rcs_negligible_amount s)),
      (''config_data'', String (rcs_config_data s)),
      (''config_flags'', Integer (rcs_config_flags s)),
      (''ts'', inserted insert_ts (rcs_inserted_at s)),
      (''rejection_code'', String (rcs_rejection_code s))]"

definition pending_balance_change_message :: "pending_balance_change_signal \<Rightarrow> message" where
  "pending_balance_change_message s =
     [(''debtor_id'', Integer (pbs_debtor_id s)),
      (''creditor_id'', Integer (pbs_creditor_id s)),
      (''change_id'', Integer (pbs_change_id s)),
      (''coordinator_type'', String (pbs_coordinator_type s)),
      (''transfer_note_format'', String (pbs_transfer_note_format s)),
      (''transfer_note'', String (pbs_transfer_note s)),
      (''committed_at'', DateTime (pbs_committed_at s)),
      (''principal_delta'', Integer (pbs_principal_delta s)),
      (''other_creditor_id'', Integer (pbs_other_creditor_id s))]"

section \<open>Publishing a message\<close>

text \<open>
  \<open>Signal.event_name\<close> of the signals that do not override it, and \<open>Signal.send_signalbus_message\<close>: the actor and
  the routing key under which the broker gets the message.  \<open>queue_name\<close> and \<open>actor_name\<close> are attributes of the
  signal class; none of the eight classes sets them.
\<close>

record dramatiq_message =
  dm_queue_name :: "pystr option"
  dm_actor_name :: pystr
  dm_kwargs :: message
  dm_routing_key :: pystr

definition event_name :: "pystr \<Rightarrow> pystr" where
  "event_name tablename = lit ''on_'' @ tablename"

definition send_signalbus_message :: "pystr option \<Rightarrow> pystr option \<Rightarrow> pystr \<Rightarrow> message \<Rightarrow> dramatiq_message result" where
  "send_signalbus_message queue_name actor_name event data =
     (case queue_name of
        None \<Rightarrow> bindR (assertR (actor_name = None)) (\<lambda>_.
          Inr \<lparr>dm_queue_name = None, dm_actor_name = event, dm_kwargs = data, dm_routing_key = lit ''events.'' @ event\<rparr>)
      | Some q \<Rightarrow> (case actor_name of
          None \<Rightarrow> Inl AttributeError
        | Some a \<Rightarrow> Inr \<lparr>dm_queue_name = Some q, dm_actor_name = a, dm_kwargs = data, dm_routing_key = q\<rparr>))"

section \<open>Receiving a message\<close>

text \<open>
  The actor of the message is called with its fields as keyword arguments, the times as strings
  (\<open>fmt\<close> is how marshmallow writes them).
\<close>

fun int_field :: "field_value option \<Rightarrow> int result" where
  "int_field (Some (Integer n)) = Inr n"
| "int_field _ = Inl TypeError"

fun str_field :: "(datetime \<Rightarrow> pystr) \<Rightarrow> field_value option \<Rightarrow> pystr result" where
  "str_field fmt (Some (String s)) = Inr s"
| "str_field fmt (Some (DateTime ts)) = Inr (fmt ts)"
| "str_field fmt _ = Inl TypeError"

definition receive_pending_balance_change ::
    "(datetime \<Rightarrow> pystr) \<Rightarrow> app_config \<Rightarrow> message \<Rightarrow> db \<Rightarrow> db result" where
  "receive_pending_balance_change fmt c m d =
     bindR (int_field (map_of m ''debtor_id'')) (\<lambda>debtor_id.
     bindR (int_field (map_of m ''creditor_id'')) (\<lambda>creditor_id.
     bindR (int_field (map_of m ''change_id'')) (\<lambda>change_id.
     bindR (str_field fmt (map_of m ''coordinator_type'')) (\<lambda>coordinator_type.
     bindR (str_field fmt (map_of m ''transfer_note_format'')) (\<lambda>transfer_note_format.
     bindR (str_field fmt (map_of m ''transfer_note'')) (\<lambda>transfer_note.
     bindR (str_field fmt (map_of m ''committed_at'')) (\<lambda>committed_at.
     bindR (int_field (map_of m ''principal_delta'')) (\<lambda>principal_delta.
     bindR (int_field (map_of m ''other_creditor_id'')) (\<lambda>other_creditor_id.
     on_pending_balance_change_signal c debtor_id creditor_id change_id coordinator_type transfer_note_format
       transfer_note committed_at principal_delta other_creditor_id d)))))))))"

section \<open>Reading a number that was written\<close>

lemma nat_digits_ascii: "c \<in> set (nat_digits n) \<Longrightarrow> 48 \<le> c \<and> c \<le> 57"
proof (induction n rule: nat_digits.induct)
  case (1 n)
  then show ?case by (subst (asm) nat_digits.simps) (auto split: if_splits)
qed

lemma read_nat_digits:
  "\<exists>k. read_decimal b acc (nat_digits n @ s) = read_decimal True (acc * 10 ^ k + int n) s"
proof (induction n arbitrary: b acc s rule: nat_digits.induct)
  case (1 n)
  show ?case
  proof (cases "n < 10")
    case True
    then show ?thesis by (intro exI [of _ 1]) (simp add: nat_digits.simps [of n] mult.commute)
  next
    case False
    let ?q = "n div 10" and ?r = "n mod 10"
    have r: "?r \<le> 9" using mod_less_divisor [of 10 n] by linarith
    from False obtain k where "read_decimal b acc (nat_digits ?q @ (48 + ?r) # s)
        = read_decimal True (acc * 10 ^ k + int ?q) ((48 + ?r) # s)" using 1 by blast
    also have "\<dots> = read_decimal True (10 * (acc * 10 ^ k + int ?q) + int ?r) s"
      by (simp add: r)
    also have "10 * (acc * 10 ^ k + int ?q) + int ?r = acc * 10 ^ Suc k + int (10 * ?q + ?r)"
      by (simp only: of_nat_add of_nat_mult of_nat_numeral power_Suc ring_distribs mult.assoc mult.left_commute)
    also have "10 * ?q + ?r = n" by (rule mult_div_mod_eq)
    finally show ?thesis using False by (intro exI [of _ "Suc k"]) (simp add: nat_digits.simps [of n])
  qed
qed

lemma nat_digits_not_Nil [simp]: "nat_digits n \<noteq> []"
  by (subst nat_digits.simps) simp

lemma py_int_str:
  assumes "0 \<le> n"
  shows "py_int W (str_int n) = Inr n"
proof -
  let ?s = "nat_digits (nat n)"
  have ascii: "to_ascii W ?s = ?s" by (auto simp: to_ascii_def isascii_def dest!: nat_digits_ascii)
  have nospace: "\<not> is_space c" if "c \<in> set ?s" for c using nat_digits_ascii [OF that] by (auto simp: is_space_def)
  have keep: "dropWhile is_space t = t" if "\<forall>c \<in> set t. \<not> is_space c" for t using that by (cases t) auto
  have strip: "strip_spaces ?s = ?s" using nospace by (simp add: strip_spaces_def keep)
  obtain c t where s: "?s = c # t" by (cases ?s) auto
  then have c: "c \<noteq> 45" "c \<noteq> 43" using nat_digits_ascii [of c "nat n"] by auto
  obtain k where "read_decimal False 0 (?s @ []) = read_decimal True (0 * 10 ^ k + int (nat n)) []"
    using read_nat_digits by blast
  then have "read_decimal False 0 (c # t) = Some n" using assms s by simp
  then show ?thesis using assms c by (simp add: py_int_def str_int_def ascii [unfolded s] strip [unfolded s] s del: read_decimal.simps)
qed

end
