(* ===== verification/Scanners.thy ===== *)
theory Scanners
  imports Chores
begin

text \<open>
  The table scanners of \<open>swpt_accounts/table_scanners.py\<close>.  The base class \<open>TableScanner\<close> (package
  \<open>swpt_lib\<close>) reads a table block by block and hands each block to \<open>process_rows\<close>; the rows it hands over
  may be out of date by then, so they are an argument here and nothing is assumed about them.
  \<open>process_rows\<close> is one transaction.

  Besides changing the database, the account scanner sends chores to other processes.  A chore has left when
  a later step of the transaction raises, so the sent chores are returned beside the result.
\<close>

section \<open>Sending chores\<close>

text \<open>A loop that decides for each row which chores to send; the first error ends it.\<close>

fun send_for :: "('r \<Rightarrow> chore list result) \<Rightarrow> 'r list \<Rightarrow> chore list \<times> unit result" where
  "send_for f [] = ([], Inr ())"
| "send_for f (row # rows) =
     (case f row of
        Inl e \<Rightarrow> ([], Inl e)
      | Inr sent \<Rightarrow> (case send_for f rows of (later, r) \<Rightarrow> (sent @ later, r)))"

text \<open>Two statements in sequence.\<close>

definition then_send :: "chore list \<times> unit result \<Rightarrow> (unit \<Rightarrow> chore list \<times> unit result) \<Rightarrow> chore list \<times> unit result" where
  "then_send p q = (case p of (sent, Inl e) \<Rightarrow> (sent, Inl e) | (sent, Inr _) \<Rightarrow> (sent @ fst (q ()), snd (q ())))"

section \<open>The account scanner\<close>

record account_scanner =
  account_purge_delay :: timedelta
  few_days_interval :: timedelta
  deletion_attempts_min_interval :: timedelta
  interest_rate_change_min_interval :: timedelta
  max_interest_to_principal_ratio :: pyfloat
  min_interest_cap_interval :: timedelta
  account_heartbeat_interval :: timedelta

definition AccountScanner_init :: "app_config \<Rightarrow> account_scanner result" where
  "AccountScanner_init c =
     bindR (timedelta_days (APP_SIGNALBUS_MAX_DELAY_DAYS c)) (\<lambda>signalbus_max_delay.
     bindR (timedelta_days (APP_ACCOUNT_HEARTBEAT_DAYS c)) (\<lambda>heartbeat_interval.
     bindR (timedelta_days (APP_INTRANET_EXTREME_DELAY_DAYS c)) (\<lambda>extreme_delay.
     bindR (timedelta_days (APP_PREPARED_TRANSFER_MAX_DELAY_DAYS c)) (\<lambda>prepared_transfer_max_delay.
     bindR (mk_timedelta (extreme_delay + prepared_transfer_max_delay)) (\<lambda>delay.
     bindR (mk_timedelta (delay + 2 * microseconds_per_day)) (\<lambda>purge_delay.
     bindR (timedelta_days (APP_DELETION_ATTEMPTS_MIN_DAYS c)) (\<lambda>deletion_attempts.
     bindR (mk_timedelta (signalbus_max_delay + microseconds_per_day)) (\<lambda>rate_change.
     bindR (timedelta_days (APP_MIN_INTEREST_CAPITALIZATION_DAYS c)) (\<lambda>min_cap.
     bindR (assertR (flt (Fin 0) (APP_MAX_INTEREST_TO_PRINCIPAL_RATIO c))) (\<lambda>_.
     Inr \<lparr>account_purge_delay = purge_delay,
          few_days_interval = 3 * microseconds_per_day,
          deletion_attempts_min_interval = deletion_attempts,
          interest_rate_change_min_interval = rate_change,
          max_interest_to_principal_ratio = APP_MAX_INTEREST_TO_PRINCIPAL_RATIO c,
          min_interest_cap_interval = min_cap,
          account_heartbeat_interval = max heartbeat_interval signalbus_max_delay\<rparr>))))))))))"

subsection \<open>Purging\<close>

definition purgeable :: "datetime \<Rightarrow> date \<Rightarrow> account \<Rightarrow> bool" where
  "purgeable purge_cutoff_ts date_few_days_ago a \<longleftrightarrow>
     is_deleted a \<and> acc_last_change_ts a < purge_cutoff_ts \<and> acc_creation_date a < date_few_days_ago"

definition account_purge_signal_of :: "account \<Rightarrow> account_purge_signal" where
  "account_purge_signal_of a =
     \<lparr>aps_debtor_id = acc_debtor_id a, aps_creditor_id = acc_creditor_id a,
      aps_creation_date = acc_creation_date a, aps_inserted_at = None\<rparr>"

text \<open>The rows of \<open>prepared_transfer\<close> refer to their account with \<open>ON DELETE CASCADE\<close>.\<close>

definition delete_accounts_where :: "(int \<times> int) list \<Rightarrow> db \<Rightarrow> db" where
  "delete_accounts_where pks d =
     d\<lparr>db_accounts := filter (\<lambda>a. account_pk a \<notin> set pks) (db_accounts d),
       db_prepared_transfers :=
         filter (\<lambda>pt. (pt_debtor_id pt, pt_sender_creditor_id pt) \<notin> set pks) (db_prepared_transfers d)\<rparr>"

definition purge_accounts :: "account_scanner \<Rightarrow> account list \<Rightarrow> datetime \<Rightarrow> db \<Rightarrow> db result" where
  "purge_accounts self rows current_ts d =
     bindR (datetime_sub current_ts (few_days_interval self)) (\<lambda>few_days_ago.
     bindR (datetime_sub current_ts (account_purge_delay self)) (\<lambda>purge_cutoff_ts.
     let pks_to_purge = map account_pk (filter (purgeable purge_cutoff_ts (date_of few_days_ago)) rows) in
     if pks_to_purge \<noteq> [] then
       let to_purge = filter (\<lambda>a. account_pk a \<in> set pks_to_purge
                                \<and> purgeable purge_cutoff_ts (date_of few_days_ago) a) (db_accounts d)
       in if to_purge \<noteq> [] then
            let d = delete_accounts_where (map account_pk to_purge) d in
            bindR (foldR (tbl_insert aps_pk (\<lambda>_. True)) (map account_purge_signal_of to_purge)
                     (db_account_purge_signals d)) (\<lambda>t.
            Inr (d\<lparr>db_account_purge_signals := t\<rparr>))
          else Inr d
     else Inr d))"

subsection \<open>Heartbeats\<close>

definition needs_heartbeat :: "datetime \<Rightarrow> account \<Rightarrow> bool" where
  "needs_heartbeat heartbeat_cutoff_ts a \<longleftrightarrow>
     \<not> is_deleted a \<and> (acc_last_heartbeat_ts a < heartbeat_cutoff_ts \<or> acc_pending_account_update a)"

definition heartbeat_signal_of :: "datetime \<Rightarrow> account \<Rightarrow> account_update_signal" where
  "heartbeat_signal_of current_ts a =
     (account_update_signal_of a)\<lparr>aus_inserted_at := Some (max current_ts (acc_last_change_ts a))\<rparr>"

definition send_heartbeats :: "env \<Rightarrow> account_scanner \<Rightarrow> account list \<Rightarrow> datetime \<Rightarrow> db \<Rightarrow> db result" where
  "send_heartbeats E self rows current_ts d =
     bindR (datetime_sub current_ts (account_heartbeat_interval self)) (\<lambda>heartbeat_cutoff_ts.
     let pks_to_heartbeat = map account_pk (filter (needs_heartbeat heartbeat_cutoff_ts) rows) in
     if pks_to_heartbeat \<noteq> [] then
       let to_heartbeat = filter (\<lambda>a. account_pk a \<in> set pks_to_heartbeat
                                    \<and> needs_heartbeat heartbeat_cutoff_ts a) (db_accounts d)
       in if to_heartbeat \<noteq> [] then
            let pks_to_remind = map account_pk to_heartbeat;
                d = d\<lparr>db_accounts := map (\<lambda>a. if account_pk a \<in> set pks_to_remind
                        then a\<lparr>acc_last_heartbeat_ts := current_ts, acc_pending_account_update := False\<rparr>
                        else a) (db_accounts d)\<rparr>
            in foldR (add_account_update_signal E) (map (heartbeat_signal_of current_ts) to_heartbeat) d
          else Inr d
     else Inr d)"

subsection \<open>Chores for the accounts\<close>

definition should_be_deleted :: "env \<Rightarrow> datetime \<Rightarrow> datetime \<Rightarrow> account \<Rightarrow> bool result" where
  "should_be_deleted E cutoff_ts current_ts row =
     (if acc_creditor_id row \<noteq> ROOT_CREDITOR_ID
         \<and> acc_last_deletion_attempt_ts row \<le> cutoff_ts
         \<and> acc_config_flags row AND CONFIG_SCHEDULED_FOR_DELETION_FLAG \<noteq> 0
         \<and> \<not> is_deleted row
      then bindR (Account_calc_current_balance E row current_ts)
             (\<lambda>balance. is_negligible_balance balance (acc_negligible_amount row))
      else Inr False)"

definition delete_accounts :: "env \<Rightarrow> account_scanner \<Rightarrow> account list \<Rightarrow> datetime \<Rightarrow> chore list \<times> unit result" where
  "delete_accounts E self rows current_ts =
     (case datetime_sub current_ts (deletion_attempts_min_interval self) of
        Inl e \<Rightarrow> ([], Inl e)
      | Inr cutoff_ts \<Rightarrow>
          send_for (\<lambda>row. bindR (should_be_deleted E cutoff_ts current_ts row) (\<lambda>b.
            Inr (if b then [try_to_delete_account_chore (acc_debtor_id row) (acc_creditor_id row)] else []))) rows)"

definition interest_to_principal_ratio :: "env \<Rightarrow> datetime \<Rightarrow> account \<Rightarrow> pyfloat result" where
  "interest_to_principal_ratio E current_ts row =
     bindR (Account_calc_current_balance E row current_ts) (\<lambda>current_balance.
     bindR (dec_sub current_balance (dec_of_int (acc_principal row))) (\<lambda>i.
     bindR (dec_floor i) (\<lambda>n.
     Inr (int_truediv \<bar>contain_principal_overflow n\<bar> (1 + \<bar>acc_principal row\<bar>)))))"

definition should_be_capitalized :: "env \<Rightarrow> account_scanner \<Rightarrow> datetime \<Rightarrow> datetime \<Rightarrow> account \<Rightarrow> bool result" where
  "should_be_capitalized E self cutoff_ts current_ts row =
     (if acc_creditor_id row \<noteq> ROOT_CREDITOR_ID
         \<and> acc_last_interest_capitalization_ts row \<le> cutoff_ts
         \<and> \<not> is_deleted row
      then bindR (interest_to_principal_ratio E current_ts row)
             (\<lambda>ratio. Inr (flt (max_interest_to_principal_ratio self) ratio))
      else Inr False)"

definition capitalize_interests :: "env \<Rightarrow> account_scanner \<Rightarrow> account list \<Rightarrow> datetime \<Rightarrow> chore list \<times> unit result" where
  "capitalize_interests E self rows current_ts =
     (case datetime_sub current_ts (min_interest_cap_interval self) of
        Inl e \<Rightarrow> ([], Inl e)
      | Inr cutoff_ts \<Rightarrow>
          send_for (\<lambda>row. bindR (should_be_capitalized E self cutoff_ts current_ts row) (\<lambda>b.
            Inr (if b then [capitalize_interest_chore (acc_debtor_id row) (acc_creditor_id row)] else []))) rows)"

definition should_change_interest_rate :: "datetime \<Rightarrow> account \<Rightarrow> pyfloat \<Rightarrow> bool" where
  "should_change_interest_rate cutoff_ts row current_interest_rate \<longleftrightarrow>
     \<not> feq (acc_interest_rate row) current_interest_rate
     \<and> acc_last_interest_rate_change_ts row \<le> cutoff_ts
     \<and> \<not> is_deleted row"

definition should_update_debtor_info :: "account \<Rightarrow> root_config_data \<Rightarrow> bool" where
  "should_update_debtor_info row c \<longleftrightarrow>
     \<not> is_deleted row
     \<and> (acc_debtor_info_iri row \<noteq> rc_info_iri c
        \<or> acc_debtor_info_content_type row \<noteq> rc_info_content_type c
        \<or> acc_debtor_info_sha256 row \<noteq> rc_info_sha256 c)"

definition debtor_settings_chores ::
    "datetime \<Rightarrow> datetime \<Rightarrow> (int \<rightharpoonup> root_config_data option) \<Rightarrow> account \<Rightarrow> chore list" where
  "debtor_settings_chores cutoff_ts current_ts config_data_dict row =
     (if acc_creditor_id row = ROOT_CREDITOR_ID then []
      else case config_data_dict (acc_debtor_id row) of
        Some (Some config_data) \<Rightarrow>
          (if should_change_interest_rate cutoff_ts row (rc_interest_rate_target config_data)
           then [change_interest_rate_chore (acc_debtor_id row) (acc_creditor_id row)
                   (rc_interest_rate_target config_data) (isoformat current_ts)] else [])
          @ (if should_update_debtor_info row config_data
             then [update_debtor_info_chore (acc_debtor_id row) (acc_creditor_id row)
                   (rc_info_iri config_data) (rc_info_content_type config_data)
                   (map_option b16encode (rc_info_sha256 config_data)) (isoformat current_ts)] else [])
      | _ \<Rightarrow> [])"

definition change_debtor_settings ::
    "account_scanner \<Rightarrow> (int list \<Rightarrow> int \<rightharpoonup> root_config_data option) \<Rightarrow> account list \<Rightarrow> datetime \<Rightarrow>
     chore list \<times> unit result" where
  "change_debtor_settings self get_config_dict rows current_ts =
     (case datetime_sub current_ts (interest_rate_change_min_interval self) of
        Inl e \<Rightarrow> ([], Inl e)
      | Inr cutoff_ts \<Rightarrow>
          let config_data_dict = get_config_dict (remdups (map acc_debtor_id rows))
          in send_for (\<lambda>row. Inr (debtor_settings_chores cutoff_ts current_ts config_data_dict row)) rows)"

definition AccountScanner_process_rows ::
    "env \<Rightarrow> account_scanner \<Rightarrow> (int list \<Rightarrow> int \<rightharpoonup> root_config_data option) \<Rightarrow> account list \<Rightarrow> datetime \<Rightarrow>
     db \<Rightarrow> chore list \<times> db result" where
  "AccountScanner_process_rows E self get_config_dict rows current_ts d =
     (case bindR (purge_accounts self rows current_ts d) (send_heartbeats E self rows current_ts) of
        Inl e \<Rightarrow> ([], Inl e)
      | Inr d \<Rightarrow>
          (case then_send (delete_accounts E self rows current_ts) (\<lambda>_.
                then_send (capitalize_interests E self rows current_ts) (\<lambda>_.
                change_debtor_settings self get_config_dict rows current_ts)) of
             (sent, Inl e) \<Rightarrow> (sent, Inl e)
           | (sent, Inr _) \<Rightarrow> (sent, Inr d)))"

section \<open>The prepared transfer scanner\<close>

definition PreparedTransferScanner_init :: "app_config \<Rightarrow> timedelta result" where
  "PreparedTransferScanner_init c =
     bindR (timedelta_days (APP_PREPARED_TRANSFER_REMAINDER_DAYS c)) (\<lambda>a.
     bindR (timedelta_days (APP_SIGNALBUS_MAX_DELAY_DAYS c)) (\<lambda>b.
     Inr (max a b)))"

definition needs_reminder :: "datetime \<Rightarrow> prepared_transfer \<Rightarrow> bool" where
  "needs_reminder reminder_cutoff_ts row \<longleftrightarrow>
     pt_prepared_at row < reminder_cutoff_ts
     \<and> \<not> (case pt_last_reminder_ts row of None \<Rightarrow> False | Some ts \<Rightarrow> reminder_cutoff_ts \<le> ts)"

definition reminder_signal_of :: "datetime \<Rightarrow> prepared_transfer \<Rightarrow> prepared_transfer_signal" where
  "reminder_signal_of current_ts row =
     \<lparr>pts_debtor_id = pt_debtor_id row,
      pts_sender_creditor_id = pt_sender_creditor_id row,
      pts_transfer_id = pt_transfer_id row,
      pts_coordinator_type = pt_coordinator_type row,
      pts_coordinator_id = pt_coordinator_id row,
      pts_coordinator_request_id = pt_coordinator_request_id row,
      pts_locked_amount = pt_locked_amount row,
      pts_recipient_creditor_id = pt_recipient_creditor_id row,
      pts_prepared_at = pt_prepared_at row,
      pts_demurrage_rate = pt_demurrage_rate row,
      pts_deadline = pt_deadline row,
      pts_min_interest_rate = pt_min_interest_rate row,
      pts_inserted_at = Some (max current_ts (pt_prepared_at row))\<rparr>"

definition reminder_mappings ::
    "datetime \<Rightarrow> datetime \<Rightarrow> prepared_transfer list \<Rightarrow> ((int \<times> int \<times> int) \<times> prepared_transfer_signal) list" where
  "reminder_mappings reminder_cutoff_ts current_ts rows =
     foldl (\<lambda>m row. if needs_reminder reminder_cutoff_ts row
                    then dict_put (prepared_transfer_pk row) (reminder_signal_of current_ts row) m else m) [] rows"

definition PreparedTransferScanner_process_rows ::
    "env \<Rightarrow> timedelta \<Rightarrow> prepared_transfer list \<Rightarrow> datetime \<Rightarrow> db \<Rightarrow> db result" where
  "PreparedTransferScanner_process_rows E remainder_interval rows current_ts d =
     bindR (datetime_sub current_ts remainder_interval) (\<lambda>reminder_cutoff_ts.
     let mappings = reminder_mappings reminder_cutoff_ts current_ts rows in
     if mappings \<noteq> [] then
       let pks_to_remind = map fst mappings;
           d = d\<lparr>db_prepared_transfers := map (\<lambda>pt. if prepared_transfer_pk pt \<in> set pks_to_remind
                   then pt\<lparr>pt_last_reminder_ts := Some current_ts\<rparr> else pt) (db_prepared_transfers d)\<rparr>
       in foldR (add_prepared_transfer_signal E) (map snd mappings) d
     else Inr d)"

section \<open>The registered balance change scanner\<close>

definition RegisteredBalanceChangeScanner_init :: "app_config \<Rightarrow> datetime" where
  "RegisteredBalanceChangeScanner_init c = APP_REGISTERED_BALANCE_CHANGES_RETENTION_DATETIME c"

text \<open>
  The rows of \<open>pending_balance_change\<close> refer to their registration (\<open>ON DELETE NO ACTION\<close>): deleting a
  registration that is still referred to is an \<open>IntegrityError\<close>.
\<close>

definition RegisteredBalanceChangeScanner_process_rows ::
    "datetime \<Rightarrow> registered_balance_change list \<Rightarrow> db \<Rightarrow> db result" where
  "RegisteredBalanceChangeScanner_process_rows cutoff_ts rows d =
     (let pks_to_delete = map registered_balance_change_pk
            (filter (\<lambda>row. rbc_committed_at row < cutoff_ts \<and> rbc_is_applied row) rows) in
      if pks_to_delete \<noteq> [] then
        let gone = filter (\<lambda>r. registered_balance_change_pk r \<in> set pks_to_delete) (db_registered_balance_changes d) in
        bindR (integrityR (\<forall>c \<in> set (db_pending_balance_changes d).
                 pending_balance_change_pk c \<notin> set (map registered_balance_change_pk gone))) (\<lambda>_.
        Inr (d\<lparr>db_registered_balance_changes :=
                 filter (\<lambda>r. registered_balance_change_pk r \<notin> set pks_to_delete) (db_registered_balance_changes d)\<rparr>))
      else Inr d)"

end
