(* ===== verification/WorkerPool.thy ===== *)
theory WorkerPool
  imports Prelude "HOL-Library.Multiset"
begin

text \<open>
  \<open>ThreadPoolProcessor\<close> of \<open>swpt_accounts/cli.py\<close>: the main thread, the worker threads, and the thread of the pool that
  runs the callbacks, as interleaved steps on the shared counter.  A step is what happens between two points at which
  another thread can interfere: the condition variable \<open>all_done\<close> is held while \<open>pending\<close> is read or written.

  The world (the database) is a parameter, and so are the collection of arguments, the function that the workers call, and
  what other processes do to the world meanwhile.  A call of the function takes an input that the model does not
  determine (clocks, rows locked by others); it fails or succeeds.
\<close>

section \<open>State\<close>

text \<open>Where the main thread is in \<open>run\<close>, and whether the callback thread is in the middle of \<open>_log_error\<close>.\<close>

datatype 'a main_thread =
    Loop_test                     \<comment> \<open>the \<open>while\<close> condition\<close>
  | Submitting "'a list"          \<comment> \<open>the \<open>for\<close> loop, with the arguments that are left\<close>
  | Check_done                    \<comment> \<open>the \<open>while\<close> condition of \<open>_wait_until_all_done\<close>\<close>
  | Asleep                        \<comment> \<open>\<open>all_done.wait()\<close>\<close>
  | Pausing                       \<comment> \<open>\<open>time.sleep\<close>\<close>
  | Closed                        \<comment> \<open>after the loop\<close>
  | Failed                        \<comment> \<open>the assertion has raised\<close>

datatype callback_thread = Ready | Logging

text \<open>
  The last two fields do not exist in the program: the arguments of the current iteration, and those with which the function
  has been called in it.
\<close>

record ('a, 'w) pool =
  pending :: int
  error_has_occurred :: bool
  iteration_counter :: nat
  main_thread :: "'a main_thread"
  callback_thread :: callback_thread
  tasks :: "'a list"
  results :: "bool list"
  world :: 'w
  collected :: "'a list"
  called :: "'a list"

definition ThreadPoolProcessor_init :: "'w \<Rightarrow> ('a, 'w) pool" where
  "ThreadPoolProcessor_init w =
     \<lparr>pending = 0, error_has_occurred = False, iteration_counter = 0, main_thread = Loop_test, callback_thread = Ready,
      tasks = [], results = [], world = w, collected = [], called = []\<rparr>"

section \<open>Steps\<close>

text \<open>\<open>_mark_done\<close>: the last one wakes the main thread, if it sleeps.\<close>

definition mark_done :: "('a, 'w) pool \<Rightarrow> ('a, 'w) pool" where
  "mark_done S =
     (let n = pending S - 1 in
      S\<lparr>pending := n, main_thread := (if n \<le> 0 \<and> main_thread S = Asleep then Check_done else main_thread S)\<rparr>)"

text \<open>One round of \<open>_wait_until_all_done\<close>.\<close>

definition wait_until_all_done :: "('a, 'w) pool \<Rightarrow> ('a, 'w) pool" where
  "wait_until_all_done S =
     S\<lparr>main_thread := (if 0 < pending S then Asleep else if pending S = 0 then Pausing else Failed)\<rparr>"

text \<open>The head of the loop in \<open>run\<close>: another iteration, or the end.\<close>

definition next_iteration :: "('w \<Rightarrow> 'a list) \<Rightarrow> bool \<Rightarrow> ('a, 'w) pool \<Rightarrow> ('a, 'w) pool" where
  "next_iteration get_args_collection quit_early S =
     (if \<not> (error_has_occurred S \<or> quit_early \<and> 0 < iteration_counter S) then
        let args_collection = get_args_collection (world S) in
        S\<lparr>iteration_counter := iteration_counter S + 1, pending := pending S + int (length args_collection),
          main_thread := Submitting args_collection, collected := args_collection, called := []\<rparr>
      else S\<lparr>main_thread := Closed\<rparr>)"

inductive pool_step ::
    "('w \<Rightarrow> 'a list) \<Rightarrow> ('i \<Rightarrow> 'a \<Rightarrow> 'w \<Rightarrow> bool \<times> 'w) \<Rightarrow> ('w \<Rightarrow> 'w \<Rightarrow> bool) \<Rightarrow> bool \<Rightarrow>
     ('a, 'w) pool \<Rightarrow> ('a, 'w) pool \<Rightarrow> bool" for get_args_collection process_func interferes quit_early where
  iterate: "main_thread S = Loop_test \<Longrightarrow>
    pool_step get_args_collection process_func interferes quit_early S (next_iteration get_args_collection quit_early S)"
| submit: "main_thread S = Submitting (a # as) \<Longrightarrow>
    pool_step get_args_collection process_func interferes quit_early S
      (S\<lparr>main_thread := Submitting as, tasks := tasks S @ [a]\<rparr>)"
| submitted: "main_thread S = Submitting [] \<Longrightarrow>
    pool_step get_args_collection process_func interferes quit_early S (S\<lparr>main_thread := Check_done\<rparr>)"
| wait: "main_thread S = Check_done \<Longrightarrow>
    pool_step get_args_collection process_func interferes quit_early S (wait_until_all_done S)"
| resume: "main_thread S = Pausing \<Longrightarrow>
    pool_step get_args_collection process_func interferes quit_early S (S\<lparr>main_thread := Loop_test\<rparr>)"
| work: "tasks S = xs @ a # ys \<Longrightarrow> process_func i a (world S) = (ok, w) \<Longrightarrow>
    pool_step get_args_collection process_func interferes quit_early S
      (S\<lparr>tasks := xs @ ys, results := results S @ [ok], world := w, called := called S @ [a]\<rparr>)"
| succeed: "callback_thread S = Ready \<Longrightarrow> results S = True # rs \<Longrightarrow>
    pool_step get_args_collection process_func interferes quit_early S (mark_done S\<lparr>results := rs\<rparr>)"
| fail: "callback_thread S = Ready \<Longrightarrow> results S = False # rs \<Longrightarrow>
    pool_step get_args_collection process_func interferes quit_early S
      (mark_done S\<lparr>results := rs, callback_thread := Logging\<rparr>)"
| flag: "callback_thread S = Logging \<Longrightarrow>
    pool_step get_args_collection process_func interferes quit_early S
      (S\<lparr>error_has_occurred := True, callback_thread := Ready\<rparr>)"
| interfere: "interferes (world S) w \<Longrightarrow>
    pool_step get_args_collection process_func interferes quit_early S (S\<lparr>world := w\<rparr>)"

text \<open>A step to a state that is written differently.\<close>

lemma pool_step_eq: "pool_step g p n q S T \<Longrightarrow> T = S' \<Longrightarrow> pool_step g p n q S S'"
  by simp

section \<open>The counter counts, and nobody sleeps forever\<close>

fun remaining :: "'a main_thread \<Rightarrow> 'a list" where
  "remaining (Submitting as) = as"
| "remaining _ = []"

text \<open>
  \<open>pending\<close> is the number of calls whose callback has not run; every argument of the iteration is still to be submitted,
  waits for a worker, or has been processed; and when the main thread sleeps there is a callback that will wake it.
\<close>

definition pool_ok :: "('a, 'w) pool \<Rightarrow> bool" where
  "pool_ok S \<longleftrightarrow>
     pending S = int (length (remaining (main_thread S)) + length (tasks S) + length (results S))
     \<and> mset (collected S) = mset (called S) + mset (tasks S) + mset (remaining (main_thread S))
     \<and> (main_thread S \<in> {Loop_test, Pausing, Closed} \<longrightarrow> pending S = 0)
     \<and> (main_thread S = Asleep \<longrightarrow> 0 < pending S)
     \<and> main_thread S \<noteq> Failed"

lemma no_lengths [simp]:
  "int (length xs) + int (length ys) = 0 \<longleftrightarrow> xs = [] \<and> ys = []"
  "0 < int (length xs) + int (length ys) \<longleftrightarrow> xs \<noteq> [] \<or> ys \<noteq> []"
  by (cases xs; cases ys; simp)+

lemma pool_ok_init [simp]: "pool_ok (ThreadPoolProcessor_init w)"
  by (simp add: pool_ok_def ThreadPoolProcessor_init_def)

lemma pool_ok_step:
  assumes "pool_step g p n q S S'" and "pool_ok S"
  shows "pool_ok S'"
  using assms
proof cases
  case iterate
  then show ?thesis using iterate assms(2) by (auto simp: pool_ok_def next_iteration_def Let_def)
next
  case (succeed rs)
  then show ?thesis using assms(2) by (auto simp: pool_ok_def mark_done_def Let_def)
next
  case (fail rs)
  then show ?thesis using assms(2) by (auto simp: pool_ok_def mark_done_def Let_def)
qed (auto simp: pool_ok_def wait_until_all_done_def)

lemma pool_ok_run:
  "(pool_step g p n q)\<^sup>*\<^sup>* S S' \<Longrightarrow> pool_ok S \<Longrightarrow> pool_ok S'"
  by (induction rule: rtranclp_induct) (auto intro: pool_ok_step)

text \<open>As long as the main thread has not left the loop, some thread can take a step, whatever other processes do.\<close>

lemma pool_progress_tasks:
  assumes "tasks S = a # ys"
  shows "\<exists>S'. pool_step g p n q S S'"
proof -
  obtain ok w where "p undefined a (world S) = (ok, w)" by fastforce
  moreover have "tasks S = [] @ a # ys" using assms by simp
  ultimately show ?thesis by (metis pool_step.work)
qed

lemma pool_progress_results:
  assumes "results S = ok # rs"
  shows "\<exists>S'. pool_step g p n q S S'"
proof (cases "callback_thread S")
  case Ready
  then show ?thesis using assms by (cases ok) (metis pool_step.succeed, metis pool_step.fail)
next
  case Logging
  then show ?thesis by (metis pool_step.flag)
qed

lemma pool_progress:
  assumes "pool_ok S" and "main_thread S \<noteq> Closed"
  shows "\<exists>S'. pool_step g p (\<lambda>_ _. False) q S S'"
proof (cases "main_thread S")
  case (Submitting as)
  then show ?thesis by (cases as) (metis pool_step.submitted, metis pool_step.submit)
next
  case Asleep
  then have "0 < length (tasks S) + length (results S)" using assms(1) by (auto simp: pool_ok_def)
  then show ?thesis using pool_progress_tasks pool_progress_results by (cases "tasks S"; cases "results S") auto
next
  case Loop_test
  then show ?thesis by (metis pool_step.iterate)
next
  case Check_done
  then show ?thesis by (metis pool_step.wait)
next
  case Pausing
  then show ?thesis by (metis pool_step.resume)
qed (use assms in \<open>simp_all add: pool_ok_def\<close>)

section \<open>A single iteration ends\<close>

fun main_weight :: "'a main_thread \<Rightarrow> nat" where
  "main_weight Closed = 0"
| "main_weight Failed = 0"
| "main_weight Loop_test = 1"
| "main_weight Pausing = 2"
| "main_weight Asleep = 3"
| "main_weight Check_done = 4"
| "main_weight (Submitting as) = 5 + 6 * length as"

definition work_left :: "('a, 'w) pool \<Rightarrow> nat" where
  "work_left S = main_weight (main_thread S) + 5 * length (tasks S) + 4 * length (results S)
     + (if callback_thread S = Logging then 1 else 0)"

lemma pool_step_decreases:
  assumes "pool_step g p (\<lambda>_ _. False) True S S'"
  shows "(S', S) \<in> measures [\<lambda>S. if iteration_counter S = 0 then 1 else 0, work_left]"
  using assms
proof cases
  case iterate
  then show ?thesis by (auto simp: next_iteration_def Let_def work_left_def)
next
  case (succeed rs)
  then show ?thesis by (auto simp: mark_done_def Let_def work_left_def)
next
  case (fail rs)
  then show ?thesis by (auto simp: mark_done_def Let_def work_left_def)
qed (auto simp: work_left_def wait_until_all_done_def)

end
