(* ===== verification/Cli.thy ===== *)
theory Cli
  imports Messages Scanners WorkerPool
begin

text \<open>
  The commands of \<open>swpt_accounts/cli.py\<close>: what each of them starts, given its options and the settings.  An option that
  was not given is \<open>None\<close>.  Parsing the command line, logging, and the loop that reads a table block by block for a
  scanner are left to the libraries.
\<close>

section \<open>Options\<close>

text \<open>\<open>option or default\<close>: zero counts as not given.  \<open>option if option is not None else default\<close>: it does not.\<close>

definition int_or :: "int option \<Rightarrow> int \<Rightarrow> int" where
  "int_or x n = (case x of None \<Rightarrow> n | Some m \<Rightarrow> if m = 0 then n else m)"

definition float_or :: "pyfloat option \<Rightarrow> pyfloat \<Rightarrow> pyfloat" where
  "float_or x f = (case x of None \<Rightarrow> f | Some y \<Rightarrow> if feq y (Fin 0) then f else y)"

text \<open>\<open>timedelta(hours=x)\<close> and \<open>timedelta(days=x)\<close>; \<open>unit_us\<close> is the number of microseconds in the unit.\<close>

fun timedelta_of_units :: "int \<Rightarrow> pyfloat \<Rightarrow> timedelta result" where
  "timedelta_of_units unit_us (Fin x) =
     (let whole = int_trunc x;
          fraction_us = round53 ((x - of_int whole) * of_int unit_us);
          whole_us = whole * unit_us + int_trunc fraction_us
      in mk_timedelta (round_half_even (of_int whole_us + (fraction_us - of_int (int_trunc fraction_us)))))"
| "timedelta_of_units _ NaN = Inl ValueError"
| "timedelta_of_units _ _ = Inl OverflowError"

lemma timedelta_days_units: "timedelta_days x = timedelta_of_units microseconds_per_day x"
  by (cases x) (simp_all add: Let_def)

abbreviation timedelta_hours :: "pyfloat \<Rightarrow> timedelta result" where
  "timedelta_hours \<equiv> timedelta_of_units 3600000000"

section \<open>Processors\<close>

text \<open>
  What is known when a \<open>ThreadPoolProcessor\<close> starts: the size of the pool (the library refuses less than one thread), the
  pause between two collections, and how many accounts a collection takes at most.
\<close>

record processor =
  threads :: int
  wait_seconds :: pyfloat
  max_count :: int

definition start_processor :: "int \<Rightarrow> pyfloat \<Rightarrow> int \<Rightarrow> processor result" where
  "start_processor n w m = (if n < 1 then Inl ValueError else Inr \<lparr>threads = n, wait_seconds = w, max_count = m\<rparr>)"

text \<open>How long the main thread sleeps after an iteration.\<close>

definition sleep_seconds :: "pyfloat \<Rightarrow> pyfloat \<Rightarrow> pyfloat \<Rightarrow> pyfloat" where
  "sleep_seconds wait started_at now = pymax (Fin 0) (fsub (fadd wait started_at) now)"

text \<open>A worker's call: the transaction commits, or it raises and is rolled back.\<close>

definition attempt :: "db result \<Rightarrow> db \<Rightarrow> bool \<times> db" where
  "attempt r d = (case r of Inl e \<Rightarrow> (False, d) | Inr d' \<Rightarrow> (True, d'))"

definition process_balance_changes_command :: "int option \<Rightarrow> pyfloat option \<Rightarrow> app_config \<Rightarrow> processor result" where
  "process_balance_changes_command n w c =
     start_processor (int_or n (APP_PROCESS_BALANCE_CHANGES_THREADS c))
       (case w of Some w \<Rightarrow> w | None \<Rightarrow> APP_PROCESS_BALANCE_CHANGES_WAIT c) (APP_PROCESS_BALANCE_CHANGES_MAX_COUNT c)"

definition balance_changes_args :: "processor \<Rightarrow> db \<Rightarrow> (int \<times> int) list" where
  "balance_changes_args p d = get_accounts_with_pending_balance_changes (Some (max_count p)) d"

definition balance_changes_func ::
    "env \<Rightarrow> (pending_balance_change \<Rightarrow> bool) \<times> datetime \<times> datetime \<Rightarrow> int \<times> int \<Rightarrow> db \<Rightarrow> bool \<times> db" where
  "balance_changes_func E input args d =
     (case (input, args) of ((skip, now, its), (debtor_id, creditor_id)) \<Rightarrow>
        attempt (process_pending_balance_changes E skip now its debtor_id creditor_id d) d)"

definition process_transfer_requests_command :: "int option \<Rightarrow> pyfloat option \<Rightarrow> app_config \<Rightarrow> processor result" where
  "process_transfer_requests_command n w c =
     start_processor (int_or n (APP_PROCESS_TRANSFER_REQUESTS_THREADS c))
       (case w of Some w \<Rightarrow> w | None \<Rightarrow> APP_PROCESS_TRANSFER_REQUESTS_WAIT c) (APP_PROCESS_TRANSFER_REQUESTS_MAX_COUNT c)"

text \<open>
  The commit period is a number of seconds.  The procedure takes an integer here: settings for which the product is not a
  whole number are outside the model.
\<close>

definition commit_period :: "app_config \<Rightarrow> int option" where
  "commit_period c =
     (case fmul (APP_PREPARED_TRANSFER_MAX_DELAY_DAYS c) (float_of_int SECONDS_IN_DAY) of
        Fin x \<Rightarrow> if x = of_int \<lfloor>x\<rfloor> then Some \<lfloor>x\<rfloor> else None
      | _ \<Rightarrow> None)"

definition transfer_requests_args :: "int \<Rightarrow> processor \<Rightarrow> db \<Rightarrow> (int \<times> int \<times> int) list" where
  "transfer_requests_args period p d =
     map (\<lambda>(debtor_id, creditor_id). (debtor_id, creditor_id, period)) (get_accounts_with_transfer_requests (Some (max_count p)) d)"

definition transfer_requests_func ::
    "env \<Rightarrow> (transfer_request \<Rightarrow> bool) \<times> datetime \<Rightarrow> int \<times> int \<times> int \<Rightarrow> db \<Rightarrow> bool \<times> db" where
  "transfer_requests_func E input args d =
     (case (input, args) of ((skip, now), (debtor_id, creditor_id, period)) \<Rightarrow>
        attempt (process_transfer_requests E skip now debtor_id creditor_id period d) d)"

text \<open>The number of threads comes from the environment here, and not from the settings of the application.\<close>

definition process_finalization_requests_command ::
    "wire \<Rightarrow> (pystr \<Rightarrow> pystr option) \<Rightarrow> int option \<Rightarrow> pyfloat option \<Rightarrow> app_config \<Rightarrow> processor result" where
  "process_finalization_requests_command W environ n w c =
     bindR (case n of
              Some m \<Rightarrow> if m \<noteq> 0 then Inr m
                else py_int W (case environ (lit ''APP_PROCESS_FINALIZATION_REQUESTS_THREADS'') of Some s \<Rightarrow> s | None \<Rightarrow> lit ''1'')
            | None \<Rightarrow> py_int W (case environ (lit ''APP_PROCESS_FINALIZATION_REQUESTS_THREADS'') of Some s \<Rightarrow> s | None \<Rightarrow> lit ''1''))
       (\<lambda>threads.
     start_processor threads (case w of Some w \<Rightarrow> w | None \<Rightarrow> APP_PROCESS_FINALIZATION_REQUESTS_WAIT c)
       (APP_PROCESS_FINALIZATION_REQUESTS_MAX_COUNT c))"

definition finalization_requests_args :: "processor \<Rightarrow> db \<Rightarrow> (int \<times> int) list" where
  "finalization_requests_args p d = get_accounts_with_finalization_requests (Some (max_count p)) d"

definition finalization_requests_func ::
    "env \<Rightarrow> (finalization_request \<Rightarrow> bool) \<times> datetime \<Rightarrow> int \<times> int \<Rightarrow> db \<Rightarrow> bool \<times> db" where
  "finalization_requests_func E input args d =
     (case (input, args) of ((skip, now), (debtor_id, creditor_id)) \<Rightarrow>
        attempt (process_finalization_requests E skip now debtor_id creditor_id d) d)"

section \<open>Scanners\<close>

text \<open>The scanner and the intended duration of a pass through its table.\<close>

definition scan_accounts_command :: "pyfloat option \<Rightarrow> app_config \<Rightarrow> (account_scanner \<times> timedelta) result" where
  "scan_accounts_command hours c =
     (let hours = float_or hours (APP_ACCOUNTS_SCAN_HOURS c) in
      bindR (assertR (flt (Fin 0) hours)) (\<lambda>_.
      bindR (AccountScanner_init c) (\<lambda>scanner.
      bindR (timedelta_hours hours) (\<lambda>interval.
      Inr (scanner, interval)))))"

definition scan_prepared_transfers_command :: "pyfloat option \<Rightarrow> app_config \<Rightarrow> (timedelta \<times> timedelta) result" where
  "scan_prepared_transfers_command days c =
     (let days = float_or days (APP_PREPARED_TRANSFERS_SCAN_DAYS c) in
      bindR (assertR (flt (Fin 0) days)) (\<lambda>_.
      bindR (PreparedTransferScanner_init c) (\<lambda>scanner.
      bindR (timedelta_days days) (\<lambda>interval.
      Inr (scanner, interval)))))"

definition scan_registered_balance_changes_command :: "pyfloat option \<Rightarrow> app_config \<Rightarrow> (datetime \<times> timedelta) result" where
  "scan_registered_balance_changes_command days c =
     (let days = float_or days (APP_REGISTERED_BALANCE_CHANGES_SCAN_DAYS c) in
      bindR (assertR (flt (Fin 0) days)) (\<lambda>_.
      bindR (timedelta_days days) (\<lambda>interval.
      Inr (RegisteredBalanceChangeScanner_init c, interval))))"

section \<open>Subscribing a queue\<close>

text \<open>
  The calls of the channel, in their order.  \<open>actors\<close> are the declared actors with their option \<open>event_subscription\<close>
  (\<open>None\<close>: not given).
\<close>

datatype channel_call =
    exchange_declare pystr
  | exchange_bind pystr pystr pystr
  | exchange_unbind pystr pystr pystr
  | queue_bind pystr pystr pystr
  | queue_unbind pystr pystr pystr

definition MAIN_EXCHANGE_NAME :: pystr where "MAIN_EXCHANGE_NAME = lit ''dramatiq''"

definition event_routing_key :: "pystr \<Rightarrow> pystr" where
  "event_routing_key actor_name = lit ''events.'' @ actor_name"

definition subscribe :: "(pystr \<Rightarrow> pystr option) \<Rightarrow> (pystr \<times> bool option) list \<Rightarrow> pystr \<Rightarrow> channel_call list" where
  "subscribe environ actors queue_name =
     (let load_balancing = (case environ (lit ''APP_USE_LOAD_BALANCING_EXCHANGE'') of
            None \<Rightarrow> False | Some s \<Rightarrow> s \<noteq> [] \<and> s \<noteq> lit ''False'');
          bind = (if load_balancing then exchange_bind else queue_bind);
          unbind = (if load_balancing then exchange_unbind else queue_unbind)
      in [exchange_declare MAIN_EXCHANGE_NAME, bind queue_name MAIN_EXCHANGE_NAME queue_name]
         @ concat (map (\<lambda>(actor_name, event_subscription).
             case event_subscription of
               None \<Rightarrow> []
             | Some True \<Rightarrow> [bind queue_name MAIN_EXCHANGE_NAME (event_routing_key actor_name)]
             | Some False \<Rightarrow> [unbind queue_name MAIN_EXCHANGE_NAME (event_routing_key actor_name)]) actors))"

text \<open>The actors of \<open>actors.py\<close>.\<close>

definition protocol_actors :: "(pystr \<times> bool option) list" where
  "protocol_actors =
     [(lit ''configure_account'', None), (lit ''prepare_transfer'', None), (lit ''finalize_transfer'', None),
      (lit ''on_pending_balance_change_signal'', Some True)]"

text \<open>A signal whose class sets no queue is published under the key that \<open>subscribe\<close> binds for its actor.\<close>

lemma signals_are_routed:
  assumes "send_signalbus_message None None (event_name table) data = Inr m" and "(event_name table, Some True) \<in> set actors"
    and "environ (lit ''APP_USE_LOAD_BALANCING_EXCHANGE'') = None"
  shows "queue_bind q MAIN_EXCHANGE_NAME (dm_routing_key m) \<in> set (subscribe environ actors q)"
  using assms by (force simp: send_signalbus_message_def subscribe_def event_routing_key_def monad_simps)

end
