(* ===== verification/PreparationProps.thy ===== *)
theory PreparationProps
  imports Preparation
begin

text \<open>
  The properties of the first phase of a transfer, each at a sample run of
  \<open>process_transfer_requests\<close> with two requests against one account.
\<close>



section \<open>A sample run\<close>

text \<open>Two requests against one account: the first is prepared, the second does not find enough.\<close>

definition sample_request :: "int \<Rightarrow> int \<Rightarrow> transfer_request" where
  "sample_request n amount =
     \<lparr>tr_debtor_id = 1, tr_sender_creditor_id = 2, tr_transfer_request_id = n,
      tr_coordinator_type = CT_DIRECT, tr_coordinator_id = 7, tr_coordinator_request_id = n,
      tr_min_locked_amount = amount, tr_max_locked_amount = amount,
      tr_deadline = sample_ts + timedelta_seconds 3600, tr_min_interest_rate = Fin (- 100),
      tr_recipient_creditor_id = 3\<rparr>"

definition sample_requests_db :: db where
  "sample_requests_db = sample_db\<lparr>db_transfer_requests := [sample_request 1 600, sample_request 2 700]\<rparr>"

lemma sample_stored_request:
  "0 \<le> n \<Longrightarrow> n \<le> 100 \<Longrightarrow> 0 \<le> amount \<Longrightarrow> amount \<le> 10000 \<Longrightarrow> stored_request sample_env (sample_request n amount)"
  by (simp add: sample_request_def stored_request_def transfer_request_fits_def transfer_request_ok_def
      pg_le_def is_int64_def int_bounds CT_DIRECT_def)

lemma sample_commit_period: "commit_period_fits sample_ts 100"
  by (simp add: commit_period_fits_def sample_ts_def timedelta_seconds_def DATETIME_MIN_def DATETIME_MAX_def)

lemma sample_requests_handled:
  "handled_requests (\<lambda>_. False) 1 2 sample_requests_db = [sample_request 1 600, sample_request 2 700]"
  by (simp add: handled_requests_def transfer_requests_of_def sample_requests_db_def sample_request_def)

lemma sample_requests_invariant:
  "db_wf sample_requests_db" "ids_fresh sample_requests_db" "locks_within sample_requests_db"
  "locks_agree sample_requests_db"
  by (simp_all add: db_wf_def ids_fresh_def locks_within_def locks_agree_def pending_count_def locked_sum_def
      sample_requests_db_def sample_db_def empty_db_def tbl_wf_def transfer_request_pk_def sample_request_def
      transfer_request_ok_def pg_le_def int_bounds)

lemma sample_requests_account: "get_account 1 2 sample_requests_db = Some (sample_account 2 1000)"
  by (simp add: sample_requests_db_def sample_get_account)

lemma sample_can_prepare: "can_prepare sample_env (\<lambda>_. False) sample_ts 1 2 100 sample_requests_db"
  by (simp add: can_prepare_def sample_requests_handled sample_requests_account sample_balance dec_of_int_def
      sample_stored_request sample_commit_period is_int64_def int_bounds)


lemma balance_lock_amount [simp]:
  "Account_calc_current_balance E (lock_amount n a) ts = Account_calc_current_balance E a ts"
  by (simp add: Account_calc_current_balance_def lock_amount_def)

lemma sample_available:
  "get_available_amount_of sample_env (sample_account 2 1000) sample_ts = Inr 1000"
  "get_available_amount_of sample_env (lock_amount 600 (sample_account 2 1000)) sample_ts = Inr 400"
  by (simp_all add: get_available_amount_of_def sample_balance contain_principal_overflow_def int_bounds)

lemma sample_request_simps [simp]:
  "tr_debtor_id (sample_request n m) = 1" "tr_sender_creditor_id (sample_request n m) = 2"
  "tr_recipient_creditor_id (sample_request n m) = 3" "tr_transfer_request_id (sample_request n m) = n"
  "tr_min_locked_amount (sample_request n m) = m" "tr_max_locked_amount (sample_request n m) = m"
  "tr_min_interest_rate (sample_request n m) = Fin (- 100)"
  "tr_deadline (sample_request n m) = sample_ts + timedelta_seconds 3600"
  by (simp_all add: sample_request_def)

definition sample_row :: prepared_transfer where
  "sample_row = prepared_transfer_row (sample_request 1 600) 101 600 (sample_ts + 100000000) sample_ts"

definition sample_signal :: prepared_transfer_signal where
  "sample_signal = prepared_transfer_signal_of (sample_request 1 600) 101 600 (sample_ts + 100000000) sample_ts"

definition sample_rejection :: rejected_transfer_signal where
  "sample_rejection = rejected_transfer_signal_of (sample_request 2 700) SC_INSUFFICIENT_AVAILABLE_AMOUNT 600"

lemma sample_row_valid:
  "prepared_transfer_fits sample_row" "prepared_transfer_ok sample_row"
  "pt_min_interest_rate sample_row = Fin (- 100)" "pt_debtor_id sample_row = 1"
  "pt_sender_creditor_id sample_row = 2"
  by (simp_all add: sample_row_def prepared_transfer_row_def prepared_transfer_fits_def prepared_transfer_ok_def
      is_int64_def int_bounds pg_le_def INTEREST_RATE_FLOOR_def sample_request_def CT_DIRECT_def)

lemma sample_prepare:
  assumes "get_account_row 1 2 d \<noteq> None" "db_prepared_transfers d = []"
  shows "prepare sample_env (sample_request 1 600) (sample_account 2 1000) sample_ts 100 600 d =
    Inr (sample_signal, lock_amount 600 (sample_account 2 1000), d\<lparr>db_prepared_transfers := [sample_row]\<rparr>)"
proof -
  have same: "sample_row\<lparr>pt_min_interest_rate := Fin (- 100)\<rparr> = sample_row"
    using sample_row_valid(3) by (cases sample_row) simp
  have "insert_prepared_transfer sample_env sample_row d = Inr (d\<lparr>db_prepared_transfers := [sample_row]\<rparr>)"
    using assms by (simp add: insert_prepared_transfer_def storeR_def sample_row_valid same dataR_def
        integrityR_def tbl_insert_def tbl_lookup_def)
  moreover have "datetime_add sample_ts (timedelta_seconds 100) = Inr (sample_ts + 100000000)"
    by (simp add: datetime_add_def timedelta_seconds_def sample_ts_def DATETIME_MIN_def DATETIME_MAX_def)
  moreover have "min (sample_ts + 100000000) (sample_ts + timedelta_seconds 3600) = sample_ts + 100000000"
    by (simp add: timedelta_seconds_def)
  ultimately show ?thesis
    by (simp add: prepare_def INTEREST_RATE_FLOOR_def Let_def flip: sample_row_def sample_signal_def)
qed

lemma sample_steps:
  "process_transfer_request sample_env (sample_request 1 600) (Some (sample_account 2 1000)) sample_ts 100
      sample_requests_db = Inr (Inr sample_signal, Some (lock_amount 600 (sample_account 2 1000)),
        sample_requests_db\<lparr>db_transfer_requests := [sample_request 2 700],
          db_prepared_transfers := [sample_row]\<rparr>)"
  "process_transfer_request sample_env (sample_request 2 700) (Some (lock_amount 600 (sample_account 2 1000)))
      sample_ts 100 (sample_requests_db\<lparr>db_transfer_requests := [sample_request 2 700],
          db_prepared_transfers := [sample_row]\<rparr>)
   = Inr (Inl sample_rejection, Some (lock_amount 600 (sample_account 2 1000)),
        sample_requests_db\<lparr>db_transfer_requests := [], db_prepared_transfers := [sample_row]\<rparr>)"
  by (simp_all add: process_transfer_request_def sample_available int_bounds get_min_account_balance_def
      ROOT_CREDITOR_ID_def sample_prepare Let_def get_account_row_def sample_requests_db_def sample_db_def
      tbl_lookup_def delete_transfer_request_def tbl_delete_def transfer_request_pk_def empty_db_def
      reject_def sample_rejection_def)

definition sample_prepared_db :: db where
  "sample_prepared_db = sample_requests_db\<lparr>db_transfer_requests := [],
      db_prepared_transfers := [sample_row], db_prepared_transfer_signals := [sample_signal],
      db_rejected_transfer_signals := [sample_rejection],
      db_accounts := [sample_account 0 (- 1000), lock_amount 600 (sample_account 2 1000)]\<rparr>"

lemma sample_save:
  "get_account_row 1 2 d = Some (sample_account 2 1000) \<Longrightarrow>
   save_account sample_env (lock_amount 600 (sample_account 2 1000)) d =
     (case tbl_update account_pk account_ok (lock_amount 600 (sample_account 2 1000)) (db_accounts d) of
        Inl e \<Rightarrow> Inl e | Inr t \<Rightarrow> Inr (d\<lparr>db_accounts := t\<rparr>))"
proof -
  have "flush_account sample_env (sample_account 2 1000) (lock_amount 600 (sample_account 2 1000))
      = Inr (lock_amount 600 (sample_account 2 1000))"
    by (rule flush_account_same) (simp_all add: lock_amount_def)
  moreover have "account_fits (lock_amount 600 (sample_account 2 1000))"
    by (rule account_ok_lock_amount) (simp_all add: is_int64_def int_bounds)
  moreover assume "get_account_row 1 2 d = Some (sample_account 2 1000)"
  ultimately show ?thesis by (simp add: save_account_def dataR_def bindR_def)
qed

lemma sample_preparation_run: 
  "process_transfer_requests sample_env (\<lambda>_. False) sample_ts 1 2 100 sample_requests_db = Inr sample_prepared_db"
proof -
  let ?b = "lock_amount 600 (sample_account 2 1000)"
  have loop: "foldR (transfer_loop_body sample_env sample_ts 100) [sample_request 1 600, sample_request 2 700]
     \<lparr>tl_account = Some (sample_account 2 1000), tl_rejected = [], tl_prepared = [], tl_db = sample_requests_db\<rparr>
    = Inr \<lparr>tl_account = Some ?b, tl_rejected = [sample_rejection], tl_prepared = [sample_signal],
       tl_db = sample_requests_db\<lparr>db_transfer_requests := [], db_prepared_transfers := [sample_row]\<rparr>\<rparr>"
    by (simp add: transfer_loop_body_def sample_steps)
  have rate: "sample_signal\<lparr>pts_min_interest_rate := pts_min_interest_rate sample_signal\<rparr> = sample_signal" by simp
  have ok: "account_ok ?b" by (rule account_ok_lock_amount) (simp_all add: is_int64_def int_bounds)
  have row: "get_account_row 1 2 (sample_requests_db\<lparr>db_transfer_requests := [], db_prepared_transfers := [sample_row],
      db_rejected_transfer_signals := [sample_rejection], db_prepared_transfer_signals := [sample_signal]\<rparr>)
      = Some (sample_account 2 1000)"
    by (simp add: get_account_row_def sample_requests_db_def sample_db_def tbl_lookup_def)
  have accounts: "db_accounts sample_requests_db = [sample_account 0 (- 1000), sample_account 2 1000]"
      "db_rejected_transfer_signals sample_requests_db = []" "db_prepared_transfer_signals sample_requests_db = []"
    by (simp_all add: sample_requests_db_def sample_db_def empty_db_def)
  let ?d1 = "sample_requests_db\<lparr>db_transfer_requests := [], db_prepared_transfers := [sample_row],
      db_rejected_transfer_signals := [sample_rejection]\<rparr>"
  have signals: "foldR (add_prepared_transfer_signal sample_env) [sample_signal] ?d1
      = Inr (?d1\<lparr>db_prepared_transfer_signals := [sample_signal]\<rparr>)"
    by (simp add: add_prepared_transfer_signal_def storeR_def rate accounts)
  have save: "save_sender sample_env (Some ?b) (?d1\<lparr>db_prepared_transfer_signals := [sample_signal]\<rparr>)
      = Inr sample_prepared_db"
    by (simp add: save_sender_def sample_save row accounts tbl_update_def ok sample_prepared_db_def)
  show ?thesis
    using sample_requests_handled
    by (simp add: process_transfer_requests_def handled_requests_def sample_requests_account Let_def
        loop signals save fold_add_rejected accounts del: foldR.simps)
qed


lemma sample_requests_tables:
  "db_rejected_transfer_signals sample_requests_db = []" "db_prepared_transfer_signals sample_requests_db = []"
  "db_prepared_transfers sample_requests_db = []"
  "db_transfer_requests sample_requests_db = [sample_request 1 600, sample_request 2 700]"
  by (simp_all add: sample_requests_db_def sample_db_def empty_db_def)

section \<open>Properties\<close>

text \<open>
  C7. Every transfer request that \<open>process_transfer_requests\<close> takes is answered once, by a
  \<open>RejectedTransferSignal\<close> or a \<open>PreparedTransferSignal\<close> that repeats its coordinator type, ID and
  request ID, and is removed from the queue; requests of other senders and requests locked by
  another transaction stay.
\<close>

theorem transfer_requests_answered:
  assumes "db_wf d" and "process_transfer_requests E skip ts i j cp d = Inr d'"
  shows "db_transfer_requests d' = [tr \<leftarrow> db_transfer_requests d.
        \<not> (tr_debtor_id tr = i \<and> tr_sender_creditor_id tr = j \<and> \<not> skip tr)]
    \<and> (\<exists>rejected prepared.
        db_rejected_transfer_signals d' = db_rejected_transfer_signals d @ rejected
        \<and> db_prepared_transfer_signals d' = db_prepared_transfer_signals d @ prepared
        \<and> mset (map rejected_id rejected) + mset (map prepared_id prepared)
          = mset (map request_id [tr \<leftarrow> transfer_requests_of i j d. \<not> skip tr]))"
proof (cases "handled_requests skip i j d = []")
  case True
  then show ?thesis using process_transfer_requests_idle [OF assms(2)]
    by (auto simp: handled_requests_def transfer_requests_of_def filter_empty_conv)
next
  case False
  obtain R Q new t where d': "d' = d\<lparr>db_transfer_requests :=
        [tr \<leftarrow> db_transfer_requests d. tr \<notin> set (handled_requests skip i j d)],
        db_prepared_transfers := db_prepared_transfers d @ new,
        db_rejected_transfer_signals := db_rejected_transfer_signals d @ R,
        db_prepared_transfer_signals := db_prepared_transfer_signals d @ Q, db_accounts := t\<rparr>"
    and "mset (map rejected_id R) + mset (map prepared_id Q)
        = mset (map request_id (handled_requests skip i j d))"
    by (rule process_transfer_requests_InrD [OF assms(2,1) refl False], rule that)
  then show ?thesis
    by (auto simp: handled_requests_def transfer_requests_of_def intro!: filter_cong)
qed

theorem transfer_requests_answered_witness:
  "db_transfer_requests sample_prepared_db = []
   \<and> mset (map rejected_id (db_rejected_transfer_signals sample_prepared_db))
     + mset (map prepared_id (db_prepared_transfer_signals sample_prepared_db))
     = {#request_id (sample_request 1 600), request_id (sample_request 2 700)#}"
  using transfer_requests_answered [OF sample_requests_invariant(1) sample_preparation_run]
    sample_requests_handled
  by (auto simp: sample_requests_tables handled_requests_def)

text \<open>
  C11. A transfer is prepared only as some taken request asked: same coordinator and recipient
  (not the sender itself), an amount between the minimum and the maximum, a deadline not after
  the request's nor after the commit period; and each new prepared transfer is announced by one
  \<open>PreparedTransferSignal\<close> with the same transfer ID, amount and deadline.
\<close>

theorem prepared_transfers_honour_requests:
  assumes "db_wf d" and "process_transfer_requests E skip ts i j cp d = Inr d'"
  shows "\<exists>new signals. db_prepared_transfers d' = db_prepared_transfers d @ new
    \<and> db_prepared_transfer_signals d' = db_prepared_transfer_signals d @ signals
    \<and> list_all2 announces signals new
    \<and> (\<forall>pt \<in> set new. \<exists>tr \<in> set (handled_requests skip i j d). honours ts cp tr pt)"
proof (cases "handled_requests skip i j d = []")
  case True
  then show ?thesis using process_transfer_requests_idle [OF assms(2)] by (intro exI [of _ "[]"]) simp
next
  case False
  obtain R Q new t where d': "d' = d\<lparr>db_transfer_requests :=
        [tr \<leftarrow> db_transfer_requests d. tr \<notin> set (handled_requests skip i j d)],
        db_prepared_transfers := db_prepared_transfers d @ new,
        db_rejected_transfer_signals := db_rejected_transfer_signals d @ R,
        db_prepared_transfer_signals := db_prepared_transfer_signals d @ Q, db_accounts := t\<rparr>"
    and "mset (map rejected_id R) + mset (map prepared_id Q)
        = mset (map request_id (handled_requests skip i j d))"
    and "list_all2 announces Q new"
    and "\<forall>pt \<in> set new. \<exists>tr \<in> set (handled_requests skip i j d). honours ts cp tr pt"
    by (rule process_transfer_requests_InrD [OF assms(2,1) refl False], rule that)
  then show ?thesis by (intro exI [of _ new] exI [of _ Q]) simp
qed

theorem prepared_transfers_honour_requests_witness:
  "\<exists>tr \<in> {sample_request 1 600, sample_request 2 700}. honours sample_ts 100 tr sample_row"
proof -
  obtain new where "db_prepared_transfers sample_prepared_db = db_prepared_transfers sample_requests_db @ new"
      "\<forall>pt \<in> set new. \<exists>tr \<in> set (handled_requests (\<lambda>_. False) 1 2 sample_requests_db).
        honours sample_ts 100 tr pt"
    using prepared_transfers_honour_requests [OF sample_requests_invariant(1) sample_preparation_run] by blast
  then show ?thesis by (auto simp: sample_requests_tables sample_requests_handled sample_prepared_db_def)
qed

text \<open>
  C1. No overbooking: whatever requests are queued, the total locked amount of the sender's account
  does not pass the balance it can spend (down to its minimum balance), unless it did so already;
  nothing but the lock fields of the account changes.
\<close>

theorem no_overbooking:
  assumes "db_wf d" and "process_transfer_requests E skip ts i j cp d = Inr d'"
    and "get_account i j d = Some a"
    and "Account_calc_current_balance E a ts = Inr bal" and "dec_floor bal = Inr n"
  shows "\<exists>b. get_account_row i j d' = Some b \<and> same_but_locks a b
    \<and> acc_total_locked_amount b \<le> max (acc_total_locked_amount a) (n - get_min_account_balance j)"
proof (cases "handled_requests skip i j d = []")
  case True
  then show ?thesis using process_transfer_requests_idle [OF assms(2)] get_account_SomeD [OF assms(3)]
    by (intro exI [of _ a]) simp
next
  case False
  obtain R Q new t where d': "d' = d\<lparr>db_transfer_requests :=
        [tr \<leftarrow> db_transfer_requests d. tr \<notin> set (handled_requests skip i j d)],
        db_prepared_transfers := db_prepared_transfers d @ new,
        db_rejected_transfer_signals := db_rejected_transfer_signals d @ R,
        db_prepared_transfer_signals := db_prepared_transfer_signals d @ Q, db_accounts := t\<rparr>"
    and "mset (map rejected_id R) + mset (map prepared_id Q)
        = mset (map request_id (handled_requests skip i j d))"
    and "list_all2 announces Q new"
    and "\<forall>pt \<in> set new. \<exists>tr \<in> set (handled_requests skip i j d). honours ts cp tr pt"
    and "tbl_wf prepared_transfer_pk prepared_transfer_ok (db_prepared_transfers d @ new)"
    and "get_account i j d = None \<longrightarrow> new = [] \<and> t = db_accounts d"
    and some: "\<forall>a. get_account i j d = Some a \<longrightarrow> (\<exists>b. writes_locks E ts d a b new t)"
    by (rule process_transfer_requests_InrD [OF assms(2,1) refl False], rule that)
  from some assms(3) obtain b where b: "writes_locks E ts d a b new t" by blast
  have row: "get_account_row i j d = Some a" using get_account_SomeD [OF assms(3)] by simp
  have sbl: "same_but_locks a b" using b by (simp add: writes_locks_def locks_for_def)
  have pk: "account_pk b = (i, j)"
    using get_account_row_pk [OF assms(1) row] sbl by (simp add: same_but_locks_eqs account_pk_def)
  have "get_account_row i j d' = Some b"
    using b row pk accs.lookup_upd [OF db_wf_accs [OF assms(1)], of b t "(i, j)"]
    by (simp add: writes_locks_def d' get_account_row_def)
  then show ?thesis using b sbl assms(4,5) get_account_row_pk [OF assms(1) row]
    by (auto simp: writes_locks_def)
qed

theorem no_overbooking_witness:
  "\<exists>b. get_account_row 1 2 sample_prepared_db = Some b \<and> acc_total_locked_amount b \<le> 1000"
  using no_overbooking [OF sample_requests_invariant(1) sample_preparation_run sample_requests_account
      sample_balance dec_floor_of_int]
  by (auto simp: get_min_account_balance_def ROOT_CREDITOR_ID_def)

text \<open>
  Preparing transfers keeps the database well formed (keys, CHECK constraints, foreign keys), keeps
  every account's \<open>pending_transfers_count\<close> equal to the number of its prepared transfers and its
  \<open>total_locked_amount\<close> within their sum, and never reuses a transfer ID.
\<close>

theorem preparation_invariant:
  assumes "process_transfer_requests E skip ts i j cp d = Inr d'"
    and "db_wf d" and "locks_within d" and "ids_fresh d"
  shows "db_wf d' \<and> locks_within d' \<and> ids_fresh d'"
  using process_transfer_requests_invariant [OF assms] .

theorem preparation_invariant_witness:
  "db_wf sample_prepared_db \<and> locks_within sample_prepared_db \<and> ids_fresh sample_prepared_db"
  using preparation_invariant [OF sample_preparation_run sample_requests_invariant(1,3,2)] .

text \<open>
  C10. As long as the locks of the account fit in 64 bits, its \<open>total_locked_amount\<close> is exactly the sum of
  the amounts locked by its prepared transfers.
\<close>

theorem preparation_locks_exact:
  assumes "process_transfer_requests E skip ts i j cp d = Inr d'" and "db_wf d" and "locks_agree d"
    and "locked_sum (i, j) (db_prepared_transfers d') \<le> MAX_INT64"
  shows "locks_agree d'"
  using process_transfer_requests_exact [OF assms] .

theorem preparation_locks_exact_witness: "locks_agree sample_prepared_db"
proof -
  have "locked_sum (1, 2) (db_prepared_transfers sample_prepared_db) \<le> MAX_INT64"
    by (simp add: sample_prepared_db_def locked_sum_def pt_of_def sample_row_def int_bounds)
  with preparation_locks_exact [OF sample_preparation_run sample_requests_invariant(1,4)] show ?thesis .
qed

text \<open>
  C14. \<open>process_transfer_requests\<close> does not raise: with well-formed stored rows, a finite balance, dates in the
  range of \<open>datetime\<close> and enough transfer IDs left, it commits its transaction.
\<close>

theorem preparation_returns:
  assumes "db_wf d" and "ids_fresh d" and "can_prepare E skip ts i j cp d"
  shows "\<exists>d'. process_transfer_requests E skip ts i j cp d = Inr d'"
  using process_transfer_requests_total [OF assms] .

theorem preparation_returns_witness:
  "\<exists>d'. process_transfer_requests sample_env (\<lambda>_. False) sample_ts 1 2 100 sample_requests_db = Inr d'"
  using preparation_returns [OF sample_requests_invariant(1,2) sample_can_prepare] .

text \<open>
  C12. The verdict on a request: with enough transfer IDs left it is prepared exactly when the sender has
  fewer than \<open>MAX_INT32\<close> pending transfers, is not the recipient, has an interest rate that is not below
  the requested one, and can spend the minimum amount; otherwise it is rejected.
\<close>

theorem transfer_request_verdict:
  assumes "stored_request E tr" and "commit_period_fits ts cp" and "can_lock b b 1 d"
    and "acc_debtor_id b = tr_debtor_id tr" and "acc_creditor_id b = tr_sender_creditor_id tr"
    and "Account_calc_current_balance E b ts = Inr bal" and "dec_floor bal = Inr n"
  shows "(\<exists>s b' d'. process_transfer_request E tr (Some b) ts cp d = Inr (Inr s, b', d')) \<longleftrightarrow>
      acc_pending_transfers_count b < MAX_INT32
      \<and> tr_sender_creditor_id tr \<noteq> tr_recipient_creditor_id tr
      \<and> \<not> flt (acc_interest_rate b) (tr_min_interest_rate tr)
      \<and> tr_min_locked_amount tr
          \<le> max 0 (n - acc_total_locked_amount b - get_min_account_balance (tr_sender_creditor_id tr))"
    (is "?prepared \<longleftrightarrow> ?ok")
proof -
  let ?mb = "get_min_account_balance (tr_sender_creditor_id tr)"
  have avail: "get_available_amount_of E b ts
      = Inr (contain_principal_overflow (n - acc_total_locked_amount b))"
    using assms(6,7) by (simp add: get_available_amount_of_def)
  define amt where "amt = max 0 (min (contain_principal_overflow (n - acc_total_locked_amount b) - ?mb)
      (tr_max_locked_amount tr))"
  have range: "0 \<le> tr_min_locked_amount tr" "tr_min_locked_amount tr \<le> tr_max_locked_amount tr"
      "tr_max_locked_amount tr \<le> MAX_INT64"
    using assms(1) by (auto simp: stored_request_def transfer_request_ok_def transfer_request_fits_def is_int64_def)
  have "tr_min_locked_amount tr \<le> amt \<longleftrightarrow> tr_min_locked_amount tr \<le> max 0 (n - acc_total_locked_amount b - ?mb)"
    using range by (auto simp: amt_def contain_clamp get_min_account_balance_def int_bounds)
  moreover have "can_lock b b (Suc 0) (delete_transfer_request tr d)"
    using assms(3) by (simp add: can_lock_def get_account_row_def)
  then obtain p d' where "prepare E tr b ts cp amt (delete_transfer_request tr d) = Inr (p, lock_amount amt b, d')"
    using prepare_total [OF assms(1,2,4,5)] range by (fastforce simp: amt_def)
  moreover have "0 \<le> acc_total_locked_amount b" using assms(3) by (simp add: can_lock_def account_ok_def)
  ultimately show ?thesis
    using assms(4,5) avail
    by (auto simp: process_transfer_request_def Let_def reject_def amt_def)
qed

theorem transfer_request_verdict_witness:
  "(\<exists>s b' d'. process_transfer_request sample_env (sample_request 1 600) (Some (sample_account 2 1000))
      sample_ts 100 sample_requests_db = Inr (Inr s, b', d'))"
proof -
  have tr: "stored_request sample_env (sample_request 1 600)" by (rule sample_stored_request) simp_all
  have lock: "can_lock (sample_account 2 1000) (sample_account 2 1000) 1 sample_requests_db"
    using get_account_SomeD [OF sample_requests_account]
    by (simp add: can_lock_def is_int64_def int_bounds sample_requests_tables)
  have bal: "Account_calc_current_balance sample_env (sample_account 2 1000) sample_ts = Inr (dec_of_int 1000)"
    by (simp add: sample_balance)
  show ?thesis
    using transfer_request_verdict [OF tr sample_commit_period lock _ _ bal dec_floor_of_int]
    by (simp add: int_bounds get_min_account_balance_def ROOT_CREDITOR_ID_def)
qed

end
