(* ===== verification/FinalizationProps.thy ===== *)
theory FinalizationProps
  imports Finalization PreparationProps DueInterest
begin

text \<open>
  The properties of the second phase of a transfer, each at a sample run of
  \<open>process_finalization_requests\<close>: the transfer prepared in the sample run of the first phase is
  committed.  The first section is about the principal in the \<open>AccountTransferSignal\<close>s of a batch, which is not what
  \<open>src/protocol.rst\<close> says: it leaves out the amounts that the same batch has committed before.  A sample batch of two
  transfers of 300 from 1000 shows it.
\<close>

section \<open>The principal reported with each transfer\<close>

lemma finalize_prepared_transfer_signal:
  assumes "finalize_prepared_transfer E pt fr a x ts d = Inr (s, b, d')"
  shows "acc_principal b = acc_principal a
    \<and> (\<forall>r \<in> set (db_account_transfer_signals d'). r \<in> set (db_account_transfer_signals d)
         \<or> ats_principal r = contain_principal_overflow (acc_principal a + ats_acquired_amount r))"
proof -
  let ?u = "unlock_amount (pt_locked_amount pt) a"
  from assms obtain c F where
    "(0 < c \<and> insert_account_transfer_signal ?u (pt_coordinator_type pt)
        (pt_recipient_creditor_id pt) ts (- c) (fr_transfer_note_format fr) (fr_transfer_note fr)
        (contain_principal_overflow (acc_principal ?u - c))
        (d\<lparr>db_finalized_transfer_signals := F\<rparr>) = Inr (b, d'))
     \<or> (b = ?u \<and> d' = d\<lparr>db_finalized_transfer_signals := F\<rparr>)"
    by (auto simp: finalize_prepared_transfer_def Let_def monad_simps add_finalized_transfer_signal_def
        split: if_splits)
  then show ?thesis
    by (auto dest!: insert_account_transfer_signal_InrD
        simp: tbl_insert_def account_transfer_signal_of_def split: if_splits)
qed

lemma finalization_loop_signals:
  assumes "foldR (finalization_loop_body E ts sb mb) rs l = Inr l'" and "fl_account l = Some a"
  shows "\<forall>r \<in> set (db_account_transfer_signals (fl_db l')).
     r \<in> set (db_account_transfer_signals (fl_db l))
     \<or> ats_principal r = contain_principal_overflow (acc_principal a + ats_acquired_amount r)"
proof -
  let ?P = "\<lambda>m. (\<exists>c. fl_account m = Some c \<and> acc_principal c = acc_principal a)
     \<and> (\<forall>r \<in> set (db_account_transfer_signals (fl_db m)).
        r \<in> set (db_account_transfer_signals (fl_db l))
        \<or> ats_principal r = contain_principal_overflow (acc_principal a + ats_acquired_amount r))"
  have "?P l'"
  proof (rule foldR_invariant [OF assms(1), of ?P])
    show "?P l" using assms(2) by simp
  next
    fix r u v
    assume u: "?P u" and v: "finalization_loop_body E ts sb mb r u = Inr v"
    obtain c where c: "fl_account u = Some c" "acc_principal c = acc_principal a" using u by blast
    show "?P v"
    proof (cases "snd r")
      case None
      then show ?thesis using u v c
        by (cases r) (auto simp: finalization_loop_body_def delete_finalization_request_def)
    next
      case (Some pt)
      then obtain s b d where
        "finalize_prepared_transfer E pt (fst r) c (finalization_expendable_amount sb mb c (fl_principal_delta u))
           ts (fl_db u) = Inr (s, b, d)"
        "fl_account v = Some b"
        "db_account_transfer_signals (fl_db v) = db_account_transfer_signals d"
        using v c by (cases r) (auto simp: finalization_loop_body_def bindR_eq_Inr delete_finalization_request_def
            delete_prepared_transfer_def)
      with finalize_prepared_transfer_signal [OF this(1)] u c show ?thesis by (metis option.inject)
    qed
  qed
  then show ?thesis by blast
qed

section \<open>A sample run\<close>

text \<open>The transfer prepared by the sample run of the first phase is committed.\<close>

definition sample_finalization :: finalization_request where
  "sample_finalization =
     \<lparr>fr_debtor_id = 1, fr_sender_creditor_id = 2, fr_transfer_id = 101,
      fr_coordinator_type = CT_DIRECT, fr_coordinator_id = 7, fr_coordinator_request_id = 1,
      fr_committed_amount = 600, fr_transfer_note_format = [], fr_transfer_note = [], fr_ts = sample_ts\<rparr>"

definition sample_finalization_db :: db where
  "sample_finalization_db = sample_prepared_db\<lparr>db_finalization_requests := [sample_finalization]\<rparr>"

lemma sample_finalization_invariant:
  "db_wf sample_finalization_db" "ids_fresh sample_finalization_db" "locks_within sample_finalization_db"
  "locks_agree sample_finalization_db"
proof -
  have inv: "db_wf sample_prepared_db \<and> locks_within sample_prepared_db \<and> ids_fresh sample_prepared_db"
    by (rule process_transfer_requests_invariant [OF sample_preparation_run sample_requests_invariant(1,3,2)])
  have agree: "locks_agree sample_prepared_db"
    by (rule process_transfer_requests_exact [OF sample_preparation_run sample_requests_invariant(1,4)])
      (simp add: sample_prepared_db_def locked_sum_def pt_of_def sample_row_def int_bounds)
  show "db_wf sample_finalization_db"
    using inv by (simp add: db_wf_def sample_finalization_db_def tbl_wf_def finalization_request_ok_def
        sample_finalization_def)
  show "ids_fresh sample_finalization_db" "locks_within sample_finalization_db"
    using inv by (simp_all add: ids_fresh_def locks_within_def sample_finalization_db_def)
  show "locks_agree sample_finalization_db"
    using agree by (simp add: locks_agree_def sample_finalization_db_def)
qed

lemma sample_finalization_pairs:
  "finalization_pairs (\<lambda>_. False) 1 2 sample_finalization_db = [(sample_finalization, sample_row)]"
  by (simp add: finalization_pairs_def handled_finalizations_def finalization_requests_of_def
      sample_finalization_db_def sample_finalization_def join_prepared_transfers_def sample_prepared_db_def
      prepared_transfer_join_clause_def sample_row_def prepared_transfer_row_def sample_request_def)

lemma sample_finalization_account:
  "get_account 1 2 sample_finalization_db = Some (lock_amount 600 (sample_account 2 1000))"
  by (simp add: get_account_def get_account_instance_def get_account_row_def sample_finalization_db_def
      sample_prepared_db_def tbl_lookup_def is_deleted_def)

lemma sample_finalization_balance:
  "Account_calc_current_balance sample_env (lock_amount 600 (sample_account 2 1000)) sample_ts
     = Inr (dec_of_int 1000)"
  by (simp add: sample_balance)

lemma sample_finalization_tables:
  "db_finalized_transfer_signals sample_finalization_db = []"
  "db_account_transfer_signals sample_finalization_db = []"
  "db_pending_balance_change_signals sample_finalization_db = []"
  "db_prepared_transfers sample_finalization_db = [sample_row]"
  by (simp_all add: sample_finalization_db_def sample_prepared_db_def sample_requests_db_def sample_db_def
      empty_db_def)

lemma sample_can_finalize: "can_finalize sample_env (\<lambda>_. False) sample_ts 1 2 sample_finalization_db"
proof -
  have "account_fits (lock_amount 600 (sample_account 2 1000))"
    by (rule account_ok_lock_amount) (simp_all add: is_int64_def int_bounds)
  moreover have "acc_last_transfer_number (lock_amount 600 (sample_account 2 1000)) = 0"
      "acc_last_change_seqnum (lock_amount 600 (sample_account 2 1000)) = 0"
    by (simp_all add: lock_amount_def sample_account_def)
  moreover have "increment_seqnum sample_env 0 = 1" by (simp add: sample_env_def int_bounds)
  ultimately show ?thesis
    by (simp add: can_finalize_def sample_finalization_pairs sample_finalization_account fts_free_def ats_free_def
        sample_finalization_tables sample_balance dec_of_int_def finalizable_def sample_finalization_def sample_row_def
        prepared_transfer_row_def is_int32_def int_bounds)
qed

lemma sample_finalization_run:
  "\<exists>d'. process_finalization_requests sample_env (\<lambda>_. False) sample_ts 1 2 sample_finalization_db = Inr d'"
  by (rule process_finalization_requests_total [OF sample_env_ok sample_finalization_invariant(1) sample_can_finalize])

text \<open>Two transfers of 300 committed in one batch from a principal of 1000.\<close>

definition sample_pair_row :: "int \<Rightarrow> prepared_transfer" where
  "sample_pair_row n = prepared_transfer_row (sample_request n 300) n 300 (sample_ts + 100000000) sample_ts"

definition sample_pair_request :: "int \<Rightarrow> finalization_request" where
  "sample_pair_request n = sample_finalization\<lparr>fr_transfer_id := n, fr_coordinator_request_id := n,
     fr_committed_amount := 300\<rparr>"

definition sample_pair_account :: account where
  "sample_pair_account = lock_amount 300 (lock_amount 300 (sample_account 2 1000))"

definition sample_pair_db :: db where
  "sample_pair_db = empty_db\<lparr>db_accounts := [sample_pair_account],
     db_prepared_transfers := [sample_pair_row 101, sample_pair_row 102],
     db_finalization_requests := [sample_pair_request 101, sample_pair_request 102]\<rparr>"

lemma sample_pair_fields:
  "fr_committed_amount (sample_pair_request n) = 300" "fr_transfer_note (sample_pair_request n) = []"
  "fr_transfer_note_format (sample_pair_request n) = []" "pt_locked_amount (sample_pair_row n) = 300"
  "pt_coordinator_type (sample_pair_row n) = CT_DIRECT" "pt_recipient_creditor_id (sample_pair_row n) = 3"
  "pt_debtor_id (sample_pair_row n) = 1" "pt_sender_creditor_id (sample_pair_row n) = 2"
  "pt_transfer_id (sample_pair_row n) = n"
  by (simp_all add: sample_pair_request_def sample_finalization_def sample_pair_row_def prepared_transfer_row_def
      sample_request_def)

definition sample_pair_account' :: "int \<Rightarrow> account \<Rightarrow> account" where
  "sample_pair_account' n a = unlock_amount 300 a\<lparr>acc_last_transfer_number := n, acc_last_transfer_committed_at := sample_ts\<rparr>"

definition sample_pair_signal :: "int \<Rightarrow> account_transfer_signal" where
  "sample_pair_signal n =
     account_transfer_signal_of (sample_pair_account\<lparr>acc_last_transfer_number := n\<rparr>) CT_DIRECT 3 sample_ts (- 300)
       [] [] 700 (n - 1)"

lemma sample_pair_step:
  assumes "acc_last_transfer_number a = n" "acc_principal a = 1000" "acc_total_locked_amount a = 300 + m"
    "0 \<le> m" "acc_interest_rate a = Fin 0" "acc_creditor_id a = 2" "acc_debtor_id a = 1" "acc_creation_date a = 18518"
    and "x = 1000 - 300 * n - (300 + m)" "0 \<le> x"
    and "\<forall>s \<in> set (db_finalized_transfer_signals d). fts_transfer_id s < i"
    and "\<forall>s \<in> set (db_account_transfer_signals d). ats_transfer_number s \<le> n"
  shows "finalize_prepared_transfer sample_env (sample_pair_row i) (sample_pair_request i) a x sample_ts d
    = Inr (Some (recipient_change_signal (sample_pair_row i) (sample_pair_request i) sample_ts 300),
        sample_pair_account' (n + 1) a,
        d\<lparr>db_finalized_transfer_signals := db_finalized_transfer_signals d
            @ [finalized_transfer_signal_of (sample_pair_row i) sample_ts 300 m SC_OK],
          db_account_transfer_signals := db_account_transfer_signals d @ [sample_pair_signal (n + 1)]\<rparr>)"
proof -
  have code: "calc_status_code sample_env (sample_pair_row i) 300 x (Fin 0) sample_ts = Inr SC_OK"
    using assms(10) by (simp add: calc_status_code_def sample_pair_row_def prepared_transfer_row_def
        sample_request_def get_is_expendable_def)
  have f: "\<forall>s \<in> set (db_finalized_transfer_signals d). fts_pk s \<noteq> (1, 2, i)"
    using assms(11) by (auto simp: fts_pk_def)
  have t: "\<forall>s \<in> set (db_account_transfer_signals d). ats_pk s \<noteq> (1, 2, 18518, n + 1)"
    using assms(12) by (force simp: ats_pk_def)
  have contain: "contain_principal_overflow 700 = 700" by (simp add: contain_id int_bounds)
  show ?thesis using code f t assms(1-8)
    by (simp add: finalize_prepared_transfer_def sample_pair_fields Let_def
        add_finalized_transfer_signal_def tbl_insert_def tbl_lookup_None
        insert_account_transfer_signal_def add_account_transfer_signal_def ROOT_CREDITOR_ID_def
        fts_pk_def finalized_transfer_signal_of_def ats_pk_def account_transfer_signal_of_def contain unlock_amount_def
       sample_pair_account'_def sample_pair_signal_def sample_pair_account_def lock_amount_def
       sample_account_def)
qed

lemma sample_pair_account_fields:
  "acc_last_transfer_number sample_pair_account = 0" "acc_principal sample_pair_account = 1000"
  "acc_total_locked_amount sample_pair_account = 600" "acc_interest_rate sample_pair_account = Fin 0"
  "acc_creditor_id sample_pair_account = 2" "acc_debtor_id sample_pair_account = 1"
  "acc_creation_date sample_pair_account = 18518"
  "acc_last_transfer_number (sample_pair_account' n a) = n"
  "acc_principal (sample_pair_account' n a) = acc_principal a"
  "acc_total_locked_amount (sample_pair_account' n a) = max 0 (acc_total_locked_amount a - 300)"
  "acc_interest_rate (sample_pair_account' n a) = acc_interest_rate a"
  "acc_creditor_id (sample_pair_account' n a) = acc_creditor_id a"
  "acc_debtor_id (sample_pair_account' n a) = acc_debtor_id a"
  "acc_creation_date (sample_pair_account' n a) = acc_creation_date a"
  by (simp_all add: sample_pair_account_def lock_amount_def sample_account_def int_bounds sample_pair_account'_def
      unlock_amount_def)

lemma sample_pair_join:
  "join_prepared_transfers sample_pair_db (handled_finalizations (\<lambda>_. False) 1 2 sample_pair_db)
    = [(sample_pair_request 101, Some (sample_pair_row 101)), (sample_pair_request 102, Some (sample_pair_row 102))]"
  by (simp add: join_prepared_transfers_def handled_finalizations_def finalization_requests_of_def
      sample_pair_db_def sample_pair_request_def sample_finalization_def sample_pair_row_def
      prepared_transfer_row_def sample_request_def prepared_transfer_join_clause_def)

lemma sample_pair_tables:
  "get_account 1 2 sample_pair_db = Some sample_pair_account"
  "db_finalized_transfer_signals sample_pair_db = []" "db_account_transfer_signals sample_pair_db = []"
  "Account_calc_current_balance sample_env sample_pair_account sample_ts = Inr (dec_of_int 1000)"
proof -
  show "get_account 1 2 sample_pair_db = Some sample_pair_account"
    by (simp add: get_account_def get_account_instance_def get_account_row_def sample_pair_db_def tbl_lookup_def
        is_deleted_def account_pk_def sample_pair_account_fields) (simp add: sample_pair_account_def)
  show "Account_calc_current_balance sample_env sample_pair_account sample_ts = Inr (dec_of_int 1000)"
    by (simp add: sample_pair_account_def sample_balance)
qed (simp_all add: sample_pair_db_def empty_db_def)

lemma sample_pair_finalized:
  "\<exists>d'. process_finalization_requests sample_env (\<lambda>_. False) sample_ts 1 2 sample_pair_db = Inr d'"
proof -
  have fits: "account_fits sample_pair_account" "account_ok sample_pair_account"
    by (simp_all add: sample_pair_account_def sample_account_def lock_amount_def account_fits_def account_ok_def
        is_int64_def is_int32_def int_bounds pg_le_def INTEREST_RATE_FLOOR_def INTEREST_RATE_CEIL_def)
  have wf: "db_wf sample_pair_db"
    using fits by (simp add: db_wf_def tbl_wf_def sample_pair_db_def empty_db_def finalization_request_ok_def
        sample_pair_fields prepared_transfer_ok_def prepared_transfer_pk_def finalization_request_pk_def
        account_pk_def sample_pair_account_fields)
      (simp add: sample_pair_request_def sample_pair_row_def prepared_transfer_row_def sample_request_def pg_le_def
        INTEREST_RATE_FLOOR_def)
  have "finalization_pairs (\<lambda>_. False) 1 2 sample_pair_db
      = [(sample_pair_request 101, sample_pair_row 101), (sample_pair_request 102, sample_pair_row 102)]"
    by (simp add: finalization_pairs_def sample_pair_join)
  then have "can_finalize sample_env (\<lambda>_. False) sample_ts 1 2 sample_pair_db"
    using fits by (simp add: can_finalize_def sample_pair_tables fts_free_def ats_free_def dec_of_int_def
        finalizable_def sample_pair_account_fields sample_pair_fields int_bounds)
      (simp add: sample_pair_row_def prepared_transfer_row_def sample_pair_account_def lock_amount_def
        sample_account_def is_int32_def sample_env_def int_bounds)
  then show ?thesis using process_finalization_requests_total [OF sample_env_ok wf] by blast
qed

lemma sample_pair_loop:
  "\<exists>l. foldR (finalization_loop_body sample_env sample_ts 1000 0)
      (join_prepared_transfers sample_pair_db (handled_finalizations (\<lambda>_. False) 1 2 sample_pair_db))
      \<lparr>fl_account = Some sample_pair_account, fl_principal_delta = 0, fl_signals = [], fl_db = sample_pair_db\<rparr> = Inr l
    \<and> db_account_transfer_signals (fl_db l) = [sample_pair_signal 1, sample_pair_signal 2]"
proof -
  let ?r = "\<lambda>n. (sample_pair_request n, Some (sample_pair_row n))"
  let ?l0 = "\<lparr>fl_account = Some sample_pair_account, fl_principal_delta = 0, fl_signals = [], fl_db = sample_pair_db\<rparr>"
  let ?S = "\<lambda>n. recipient_change_signal (sample_pair_row n) (sample_pair_request n) sample_ts 300"
  let ?F = "\<lambda>n m. finalized_transfer_signal_of (sample_pair_row n) sample_ts 300 m SC_OK"
  have delta: "pbs_principal_delta (?S n) = 300" for n by (simp add: recipient_change_signal_def)
  have fid: "fts_transfer_id (?F n m) = n" for n m
    by (simp add: finalized_transfer_signal_of_def sample_pair_fields)
  have number: "ats_transfer_number (sample_pair_signal n) = n" for n
    by (simp add: sample_pair_signal_def account_transfer_signal_of_def)
  have x: "finalization_expendable_amount 1000 0 sample_pair_account 0 = 400"
      "finalization_expendable_amount 1000 0 (sample_pair_account' 1 sample_pair_account) (- 300) = 400"
    by (simp_all add: finalization_expendable_amount_def sample_pair_account_fields)
  have "finalize_prepared_transfer sample_env (sample_pair_row 101) (sample_pair_request 101) sample_pair_account 400
      sample_ts sample_pair_db = Inr (Some (?S 101), sample_pair_account' 1 sample_pair_account,
        sample_pair_db\<lparr>db_finalized_transfer_signals := [?F 101 300],
          db_account_transfer_signals := [sample_pair_signal 1]\<rparr>)"
    using sample_pair_step [of sample_pair_account 0 300 400 sample_pair_db 101]
    by (simp add: sample_pair_account_fields sample_pair_tables)
  then have step1: "finalization_loop_body sample_env sample_ts 1000 0 (?r 101) ?l0
    = Inr \<lparr>fl_account = Some (sample_pair_account' 1 sample_pair_account), fl_principal_delta = - 300,
        fl_signals = [?S 101], fl_db = delete_finalization_request (sample_pair_request 101)
          (delete_prepared_transfer (sample_pair_row 101) (sample_pair_db\<lparr>db_finalized_transfer_signals :=
            [?F 101 300], db_account_transfer_signals := [sample_pair_signal 1]\<rparr>))\<rparr>" (is "_ = Inr ?l1")
    by (simp add: finalization_loop_body_def x delta)
  have "\<exists>d2. finalize_prepared_transfer sample_env (sample_pair_row 102) (sample_pair_request 102)
      (sample_pair_account' 1 sample_pair_account) 400 sample_ts (fl_db ?l1)
      = Inr (Some (?S 102), sample_pair_account' 2 (sample_pair_account' 1 sample_pair_account), d2)
      \<and> db_account_transfer_signals d2 = [sample_pair_signal 1, sample_pair_signal 2]"
    using sample_pair_step [of "sample_pair_account' 1 sample_pair_account" 1 0 400 "fl_db ?l1" 102]
    by (simp add: sample_pair_account_fields fid number delete_finalization_request_def delete_prepared_transfer_def)
  then have "\<exists>l2. finalization_loop_body sample_env sample_ts 1000 0 (?r 102) ?l1 = Inr l2
      \<and> db_account_transfer_signals (fl_db l2) = [sample_pair_signal 1, sample_pair_signal 2]"
    by (auto simp: finalization_loop_body_def x delta delete_finalization_request_def delete_prepared_transfer_def)
  then show ?thesis using step1 by (auto simp: sample_pair_join)
qed

lemma sample_pair_run:
  "\<exists>d'. process_finalization_requests sample_env (\<lambda>_. False) sample_ts 1 2 sample_pair_db = Inr d'
    \<and> db_account_transfer_signals d' = [sample_pair_signal 1, sample_pair_signal 2]"
proof -
  obtain d' where d': "process_finalization_requests sample_env (\<lambda>_. False) sample_ts 1 2 sample_pair_db = Inr d'"
    using sample_pair_finalized by blast
  from sample_pair_loop obtain l where l: "foldR (finalization_loop_body sample_env sample_ts 1000 0)
      (join_prepared_transfers sample_pair_db (handled_finalizations (\<lambda>_. False) 1 2 sample_pair_db))
      \<lparr>fl_account = Some sample_pair_account, fl_principal_delta = 0, fl_signals = [], fl_db = sample_pair_db\<rparr> = Inr l"
    "db_account_transfer_signals (fl_db l) = [sample_pair_signal 1, sample_pair_signal 2]" by blast
  have "db_account_transfer_signals d' = db_account_transfer_signals (fl_db l)"
    using d' l(1) unfolding process_finalization_requests_def handled_finalizations_def [symmetric] sample_pair_join
      sample_pair_tables(1)
    by (auto simp: sample_pair_tables(4) Let_def bindR_eq_Inr get_min_account_balance_def ROOT_CREDITOR_ID_def
        save_sender_def fold_add_pending dest!: save_account_InrD simp del: foldR.simps split: option.splits)
  then show ?thesis using d' l(2) by auto
qed

text \<open>
  The principal in each new \<open>AccountTransferSignal\<close> is computed from the principal at the start of the
  batch: transfers committed earlier in the same batch are not counted. The protocol
  (\<open>protocol.rst\<close>) says that it is the principal after the transfer, which holds for the first transfer
  of a batch only: both signals of the sample say 700, and after the second transfer the principal is 400.
\<close>

lemma batch_signal_principal:
  assumes "process_finalization_requests E skip ts i j d = Inr d'" and "get_account i j d = Some a"
    and "r \<in> set (db_account_transfer_signals d')" and "r \<notin> set (db_account_transfer_signals d)"
  shows "ats_principal r = contain_principal_overflow (acc_principal a + ats_acquired_amount r)"
proof -
  let ?l0 = "\<lparr>fl_account = Some a, fl_principal_delta = 0, fl_signals = [], fl_db = d\<rparr>"
  from assms(1-4) obtain sb l ao where
    loop: "foldR (finalization_loop_body E ts sb (get_min_account_balance j))
        (join_prepared_transfers d (handled_finalizations skip i j d)) ?l0 = Inr l"
    and save: "save_sender E ao (fold add_pending_balance_change_signal (fl_signals l) (fl_db l)) = Inr d'"
    by (auto simp: process_finalization_requests_def handled_finalizations_def Let_def bindR_eq_Inr split: if_splits)
  have "db_account_transfer_signals d' = db_account_transfer_signals (fl_db l)"
    using save by (auto simp: save_sender_def fold_add_pending dest!: save_account_InrD split: option.splits)
  then show ?thesis using finalization_loop_signals [OF loop, of a] assms(3,4) by auto
qed

lemma sample_pair_principals:
  "\<exists>d'. process_finalization_requests sample_env (\<lambda>_. False) sample_ts 1 2 sample_pair_db = Inr d'
    \<and> sample_pair_signal 1 \<in> set (db_account_transfer_signals d')
    \<and> sample_pair_signal 2 \<in> set (db_account_transfer_signals d')
    \<and> ats_principal (sample_pair_signal 1) = 700 \<and> ats_principal (sample_pair_signal 2) = 700"
proof -
  obtain d' where d': "process_finalization_requests sample_env (\<lambda>_. False) sample_ts 1 2 sample_pair_db = Inr d'"
    and s: "db_account_transfer_signals d' = [sample_pair_signal 1, sample_pair_signal 2]"
    using sample_pair_run by blast
  have account: "get_account 1 2 sample_pair_db = Some sample_pair_account"
    by (simp add: get_account_def get_account_instance_def get_account_row_def sample_pair_db_def tbl_lookup_def
        is_deleted_def sample_pair_account_def)
  have "ats_principal (sample_pair_signal n) = 700" if "sample_pair_signal n \<in> set (db_account_transfer_signals d')" for n
    using batch_signal_principal [OF d' account that]
    by (simp add: sample_pair_db_def empty_db_def sample_pair_account_def lock_amount_def sample_account_def
        sample_pair_signal_def account_transfer_signal_of_def contain_id int_bounds)
  then show ?thesis using d' s by auto
qed

section \<open>Properties\<close>

lemma finalization_result:
  assumes run: "process_finalization_requests E skip ts i j d = Inr d'" and wf: "db_wf d"
    and a: "get_account i j d = Some a"
  shows "\<exists>outs F b. map (\<lambda>x. (out_fr x, out_pt x)) outs = finalization_pairs skip i j d
    \<and> (\<forall>x \<in> set outs. outcome_ok x)
    \<and> db_finalization_requests d'
        = [fr \<leftarrow> db_finalization_requests d. fr \<notin> set (handled_finalizations skip i j d)]
    \<and> db_prepared_transfers d' = [pt \<leftarrow> db_prepared_transfers d. pt \<notin> out_pt ` set outs]
    \<and> db_finalized_transfer_signals d' = db_finalized_transfer_signals d @ F \<and> list_all2 (reports ts) F outs
    \<and> (finalization_pairs skip i j d = [] \<or> (\<exists>bal n. Account_calc_current_balance E a ts = Inr bal \<and> dec_floor bal = Inr n
         \<and> judged E ts (acc_interest_rate a) (n - get_min_account_balance j) (acc_total_locked_amount a) F
              (finalization_pairs skip i j d)))
    \<and> db_pending_balance_change_signals d' = db_pending_balance_change_signals d
          @ number_changes (db_next_change_id d) (change_signals ts outs)
    \<and> get_account_row i j d' = Some b \<and> finalized_account E ts d d' a b (total out_amount outs)"
proof (cases "handled_finalizations skip i j d = []")
  case True
  have eq: "d' = d" by (rule process_finalization_requests_idle [OF run True])
  have "finalization_pairs skip i j d = []"
    by (simp add: finalization_pairs_def True join_prepared_transfers_def)
  then show ?thesis using True eq get_account_SomeD [OF a]
    by (intro exI [of _ "[]"] exI [of _ a]) (simp add: finalized_account_def)
next
  case False
  obtain outs F T b t where
    d': "d' = d\<lparr>db_finalization_requests :=
          [fr \<leftarrow> db_finalization_requests d. fr \<notin> set (handled_finalizations skip i j d)],
        db_prepared_transfers := [pt \<leftarrow> db_prepared_transfers d. pt \<notin> out_pt ` set outs],
        db_finalized_transfer_signals := db_finalized_transfer_signals d @ F,
        db_account_transfer_signals := T,
        db_pending_balance_change_signals := db_pending_balance_change_signals d
          @ number_changes (db_next_change_id d) (change_signals ts outs),
        db_next_change_id := db_next_change_id d + int (length (change_signals ts outs)),
        db_accounts := t\<rparr>"
    and outs: "map (\<lambda>x. (out_fr x, out_pt x)) outs = finalization_pairs skip i j d"
      "\<forall>x \<in> set outs. outcome_ok x" "list_all2 (reports ts) F outs"
    and t: "tbl_update account_pk account_ok b (db_accounts d) = Inr t" and "account_fits b"
    and b: "finalized_account E ts d d' a b (total out_amount outs)"
    and judged: "\<exists>bal n. Account_calc_current_balance E a ts = Inr bal \<and> dec_floor bal = Inr n
       \<and> judged E ts (acc_interest_rate a) (n - get_min_account_balance j) (acc_total_locked_amount a) F
            (finalization_pairs skip i j d)"
    by (rule process_finalization_requests_InrD [OF run wf False a])
  have row: "get_account_row i j d = Some a" using get_account_SomeD [OF a] by simp
  have "account_pk b = (i, j)"
    using b get_account_row_pk [OF wf row] by (simp add: finalized_account_def account_pk_def)
  then have "get_account_row i j d' = Some b"
    using row accs.lookup_upd [OF db_wf_accs [OF wf] t, of "(i, j)"] by (simp add: d' get_account_row_def)
  then show ?thesis using outs b judged
    by (intro exI [of _ outs] exI [of _ F] exI [of _ b]) (simp add: d')
qed

text \<open>A transfer in time whose committed amount is reserved is committed, whatever is expendable.\<close>

text \<open>
  The verdict on one request, spelled out: \<open>c\<close> is the requested amount and \<open>x\<close> what the sender can expend
  besides the locked amount. A batch is judged fairly when each request gets its verdict at its turn.
\<close>

definition fair_verdict :: "env \<Rightarrow> datetime \<Rightarrow> pyfloat \<Rightarrow> int \<Rightarrow> prepared_transfer \<Rightarrow> int \<Rightarrow> pystr \<Rightarrow> bool" where
  "fair_verdict E ts r x pt c code \<longleftrightarrow>
     (if c = 0 then code = lit ''OK''
      else if pt_deadline pt < ts \<or> flt r (pt_min_interest_rate pt) then code = lit ''TERMINATED''
      else if c \<le> x + pt_locked_amount pt then code = lit ''OK''
      else get_is_reserved E pt c ts = Inr True \<and> code = lit ''OK''
        \<or> get_is_reserved E pt c ts = Inr False \<and> code = lit ''INSUFFICIENT_AVAILABLE_AMOUNT'')"

fun fairly_judged :: "env \<Rightarrow> datetime \<Rightarrow> pyfloat \<Rightarrow> int \<Rightarrow> int \<Rightarrow> finalized_transfer_signal list \<Rightarrow>
    (finalization_request \<times> prepared_transfer) list \<Rightarrow> bool" where
  "fairly_judged E ts r x t (s # F) ((fr, pt) # ps) \<longleftrightarrow>
     fair_verdict E ts r (x - t) pt (fr_committed_amount fr) (fts_status_code s)
     \<and> fts_committed_amount s = (if fts_status_code s = lit ''OK'' then fr_committed_amount fr else 0)
     \<and> fts_total_locked_amount s = max 0 (t - pt_locked_amount pt)
     \<and> fairly_judged E ts r (x - fts_committed_amount s) (fts_total_locked_amount s) F ps"
| "fairly_judged E ts r x t F ps \<longleftrightarrow> F = [] \<and> ps = []"

lemma status_fair: "calc_status_code E pt c x r ts = Inr code \<Longrightarrow> fair_verdict E ts r x pt c code"
  by (auto simp: calc_status_code_def fair_verdict_def monad_simps get_is_expendable_def SC_OK_def SC_TIMEOUT_def
      SC_TOO_LOW_INTEREST_RATE_def SC_INSUFFICIENT_AVAILABLE_AMOUNT_def split: if_splits)

lemma judged_fairly: "judged E ts r x t F ps \<Longrightarrow> fairly_judged E ts r x t F ps"
  by (induction E ts r x t F ps rule: judged.induct) (auto simp: status_fair SC_OK_def)

lemma judged_reserved:
  assumes "judged E ts r x t F ps" and "(fr, pt) \<in> set ps"
    and "\<And>x. calc_status_code E pt (fr_committed_amount fr) x r ts = Inr SC_OK"
    and "length F = length ps"
  shows "\<exists>k < length ps. ps ! k = (fr, pt) \<and> fts_status_code (F ! k) = SC_OK
    \<and> fts_committed_amount (F ! k) = fr_committed_amount fr"
  using assms
proof (induction E ts r x t F ps rule: judged.induct)
  case (1 E ts r x t s F fr' pt' ps)
  show ?case
  proof (cases "(fr', pt') = (fr, pt)")
    case True
    then show ?thesis using 1 by (intro exI [of _ 0]) auto
  next
    case False
    then obtain k where "k < length ps \<and> ps ! k = (fr, pt) \<and> fts_status_code (F ! k) = SC_OK
        \<and> fts_committed_amount (F ! k) = fr_committed_amount fr"
      using 1 by auto
    then show ?thesis by (intro exI [of _ "Suc k"]) simp
  qed
qed auto

lemma fmul_float_1: "fmul (float_of_int n) (Fin 1) = float_of_int n"
  by (auto simp: float_of_int_def rnd64_def round53_idem)

lemma reserved_status:
  assumes "0 \<le> c" and "ts \<le> pt_deadline pt" and "\<not> flt r (pt_min_interest_rate pt)"
    and "get_is_reserved M pt c ts = Inr True"
  shows "calc_status_code M pt c x r ts = Inr SC_OK"
  using assms by (simp add: calc_status_code_def)

lemma sample_finalization_committed:
  assumes "process_finalization_requests sample_env (\<lambda>_. False) sample_ts 1 2 sample_finalization_db = Inr d'"
  shows "\<exists>s. db_finalized_transfer_signals d' = [s] \<and> fts_status_code s = SC_OK \<and> fts_committed_amount s = 600
    \<and> fts_total_locked_amount s = 0"
proof -
  let ?a = "lock_amount 600 (sample_account 2 1000)"
  obtain F bal n where F: "db_finalized_transfer_signals d' = F"
    and bal: "Account_calc_current_balance sample_env ?a sample_ts = Inr bal" "dec_floor bal = Inr n"
    and j: "judged sample_env sample_ts (acc_interest_rate ?a) (n - get_min_account_balance 2)
      (acc_total_locked_amount ?a) F [(sample_finalization, sample_row)]"
    using finalization_result [OF assms sample_finalization_invariant(1) sample_finalization_account]
    unfolding sample_finalization_pairs sample_finalization_tables by (elim exE conjE disjE) (simp, rule that, simp_all)
  have n: "n = 1000" using bal dec_floor_of_int by (auto simp: sample_balance)
  have a: "acc_interest_rate ?a = Fin 0" "acc_total_locked_amount ?a = 600" by (simp_all add: int_bounds)
  have "calc_status_code sample_env sample_row 600 400 (Fin 0) sample_ts = Inr SC_OK"
    by (simp add: calc_status_code_def sample_row_def prepared_transfer_row_def sample_request_def get_is_expendable_def)
  with j show ?thesis unfolding n a
    by (cases F) (auto simp: F get_min_account_balance_def ROOT_CREDITOR_ID_def sample_finalization_def sample_row_def
        prepared_transfer_row_def)
qed

lemma number_changes_mem: "s \<in> set (number_changes n S) \<Longrightarrow> \<exists>r \<in> set S. \<exists>m. s = r\<lparr>pbs_change_id := m\<rparr>"
  by (induction S arbitrary: n) auto

text \<open>
  C3. Finalizing transfers conserves money: every transfer that is reported as committed sends one
  \<open>PendingBalanceChangeSignal\<close> from the sender to the recipient of that transfer, with the committed amount
  (positive) as its delta; nothing else is sent, and what leaves the sender's principal is the sum of
  those deltas (the principal is contained in the 64-bit range, which the sender's status flags record).
\<close>

theorem finalization_conserves_money:
  assumes "db_wf d" and "process_finalization_requests E skip ts i j d = Inr d'"
    and "get_account i j d = Some a"
  shows "\<exists>b signals outs F. map (\<lambda>x. (out_fr x, out_pt x)) outs = finalization_pairs skip i j d
    \<and> db_finalized_transfer_signals d' = db_finalized_transfer_signals d @ F \<and> list_all2 (reports ts) F outs
    \<and> db_pending_balance_change_signals d' = db_pending_balance_change_signals d @ signals
    \<and> list_all2 (\<lambda>s x. pbs_debtor_id s = i \<and> pbs_other_creditor_id s = j
         \<and> pbs_creditor_id s = pt_recipient_creditor_id (out_pt x)
         \<and> pbs_principal_delta s = out_amount x \<and> 0 < pbs_principal_delta s
         \<and> pbs_coordinator_type s = pt_coordinator_type (out_pt x)
         \<and> pbs_transfer_note_format s = fr_transfer_note_format (out_fr x)
         \<and> pbs_transfer_note s = fr_transfer_note (out_fr x) \<and> pbs_committed_at s = ts)
       signals [x \<leftarrow> outs. 0 < out_amount x]
    \<and> get_account_row i j d' = Some b
    \<and> acc_principal b = (if total pbs_principal_delta signals = 0 then acc_principal a
        else contain_principal_overflow (acc_principal a - total pbs_principal_delta signals))"
proof -
  obtain outs F b where r: "map (\<lambda>x. (out_fr x, out_pt x)) outs = finalization_pairs skip i j d"
    "\<forall>x \<in> set outs. outcome_ok x"
    "db_finalized_transfer_signals d' = db_finalized_transfer_signals d @ F" "list_all2 (reports ts) F outs"
    "db_pending_balance_change_signals d' = db_pending_balance_change_signals d
          @ number_changes (db_next_change_id d) (change_signals ts outs)"
    "get_account_row i j d' = Some b" "finalized_account E ts d d' a b (total out_amount outs)"
    using finalization_result [OF assms(2,1,3)] by blast
  have "pt_of (i, j) (out_pt x)" if "x \<in> set [x \<leftarrow> outs. 0 < out_amount x]" for x
  proof -
    have "(out_fr x, out_pt x) \<in> set (finalization_pairs skip i j d)" using that by (force simp flip: r(1))
    then show ?thesis using finalization_pairs_props(2) [OF assms(1), of skip i j] by fastforce
  qed
  then have "list_all2 (\<lambda>s x. pbs_debtor_id s = i \<and> pbs_other_creditor_id s = j
         \<and> pbs_creditor_id s = pt_recipient_creditor_id (out_pt x)
         \<and> pbs_principal_delta s = out_amount x \<and> 0 < pbs_principal_delta s
         \<and> pbs_coordinator_type s = pt_coordinator_type (out_pt x)
         \<and> pbs_transfer_note_format s = fr_transfer_note_format (out_fr x)
         \<and> pbs_transfer_note s = fr_transfer_note (out_fr x) \<and> pbs_committed_at s = ts)
       (number_changes (db_next_change_id d) (change_signals ts outs)) [x \<leftarrow> outs. 0 < out_amount x]"
    by (intro list.rel_mono_strong [OF number_changes_pay]) (simp add: pays_recipient_def pt_of_def)
  then show ?thesis using r total_change_signals [OF r(2), of ts]
    by (intro exI [of _ b] exI [of _ "number_changes (db_next_change_id d) (change_signals ts outs)"]
        exI [of _ outs] exI [of _ F]) (simp add: finalized_account_def)
qed

theorem finalization_conserves_money_witness:
  "\<exists>d' b s. process_finalization_requests sample_env (\<lambda>_. False) sample_ts 1 2 sample_finalization_db = Inr d'
    \<and> get_account_row 1 2 d' = Some b \<and> acc_principal b = 400
    \<and> db_pending_balance_change_signals d' = [s] \<and> pbs_debtor_id s = 1 \<and> pbs_other_creditor_id s = 2
    \<and> pbs_creditor_id s = 3 \<and> pbs_principal_delta s = 600"
proof -
  obtain d' where d': "process_finalization_requests sample_env (\<lambda>_. False) sample_ts 1 2 sample_finalization_db = Inr d'"
    using sample_finalization_run by blast
  obtain f where f: "db_finalized_transfer_signals d' = [f]" "fts_committed_amount f = 600"
    using sample_finalization_committed [OF d'] by blast
  from finalization_conserves_money [OF sample_finalization_invariant(1) d' sample_finalization_account]
  obtain b signals outs F where r: "map (\<lambda>x. (out_fr x, out_pt x)) outs = [(sample_finalization, sample_row)]"
    "db_finalized_transfer_signals d' = [] @ F" "list_all2 (reports sample_ts) F outs"
    "db_pending_balance_change_signals d' = [] @ signals"
    "list_all2 (\<lambda>s x. pbs_debtor_id s = 1 \<and> pbs_other_creditor_id s = 2
         \<and> pbs_creditor_id s = pt_recipient_creditor_id (out_pt x)
         \<and> pbs_principal_delta s = out_amount x \<and> 0 < pbs_principal_delta s
         \<and> pbs_coordinator_type s = pt_coordinator_type (out_pt x)
         \<and> pbs_transfer_note_format s = fr_transfer_note_format (out_fr x)
         \<and> pbs_transfer_note s = fr_transfer_note (out_fr x) \<and> pbs_committed_at s = sample_ts)
       signals [x \<leftarrow> outs. 0 < out_amount x]"
    "get_account_row 1 2 d' = Some b"
    "acc_principal b = (if total pbs_principal_delta signals = 0 then acc_principal (lock_amount 600 (sample_account 2 1000))
        else contain_principal_overflow
          (acc_principal (lock_amount 600 (sample_account 2 1000)) - total pbs_principal_delta signals))"
    unfolding sample_finalization_pairs sample_finalization_tables by (elim exE conjE) (rule that; assumption)
  obtain x where x: "outs = [x]" "out_pt x = sample_row" using r(1) by auto
  have "out_amount x = 600" using r(2,3) f by (auto simp: x reports_def)
  then obtain s where "signals = [s]" "pbs_debtor_id s = 1" "pbs_other_creditor_id s = 2" "pbs_creditor_id s = 3"
      "pbs_principal_delta s = 600"
    using r(5) x(2) by (auto simp: x(1) list_all2_Cons2 sample_row_def prepared_transfer_row_def sample_request_def)
  moreover have "contain_principal_overflow 400 = 400" by (simp add: contain_id int_bounds)
  ultimately show ?thesis using r(4,6,7) d' by auto
qed

text \<open>
  C8. Every finalization request taken is removed; each one that matches a prepared transfer removes it
  and is reported by one \<open>FinalizedTransferSignal\<close> with the fields that \<open>reports\<close> lists: the IDs of
  the transfer and of its coordinator, the two times, and a committed amount that is the requested one if the
  status code is \<open>OK\<close> and 0 otherwise. The status codes are the verdicts spelled out in \<open>fair_verdict\<close> for the
  balance and the locks at the turn of each request, and the total locked amount is the one left then. Other
  requests and prepared transfers stay.
\<close>

theorem finalization_reports:
  assumes "db_wf d" and "process_finalization_requests E skip ts i j d = Inr d'"
    and "get_account i j d = Some a"
  shows "\<exists>outs F. map (\<lambda>x. (out_fr x, out_pt x)) outs = finalization_pairs skip i j d
    \<and> (\<forall>x \<in> set outs. out_amount x = (if out_code x = lit ''OK'' then fr_committed_amount (out_fr x) else 0))
    \<and> db_finalization_requests d' = [fr \<leftarrow> db_finalization_requests d.
        \<not> (fr_debtor_id fr = i \<and> fr_sender_creditor_id fr = j \<and> \<not> skip fr)]
    \<and> db_prepared_transfers d' = [pt \<leftarrow> db_prepared_transfers d. pt \<notin> out_pt ` set outs]
    \<and> db_finalized_transfer_signals d' = db_finalized_transfer_signals d @ F \<and> list_all2 (reports ts) F outs
    \<and> (outs = [] \<or> (\<exists>bal n. Account_calc_current_balance E a ts = Inr bal \<and> dec_floor bal = Inr n
         \<and> fairly_judged E ts (acc_interest_rate a) (n - get_min_account_balance j) (acc_total_locked_amount a) F
              (finalization_pairs skip i j d)))"
proof -
  have "[fr \<leftarrow> db_finalization_requests d. fr \<notin> set (handled_finalizations skip i j d)]
      = [fr \<leftarrow> db_finalization_requests d.
        \<not> (fr_debtor_id fr = i \<and> fr_sender_creditor_id fr = j \<and> \<not> skip fr)]"
    by (rule filter_cong) (auto simp: handled_finalizations_def finalization_requests_of_def)
  moreover obtain outs F where "map (\<lambda>x. (out_fr x, out_pt x)) outs = finalization_pairs skip i j d"
    "\<forall>x \<in> set outs. outcome_ok x"
    "db_finalization_requests d' = [fr \<leftarrow> db_finalization_requests d. fr \<notin> set (handled_finalizations skip i j d)]"
    "db_prepared_transfers d' = [pt \<leftarrow> db_prepared_transfers d. pt \<notin> out_pt ` set outs]"
    "db_finalized_transfer_signals d' = db_finalized_transfer_signals d @ F" "list_all2 (reports ts) F outs"
    "finalization_pairs skip i j d = [] \<or> (\<exists>bal n. Account_calc_current_balance E a ts = Inr bal \<and> dec_floor bal = Inr n
         \<and> judged E ts (acc_interest_rate a) (n - get_min_account_balance j) (acc_total_locked_amount a) F
              (finalization_pairs skip i j d))"
    using finalization_result [OF assms(2,1,3)] by blast
  ultimately show ?thesis by (intro exI [of _ outs] exI [of _ F]) (auto simp: outcome_ok_def SC_OK_def intro: judged_fairly)
qed

theorem finalization_reports_witness:
  "\<exists>d' s. process_finalization_requests sample_env (\<lambda>_. False) sample_ts 1 2 sample_finalization_db = Inr d'
    \<and> db_finalization_requests d' = [] \<and> db_prepared_transfers d' = [] \<and> db_finalized_transfer_signals d' = [s]
    \<and> fts_debtor_id s = 1 \<and> fts_sender_creditor_id s = 2 \<and> fts_transfer_id s = 101
    \<and> fts_committed_amount s = 600 \<and> fts_status_code s = SC_OK \<and> fts_total_locked_amount s = 0"
proof -
  obtain d' where d': "process_finalization_requests sample_env (\<lambda>_. False) sample_ts 1 2 sample_finalization_db = Inr d'"
    using sample_finalization_run by blast
  from finalization_reports [OF sample_finalization_invariant(1) d' sample_finalization_account]
  obtain outs F where r: "map (\<lambda>x. (out_fr x, out_pt x)) outs = [(sample_finalization, sample_row)]"
    "db_finalization_requests d' = [fr \<leftarrow> db_finalization_requests sample_finalization_db.
        \<not> (fr_debtor_id fr = 1 \<and> fr_sender_creditor_id fr = 2)]"
    "db_prepared_transfers d' = [pt \<leftarrow> [sample_row]. pt \<notin> out_pt ` set outs]"
    "db_finalized_transfer_signals d' = F" "list_all2 (reports sample_ts) F outs"
    unfolding sample_finalization_pairs sample_finalization_tables by (elim exE conjE) (rule that, simp_all)
  then obtain x where x: "outs = [x]" "out_pt x = sample_row" by auto
  then obtain s where "F = [s]" "reports sample_ts s x" using r(5) by (auto simp: list_all2_Cons2)
  then show ?thesis using d' r x sample_finalization_committed [OF d']
    by (auto simp: reports_def sample_finalization_db_def sample_finalization_def sample_row_def
        prepared_transfer_row_def sample_request_def)
qed

text \<open>
  C4. A finalization never spends money that is not there: with exact locks, what the account can still
  expend (balance less locks less minimum balance) is not negative afterwards, unless it was negative
  before, and then it is not smaller than it was.
\<close>

theorem finalization_spends_available:
  assumes "db_wf d" and "locks_agree d" and "process_finalization_requests E skip ts i j d = Inr d'"
    and "get_account i j d = Some a"
    and "Account_calc_current_balance E a ts = Inr bal" and "dec_floor bal = Inr n"
  shows "\<exists>b signals. get_account_row i j d' = Some b
    \<and> db_pending_balance_change_signals d' = db_pending_balance_change_signals d @ signals
    \<and> min 0 (n - acc_total_locked_amount a - get_min_account_balance j)
      \<le> n - total pbs_principal_delta signals - acc_total_locked_amount b - get_min_account_balance j"
proof -
  obtain outs b where r: "\<forall>x \<in> set outs. outcome_ok x"
    "db_pending_balance_change_signals d' = db_pending_balance_change_signals d
          @ number_changes (db_next_change_id d) (change_signals ts outs)"
    "get_account_row i j d' = Some b" "finalized_account E ts d d' a b (total out_amount outs)"
    using finalization_result [OF assms(3,1,4)] by blast
  have a: "a \<in> set (db_accounts d)" "acc_creditor_id a = j"
    using get_account_row_pk [OF assms(1)] get_account_SomeD [OF assms(4)] by blast+
  have "locks_of a (db_prepared_transfers d)"
      "acc_total_locked_amount a = locked_sum (account_pk a) (db_prepared_transfers d)"
    using assms(2) a(1) by (auto simp: locks_agree_def locks_of_def)
  then show ?thesis using r assms(5,6) total_change_signals [OF r(1), of ts] a(2)
    by (intro exI conjI) (auto simp: finalized_account_def)
qed

theorem finalization_spends_available_witness:
  "\<exists>d' b. process_finalization_requests sample_env (\<lambda>_. False) sample_ts 1 2 sample_finalization_db = Inr d'
    \<and> get_account_row 1 2 d' = Some b
    \<and> 0 \<le> 1000 - total pbs_principal_delta (db_pending_balance_change_signals d') - acc_total_locked_amount b"
proof -
  obtain d' where d': "process_finalization_requests sample_env (\<lambda>_. False) sample_ts 1 2 sample_finalization_db = Inr d'"
    using sample_finalization_run by blast
  from finalization_spends_available [OF sample_finalization_invariant(1,4) d' sample_finalization_account
      sample_finalization_balance dec_floor_of_int] d'
  show ?thesis by (auto simp: get_min_account_balance_def ROOT_CREDITOR_ID_def sample_finalization_tables)
qed

text \<open>
  C9. Finalizing transfers keeps the database well formed, the pending counts and locked amounts of all
  accounts in step with their prepared transfers (exactly, where they agreed before), and transfer IDs fresh.
\<close>

theorem finalization_invariant:
  assumes "process_finalization_requests E skip ts i j d = Inr d'"
    and "db_wf d" and "locks_within d" and "ids_fresh d"
  shows "db_wf d' \<and> locks_within d' \<and> ids_fresh d' \<and> (locks_agree d \<longrightarrow> locks_agree d')"
  using finalization_invariant_lemma [OF assms] .

theorem finalization_invariant_witness:
  "\<exists>d'. process_finalization_requests sample_env (\<lambda>_. False) sample_ts 1 2 sample_finalization_db = Inr d'
    \<and> db_wf d' \<and> locks_agree d'"
proof -
  obtain d' where d': "process_finalization_requests sample_env (\<lambda>_. False) sample_ts 1 2 sample_finalization_db = Inr d'"
    using sample_finalization_run by blast
  with finalization_invariant [OF d' sample_finalization_invariant(1,3,2)] sample_finalization_invariant(4)
  show ?thesis by blast
qed

text \<open>
  C13. \<open>process_finalization_requests\<close> does not raise: none of its assertions (the demurrage ratio is at
  most 1, committed amounts are not negative, a changed principal belongs to a loaded account) fails, given
  the documented behaviour of the C library, a finite balance and unused signal keys.
\<close>

theorem finalization_returns:
  assumes "libm_ok E" and "db_wf d" and "can_finalize E skip ts i j d"
  shows "\<exists>d'. process_finalization_requests E skip ts i j d = Inr d'"
  using process_finalization_requests_total [OF assms] .

theorem finalization_returns_witness:
  "\<exists>d'. process_finalization_requests sample_env (\<lambda>_. False) sample_ts 1 2 sample_finalization_db = Inr d'"
  by (rule finalization_returns [OF sample_env_ok sample_finalization_invariant(1) sample_can_finalize])

text \<open>
  C15. What has been secured can be spent: a request that arrives in time, at an interest rate that is not
  below the agreed one, and asks for no more than is reserved of the locked amount (the locked amount
  itself for transfers of the debtor, and for the others what the demurrage has left of it), is reported
  as committed in full, whatever else is in the batch and whatever the balance of the sender is.
\<close>

theorem reserved_amounts_committed:
  assumes "db_wf d" and "process_finalization_requests E skip ts i j d = Inr d'"
    and "get_account i j d = Some a" and "(fr, pt) \<in> set (finalization_pairs skip i j d)"
    and "ts \<le> pt_deadline pt" and "\<not> flt (acc_interest_rate a) (pt_min_interest_rate pt)"
    and "fr_committed_amount fr \<le> pt_locked_amount pt"
    and "j = ROOT_CREDITOR_ID \<or> (\<exists>k ratio. calc_k E (pt_demurrage_rate pt) = Inr k
      \<and> math_exp E (fmul k (pymax (Fin 0) (total_seconds (ts - pt_prepared_at pt)))) = Inr ratio \<and> fle ratio (Fin 1)
      \<and> fle (float_of_int (fr_committed_amount fr)) (fmul (float_of_int (pt_locked_amount pt)) ratio))"
  shows "\<exists>s F. db_finalized_transfer_signals d' = db_finalized_transfer_signals d @ F \<and> s \<in> set F
    \<and> fts_debtor_id s = i \<and> fts_sender_creditor_id s = j \<and> fts_transfer_id s = pt_transfer_id pt
    \<and> fts_status_code s = SC_OK \<and> fts_committed_amount s = fr_committed_amount fr"
proof -
  let ?ps = "finalization_pairs skip i j d"
  obtain outs F n where r: "map (\<lambda>x. (out_fr x, out_pt x)) outs = ?ps" "list_all2 (reports ts) F outs"
    "db_finalized_transfer_signals d' = db_finalized_transfer_signals d @ F"
    and judged: "judged E ts (acc_interest_rate a) (n - get_min_account_balance j) (acc_total_locked_amount a) F ?ps"
    using finalization_result [OF assms(2,1,3)] assms(4) by (elim exE conjE) (auto intro: that)
  have pt: "pt_debtor_id pt = i" "pt_sender_creditor_id pt = j"
    using finalization_pairs_props(2) [OF assms(1), of skip i j] assms(4) by (auto simp: pt_of_def)
  have len: "length F = length ?ps" using r(1,2) by (metis length_map list_all2_lengthD)
  have c: "0 \<le> fr_committed_amount fr"
    using assms(1,4) by (auto simp: finalization_pairs_def handled_finalizations_def finalization_requests_of_def
        db_wf_def tbl_wf_def list_all_iff finalization_request_ok_def dest!: join_mem)
  have "get_is_reserved E pt (fr_committed_amount fr) ts = Inr True"
    using assms(7,8) pt by (auto simp: get_is_reserved_def fmul_float_1)
  from judged_reserved [OF judged assms(4) reserved_status [OF c assms(5,6) this] len]
  obtain k where k: "k < length ?ps" "?ps ! k = (fr, pt)" "fts_status_code (F ! k) = SC_OK"
    "fts_committed_amount (F ! k) = fr_committed_amount fr" by blast
  have "out_pt (outs ! k) = pt" using k(1,2) by (simp flip: r(1))
  then have "fts_debtor_id (F ! k) = i \<and> fts_sender_creditor_id (F ! k) = j
      \<and> fts_transfer_id (F ! k) = pt_transfer_id pt"
    using list_all2_nthD [OF r(2), of k] k(1) len pt by (simp add: reports_def)
  then show ?thesis using r(3) k len by (metis nth_mem)
qed

theorem reserved_amounts_committed_witness:
  "\<exists>d' s. process_finalization_requests sample_env (\<lambda>_. False) sample_ts 1 2 sample_finalization_db = Inr d'
    \<and> s \<in> set (db_finalized_transfer_signals d') \<and> fts_transfer_id s = 101 \<and> fts_status_code s = SC_OK
    \<and> fts_committed_amount s = 600"
proof -
  obtain d' where d': "process_finalization_requests sample_env (\<lambda>_. False) sample_ts 1 2 sample_finalization_db = Inr d'"
    using sample_finalization_run by blast
  have row: "sample_ts \<le> pt_deadline sample_row" "pt_prepared_at sample_row = sample_ts"
      "pt_min_interest_rate sample_row = Fin (- 100)" "pt_locked_amount sample_row = 600"
      "pt_transfer_id sample_row = 101" "pt_demurrage_rate sample_row = Fin (- 50)"
      "fr_committed_amount sample_finalization = 600"
    by (simp_all add: sample_row_def prepared_transfer_row_def sample_request_def INTEREST_RATE_FLOOR_def
        sample_finalization_def)
  obtain k where k: "calc_k sample_env (Fin (- 50)) = Inr (Fin k)"
    using calc_k_valid [OF sample_env_ok, of "Fin (- 50)"] by (auto simp: valid_rate_def INTEREST_RATE_FLOOR_def
        INTEREST_RATE_CEIL_def)
  have "fle (float_of_int 600) (fmul (float_of_int 600) (Fin 1))" using rnd64_of_int [of 600] by (simp add: float_of_int_def)
  then obtain s where "s \<in> set (db_finalized_transfer_signals d')" "fts_transfer_id s = 101"
      "fts_status_code s = SC_OK" "fts_committed_amount s = 600"
    using reserved_amounts_committed [OF sample_finalization_invariant(1) d' sample_finalization_account,
        of sample_finalization sample_row] k math_exp_0 [OF sample_env_ok]
    by (auto simp: row sample_finalization_pairs total_seconds_0 pymax_def sample_finalization_tables)
  then show ?thesis using d' by blast
qed

end
