(* ===== verification/BalanceChangesProps.thy ===== *)
theory BalanceChangesProps
  imports BalanceChanges DueInterest
begin

text \<open>
  The properties of balance changes: a change is registered and applied once, applying the
  queue of an account adds exactly the queued amounts, the transfers it reports are numbered
  without gaps and report the running principal, the invariants are kept, and nothing in
  \<open>process_pending_balance_changes\<close> can raise.
\<close>

section \<open>No step raises\<close>

definition applicable :: "datetime \<Rightarrow> pending_balance_change \<Rightarrow> bool" where
  "applicable ts c \<longleftrightarrow> \<bar>ts - pbc_committed_at c\<bar> \<le> 5 * 10 ^ 15"

text \<open>What the account that is credited has to satisfy; \<open>n\<close> is the number of changes.\<close>

definition creditable :: "env \<Rightarrow> datetime \<Rightarrow> nat \<Rightarrow> account \<Rightarrow> db \<Rightarrow> bool" where
  "creditable E ts n a d \<longleftrightarrow> account_fits a \<and> ats_free a d
     \<and> is_int32 (increment_seqnum E (acc_last_change_seqnum a))
     \<and> 0 \<le> acc_status_flags a \<and> acc_status_flags a \<le> 3
     \<and> acc_last_transfer_number a + int n \<le> MAX_INT64
     \<and> valid_rate (acc_previous_interest_rate a) \<and> valid_rate (acc_interest_rate a)
     \<and> (\<exists>x. acc_interest a = Fin x) \<and> \<bar>ts - acc_last_change_ts a\<bar> \<le> 10 ^ 16
     \<and> \<bar>ts - acc_last_interest_rate_change_ts a\<bar> \<le> 2 ^ 98"

text \<open>
  A row that is not there is created: its keys must fit, and the first transfer ID is made of the day of
  creation. A row that is marked as deleted is touched once more, and an account update with its
  REAL columns is written.
\<close>

definition creatable :: "env \<Rightarrow> datetime \<Rightarrow> datetime \<Rightarrow> nat \<Rightarrow> int \<Rightarrow> int \<Rightarrow> db \<Rightarrow> bool" where
  "creatable E ts its n i j d \<longleftrightarrow> is_int64 i \<and> is_int64 j
     \<and> 0 \<le> date_to_int24 E (date_of ts) \<and> date_to_int24 E (date_of ts) < 2 ^ 23
     \<and> store_real E (Fin 0) = Some (Fin 0) \<and> is_int32 (increment_seqnum E 0)
     \<and> ats_free (new_account E i j (date_of ts) its) d \<and> int n \<le> MAX_INT64
     \<and> \<bar>ts - its\<bar> \<le> 10 ^ 16 \<and> \<bar>ts - T0\<bar> \<le> 2 ^ 98"

definition revivable :: "env \<Rightarrow> account \<Rightarrow> bool" where
  "revivable E a \<longleftrightarrow> is_int32 (increment_seqnum E (increment_seqnum E (acc_last_change_seqnum a)))
     \<and> store_real E (acc_interest_rate a) \<noteq> None \<and> store_real E (acc_negligible_amount a) \<noteq> None"

definition can_apply ::
    "env \<Rightarrow> (pending_balance_change \<Rightarrow> bool) \<Rightarrow> datetime \<Rightarrow> datetime \<Rightarrow> int \<Rightarrow> int \<Rightarrow> db \<Rightarrow> bool" where
  "can_apply E skip ts its i j d \<longleftrightarrow>
     (let cs = handled_changes skip i j d in
       (\<forall>c \<in> set cs. applicable ts c)
       \<and> (case get_account_row i j d of
            None \<Rightarrow> creatable E ts its (length cs) i j d
          | Some a \<Rightarrow> creditable E ts (length cs) a d \<and> (is_deleted a \<longrightarrow> revivable E a)))"

lemma find_snoc: "find P xs = None \<Longrightarrow> P y \<Longrightarrow> find P (xs @ [y]) = Some y"
  by (induction xs) (auto split: if_splits)

lemma add_account_update_signal_total:
  "store_real E (aus_interest_rate s) \<noteq> None \<Longrightarrow> store_real E (aus_negligible_amount s) \<noteq> None \<Longrightarrow>
   \<exists>x. add_account_update_signal E s d
     = Inr (d\<lparr>db_account_update_signals := db_account_update_signals d @ [x]\<rparr>)"
  by (auto simp: add_account_update_signal_def storeR_def)

text \<open>In each of the three cases an account is loaded that can be credited.\<close>

lemma created_total:
  assumes can: "creatable E ts its n i j d" and new: "get_account_row i j d = None"
  shows "\<exists>a d1 old. lock_or_create_account E i j ts its d = Inr (a, d1) \<and> creditable E ts n a d1 \<and> account_ok a
    \<and> account_pk a = (i, j) \<and> get_account_row i j d1 = Some old \<and> acc_interest_rate a = acc_interest_rate old
    \<and> acc_previous_interest_rate a = acc_previous_interest_rate old
    \<and> acc_negligible_amount a = acc_negligible_amount old"
proof -
  let ?n = "new_account E i j (date_of ts) its"
  let ?d = "d\<lparr>db_accounts := db_accounts d @ [?n]\<rparr>"
  let ?a = "?n\<lparr>acc_last_heartbeat_ts := ts, acc_pending_account_update := False\<rparr>"
  note can' = can [unfolded creatable_def]
  have "push_bit 40 (date_to_int24 E (date_of ts)) \<le> 2 ^ 40 * (2 ^ 23 - 1)" using can' by (simp add: push_bit_eq_mult)
  moreover have "0 \<le> push_bit 40 (date_to_int24 E (date_of ts))" using can' by (simp add: push_bit_eq_mult)
  ultimately have id: "is_int64 (push_bit 40 (date_to_int24 E (date_of ts)))" "0 \<le> push_bit 40 (date_to_int24 E (date_of ts))"
    by (simp_all add: is_int64_def int_bounds del: push_bit_nonnegative_int_iff)
  have zero: "is_int64 0" "is_int32 0" by (simp_all add: is_int64_def is_int32_def int_bounds)
  have fits: "account_fits ?n" "account_ok ?n"
    using can' id zero by (simp_all add: account_fits_def account_ok_def new_account_def MIN_INT64_def
        pg_le_def INTEREST_RATE_FLOOR_def INTEREST_RATE_CEIL_def)
  have "flush_new_account E ?n = Inr ?n"
    using can' by (simp add: flush_new_account_def storeR_def new_account_def)
  moreover have "account_pk ?n = (i, j)" by (simp add: new_account_def account_pk_def)
  ultimately have "insert_account E ?n d = Inr ?d"
    using fits new by (simp add: insert_account_def dataR_def tbl_insert_def get_account_row_def)
  then have create: "create_account E i j ts its d = Inr (?n, ?d)"
    using can' by (simp add: create_account_def is_int64_def Let_def)
  obtain x where "add_account_update_signal E (account_update_signal_of ?a) ?d
      = Inr (?d\<lparr>db_account_update_signals := db_account_update_signals ?d @ [x]\<rparr>)"
    using add_account_update_signal_total [of E "account_update_signal_of ?a" ?d] can'
    by (auto simp: account_update_signal_of_def new_account_def)
  then have "insert_account_update_signal E ?n ts ?d
      = Inr (?a, ?d\<lparr>db_account_update_signals := db_account_update_signals ?d @ [x]\<rparr>)"
    by (simp add: insert_account_update_signal_def Let_def)
  moreover have "\<not> is_deleted ?a" by (simp add: is_deleted_def new_account_def)
  ultimately have "lock_or_create_account E i j ts its d
      = Inr (?a, ?d\<lparr>db_account_update_signals := db_account_update_signals ?d @ [x]\<rparr>)"
    using new create by (simp add: lock_or_create_account_def get_account_instance_def)
  moreover have "creditable E ts n ?a (?d\<lparr>db_account_update_signals := db_account_update_signals ?d @ [x]\<rparr>)"
    using can' fits(1) by (simp add: creditable_def ats_free_def account_fits_def new_account_def valid_rate_def)
  moreover have "account_ok ?a" using fits(2) by (simp add: account_ok_def)
  moreover have "get_account_row i j (?d\<lparr>db_account_update_signals := db_account_update_signals ?d @ [x]\<rparr>) = Some ?n"
    using new \<open>account_pk ?n = (i, j)\<close> by (simp add: get_account_row_def tbl_lookup_def find_snoc)
  ultimately show ?thesis using \<open>account_pk ?n = (i, j)\<close>
    by (intro exI [of _ ?a] exI [of _ "?d\<lparr>db_account_update_signals := db_account_update_signals ?d @ [x]\<rparr>"]
        exI [of _ ?n]) (simp add: account_pk_def)
qed

lemma revived_total:
  assumes can: "creditable E ts n r d" "revivable E r" and wf: "db_wf d"
    and row: "get_account_row i j d = Some r" "is_deleted r"
  shows "\<exists>a d1 old. lock_or_create_account E i j ts its d = Inr (a, d1) \<and> creditable E ts n a d1 \<and> account_ok a
    \<and> account_pk a = (i, j) \<and> get_account_row i j d1 = Some old \<and> acc_interest_rate a = acc_interest_rate old
    \<and> acc_previous_interest_rate a = acc_previous_interest_rate old
    \<and> acc_negligible_amount a = acc_negligible_amount old"
proof -
  let ?t = "touch E ts (r\<lparr>acc_status_flags := acc_status_flags r AND NOT STATUS_DELETED_FLAG\<rparr>)"
  let ?a = "?t\<lparr>acc_last_heartbeat_ts := ts, acc_pending_account_update := False\<rparr>"
  note pk = get_account_row_pk [OF wf row(1)]
  obtain x where "add_account_update_signal E (account_update_signal_of ?a) d
      = Inr (d\<lparr>db_account_update_signals := db_account_update_signals d @ [x]\<rparr>)"
    using add_account_update_signal_total [of E "account_update_signal_of ?a" d] can(2)
    by (auto simp: account_update_signal_of_def touch_def revivable_def)
  then have "lock_or_create_account E i j ts its d
      = Inr (?a, d\<lparr>db_account_update_signals := db_account_update_signals d @ [x]\<rparr>)"
    using row by (simp add: lock_or_create_account_def get_account_instance_def insert_account_update_signal_def Let_def)
  note lock = this
  have "acc_status_flags r \<in> {0, 1, 2, 3}" using can(1) by (auto simp: creditable_def)
  then have "acc_status_flags ?a \<in> {0, 2}" by (auto simp: touch_def STATUS_DELETED_FLAG_def)
  moreover have "0 \<le> f \<and> f \<le> 3 \<and> is_int32 f" if "f \<in> {0, 2 :: int}" for f
    using that by (auto simp: is_int32_def int_bounds)
  ultimately have flags: "0 \<le> acc_status_flags ?a" "acc_status_flags ?a \<le> 3" "is_int32 (acc_status_flags ?a)"
    by blast+
  have "\<bar>ts - acc_last_change_ts ?a\<bar> \<le> 10 ^ 16" using can(1) by (auto simp: creditable_def touch_def max_def)
  then have "creditable E ts n ?a (d\<lparr>db_account_update_signals := db_account_update_signals d @ [x]\<rparr>)"
    using can flags by (simp add: creditable_def revivable_def ats_free_def account_fits_def touch_def)
  note lock this
  moreover have "account_ok ?a" using pk by (simp add: account_ok_def touch_def)
  moreover have "account_pk ?a = (i, j)" using pk by (simp add: account_pk_def touch_def)
  moreover have "get_account_row i j (d\<lparr>db_account_update_signals := db_account_update_signals d @ [x]\<rparr>) = Some r"
    using row by (simp add: get_account_row_def)
  ultimately show ?thesis
    by (intro exI [of _ ?a] exI [of _ "d\<lparr>db_account_update_signals := db_account_update_signals d @ [x]\<rparr>"]
        exI [of _ r]) (simp add: touch_def)
qed

lemma lock_or_create_total:
  assumes wf: "db_wf d" and can: "can_apply E skip ts its i j d"
  shows "\<exists>a d1 old. lock_or_create_account E i j ts its d = Inr (a, d1)
    \<and> creditable E ts (length (handled_changes skip i j d)) a d1 \<and> account_ok a
    \<and> account_pk a = (i, j) \<and> get_account_row i j d1 = Some old \<and> acc_interest_rate a = acc_interest_rate old
    \<and> acc_previous_interest_rate a = acc_previous_interest_rate old
    \<and> acc_negligible_amount a = acc_negligible_amount old"
proof (cases "get_account_row i j d")
  case None
  then show ?thesis using created_total [of E ts its _ i j d] can by (simp add: can_apply_def Let_def)
next
  case (Some r)
  show ?thesis
  proof (cases "is_deleted r")
    case True
    then show ?thesis using revived_total [OF _ _ wf Some] can Some by (simp add: can_apply_def Let_def)
  next
    case False
    then have "lock_or_create_account E i j ts its d = Inr (r, d)"
      using Some by (simp add: lock_or_create_account_def get_account_instance_def)
    then show ?thesis using get_account_row_pk [OF wf Some] can Some
      by (auto simp: can_apply_def Let_def account_pk_def)
  qed
qed

text \<open>What the loop does to the account object: only its transfer number and its last transfer.\<close>

definition same_but_credited :: "account \<Rightarrow> account \<Rightarrow> bool" where
  "same_but_credited a b \<longleftrightarrow>
     b = a\<lparr>acc_last_transfer_number := acc_last_transfer_number b,
           acc_last_transfer_committed_at := acc_last_transfer_committed_at b\<rparr>"

lemma same_but_credited_refl [simp]: "same_but_credited a a"
  by (simp add: same_but_credited_def)

lemma same_but_credited_trans: "same_but_credited a b \<Longrightarrow> same_but_credited b c \<Longrightarrow> same_but_credited a c"
  unfolding same_but_credited_def by (cases a; cases b; cases c) simp

lemma same_but_credited_eqs:
  assumes "same_but_credited a b"
  shows "acc_interest_rate b = acc_interest_rate a" "acc_previous_interest_rate b = acc_previous_interest_rate a"
    "acc_negligible_amount b = acc_negligible_amount a" "acc_debtor_id b = acc_debtor_id a"
    "acc_creditor_id b = acc_creditor_id a" "acc_status_flags b = acc_status_flags a"
    "acc_last_change_seqnum b = acc_last_change_seqnum a"
    "acc_last_interest_rate_change_ts b = acc_last_interest_rate_change_ts a"
    "Account_calc_current_balance E b ts = Account_calc_current_balance E a ts"
proof -
  obtain n m where b: "b = a\<lparr>acc_last_transfer_number := n, acc_last_transfer_committed_at := m\<rparr>"
    using assms unfolding same_but_credited_def by blast
  show "acc_interest_rate b = acc_interest_rate a" "acc_previous_interest_rate b = acc_previous_interest_rate a"
    "acc_negligible_amount b = acc_negligible_amount a" "acc_debtor_id b = acc_debtor_id a"
    "acc_creditor_id b = acc_creditor_id a" "acc_status_flags b = acc_status_flags a"
    "acc_last_change_seqnum b = acc_last_change_seqnum a"
    "acc_last_interest_rate_change_ts b = acc_last_interest_rate_change_ts a"
    "Account_calc_current_balance E b ts = Account_calc_current_balance E a ts"
    by (simp_all add: b Account_calc_current_balance_def)
qed

lemma change_loop_total:
  assumes "libm_ok E" and "valid_rate (acc_previous_interest_rate a)" "valid_rate (acc_interest_rate a)"
    and "\<bar>ts - acc_last_interest_rate_change_ts a\<bar> \<le> 2 ^ 98"
    and "\<forall>c \<in> set cs. applicable ts c \<and> pbc_principal_delta c \<noteq> 0"
    and "same_but_credited a (cl_account l)" and "ats_free (cl_account l) (cl_db l)"
  shows "\<exists>l'. foldR (change_loop_body E ts) cs l = Inr l' \<and> same_but_credited a (cl_account l')
    \<and> acc_last_transfer_number (cl_account l) \<le> acc_last_transfer_number (cl_account l')
    \<and> acc_last_transfer_number (cl_account l') \<le> acc_last_transfer_number (cl_account l) + int (length cs)"
  using assms(5-)
proof (induction cs arbitrary: l)
  case (Cons c cs)
  let ?a = "cl_account l"
  note eqs = same_but_credited_eqs [OF Cons.prems(2)]
  have near: "\<bar>ts - pbc_committed_at c\<bar> \<le> 5 * 10 ^ 15" using Cons.prems(1) by (simp add: applicable_def)
  moreover have "\<bar>acc_last_interest_rate_change_ts ?a - pbc_committed_at c\<bar> \<le> 2 ^ 99"
    using near assms(4) unfolding eqs by simp
  moreover have "valid_rate (acc_previous_interest_rate ?a)" "valid_rate (acc_interest_rate ?a)"
    using assms(2,3) unfolding eqs by simp_all
  ultimately obtain v where due: "calc_due_interest E ?a (pbc_principal_delta c) (pbc_committed_at c) ts = Inr v"
    using calc_due_interest_total [OF assms(1)] by blast
  have nz: "pbc_principal_delta c \<noteq> 0" using Cons.prems(1) by simp
  obtain b d' where sig: "insert_account_transfer_signal ?a (pbc_coordinator_type c)
               (pbc_other_creditor_id c) (pbc_committed_at c) (pbc_principal_delta c)
               (pbc_transfer_note_format c) (pbc_transfer_note c)
               (contain_principal_overflow (acc_principal ?a + (cl_principal_delta l + pbc_principal_delta c)))
               (cl_db l) = Inr (b, d')"
      "ats_free b d'" "acc_last_transfer_number ?a \<le> acc_last_transfer_number b"
      "acc_last_transfer_number b \<le> acc_last_transfer_number ?a + 1"
    using insert_account_transfer_signal_total [OF Cons.prems(3) nz] by blast
  have ab: "same_but_credited ?a b"
    using insert_account_transfer_signal_InrD [OF sig(1)] by (auto simp: same_but_credited_def)
  define m where "m = \<lparr>cl_account = b, cl_applied_change_pks = cl_applied_change_pks l @ [pending_balance_change_pk c],
       cl_principal_delta = cl_principal_delta l + pbc_principal_delta c, cl_interest_delta = fadd (cl_interest_delta l) v,
       cl_db = delete_pending_change c d'\<rparr>"
  have step: "change_loop_body E ts c l = Inr m"
    using due sig(1) by (simp add: change_loop_body_def Let_def m_def)
  have "ats_free (cl_account m) (cl_db m)"
    using sig(2) by (simp add: m_def ats_free_def delete_pending_change_def)
  moreover have "same_but_credited a (cl_account m)"
    using same_but_credited_trans [OF Cons.prems(2) ab] by (simp add: m_def)
  moreover have "\<forall>c \<in> set cs. applicable ts c \<and> pbc_principal_delta c \<noteq> 0" using Cons.prems(1) by simp
  moreover have "cl_account m = b" by (simp add: m_def)
  ultimately obtain l' where "foldR (change_loop_body E ts) cs m = Inr l'" "same_but_credited a (cl_account l')"
    "acc_last_transfer_number b \<le> acc_last_transfer_number (cl_account l')"
    "acc_last_transfer_number (cl_account l') \<le> acc_last_transfer_number b + int (length cs)"
    using Cons.IH [of m] by metis
  then show ?case using step sig(3,4) by (intro exI [of _ l']) simp
qed simp

lemma process_pending_total:
  assumes M: "libm_ok E" and wf: "db_wf d" and can: "can_apply E skip ts its i j d"
  shows "\<exists>d'. process_pending_balance_changes E skip ts its i j d = Inr d'"
proof (cases "handled_changes skip i j d = []")
  case True
  then show ?thesis by (simp add: process_pending_balance_changes_def handled_changes_def)
next
  case False
  let ?cs = "handled_changes skip i j d"
  obtain a d1 old where lock: "lock_or_create_account E i j ts its d = Inr (a, d1)"
    and a: "creditable E ts (length ?cs) a d1" "account_ok a" "account_pk a = (i, j)"
    and old: "get_account_row i j d1 = Some old" "acc_interest_rate a = acc_interest_rate old"
      "acc_previous_interest_rate a = acc_previous_interest_rate old" "acc_negligible_amount a = acc_negligible_amount old"
    using lock_or_create_total [OF wf can] by blast
  from a(1) have ok: "account_fits a" "ats_free a d1"
      "is_int32 (increment_seqnum E (acc_last_change_seqnum a))" "0 \<le> acc_status_flags a" "acc_status_flags a \<le> 3"
      "acc_last_transfer_number a + int (length ?cs) \<le> MAX_INT64"
      "valid_rate (acc_previous_interest_rate a)" "valid_rate (acc_interest_rate a)"
      "\<exists>x. acc_interest a = Fin x" "\<bar>ts - acc_last_change_ts a\<bar> \<le> 10 ^ 16"
      "\<bar>ts - acc_last_interest_rate_change_ts a\<bar> \<le> 2 ^ 98"
    by (simp_all add: creditable_def)
  have deltas: "\<forall>c \<in> set ?cs. applicable ts c \<and> pbc_principal_delta c \<noteq> 0"
    using can pbcs.wf_ok [OF db_wf_pbcs [OF wf]]
    by (auto simp: can_apply_def Let_def handled_changes_def pending_changes_of_def pending_balance_change_ok_def)
  obtain l where loop: "foldR (change_loop_body E ts) ?cs \<lparr>cl_account = a, cl_applied_change_pks = [],
        cl_principal_delta = 0, cl_interest_delta = Fin 0, cl_db = d1\<rparr> = Inr l"
      and l: "same_but_credited a (cl_account l)" "acc_last_transfer_number a \<le> acc_last_transfer_number (cl_account l)"
        "acc_last_transfer_number (cl_account l) \<le> MAX_INT64"
    using change_loop_total [OF M ok(7,8,11) deltas, of "\<lparr>cl_account = a, cl_applied_change_pks = [],
        cl_principal_delta = 0, cl_interest_delta = Fin 0, cl_db = d1\<rparr>"] ok(2,6) by auto
  note eqs = same_but_credited_eqs [OF l(1)]
  obtain x where "Account_calc_current_balance E a ts = Inr (Fin x)"
    using balance_finite [OF M ok(8,10)] ok(9) unfolding Account_calc_current_balance_def by metis
  then obtain b where app: "apply_account_change E (cl_account l) (cl_principal_delta l) (cl_interest_delta l) ts = Inr b"
    using apply_account_change_total eqs(9) by metis
  have la: "account_fits (cl_account l)" "account_ok (cl_account l)"
  proof -
    obtain n m where b: "cl_account l = a\<lparr>acc_last_transfer_number := n, acc_last_transfer_committed_at := m\<rparr>"
      using l(1) unfolding same_but_credited_def by blast
    show "account_fits (cl_account l)" "account_ok (cl_account l)"
      using l(2,3) ok(1) a(2) by (auto simp: b account_fits_def account_ok_def is_int64_def int_bounds)
  qed
  note fits = apply_account_change_fits [OF app la, unfolded eqs, OF ok(3-5)]
  note frame = apply_account_change_frame [OF app]
  have "get_account_row (acc_debtor_id b) (acc_creditor_id b) (mark_applied (cl_applied_change_pks l) (cl_db l)) = Some old"
    using change_loop_summary [OF loop] old(1) a(3) frame by (auto simp: mark_applied_def get_account_row_def account_pk_def)
  then obtain d' where "save_account E b (mark_applied (cl_applied_change_pks l) (cl_db l)) = Inr d'"
    using save_account_same_rates_total fits frame eqs old by metis
  then show ?thesis using lock loop app False
    by (auto simp: process_pending_balance_changes_def handled_changes_def Let_def)
qed

section \<open>Registered keys\<close>

lemma insert_registered_noop:
  assumes "is_registered (i, j, n) d" and "is_int64 i" "is_int64 j" "is_int64 n"
  shows "insert_pending_balance_change i j n c ct fmt note cat delta cutoff d = Inr d"
proof -
  have "tbl_lookup registered_balance_change_pk (i, j, n) (db_registered_balance_changes d) \<noteq> None"
    using assms(1) unfolding tbl_lookup_None is_registered_def by auto
  then obtain r where "tbl_lookup registered_balance_change_pk (i, j, n) (db_registered_balance_changes d) = Some r"
    by blast
  then show ?thesis using assms(2-) by (simp add: insert_pending_balance_change_def is_int64_def)
qed

lemma insert_then_registered:
  assumes "insert_pending_balance_change i j n c ct fmt note cat delta cutoff d = Inr d1" and "cutoff \<le> cat"
  shows "is_registered (i, j, n) d1" "is_int64 i" "is_int64 j" "is_int64 n"
proof -
  show "is_int64 i" "is_int64 j" "is_int64 n" using assms(1)
    by (auto simp: insert_pending_balance_change_def monad_simps is_int64_def)
  show "is_registered (i, j, n) d1"
    using insert_pending_balance_change_InrD [OF assms(1)] assms(2)
    by (auto simp: is_registered_def registered_balance_change_pk_def)
qed

lemma insert_then_pending:
  assumes "insert_pending_balance_change i j n c ct fmt note cat delta cutoff d = Inr d1"
    and "cutoff \<le> cat" and "\<not> is_registered (i, j, n) d"
  shows "\<exists>p. db_pending_balance_changes d1 = db_pending_balance_changes d @ [p] \<and> pbc_debtor_id p = i
    \<and> pbc_other_creditor_id p = j \<and> pbc_change_id p = n \<and> pbc_creditor_id p = c \<and> pbc_principal_delta p = delta"
  using insert_pending_balance_change_InrD [OF assms(1)] assms(2,3) by auto

lemma process_keeps_registered:
  assumes run: "process_pending_balance_changes E skip ts its i c d = Inr d'" and wf: "db_wf d"
  shows "is_registered k d' \<longleftrightarrow> is_registered k d"
proof (cases "handled_changes skip i c d = []")
  case True
  then show ?thesis using process_pending_idle [OF run] by simp
next
  case False
  let ?mark = "\<lambda>r. if registered_balance_change_pk r
            \<in> pending_balance_change_pk ` set (handled_changes skip i c d) then r\<lparr>rbc_is_applied := True\<rparr> else r"
  have pk: "registered_balance_change_pk (?mark r) = registered_balance_change_pk r" for r
    by (simp add: registered_balance_change_pk_def)
  have "db_registered_balance_changes d' = map ?mark (db_registered_balance_changes d)"
    by (rule process_pending_InrD [OF run wf refl False]) simp
  then have "registered_balance_change_pk ` set (db_registered_balance_changes d')
      = (\<lambda>r. registered_balance_change_pk (?mark r)) ` set (db_registered_balance_changes d)"
    by (simp only: set_map image_image)
  then show ?thesis unfolding is_registered_def pk by simp
qed

text \<open>The register before and after: the handled changes become applied, nothing else changes.\<close>

definition marks_exactly ::
    "pending_balance_change list \<Rightarrow> registered_balance_change \<Rightarrow> registered_balance_change \<Rightarrow> bool" where
  "marks_exactly cs r s \<longleftrightarrow> rbc_debtor_id s = rbc_debtor_id r
     \<and> rbc_other_creditor_id s = rbc_other_creditor_id r \<and> rbc_change_id s = rbc_change_id r
     \<and> rbc_committed_at s = rbc_committed_at r
     \<and> (rbc_is_applied s \<longleftrightarrow> rbc_is_applied r \<or> (\<exists>c \<in> set cs. pbc_debtor_id c = rbc_debtor_id r
          \<and> pbc_other_creditor_id c = rbc_other_creditor_id r \<and> pbc_change_id c = rbc_change_id r))"

lemma marked_exactly:
  "list_all2 (marks_exactly cs) R (map (\<lambda>r. if registered_balance_change_pk r \<in> pending_balance_change_pk ` set cs
      then r\<lparr>rbc_is_applied := True\<rparr> else r) R)"
  by (auto simp: list_all2_map2 list_all2_same marks_exactly_def registered_balance_change_pk_def
      pending_balance_change_pk_def image_iff)

text \<open>Every handled change is in the register, so that it is applied there afterwards.\<close>

lemma handled_marked:
  assumes run: "process_pending_balance_changes E skip ts its i j d = Inr d'" and wf: "db_wf d"
    and c: "c \<in> set (handled_changes skip i j d)"
  shows "\<exists>r \<in> set (db_registered_balance_changes d').
    registered_balance_change_pk r = pending_balance_change_pk c \<and> rbc_is_applied r"
proof -
  let ?cs = "handled_changes skip i j d"
  let ?mark = "\<lambda>r. if registered_balance_change_pk r
            \<in> pending_balance_change_pk ` set ?cs then r\<lparr>rbc_is_applied := True\<rparr> else r"
  have ne: "?cs \<noteq> []" using c by auto
  have d': "db_registered_balance_changes d' = map ?mark (db_registered_balance_changes d)"
    by (rule process_pending_InrD [OF run wf refl ne]) simp
  have "c \<in> set (db_pending_balance_changes d)" using c by (auto simp: handled_changes_def pending_changes_of_def)
  then obtain r where r: "r \<in> set (db_registered_balance_changes d)"
      "registered_balance_change_pk r = pending_balance_change_pk c"
    using wf unfolding db_wf_def by blast
  show ?thesis unfolding d'
    by (rule bexI [of _ "?mark r"]) (use r c in \<open>simp_all add: registered_balance_change_pk_def\<close>)
qed

text \<open>The reported transfers, on the row that is stored.\<close>

lemma process_pending_chain:
  assumes run: "process_pending_balance_changes E skip ts its i j d = Inr d'" and wf: "db_wf d"
    and acc: "get_account i j d = Some a"
  shows "\<exists>new row. db_account_transfer_signals d' = db_account_transfer_signals d @ new
    \<and> get_account_row i j d' = Some row \<and> credit_chain a (acc_principal a) (handled_changes skip i j d) row new"
proof (cases "handled_changes skip i j d = []")
  case True
  then show ?thesis using process_pending_idle [OF run] get_account_SomeD [OF acc] by (auto simp: credit_chain_def)
next
  case False
  note row = get_account_SomeD [OF acc]
  note pk = get_account_row_pk [OF wf row [THEN conjunct1]]
  have "lock_or_create_account E i j ts its d = Inr (a, d)"
    using row by (simp add: lock_or_create_account_def get_account_instance_def)
  with run False obtain l b where
    loop: "foldR (change_loop_body E ts) (handled_changes skip i j d) \<lparr>cl_account = a, cl_applied_change_pks = [],
        cl_principal_delta = 0, cl_interest_delta = Fin 0, cl_db = d\<rparr> = Inr l"
    and app: "apply_account_change E (cl_account l) (cl_principal_delta l) (cl_interest_delta l) ts = Inr b"
    and save: "save_account E b (mark_applied (cl_applied_change_pks l) (cl_db l)) = Inr d'"
    by (auto simp: process_pending_balance_changes_def handled_changes_def Let_def bindR_eq_Inr)
  note sum = change_loop_summary [OF loop]
  from change_loop_chain [OF loop] obtain new where
    new: "db_account_transfer_signals (cl_db l) = db_account_transfer_signals d @ new"
      "credit_chain a (acc_principal a) (handled_changes skip i j d) (cl_account l) new" by auto
  note frame = apply_account_change_frame [OF app]
  have old: "get_account_row (acc_debtor_id b) (acc_creditor_id b) (mark_applied (cl_applied_change_pks l) (cl_db l)) = Some a"
    using sum row pk frame by (auto simp: mark_applied_def get_account_row_def)
  from save_account_InrD [OF save] old obtain r p n t where
    t: "tbl_update account_pk account_ok
         (b\<lparr>acc_interest_rate := r, acc_previous_interest_rate := p, acc_negligible_amount := n\<rparr>)
         (db_accounts (mark_applied (cl_applied_change_pks l) (cl_db l))) = Inr t"
      "d' = (mark_applied (cl_applied_change_pks l) (cl_db l))\<lparr>db_accounts := t\<rparr>"
      "acc_negligible_amount b = acc_negligible_amount a \<longrightarrow> n = acc_negligible_amount b" by auto
  let ?row = "b\<lparr>acc_interest_rate := r, acc_previous_interest_rate := p, acc_negligible_amount := n\<rparr>"
  have "acc_negligible_amount (cl_account l) = acc_negligible_amount a" using new(2) by (simp add: credit_chain_def)
  then have chain: "credit_chain a (acc_principal a) (handled_changes skip i j d) ?row new"
    using new(2) t(3) frame by (simp add: credit_chain_def)
  have accs: "db_accounts (mark_applied (cl_applied_change_pks l) (cl_db l)) = db_accounts d"
    using sum by (auto simp: mark_applied_def)
  have keys: "acc_debtor_id b = i" "acc_creditor_id b = j" using sum pk frame by auto
  have "tbl_lookup account_pk (i, j) t = Some ?row"
    using accs.lookup_upd [OF db_wf_accs [OF wf] t(1) [unfolded accs], of "(i, j)"] row keys
    by (auto simp: account_pk_def get_account_row_def)
  then have "get_account_row i j d' = Some ?row" by (simp add: get_account_row_def t(2))
  moreover have "db_account_transfer_signals d' = db_account_transfer_signals d @ new"
    using new(1) by (simp add: t(2) mark_applied_def)
  ultimately show ?thesis using chain by blast
qed

section \<open>A sample run\<close>

text \<open>Two incoming transfers, of 250 and of -100, for an account with 1000.\<close>

definition sample_change :: "int \<Rightarrow> int \<Rightarrow> pending_balance_change" where
  "sample_change n amount =
     \<lparr>pbc_debtor_id = 1, pbc_other_creditor_id = 3, pbc_change_id = n, pbc_creditor_id = 2,
      pbc_coordinator_type = CT_DIRECT, pbc_transfer_note_format = [], pbc_transfer_note = [],
      pbc_committed_at = sample_ts, pbc_principal_delta = amount\<rparr>"

definition sample_registered :: "int \<Rightarrow> registered_balance_change" where
  "sample_registered n = \<lparr>rbc_debtor_id = 1, rbc_other_creditor_id = 3, rbc_change_id = n,
     rbc_committed_at = sample_ts, rbc_is_applied = False\<rparr>"

definition sample_changes_db :: db where
  "sample_changes_db = sample_db\<lparr>db_registered_balance_changes := [sample_registered 1, sample_registered 2],
     db_pending_balance_changes := [sample_change 1 250, sample_change 2 (- 100)]\<rparr>"

lemma sample_changes_insert:
  "bindR (insert_pending_balance_change 1 3 1 2 CT_DIRECT [] [] sample_ts 250 0 sample_db)
     (insert_pending_balance_change 1 3 2 2 CT_DIRECT [] [] sample_ts (- 100) 0) = Inr sample_changes_db"
  by (simp add: insert_pending_balance_change_def insert_registered_balance_change_def insert_pending_change_row_def
      sample_db_def empty_db_def sample_changes_db_def sample_registered_def sample_change_def int_bounds sample_ts_def
      tbl_lookup_def tbl_insert_def dataR_def integrityR_def registered_balance_change_fits_def
      pending_balance_change_fits_def registered_balance_change_ok_def pending_balance_change_ok_def
      registered_balance_change_pk_def pending_balance_change_pk_def is_int64_def CT_DIRECT_def)

lemma sample_db_invariant: "db_wf sample_db" "locks_within sample_db" "ids_fresh sample_db" "locks_agree sample_db"
    "changes_agree sample_db"
  by (simp_all add: db_wf_def tbl_wf_def sample_db_def empty_db_def locks_within_def ids_fresh_def locks_agree_def
      changes_agree_def locked_sum_def pending_count_def int_bounds)

lemma sample_changes_invariant:
  "db_wf sample_changes_db" "locks_within sample_changes_db" "ids_fresh sample_changes_db"
  "changes_agree sample_changes_db"
proof -
  obtain d where d: "insert_pending_balance_change 1 3 1 2 CT_DIRECT [] [] sample_ts 250 0 sample_db = Inr d"
      "insert_pending_balance_change 1 3 2 2 CT_DIRECT [] [] sample_ts (- 100) 0 d = Inr sample_changes_db"
    using sample_changes_insert by (auto simp: bindR_eq_Inr)
  have "db_wf d \<and> changes_agree d"
    by (rule insert_pending_balance_change_invariant [OF d(1) sample_db_invariant(1,5)])
  then show "db_wf sample_changes_db" "changes_agree sample_changes_db"
    using insert_pending_balance_change_invariant [OF d(2)] by simp_all
  show "locks_within sample_changes_db" "ids_fresh sample_changes_db"
    using sample_db_invariant(2,3) by (simp_all add: locks_within_def ids_fresh_def sample_changes_db_def)
qed

lemma sample_changes_account: "get_account 1 2 sample_changes_db = Some (sample_account 2 1000)"
  by (simp add: get_account_def get_account_instance_def get_account_row_def sample_changes_db_def sample_db_def
      tbl_lookup_def is_deleted_def)

lemma sample_changes_handled:
  "handled_changes (\<lambda>_. False) 1 2 sample_changes_db = [sample_change 1 250, sample_change 2 (- 100)]"
  by (simp add: handled_changes_def pending_changes_of_def sample_changes_db_def sample_change_def)

lemma sample_can_apply: "can_apply sample_env (\<lambda>_. False) sample_ts sample_ts 1 2 sample_changes_db"
proof -
  have "acc_last_transfer_number (sample_account 2 1000) = 0" "acc_last_change_seqnum (sample_account 2 1000) = 0"
    "acc_previous_interest_rate (sample_account 2 1000) = Fin 0"
    "acc_last_interest_rate_change_ts (sample_account 2 1000) = T0"
    by (simp_all add: sample_account_def)
  moreover have "increment_seqnum sample_env 0 = 1" by (simp add: sample_env_def int_bounds)
  moreover have "db_account_transfer_signals sample_changes_db = []"
    by (simp add: sample_changes_db_def sample_db_def empty_db_def)
  moreover have "get_account_row 1 2 sample_changes_db = Some (sample_account 2 1000)"
      "\<not> is_deleted (sample_account 2 1000)"
    using get_account_SomeD [OF sample_changes_account] by auto
  ultimately show ?thesis
    by (simp add: can_apply_def creditable_def sample_changes_handled applicable_def sample_change_def
        ats_free_def is_int32_def is_int64_def int_bounds valid_rate_def sample_ts_def T0_def)
qed

text \<open>The same changes for an account that is not there, and for one that is marked as deleted.\<close>

definition sample_deleted :: account where
  "sample_deleted = (sample_account 2 0)\<lparr>acc_status_flags := STATUS_DELETED_FLAG\<rparr>"

lemma sample_other_accounts:
  "db_wf (sample_changes_db\<lparr>db_accounts := []\<rparr>)" "db_wf (sample_changes_db\<lparr>db_accounts := [sample_deleted]\<rparr>)"
proof -
  have "account_ok sample_deleted" using sample_account_valid(12) [of 2 0]
    by (simp add: sample_deleted_def account_ok_def int_bounds)
  then show "db_wf (sample_changes_db\<lparr>db_accounts := []\<rparr>)" "db_wf (sample_changes_db\<lparr>db_accounts := [sample_deleted]\<rparr>)"
    using sample_changes_invariant(1)
    by (simp_all add: db_wf_def tbl_wf_def sample_changes_db_def sample_db_def empty_db_def)
qed

lemma sample_others_handled:
  "handled_changes (\<lambda>_. False) 1 2 (sample_changes_db\<lparr>db_accounts := A\<rparr>) = [sample_change 1 250, sample_change 2 (- 100)]"
  using sample_changes_handled by (simp add: handled_changes_def pending_changes_of_def)

lemma sample_can_create:
  "can_apply sample_env (\<lambda>_. False) sample_ts sample_ts 1 2 (sample_changes_db\<lparr>db_accounts := []\<rparr>)"
proof -
  have "creatable sample_env sample_ts sample_ts 2 1 2 (sample_changes_db\<lparr>db_accounts := []\<rparr>)"
    by (simp add: creatable_def ats_free_def sample_changes_db_def sample_db_def empty_db_def is_int64_def is_int32_def
        int_bounds sample_env_def sample_ts_def T0_def date_of_def microseconds_per_day_def)
  then show ?thesis unfolding can_apply_def Let_def sample_others_handled
    by (simp add: applicable_def sample_change_def get_account_row_def tbl_lookup_def numeral_2_eq_2)
qed

lemma sample_can_revive:
  "can_apply sample_env (\<lambda>_. False) sample_ts sample_ts 1 2 (sample_changes_db\<lparr>db_accounts := [sample_deleted]\<rparr>)"
proof -
  let ?d = "sample_changes_db\<lparr>db_accounts := [sample_deleted]\<rparr>"
  have "account_fits sample_deleted" using sample_account_valid(13) [of 2 0]
    by (simp add: sample_deleted_def account_fits_def STATUS_DELETED_FLAG_def is_int64_def is_int32_def int_bounds)
  moreover have "ats_free sample_deleted ?d" by (simp add: ats_free_def sample_changes_db_def sample_db_def empty_db_def)
  ultimately have "creditable sample_env sample_ts 2 sample_deleted ?d"
    by (simp add: creditable_def sample_deleted_def sample_account_def is_int32_def int_bounds sample_env_def
        STATUS_DELETED_FLAG_def valid_rate_def sample_ts_def T0_def)
  moreover have "revivable sample_env sample_deleted"
    by (simp add: revivable_def sample_deleted_def sample_account_def is_int32_def int_bounds sample_env_def)
  moreover have "get_account_row 1 2 ?d = Some sample_deleted"
    by (simp add: get_account_row_def tbl_lookup_def account_pk_def sample_deleted_def sample_account_def)
  ultimately show ?thesis unfolding can_apply_def Let_def sample_others_handled
    by (simp add: applicable_def sample_change_def numeral_2_eq_2)
qed

lemma sample_changes_run:
  "\<exists>d'. process_pending_balance_changes sample_env (\<lambda>_. False) sample_ts sample_ts 1 2 sample_changes_db = Inr d'"
  by (rule process_pending_total [OF sample_env_ok sample_changes_invariant(1) sample_can_apply])

section \<open>Properties\<close>

text \<open>
  C16. A balance change is applied once. When a change that is not registered yet has been delivered and
  the queue of its account is processed (and no other transaction holds the change), its delta is part of
  the sum that is added to the principal, it has left the queue, and it is marked as applied; delivering a
  message with the same key again (with whatever contents and cutoff), before or after that, changes
  nothing in the database, and when the whole queue has been processed, processing it again changes nothing.
\<close>

theorem balance_change_registered_once:
  assumes first: "insert_pending_balance_change i j n c ct fmt note cat delta cutoff d = Inr d1" "cutoff \<le> cat"
    and new: "\<not> is_registered (i, j, n) d" and wf: "db_wf d1"
    and applied: "process_pending_balance_changes E skip ts its i c d1 = Inr d2"
    and free: "\<And>p. p \<in> set (db_pending_balance_changes d1) \<Longrightarrow> pending_balance_change_pk p = (i, j, n) \<Longrightarrow> \<not> skip p"
  shows "insert_pending_balance_change i j n c' ct' fmt' note' cat' delta' cutoff' d1 = Inr d1
    \<and> insert_pending_balance_change i j n c' ct' fmt' note' cat' delta' cutoff' d2 = Inr d2
    \<and> stored_principal i c d2 = contain_principal_overflow
        (stored_principal i c d + total pbc_principal_delta (handled_changes skip i c d) + delta)
    \<and> (i, j, n) \<notin> pending_balance_change_pk ` set (db_pending_balance_changes d2)
    \<and> (\<exists>r \<in> set (db_registered_balance_changes d2). registered_balance_change_pk r = (i, j, n) \<and> rbc_is_applied r)
    \<and> ((\<forall>p. \<not> skip p) \<longrightarrow> process_pending_balance_changes E' skip' ts' its' i c d2 = Inr d2)"
proof -
  note reg = insert_then_registered [OF first]
  have "is_registered (i, j, n) d2" using reg(1) process_keeps_registered [OF applied wf] by simp
  then have again: "insert_pending_balance_change i j n c' ct' fmt' note' cat' delta' cutoff' d1 = Inr d1
    \<and> insert_pending_balance_change i j n c' ct' fmt' note' cat' delta' cutoff' d2 = Inr d2"
    using insert_registered_noop reg by blast
  obtain p where p: "db_pending_balance_changes d1 = db_pending_balance_changes d @ [p]" "pbc_debtor_id p = i"
      "pbc_other_creditor_id p = j" "pbc_change_id p = n" "pbc_creditor_id p = c" "pbc_principal_delta p = delta"
    using insert_then_pending [OF first new] by blast
  let ?cs = "handled_changes skip i c d1"
  have pk: "pending_balance_change_pk p = (i, j, n)" using p by (simp add: pending_balance_change_pk_def)
  then have "\<not> skip p" using free [of p] p(1) by simp
  then have cs: "?cs = handled_changes skip i c d @ [p]"
    using p by (simp add: handled_changes_def pending_changes_of_def)
  have "stored_principal i c d1 = stored_principal i c d"
    using insert_pending_balance_change_InrD [OF first(1)] by (auto simp: stored_principal_def get_account_row_def)
  moreover obtain t row where d2: "stored_principal i c d2
        = contain_principal_overflow (stored_principal i c d1 + total pbc_principal_delta ?cs)"
      "db_pending_balance_changes d2 = [x \<leftarrow> db_pending_balance_changes d1. x \<notin> set ?cs]"
    by (rule process_pending_InrD [OF applied wf refl]) (simp_all add: cs stored_principal_def get_account_row_def)
  moreover have "(i, j, n) \<notin> pending_balance_change_pk ` set (db_pending_balance_changes d2)"
  proof
    assume "(i, j, n) \<in> pending_balance_change_pk ` set (db_pending_balance_changes d2)"
    then obtain x where "x \<in> set (db_pending_balance_changes d1)" "x \<notin> set ?cs" "pending_balance_change_pk x = (i, j, n)"
      by (auto simp: d2(2))
    then have "x = p" using pbcs.pk_inj [OF db_wf_pbcs [OF wf], of x p] p(1) pk by simp
    then show False using \<open>x \<notin> set ?cs\<close> by (simp add: cs)
  qed
  moreover have "\<exists>r \<in> set (db_registered_balance_changes d2). registered_balance_change_pk r = (i, j, n) \<and> rbc_is_applied r"
    using handled_marked [OF applied wf, of p] pk by (simp add: cs)
  moreover have "process_pending_balance_changes E' skip' ts' its' i c d2 = Inr d2" if "\<forall>p. \<not> skip p"
  proof -
    have "pending_changes_of i c d2 = []" using that by (auto simp: pending_changes_of_def d2(2) handled_changes_def)
    then show ?thesis by (simp add: process_pending_balance_changes_def)
  qed
  ultimately show ?thesis using again p(6) by (simp add: cs add.assoc)
qed

theorem balance_change_registered_once_witness:
  "\<exists>d1 d2. insert_pending_balance_change 1 3 2 2 CT_DIRECT [] [] sample_ts (- 100) 0 d1 = Inr sample_changes_db
    \<and> process_pending_balance_changes sample_env (\<lambda>_. False) sample_ts sample_ts 1 2 sample_changes_db = Inr d2
    \<and> stored_principal 1 2 sample_changes_db = 1000 \<and> stored_principal 1 2 d2 = 1150
    \<and> insert_pending_balance_change 1 3 2 2 CT_DIRECT [] [] sample_ts 999 0 d2 = Inr d2
    \<and> process_pending_balance_changes sample_env (\<lambda>_. False) sample_ts sample_ts 1 2 d2 = Inr d2"
proof -
  obtain d1 where d1: "insert_pending_balance_change 1 3 1 2 CT_DIRECT [] [] sample_ts 250 0 sample_db = Inr d1"
      "insert_pending_balance_change 1 3 2 2 CT_DIRECT [] [] sample_ts (- 100) 0 d1 = Inr sample_changes_db"
    using sample_changes_insert by (auto simp: bindR_eq_Inr)
  obtain d2 where d2: "process_pending_balance_changes sample_env (\<lambda>_. False) sample_ts sample_ts 1 2 sample_changes_db = Inr d2"
    using sample_changes_run by blast
  have late: "0 \<le> sample_ts" by (simp add: sample_ts_def)
  have fields: "db_registered_balance_changes d1 = [sample_registered 1]"
      "db_pending_balance_changes d1 = [sample_change 1 250]" "db_accounts d1 = db_accounts sample_db"
    using insert_pending_balance_change_InrD [OF d1(1)] insert_then_registered(1) [OF d1(1) late]
    by (auto simp: sample_db_def empty_db_def is_registered_def sample_registered_def sample_change_def)
  have new: "\<not> is_registered (1, 3, 2) d1"
    by (simp add: fields is_registered_def sample_registered_def registered_balance_change_pk_def)
  have principal: "stored_principal 1 2 sample_changes_db = 1000"
    using get_account_SomeD [OF sample_changes_account] by (simp add: stored_principal_def)
  have "stored_principal 1 2 d1 = 1000" using principal
    by (simp add: stored_principal_def get_account_row_def fields sample_changes_db_def)
  moreover have "total pbc_principal_delta (handled_changes (\<lambda>_. False) 1 2 d1) = 250"
    by (simp add: handled_changes_def pending_changes_of_def fields sample_change_def)
  moreover have "contain_principal_overflow 1150 = 1150" by (simp add: contain_id int_bounds)
  ultimately show ?thesis
    using balance_change_registered_once [OF d1(2) late new sample_changes_invariant(1) d2, of 2 CT_DIRECT "[]" "[]"
        sample_ts 999 0 sample_env "\<lambda>_. False" sample_ts sample_ts] d1(2) d2 principal by auto
qed

text \<open>
  C17. Applying the queued changes of an account adds exactly the sum of their deltas to its principal
  (contained in the 64 bit range), removes exactly those changes from the queue, marks exactly the
  registrations of those changes as applied (all other rows of the register and all other columns stay as
  they were), and leaves every other account as it was.
\<close>

theorem balance_changes_applied:
  assumes run: "process_pending_balance_changes E skip ts its i j d = Inr d'" and wf: "db_wf d"
    and cs: "cs = handled_changes skip i j d"
  shows "db_pending_balance_changes d' = [c \<leftarrow> db_pending_balance_changes d.
          \<not> (pbc_debtor_id c = i \<and> pbc_creditor_id c = j \<and> \<not> skip c)]
    \<and> stored_principal i j d' = (if cs = [] then stored_principal i j d
           else contain_principal_overflow (stored_principal i j d + total pbc_principal_delta cs))
    \<and> list_all2 (\<lambda>r s. rbc_debtor_id s = rbc_debtor_id r
          \<and> rbc_other_creditor_id s = rbc_other_creditor_id r \<and> rbc_change_id s = rbc_change_id r
          \<and> rbc_committed_at s = rbc_committed_at r
          \<and> (rbc_is_applied s \<longleftrightarrow> rbc_is_applied r \<or> (\<exists>c \<in> set cs. pbc_debtor_id c = rbc_debtor_id r
               \<and> pbc_other_creditor_id c = rbc_other_creditor_id r \<and> pbc_change_id c = rbc_change_id r)))
        (db_registered_balance_changes d) (db_registered_balance_changes d')
    \<and> (\<forall>k l. (k, l) \<noteq> (i, j) \<longrightarrow> get_account_row k l d' = get_account_row k l d)"
proof -
  have only: "\<forall>k l. (k, l) \<noteq> (i, j) \<longrightarrow> get_account_row k l d' = get_account_row k l d"
    using only_row_principal [OF process_pending_only [OF run wf]] by blast
  have taken: "[c \<leftarrow> db_pending_balance_changes d. c \<notin> set cs] = [c \<leftarrow> db_pending_balance_changes d.
          \<not> (pbc_debtor_id c = i \<and> pbc_creditor_id c = j \<and> \<not> skip c)]"
    by (rule filter_cong) (auto simp: cs handled_changes_def pending_changes_of_def)
  have "list_all2 (marks_exactly cs) (db_registered_balance_changes d) (db_registered_balance_changes d')
    \<and> db_pending_balance_changes d' = [c \<leftarrow> db_pending_balance_changes d. c \<notin> set cs]
    \<and> stored_principal i j d' = (if cs = [] then stored_principal i j d
           else contain_principal_overflow (stored_principal i j d + total pbc_principal_delta cs))"
  proof (cases "cs = []")
    case True
    then show ?thesis using process_pending_idle [OF run] cs by (simp add: list_all2_same marks_exactly_def)
  next
    case False
    show ?thesis
      by (rule process_pending_InrD [OF run wf cs False])
        (use False marked_exactly [of cs] in \<open>simp add: stored_principal_def get_account_row_def\<close>)
  qed
  then show ?thesis using only unfolding taken marks_exactly_def by blast
qed

theorem balance_changes_applied_witness:
  "\<exists>d'. process_pending_balance_changes sample_env (\<lambda>_. False) sample_ts sample_ts 1 2 sample_changes_db = Inr d'
    \<and> stored_principal 1 2 d' = 1150 \<and> db_pending_balance_changes d' = []
    \<and> map rbc_is_applied (db_registered_balance_changes d') = [True, True]"
proof -
  obtain d' where d': "process_pending_balance_changes sample_env (\<lambda>_. False) sample_ts sample_ts 1 2 sample_changes_db = Inr d'"
    using sample_changes_run by blast
  note applied = balance_changes_applied [OF d' sample_changes_invariant(1) refl]
  have "stored_principal 1 2 sample_changes_db = 1000"
    using get_account_SomeD [OF sample_changes_account] by (simp add: stored_principal_def)
  moreover have "contain_principal_overflow 1150 = 1150" by (simp add: contain_id int_bounds)
  moreover have "db_pending_balance_changes sample_changes_db = [sample_change 1 250, sample_change 2 (- 100)]"
      "db_registered_balance_changes sample_changes_db = [sample_registered 1, sample_registered 2]"
    by (simp_all add: sample_changes_db_def)
  ultimately show ?thesis using d' applied
    by (auto simp: sample_changes_handled list_all2_Cons1 sample_change_def sample_registered_def)
qed

text \<open>
  C21. The \<open>AccountTransfer\<close> signals of a batch of balance changes: every change that is not negligible is
  reported once, with consecutive transfer numbers linked by \<open>previous_transfer_number\<close>, and with the
  principal after that change, earlier changes of the batch included.  The root account gets none.
\<close>

theorem credited_transfers_chain:
  assumes "process_pending_balance_changes E skip ts its i j d = Inr d'" and "db_wf d"
    and "get_account i j d = Some a"
  shows "\<exists>new row. db_account_transfer_signals d' = db_account_transfer_signals d @ new
    \<and> get_account_row i j d' = Some row \<and> credit_chain a (acc_principal a) (handled_changes skip i j d) row new"
  by (rule process_pending_chain [OF assms])

theorem credited_transfers_chain_witness:
  "\<exists>d' new. process_pending_balance_changes sample_env (\<lambda>_. False) sample_ts sample_ts 1 2 sample_changes_db = Inr d'
    \<and> db_account_transfer_signals d' = new \<and> map ats_acquired_amount new = [250, - 100]
    \<and> (\<forall>n < length new. ats_transfer_number (new ! n) = int n + 1)"
proof -
  obtain d' where d': "process_pending_balance_changes sample_env (\<lambda>_. False) sample_ts sample_ts 1 2 sample_changes_db = Inr d'"
    using sample_changes_run by blast
  from credited_transfers_chain [OF d' sample_changes_invariant(1) sample_changes_account] obtain new row where
    new: "db_account_transfer_signals d' = db_account_transfer_signals sample_changes_db @ new"
      "credit_chain (sample_account 2 1000) 1000 [sample_change 1 250, sample_change 2 (- 100)] row new"
    by (auto simp: sample_changes_handled)
  have "acc_last_transfer_number (sample_account 2 1000) = 0" "acc_negligible_amount (sample_account 2 1000) = Fin 0"
    "db_account_transfer_signals sample_changes_db = []"
    by (simp_all add: sample_account_def sample_changes_db_def sample_db_def empty_db_def)
  then show ?thesis using d' new
    by (auto simp: credit_chain_def reports_change_def sample_change_def ROOT_CREDITOR_ID_def)
qed

text \<open>
  Registering and applying balance changes keep the database well-formed, the lock counters, and the
  agreement of the register with the queue: a registered change is pending until it is marked applied.
\<close>

theorem balance_change_invariant:
  assumes "insert_pending_balance_change i j n c ct fmt note cat delta cutoff d0 = Inr d"
    and "process_pending_balance_changes E skip ts its i' j' d = Inr d'"
    and "db_wf d0" "changes_agree d0" "locks_within d0" "ids_fresh d0"
  shows "db_wf d \<and> changes_agree d \<and> locks_within d \<and> ids_fresh d
    \<and> db_wf d' \<and> changes_agree d' \<and> locks_within d' \<and> ids_fresh d' \<and> (locks_agree d0 \<longrightarrow> locks_agree d')"
proof -
  have accounts: "db_accounts d = db_accounts d0" "db_prepared_transfers d = db_prepared_transfers d0"
    using insert_pending_balance_change_InrD [OF assms(1)] by auto
  have d: "db_wf d \<and> changes_agree d \<and> locks_within d \<and> ids_fresh d"
    using insert_pending_balance_change_invariant [OF assms(1,3,4)] assms(5,6) accounts
    by (simp add: locks_within_def ids_fresh_def)
  have "locks_agree d0 \<longrightarrow> locks_agree d" using accounts by (simp add: locks_agree_def)
  then show ?thesis using process_pending_invariant [OF assms(2)] d by blast
qed

theorem balance_change_invariant_witness:
  "\<exists>d d'. insert_pending_balance_change 1 3 2 2 CT_DIRECT [] [] sample_ts (- 100) 0 d = Inr sample_changes_db
    \<and> process_pending_balance_changes sample_env (\<lambda>_. False) sample_ts sample_ts 1 2 sample_changes_db = Inr d'
    \<and> db_wf d' \<and> changes_agree d'"
proof -
  obtain d where d: "insert_pending_balance_change 1 3 1 2 CT_DIRECT [] [] sample_ts 250 0 sample_db = Inr d"
      "insert_pending_balance_change 1 3 2 2 CT_DIRECT [] [] sample_ts (- 100) 0 d = Inr sample_changes_db"
    using sample_changes_insert by (auto simp: bindR_eq_Inr)
  obtain d' where d': "process_pending_balance_changes sample_env (\<lambda>_. False) sample_ts sample_ts 1 2 sample_changes_db = Inr d'"
    using sample_changes_run by blast
  have "db_wf d" "changes_agree d"
    using insert_pending_balance_change_invariant [OF d(1) sample_db_invariant(1,5)] by simp_all
  moreover have "locks_within d" "ids_fresh d"
    using insert_pending_balance_change_InrD [OF d(1)] sample_db_invariant(2,3)
    by (auto simp: locks_within_def ids_fresh_def)
  ultimately show ?thesis using balance_change_invariant [OF d(2) d'] d(2) d' by blast
qed

text \<open>
  C26. \<open>process_pending_balance_changes\<close> does not raise, whether the account is there, is created by the
  call, or is revived after it has been marked as deleted: the assertions of \<open>calc_due_interest\<close> about
  the rounded durations hold, the balance is finite, and the row that is written satisfies its constraints.
\<close>

theorem balance_changes_return:
  assumes "libm_ok E" and "db_wf d" and "can_apply E skip ts its i j d"
  shows "\<exists>d'. process_pending_balance_changes E skip ts its i j d = Inr d'"
  by (rule process_pending_total [OF assms])

theorem balance_changes_return_witness:
  "(\<exists>d'. process_pending_balance_changes sample_env (\<lambda>_. False) sample_ts sample_ts 1 2 sample_changes_db = Inr d')
    \<and> (\<exists>d'. process_pending_balance_changes sample_env (\<lambda>_. False) sample_ts sample_ts 1 2
          (sample_changes_db\<lparr>db_accounts := []\<rparr>) = Inr d')
    \<and> (\<exists>d'. process_pending_balance_changes sample_env (\<lambda>_. False) sample_ts sample_ts 1 2
          (sample_changes_db\<lparr>db_accounts := [sample_deleted]\<rparr>) = Inr d')"
  using balance_changes_return [OF sample_env_ok sample_changes_invariant(1) sample_can_apply]
    balance_changes_return [OF sample_env_ok sample_other_accounts(1) sample_can_create]
    balance_changes_return [OF sample_env_ok sample_other_accounts(2) sample_can_revive] by blast

end
