(* ===== verification/PaymentsProps.thy ===== *)
theory PaymentsProps
  imports Payments BalanceChangesProps
begin

text \<open>
  The properties of payments between an account and its debtor: no money is created or lost, the
  interest is capitalized no more often than allowed and in the amount that has accumulated, and an
  account is marked as deleted only when that is safe.
\<close>

section \<open>What a payment does to the money of a debtor\<close>

definition sent_total :: "int \<Rightarrow> db \<Rightarrow> int" where
  "sent_total i d = total (\<lambda>s. if pbs_debtor_id s = i then pbs_principal_delta s else 0)
     (db_pending_balance_change_signals d)"

lemma payment_sent:
  assumes "payment_effect ts i j amt d d'"
  shows "\<exists>new. db_pending_balance_change_signals d' = db_pending_balance_change_signals d @ new
    \<and> (if amt \<noteq> 0 \<and> j \<noteq> ROOT_CREDITOR_ID then
         \<exists>s. new = [s] \<and> pbs_debtor_id s = i \<and> pbs_creditor_id s = ROOT_CREDITOR_ID
           \<and> pbs_other_creditor_id s = j \<and> pbs_principal_delta s = - amt \<and> pbs_committed_at s = ts
       else new = [])"
  using assms unfolding payment_effect_def by (elim exE conjE) (auto split: if_splits)

lemma payment_effectD:
  assumes "payment_effect ts i j amt d d'"
  shows "if amt \<noteq> 0 \<and> j \<noteq> ROOT_CREDITOR_ID then
      stored_principal i j d' = contain_principal_overflow (stored_principal i j d + amt)
      \<and> (\<exists>s. db_pending_balance_change_signals d' = db_pending_balance_change_signals d @ [s]
          \<and> pbs_principal_delta s = - amt \<and> pbs_debtor_id s = i \<and> pbs_other_creditor_id s = j
          \<and> pbs_creditor_id s = ROOT_CREDITOR_ID)
    else stored_principal i j d' = stored_principal i j d
      \<and> db_pending_balance_change_signals d' = db_pending_balance_change_signals d"
proof -
  from assms obtain t u T new row where
    d': "d' = d\<lparr>db_accounts := t, db_account_update_signals := u, db_account_transfer_signals := T,
          db_pending_balance_change_signals := db_pending_balance_change_signals d @ new,
          db_next_change_id := db_next_change_id d + int (length new)\<rparr>"
    and row: "tbl_lookup account_pk (i, j) t = Some row"
    and cases: "if amt \<noteq> 0 \<and> j \<noteq> ROOT_CREDITOR_ID then
             acc_principal row = contain_principal_overflow (stored_principal i j d + amt)
             \<and> (\<exists>s. new = [s] \<and> pbs_principal_delta s = - amt \<and> pbs_debtor_id s = i
                   \<and> pbs_other_creditor_id s = j \<and> pbs_creditor_id s = ROOT_CREDITOR_ID
                   \<and> pbs_committed_at s = ts \<and> pbs_change_id s = db_next_change_id d)
           else acc_principal row = stored_principal i j d \<and> new = []"
    unfolding payment_effect_def by blast
  have "stored_principal i j d' = acc_principal row"
    using row by (simp add: stored_principal_def get_account_row_def d')
  moreover have "db_pending_balance_change_signals d' = db_pending_balance_change_signals d @ new" by (simp add: d')
  ultimately show ?thesis using cases by (auto split: if_splits)
qed

lemma payment_conserves:
  assumes "payment_effect ts i j amt d d'" and "\<bar>stored_principal i j d'\<bar> < MAX_INT64"
  shows "principals k (db_accounts d') + sent_total k d' = principals k (db_accounts d) + sent_total k d"
proof -
  from assms(1) obtain t u T new row where
    d': "d' = d\<lparr>db_accounts := t, db_account_update_signals := u, db_account_transfer_signals := T,
          db_pending_balance_change_signals := db_pending_balance_change_signals d @ new,
          db_next_change_id := db_next_change_id d + int (length new)\<rparr>"
    and sums: "\<forall>k. principals k t = principals k (db_accounts d)
             + (if i = k then acc_principal row - stored_principal i j d else 0)"
    and row: "tbl_lookup account_pk (i, j) t = Some row"
    and cases: "if amt \<noteq> 0 \<and> j \<noteq> ROOT_CREDITOR_ID then
             acc_principal row = contain_principal_overflow (stored_principal i j d + amt)
             \<and> (\<exists>s. new = [s] \<and> pbs_principal_delta s = - amt \<and> pbs_debtor_id s = i
                   \<and> pbs_other_creditor_id s = j \<and> pbs_creditor_id s = ROOT_CREDITOR_ID
                   \<and> pbs_committed_at s = ts \<and> pbs_change_id s = db_next_change_id d)
           else acc_principal row = stored_principal i j d \<and> new = []"
    unfolding payment_effect_def by blast
  have pr: "stored_principal i j d' = acc_principal row"
    using row by (simp add: stored_principal_def get_account_row_def d')
  have sent: "sent_total k d' = sent_total k d
      + total (\<lambda>s. if pbs_debtor_id s = k then pbs_principal_delta s else 0) new"
    by (simp add: sent_total_def d')
  have accs: "principals k (db_accounts d') = principals k (db_accounts d)
      + (if i = k then acc_principal row - stored_principal i j d else 0)"
    using sums by (simp add: d')
  show ?thesis
  proof (cases "amt \<noteq> 0 \<and> j \<noteq> ROOT_CREDITOR_ID")
    case True
    then obtain s where s: "new = [s]" "pbs_principal_delta s = - amt" "pbs_debtor_id s = i"
      and p: "acc_principal row = contain_principal_overflow (stored_principal i j d + amt)" using cases by auto
    have "acc_principal row = stored_principal i j d + amt"
      using p assms(2) unfolding pr contain_clamp by (simp add: int_bounds max_def min_def split: if_splits)
    then show ?thesis using sent accs s by simp
  next
    case False
    then show ?thesis using cases sent accs by auto
  qed
qed

text \<open>Every payment procedure either leaves the database alone or makes one payment.\<close>

lemma payments_cases:
  assumes "make_debtor_payment E ts its ct i j amt fmt note d = Inr d'
      \<or> capitalize_interest E ts i j m d = Inr d' \<or> try_to_delete_account E ts i j d = Inr d'"
    and "db_wf d" "locks_within d"
  shows "d' = d \<or> (\<exists>amt. payment_effect ts i j amt d d')"
  using assms(1)
proof (elim disjE)
  assume "make_debtor_payment E ts its ct i j amt fmt note d = Inr d'"
  then show ?thesis using make_debtor_payment_InrD [OF _ assms(2)] by blast
next
  assume "capitalize_interest E ts i j m d = Inr d'"
  then show ?thesis using capitalize_interest_InrD [OF _ assms(2)] by blast
next
  assume "try_to_delete_account E ts i j d = Inr d'"
  then show ?thesis using try_to_delete_account_InrD [OF _ assms(2,3)] by blast
qed

section \<open>Payments return\<close>

text \<open>An account whose payment cannot raise.\<close>

definition can_pay :: "env \<Rightarrow> datetime \<Rightarrow> account \<Rightarrow> db \<Rightarrow> bool" where
  "can_pay E ts a d \<longleftrightarrow> account_fits a \<and> account_ok a \<and> ats_free a d
     \<and> is_int32 (increment_seqnum E (acc_last_change_seqnum a))
     \<and> 0 \<le> acc_status_flags a \<and> acc_status_flags a \<le> 3 \<and> acc_last_transfer_number a < MAX_INT64
     \<and> (case Account_calc_current_balance E a ts of Inr (Fin b) \<Rightarrow> True | _ \<Rightarrow> False)"

lemma make_debtor_payment_on_total:
  assumes can: "can_pay E ts a d" and amt: "\<bar>amt\<bar> \<le> MAX_INT64"
  shows "\<exists>b d1. make_debtor_payment_on E ct a amt ts fmt note d = Inr (b, d1)
    \<and> account_fits b \<and> account_ok b \<and> db_accounts d1 = db_accounts d \<and> account_pk b = account_pk a
    \<and> acc_interest_rate b = acc_interest_rate a \<and> acc_previous_interest_rate b = acc_previous_interest_rate a
    \<and> acc_negligible_amount b = acc_negligible_amount a"
proof (cases "amt \<noteq> 0 \<and> acc_creditor_id a \<noteq> ROOT_CREDITOR_ID")
  case False
  then have "make_debtor_payment_on E ct a amt ts fmt note d = Inr (a, d)"
    using amt by (auto simp: make_debtor_payment_on_def abs_le_iff)
  then show ?thesis using can by (simp add: can_pay_def)
next
  case True
  let ?d = "add_pending_balance_change_signal (debtor_payment_signal a ct amt ts fmt note) d"
  have "ats_free a ?d" using can by (simp add: can_pay_def ats_free_def add_pending_balance_change_signal_def)
  then obtain a1 d1 where sig: "insert_account_transfer_signal a ct ROOT_CREDITOR_ID ts amt fmt note
      (contain_principal_overflow (acc_principal a + amt)) ?d = Inr (a1, d1)"
      "acc_last_transfer_number a \<le> acc_last_transfer_number a1"
      "acc_last_transfer_number a1 \<le> acc_last_transfer_number a + 1"
    using insert_account_transfer_signal_total [of a ?d amt] True by metis
  have sbc: "same_but_credited a a1"
    using insert_account_transfer_signal_InrD [OF sig(1)] by (auto simp: same_but_credited_def)
  note eqs = same_but_credited_eqs [OF sbc]
  obtain x where "Account_calc_current_balance E a ts = Inr (Fin x)"
    using can by (auto simp: can_pay_def split: sum.splits pyfloat.splits)
  then obtain b where app: "apply_account_change E a1 amt
      (float_of_int (if ct = CT_INTEREST then - amt else 0)) ts = Inr b"
    using apply_account_change_total eqs(9) by metis
  have fits: "account_fits a1" "account_ok a1"
  proof -
    obtain n m where a1: "a1 = a\<lparr>acc_last_transfer_number := n, acc_last_transfer_committed_at := m\<rparr>"
      using sbc unfolding same_but_credited_def by blast
    show "account_fits a1" "account_ok a1"
      using sig(2,3) can by (auto simp: a1 can_pay_def account_fits_def account_ok_def is_int64_def int_bounds)
  qed
  have b: "account_fits b \<and> account_ok b"
    using apply_account_change_fits [OF app fits] can by (simp add: eqs can_pay_def)
  have "make_debtor_payment_on E ct a amt ts fmt note d = Inr (b, d1)"
    using True amt sig(1) app by (simp add: make_debtor_payment_on_def Let_def abs_le_iff)
  moreover have "db_accounts d1 = db_accounts d"
    using insert_account_transfer_signal_InrD [OF sig(1)] by (auto simp: add_pending_balance_change_signal_def)
  ultimately show ?thesis
    using b apply_account_change_frame [OF app] eqs by (auto simp: account_pk_def)
qed

lemma pay_and_save_total:
  assumes can: "can_pay E ts a d" and amt: "\<bar>amt\<bar> \<le> MAX_INT64"
    and old: "get_account_row (acc_debtor_id a) (acc_creditor_id a) d = Some r"
    and same: "acc_interest_rate r = acc_interest_rate a" "acc_previous_interest_rate r = acc_previous_interest_rate a"
      "acc_negligible_amount r = acc_negligible_amount a"
  shows "\<exists>d'. bindR (make_debtor_payment_on E ct a amt ts fmt note d) (\<lambda>(a, d). save_account E a d) = Inr d'"
proof -
  obtain b d1 where b: "make_debtor_payment_on E ct a amt ts fmt note d = Inr (b, d1)"
    "account_fits b" "account_ok b" "db_accounts d1 = db_accounts d" "account_pk b = account_pk a"
    "acc_interest_rate b = acc_interest_rate r" "acc_previous_interest_rate b = acc_previous_interest_rate r"
    "acc_negligible_amount b = acc_negligible_amount r"
    using make_debtor_payment_on_total [OF can amt, of ct fmt \<open>note\<close>] same by auto
  have "get_account_row (acc_debtor_id b) (acc_creditor_id b) d1 = Some r"
    using old b(4,5) by (simp add: get_account_row_def account_pk_def)
  then obtain d' where "save_account E b d1 = Inr d'" using save_account_same_rates_total b by metis
  then show ?thesis using b(1) by simp
qed

section \<open>Sample runs\<close>

text \<open>
  A payment of 50 to the account with 1000, the capitalization of an accumulated interest of 60,
  and the deletion of an account with a principal of 1 that is scheduled for deletion.
\<close>

definition sample_paid :: "account \<Rightarrow> db" where
  "sample_paid a = empty_db\<lparr>db_accounts := [sample_account 0 (- 1000), a]\<rparr>"

definition sample_interest_account :: account where
  "sample_interest_account = (sample_account 2 1000)\<lparr>acc_interest := Fin 60\<rparr>"

definition sample_scheduled_account :: account where
  "sample_scheduled_account = (sample_account 2 1)\<lparr>acc_config_flags := CONFIG_SCHEDULED_FOR_DELETION_FLAG\<rparr>"

lemma sample_int_balance:
  assumes "\<bar>pr\<bar> < 10 ^ 27" "\<bar>n\<bar> < 10 ^ 27"
  shows "Account_calc_current_balance sample_env ((sample_account 2 pr)\<lparr>acc_interest := Fin (of_int n)\<rparr>) sample_ts
     = Inr (dec_of_int (pr + n))"
  using int_interest_balance [OF sample_env_ok, of pr n sample_ts sample_ts 2] assms
  by (simp add: Account_calc_current_balance_def ROOT_CREDITOR_ID_def)

lemma sample_paid_simps:
  assumes "account_pk a = (1, 2)" "acc_status_flags a = 0"
  shows "get_account_row 1 2 (sample_paid a) = Some a" "get_account 1 2 (sample_paid a) = Some a"
    "db_account_transfer_signals (sample_paid a) = []" "db_pending_balance_change_signals (sample_paid a) = []"
  using assms by (simp_all add: get_account_def get_account_instance_def get_account_row_def sample_paid_def
      tbl_lookup_def is_deleted_def empty_db_def)

lemma sample_paid_invariant:
  assumes "account_pk a = (1, 2)" "account_ok a" "acc_pending_transfers_count a = 0" "acc_total_locked_amount a = 0"
  shows "db_wf (sample_paid a)" "locks_within (sample_paid a)"
  using assms by (simp_all add: db_wf_def tbl_wf_def sample_paid_def empty_db_def locks_within_def locked_sum_def
      pending_count_def int_bounds)

lemma sample_interest_invariant:
  "db_wf (sample_paid sample_interest_account)" "locks_within (sample_paid sample_interest_account)"
  and sample_scheduled_invariant:
  "db_wf (sample_paid sample_scheduled_account)" "locks_within (sample_paid sample_scheduled_account)"
proof -
  have ok: "account_ok (sample_account 2 1000)" "account_ok (sample_account 2 1)"
    by (simp_all add: int_bounds)
  have "account_ok sample_interest_account" "account_ok sample_scheduled_account"
      "account_pk sample_interest_account = (1, 2)" "account_pk sample_scheduled_account = (1, 2)"
      "acc_pending_transfers_count sample_interest_account = 0" "acc_total_locked_amount sample_interest_account = 0"
      "acc_pending_transfers_count sample_scheduled_account = 0" "acc_total_locked_amount sample_scheduled_account = 0"
    using ok by (simp_all add: sample_interest_account_def sample_scheduled_account_def account_ok_def account_pk_def)
  then show "db_wf (sample_paid sample_interest_account)" "locks_within (sample_paid sample_interest_account)"
    "db_wf (sample_paid sample_scheduled_account)" "locks_within (sample_paid sample_scheduled_account)"
    using sample_paid_invariant by blast+
qed

lemma sample_can_pay:
  assumes "a = (sample_account 2 pr)\<lparr>acc_interest := Fin (of_int n), acc_config_flags := f,
      acc_last_interest_capitalization_ts := s, acc_last_deletion_attempt_ts := u\<rparr>"
    and "\<bar>pr\<bar> < 10 ^ 9" "\<bar>n\<bar> < 10 ^ 9" "is_int32 f"
  shows "can_pay sample_env sample_ts a (sample_paid b)"
proof -
  have fits: "account_fits (sample_account 2 pr)" "account_ok (sample_account 2 pr)"
    using assms(2) by (auto simp: is_int64_def int_bounds)
  have "Account_calc_current_balance sample_env a sample_ts
      = Account_calc_current_balance sample_env ((sample_account 2 pr)\<lparr>acc_interest := Fin (of_int n)\<rparr>) sample_ts"
    by (simp add: assms(1) Account_calc_current_balance_def)
  also have "\<dots> = Inr (Fin (of_int (pr + n)))" using sample_int_balance [of pr n] assms(2,3) by (simp add: dec_of_int_def)
  finally have bal: "Account_calc_current_balance sample_env a sample_ts = Inr (Fin (of_int (pr + n)))" .
  have "acc_last_transfer_number a = 0" "acc_last_change_seqnum a = 0" "acc_status_flags a = 0"
    by (simp_all add: assms(1) sample_account_def)
  moreover have "account_fits a" "account_ok a"
    using fits assms(4) by (simp_all add: assms(1) account_fits_def account_ok_def)
  ultimately show ?thesis using bal
    by (simp add: can_pay_def ats_free_def sample_paid_def empty_db_def sample_env_def is_int32_def int_bounds)
qed

lemma sample_payment_run:
  "\<exists>d'. make_debtor_payment sample_env sample_ts sample_ts CT_INTEREST 1 2 50 [] []
     (sample_paid (sample_account 2 1000)) = Inr d'"
proof -
  let ?a = "sample_account 2 1000"
  have can: "can_pay sample_env sample_ts ?a (sample_paid ?a)"
    by (rule sample_can_pay [where pr = 1000 and n = 0 and f = 0 and s = T0 and u = T0]) (simp_all add: sample_account_def is_int32_def int_bounds)
  have row: "get_account_row (acc_debtor_id ?a) (acc_creditor_id ?a) (sample_paid ?a) = Some ?a"
    using sample_paid_simps(1) [of ?a] by simp
  have lock: "lock_or_create_account sample_env 1 2 sample_ts sample_ts (sample_paid ?a) = Inr (?a, sample_paid ?a)"
    using sample_paid_simps(1) [of ?a] by (simp add: lock_or_create_account_def get_account_instance_def is_deleted_def)
  show ?thesis
    using pay_and_save_total [OF can _ row, of 50 CT_INTEREST "[]" "[]"] lock
    by (simp add: make_debtor_payment_def CT_INTEREST_def CT_DIRECT_def int_bounds)
qed

lemma sample_capitalization_run:
  "\<exists>d'. capitalize_interest sample_env sample_ts 1 2 0 (sample_paid sample_interest_account) = Inr d'
     \<and> stored_principal 1 2 d' = 1060"
proof -
  let ?a = "sample_interest_account" and ?d = "sample_paid sample_interest_account"
  let ?b = "?a\<lparr>acc_last_interest_capitalization_ts := sample_ts\<rparr>"
  have pk: "account_pk ?a = (1, 2)" "acc_status_flags ?a = 0"
    by (simp_all add: sample_interest_account_def account_pk_def)
  note acc = sample_paid_simps [OF pk]
  have can: "can_pay sample_env sample_ts ?b ?d"
    by (rule sample_can_pay [where pr = 1000 and n = 60 and f = 0 and s = sample_ts and u = T0])
      (simp_all add: sample_interest_account_def sample_account_def is_int32_def int_bounds)
  have row: "get_account_row (acc_debtor_id ?b) (acc_creditor_id ?b) ?d = Some ?a"
    using acc(1) by (simp add: sample_interest_account_def)
  have bal: "Account_calc_current_balance sample_env ?a sample_ts = Inr (dec_of_int 1060)"
    using sample_int_balance [of 1000 60] by (simp add: sample_interest_account_def)
  have "dec_sub (dec_of_int 1060) (dec_of_int 1000) = Inr (dec_of_int 60)"
    using dec_add_ints [of 1060 "- 1000"] by (simp add: dec_sub_def dec_of_int_def)
  then have acm: "calc_account_accumulated_interest sample_env ?a sample_ts = Inr (dec_of_int 60)"
    using bal by (simp add: calc_account_accumulated_interest_def sample_interest_account_def)
  have amt: "contain_principal_overflow 60 = 60" by (simp add: contain_id int_bounds)
  obtain d' where pay: "bindR (make_debtor_payment_on sample_env CT_INTEREST ?b 60 sample_ts [] [] ?d)
      (\<lambda>(a, d). save_account sample_env a d) = Inr d'"
    using pay_and_save_total [OF can _ row, of 60 CT_INTEREST "[]" "[]"] by (auto simp: int_bounds)
  have old: "acc_last_interest_capitalization_ts ?a \<le> sample_ts"
    by (simp add: sample_interest_account_def sample_account_def sample_ts_def T0_def)
  have run: "capitalize_interest sample_env sample_ts 1 2 0 ?d = Inr d'"
    using acc(2) old acm pay amt
    by (simp add: capitalize_interest_def datetime_add_def sample_ts_def DATETIME_MIN_def DATETIME_MAX_def)
  obtain c d1 where c: "make_debtor_payment_on sample_env CT_INTEREST ?b 60 sample_ts [] [] ?d = Inr (c, d1)"
      "save_account sample_env c d1 = Inr d'" using pay by (auto simp: bindR_eq_Inr)
  note wf = sample_interest_invariant(1)
  note st = stored_account [OF acc(2) wf]
  have c': "make_debtor_payment_on sample_env CT_INTEREST ?b 60 sample_ts [] []
      (?d\<lparr>db_accounts := db_accounts ?d, db_account_update_signals := db_account_update_signals ?d\<rparr>) = Inr (c, d1)"
      "save_account sample_env c (d1\<lparr>db_account_update_signals := db_account_update_signals d1\<rparr>) = Inr d'"
    using c by simp_all
  have "\<not> is_deleted c" using make_debtor_payment_on_deleted [OF c(1)] by (simp add: sample_interest_account_def is_deleted_def)
  then have "payment_effect sample_ts 1 2 60 ?d d'"
    by (intro payment_then_save [OF _ _ _ _ _ st(7) _ st(4) _ c'(1) refl refl _ c'(2)])
      (use st in \<open>simp_all add: sample_interest_account_def\<close>)
  from payment_effectD [OF this] have "stored_principal 1 2 d' = contain_principal_overflow (stored_principal 1 2 ?d + 60)"
    by (simp add: ROOT_CREDITOR_ID_def)
  moreover have "stored_principal 1 2 ?d = 1000"
    using acc(1) by (simp add: stored_principal_def sample_interest_account_def)
  ultimately show ?thesis using run by (simp add: contain_id int_bounds)
qed

lemma sample_deletion_payment:
  obtains c d1 where
    "make_debtor_payment_on sample_env CT_DELETE (sample_scheduled_account\<lparr>acc_last_deletion_attempt_ts := sample_ts\<rparr>)
       (- 1) sample_ts [] [] (sample_paid sample_scheduled_account) = Inr (c, d1)"
    "account_fits c" "account_ok c" "db_accounts d1 = db_accounts (sample_paid sample_scheduled_account)"
    "account_pk c = (1, 2)" "acc_interest_rate c = acc_interest_rate sample_scheduled_account"
    "acc_previous_interest_rate c = acc_previous_interest_rate sample_scheduled_account"
    "acc_negligible_amount c = acc_negligible_amount sample_scheduled_account"
    "acc_status_flags c = 0 \<or> acc_status_flags c = 0 OR STATUS_OVERFLOWN_FLAG" "acc_last_change_seqnum c = 1"
proof -
  let ?d = "sample_paid sample_scheduled_account"
  let ?b = "sample_scheduled_account\<lparr>acc_last_deletion_attempt_ts := sample_ts\<rparr>"
  have can: "can_pay sample_env sample_ts ?b ?d"
    by (rule sample_can_pay [where pr = 1 and n = 0 and f = CONFIG_SCHEDULED_FOR_DELETION_FLAG and s = T0 and u = sample_ts])
      (simp_all add: sample_scheduled_account_def sample_account_def is_int32_def int_bounds
        CONFIG_SCHEDULED_FOR_DELETION_FLAG_def)
  obtain c d1 where pay: "make_debtor_payment_on sample_env CT_DELETE ?b (- 1) sample_ts [] [] ?d = Inr (c, d1)"
    and c: "account_fits c" "account_ok c" "db_accounts d1 = db_accounts ?d" "account_pk c = account_pk ?b"
      "acc_interest_rate c = acc_interest_rate ?b" "acc_previous_interest_rate c = acc_previous_interest_rate ?b"
      "acc_negligible_amount c = acc_negligible_amount ?b"
    using make_debtor_payment_on_total [OF can, of "- 1" CT_DELETE "[]" "[]"] by (auto simp: int_bounds)
  obtain a1 where a1: "insert_account_transfer_signal ?b CT_DELETE ROOT_CREDITOR_ID sample_ts (- 1) [] []
           (contain_principal_overflow (acc_principal ?b + - 1))
           (add_pending_balance_change_signal (debtor_payment_signal ?b CT_DELETE (- 1) sample_ts [] []) ?d) = Inr (a1, d1)"
      "apply_account_change sample_env a1 (- 1)
              (float_of_int (if CT_DELETE = CT_INTEREST then - (- 1) else 0)) sample_ts = Inr c"
    using make_debtor_payment_on_InrD [OF pay] by (auto simp: sample_scheduled_account_def ROOT_CREDITOR_ID_def)
  have "acc_status_flags a1 = 0" "acc_last_change_seqnum a1 = 0"
    using insert_account_transfer_signal_InrD [OF a1(1)] by (auto simp: sample_scheduled_account_def sample_account_def)
  then have "acc_status_flags c = 0 \<or> acc_status_flags c = 0 OR STATUS_OVERFLOWN_FLAG" "acc_last_change_seqnum c = 1"
    using apply_account_change_InrD [OF a1(2)] by (auto simp: touch_def sample_env_def int_bounds)
  then show thesis using that [OF pay c(1-3)] c(4-) by (simp add: sample_scheduled_account_def account_pk_def)
qed

lemma sample_deletion_save:
  assumes c: "account_fits c" "account_ok c" "account_pk c = (1, 2)"
      "acc_interest_rate c = acc_interest_rate sample_scheduled_account"
      "acc_previous_interest_rate c = acc_previous_interest_rate sample_scheduled_account"
      "acc_negligible_amount c = acc_negligible_amount sample_scheduled_account"
      "acc_status_flags c = 0 \<or> acc_status_flags c = 0 OR STATUS_OVERFLOWN_FLAG" "acc_last_change_seqnum c = 1"
    and d1: "db_accounts d1 = db_accounts (sample_paid sample_scheduled_account)"
  shows "\<exists>b d2 d' row. mark_account_as_deleted sample_env c sample_ts d1 = Inr (b, d2) \<and> save_account sample_env b d2 = Inr d'
    \<and> get_account_row 1 2 d' = Some row \<and> is_deleted row"
proof -
  let ?c = "(touch sample_env sample_ts (c\<lparr>acc_principal := 0, acc_interest := Fin 0, acc_total_locked_amount := 0,
             acc_status_flags := acc_status_flags c OR STATUS_DELETED_FLAG\<rparr>))
             \<lparr>acc_last_heartbeat_ts := sample_ts, acc_pending_account_update := False\<rparr>"
  obtain d2 where mark: "mark_account_as_deleted sample_env c sample_ts d1 = Inr (?c, d2)"
      "db_accounts d2 = db_accounts d1"
    by (simp add: mark_account_as_deleted_def insert_account_update_signal_def add_account_update_signal_def
        storeR_def Let_def)
  have flags: "is_int32 (acc_status_flags c OR STATUS_DELETED_FLAG)"
    using c(7) by (auto simp: is_int32_def int_bounds STATUS_OVERFLOWN_FLAG_def STATUS_DELETED_FLAG_def)
  have seq: "is_int32 (increment_seqnum sample_env (acc_last_change_seqnum c))"
    by (simp add: c(8) sample_env_def is_int32_def int_bounds)
  have "account_fits ?c \<and> account_ok ?c"
    using c(1,2) flags seq by (simp add: touch_def account_fits_def account_ok_def is_int64_def int_bounds)
  moreover have pk: "account_pk sample_scheduled_account = (1, 2)" "acc_status_flags sample_scheduled_account = 0"
    by (simp_all add: sample_scheduled_account_def account_pk_def)
  then have "get_account_row (acc_debtor_id ?c) (acc_creditor_id ?c) d2 = Some sample_scheduled_account"
    using sample_paid_simps(1) [OF pk] c(3) d1 mark(2) by (simp add: get_account_row_def account_pk_def)
  ultimately obtain d' where save: "save_account sample_env ?c d2 = Inr d'"
    using save_account_same_rates_total [of ?c d2 sample_scheduled_account sample_env] c by auto
  moreover have "tbl_wf account_pk account_ok (db_accounts d2)"
    using db_wf_accs [OF sample_scheduled_invariant(1)] mark(2) d1 by simp
  from save_account_row [OF save refl this] obtain r p n where
    "get_account_row (acc_debtor_id ?c) (acc_creditor_id ?c) d'
      = Some (?c\<lparr>acc_interest_rate := r, acc_previous_interest_rate := p, acc_negligible_amount := n\<rparr>)" by blast
  moreover have "acc_debtor_id ?c = 1" "acc_creditor_id ?c = 2" using c(3) by (simp_all add: account_pk_def)
  moreover have "is_deleted (?c\<lparr>acc_interest_rate := r, acc_previous_interest_rate := p, acc_negligible_amount := n\<rparr>)"
    by (rule is_deleted_marked [of _ "acc_status_flags c"]) simp
  ultimately show ?thesis using mark(1) by metis
qed

lemma sample_deletion_run:
  "\<exists>d' row. try_to_delete_account sample_env sample_ts 1 2 (sample_paid sample_scheduled_account) = Inr d'
     \<and> get_account_row 1 2 d' = Some row \<and> is_deleted row"
proof -
  let ?b = "sample_scheduled_account\<lparr>acc_last_deletion_attempt_ts := sample_ts\<rparr>"
  have pk: "account_pk sample_scheduled_account = (1, 2)" "acc_status_flags sample_scheduled_account = 0"
    by (simp_all add: sample_scheduled_account_def account_pk_def)
  obtain c d1 where pay: "make_debtor_payment_on sample_env CT_DELETE ?b (- 1) sample_ts [] []
      (sample_paid sample_scheduled_account) = Inr (c, d1)"
    and c: "account_fits c" "account_ok c" "db_accounts d1 = db_accounts (sample_paid sample_scheduled_account)"
      "account_pk c = (1, 2)" "acc_interest_rate c = acc_interest_rate sample_scheduled_account"
      "acc_previous_interest_rate c = acc_previous_interest_rate sample_scheduled_account"
      "acc_negligible_amount c = acc_negligible_amount sample_scheduled_account"
      "acc_status_flags c = 0 \<or> acc_status_flags c = 0 OR STATUS_OVERFLOWN_FLAG" "acc_last_change_seqnum c = 1"
    by (rule sample_deletion_payment)
  from sample_deletion_save [OF c(1,2,4-9,3)] obtain b d2 d' row where
    saved: "mark_account_as_deleted sample_env c sample_ts d1 = Inr (b, d2)" "save_account sample_env b d2 = Inr d'"
      "get_account_row 1 2 d' = Some row" "is_deleted row" by blast
  have "Account_calc_current_balance sample_env ?b sample_ts = Inr (Fin 1)"
    using sample_int_balance [of 1 0] by (simp add: sample_scheduled_account_def Account_calc_current_balance_def
        sample_account_def dec_of_int_def)
  moreover have "is_negligible_balance (Fin 1) (Fin 0) = Inr True"
    by (simp add: is_negligible_balance_def dec_le_def)
  moreover have "acc_principal ?b = 1" "acc_negligible_amount ?b = Fin 0" "acc_pending_transfers_count ?b = 0"
      "acc_config_flags ?b AND CONFIG_SCHEDULED_FOR_DELETION_FLAG \<noteq> 0"
    by (simp_all add: sample_scheduled_account_def sample_account_def CONFIG_SCHEDULED_FOR_DELETION_FLAG_def)
  ultimately have "try_to_delete_account sample_env sample_ts 1 2 (sample_paid sample_scheduled_account) = Inr d'"
    using sample_paid_simps(2) [OF pk] pay saved(1,2)
    by (simp add: try_to_delete_account_def Let_def ROOT_CREDITOR_ID_def)
  then show ?thesis using saved(3,4) by blast
qed

section \<open>Properties\<close>

text \<open>
  C18. Payments between an account and its debtor conserve money: unless a principal hits the end of its
  range, the principals of a debtor's accounts together with the balance changes that have been sent add
  up to the same sum before and after a payment, a capitalization of interest or a deletion.
\<close>

theorem payments_conserve_money:
  assumes "make_debtor_payment E ts its ct i j amt fmt note d = Inr d'
      \<or> capitalize_interest E ts i j m d = Inr d' \<or> try_to_delete_account E ts i j d = Inr d'"
    and "db_wf d" "locks_within d" and "\<bar>stored_principal i j d'\<bar> < MAX_INT64"
  shows "principals k (db_accounts d') + sent_total k d' = principals k (db_accounts d) + sent_total k d"
  using payments_cases [OF assms(1-3)] payment_conserves [OF _ assms(4)] by blast

theorem payments_conserve_money_witness:
  "\<exists>d'. capitalize_interest sample_env sample_ts 1 2 0 (sample_paid sample_interest_account) = Inr d'
     \<and> principals 1 (db_accounts d') + sent_total 1 d' = 0"
proof -
  obtain d' where d': "capitalize_interest sample_env sample_ts 1 2 0 (sample_paid sample_interest_account) = Inr d'"
      "stored_principal 1 2 d' = 1060" using sample_capitalization_run by blast
  note payments_conserve_money [OF disjI2 [OF disjI1 [OF d'(1)]] sample_interest_invariant, of 1]
  moreover have "principals 1 (db_accounts (sample_paid sample_interest_account))
      + sent_total 1 (sample_paid sample_interest_account) = 0"
    by (simp add: principals_def sent_total_def sample_paid_def empty_db_def sample_interest_account_def)
  ultimately show ?thesis using d' by (auto simp: int_bounds)
qed

text \<open>
  C24. Interest is capitalized only when the interval has passed, in the amount that has accumulated
  rounded down and contained in range, and it is taken from the debtor's account: exactly one opposite
  balance change is sent.
\<close>

theorem interest_capitalized:
  assumes run: "capitalize_interest E ts i j m d = Inr d'" and wf: "db_wf d" and "d' \<noteq> d"
    and root: "j \<noteq> ROOT_CREDITOR_ID"
  shows "\<exists>a x. get_account i j d = Some a \<and> acc_last_interest_capitalization_ts a \<le> ts - m
    \<and> calc_account_accumulated_interest E a ts = Inr (Fin x)
    \<and> contain_principal_overflow \<lfloor>x\<rfloor> \<noteq> 0
    \<and> stored_principal i j d' = contain_principal_overflow (acc_principal a + contain_principal_overflow \<lfloor>x\<rfloor>)
    \<and> (\<exists>s. db_pending_balance_change_signals d' = db_pending_balance_change_signals d @ [s]
          \<and> pbs_principal_delta s = - contain_principal_overflow \<lfloor>x\<rfloor> \<and> pbs_debtor_id s = i
          \<and> pbs_creditor_id s = ROOT_CREDITOR_ID)"
proof -
  from capitalize_interest_InrD [OF run wf] assms(3) obtain amt a x where
    eff: "payment_effect ts i j amt d d'" "amt \<noteq> 0" and a: "get_account i j d = Some a"
    and x: "acc_last_interest_capitalization_ts a \<le> ts - m" "calc_account_accumulated_interest E a ts = Inr (Fin x)"
      "amt = contain_principal_overflow \<lfloor>x\<rfloor>" by blast
  have "stored_principal i j d = acc_principal a" using stored_account(3) [OF a wf] by simp
  then show ?thesis using payment_effectD [OF eff(1)] eff(2) a x root
    by (intro exI [of _ a] exI [of _ x]) auto
qed

theorem interest_capitalized_witness:
  "\<exists>d' a. capitalize_interest sample_env sample_ts 1 2 0 (sample_paid sample_interest_account) = Inr d'
     \<and> get_account 1 2 (sample_paid sample_interest_account) = Some a
     \<and> acc_last_interest_capitalization_ts a \<le> sample_ts \<and> stored_principal 1 2 d' = 1060"
proof -
  obtain d' where d': "capitalize_interest sample_env sample_ts 1 2 0 (sample_paid sample_interest_account) = Inr d'"
      "stored_principal 1 2 d' = 1060" using sample_capitalization_run by blast
  note wf = sample_interest_invariant(1)
  have "get_account_row 1 2 (sample_paid sample_interest_account) = Some sample_interest_account"
    by (rule sample_paid_simps) (simp_all add: sample_interest_account_def account_pk_def)
  then have "stored_principal 1 2 (sample_paid sample_interest_account) = 1000"
    by (simp add: stored_principal_def sample_interest_account_def)
  then have "d' \<noteq> sample_paid sample_interest_account" using d'(2) by auto
  from interest_capitalized [OF d'(1) wf this] d' show ?thesis by (auto simp: ROOT_CREDITOR_ID_def)
qed

text \<open>
  C20. An account that was not deleted is marked as deleted by \<open>try_to_delete_account\<close> only if it is not
  the root account, is scheduled for deletion, has no prepared transfers, and a balance of at most its
  negligible amount or at most 2; then its whole principal is returned to the debtor: if it was not 0,
  exactly one balance change is sent, from this account to the root account of the debtor, with the principal
  as its delta (none is sent otherwise). The row is left with no principal, interest or locks.
\<close>

theorem deletion_is_safe:
  assumes run: "try_to_delete_account E ts i j d = Inr d'" and wf: "db_wf d" "locks_within d"
    and acc: "get_account i j d = Some a"
    and row: "get_account_row i j d' = Some row" "is_deleted row"
  shows "j \<noteq> ROOT_CREDITOR_ID \<and> acc_config_flags a AND CONFIG_SCHEDULED_FOR_DELETION_FLAG \<noteq> 0
    \<and> pending_count (i, j) (db_prepared_transfers d) = 0
    \<and> (\<exists>b. Account_calc_current_balance E a ts = Inr b
          \<and> (dec_le b (acc_negligible_amount a) = Inr True \<or> dec_le b (Fin 2) = Inr True))
    \<and> acc_principal row = 0 \<and> acc_interest row = Fin 0 \<and> acc_total_locked_amount row = 0
    \<and> acc_pending_transfers_count row = 0
    \<and> (\<exists>new. db_pending_balance_change_signals d' = db_pending_balance_change_signals d @ new
         \<and> (if acc_principal a = 0 then new = []
            else \<exists>s. new = [s] \<and> pbs_debtor_id s = i \<and> pbs_creditor_id s = ROOT_CREDITOR_ID
              \<and> pbs_other_creditor_id s = j \<and> pbs_principal_delta s = acc_principal a
              \<and> pbs_committed_at s = ts))"
proof -
  have "d' \<noteq> d" using row get_account_SomeD [OF acc] by auto
  with try_to_delete_account_InrD [OF run wf] acc row obtain amt b where
    eff: "payment_effect ts i j amt d d'" and j: "j \<noteq> ROOT_CREDITOR_ID"
    and res: "amt = - acc_principal a" "acc_principal row = 0" "acc_interest row = Fin 0"
         "acc_pending_transfers_count row = 0" "acc_total_locked_amount row = 0"
         "acc_config_flags a AND CONFIG_SCHEDULED_FOR_DELETION_FLAG \<noteq> 0"
         "acc_pending_transfers_count a = 0"
    and bal: "Account_calc_current_balance E a ts = Inr b" "is_negligible_balance b (acc_negligible_amount a) = Inr True"
    by (auto split: if_splits)
  have count: "pending_count (i, j) (db_prepared_transfers d) = 0"
    using wf(2) stored_account [OF acc wf(1)] res(7) by (auto simp: locks_within_def account_pk_def)
  have "dec_le b (acc_negligible_amount a) = Inr True \<or> dec_le b (Fin 2) = Inr True"
    using bal(2) by (auto simp: is_negligible_balance_def bindR_eq_Inr split: if_splits)
  moreover have "\<exists>new. db_pending_balance_change_signals d' = db_pending_balance_change_signals d @ new
         \<and> (if acc_principal a = 0 then new = []
            else \<exists>s. new = [s] \<and> pbs_debtor_id s = i \<and> pbs_creditor_id s = ROOT_CREDITOR_ID
              \<and> pbs_other_creditor_id s = j \<and> pbs_principal_delta s = acc_principal a
              \<and> pbs_committed_at s = ts)"
    using payment_sent [OF eff] j res(1) by auto
  ultimately show ?thesis using j res count bal(1) by blast
qed

theorem deletion_is_safe_witness:
  "\<exists>d' row s. try_to_delete_account sample_env sample_ts 1 2 (sample_paid sample_scheduled_account) = Inr d'
     \<and> get_account_row 1 2 d' = Some row \<and> is_deleted row \<and> acc_principal row = 0
     \<and> db_pending_balance_change_signals d' = [s] \<and> pbs_debtor_id s = 1 \<and> pbs_creditor_id s = ROOT_CREDITOR_ID
     \<and> pbs_other_creditor_id s = 2 \<and> pbs_principal_delta s = 1"
proof -
  obtain d' row where run: "try_to_delete_account sample_env sample_ts 1 2 (sample_paid sample_scheduled_account) = Inr d'"
     "get_account_row 1 2 d' = Some row" "is_deleted row" using sample_deletion_run by blast
  have acc: "get_account 1 2 (sample_paid sample_scheduled_account) = Some sample_scheduled_account"
    by (rule sample_paid_simps) (simp_all add: sample_scheduled_account_def account_pk_def)
  have "db_pending_balance_change_signals (sample_paid sample_scheduled_account) = []"
      "acc_principal sample_scheduled_account = 1"
    by (simp_all add: sample_paid_def empty_db_def sample_scheduled_account_def)
  with deletion_is_safe [OF run(1) sample_scheduled_invariant acc run(2,3)] run show ?thesis by auto
qed

end
