(* ===== verification/MessagesProps.thy ===== *)
theory MessagesProps
  imports Messages FinalizationProps PaymentsProps
begin

text \<open>
  What the checks of the actors guarantee, and what happens to the message of a committed transfer: the
  signal that a finalization leaves is a message that the actor of the recipient's account accepts.
\<close>

section \<open>Accepted messages\<close>

lemma assertR_eq: "assertR b = Inr () \<longleftrightarrow> b"
  by (simp add: assertR_def)

lemma check_pending_balance_change_ok:
  assumes "fromisoformat committed_at = Inr (Aware t)" and "T0 < t"
    and "is_int64 i" "is_int64 j" "is_int64 n" "is_int64 k" "length ct \<le> 30" "isascii ct"
    and "RE_TRANSFER_NOTE_FORMAT fmt" "check_max_bytes TRANSFER_NOTE_MAX_BYTES note = Inr ()"
    and "- MAX_INT64 \<le> delta" "delta \<le> MAX_INT64"
  shows "check_pending_balance_change i j n ct fmt note committed_at delta k = Inr t"
  using assms by (simp add: check_pending_balance_change_def check_coordinator_type_def check_ts_def awareR_def assertR_def)

text \<open>The fields of a signal that its receiver will check.\<close>

definition deliverable :: "pending_balance_change_signal \<Rightarrow> bool" where
  "deliverable s \<longleftrightarrow>
     is_int64 (pbs_debtor_id s) \<and> is_int64 (pbs_creditor_id s) \<and> is_int64 (pbs_change_id s)
     \<and> is_int64 (pbs_other_creditor_id s)
     \<and> length (pbs_coordinator_type s) \<le> 30 \<and> isascii (pbs_coordinator_type s)
     \<and> RE_TRANSFER_NOTE_FORMAT (pbs_transfer_note_format s)
     \<and> check_max_bytes TRANSFER_NOTE_MAX_BYTES (pbs_transfer_note s) = Inr ()
     \<and> T0 < pbs_committed_at s
     \<and> - MAX_INT64 \<le> pbs_principal_delta s \<and> pbs_principal_delta s \<le> MAX_INT64"

definition deliver_change :: "app_config \<Rightarrow> pending_balance_change_signal \<Rightarrow> db \<Rightarrow> db result" where
  "deliver_change c s =
     insert_pending_balance_change (pbs_debtor_id s) (pbs_other_creditor_id s) (pbs_change_id s) (pbs_creditor_id s)
       (pbs_coordinator_type s) (pbs_transfer_note_format s) (pbs_transfer_note s) (pbs_committed_at s)
       (pbs_principal_delta s) (APP_REGISTERED_BALANCE_CHANGES_RETENTION_DATETIME c)"

lemma receive_deliverable:
  assumes "deliverable s" and "fromisoformat (fmt (pbs_committed_at s)) = Inr (Aware (pbs_committed_at s))"
  shows "receive_pending_balance_change fmt c (pending_balance_change_message s) d = deliver_change c s d"
proof -
  have "check_pending_balance_change (pbs_debtor_id s) (pbs_creditor_id s) (pbs_change_id s) (pbs_coordinator_type s)
      (pbs_transfer_note_format s) (pbs_transfer_note s) (fmt (pbs_committed_at s)) (pbs_principal_delta s)
      (pbs_other_creditor_id s) = Inr (pbs_committed_at s)"
    by (rule check_pending_balance_change_ok [OF assms(2)]) (use assms(1) in \<open>simp_all add: deliverable_def\<close>)
  then show ?thesis
    by (simp add: receive_pending_balance_change_def pending_balance_change_message_def deliver_change_def
        on_pending_balance_change_signal_def)
qed

section \<open>Signals of committed transfers\<close>

text \<open>What the actor \<open>finalize_transfer\<close> and the columns of the tables guarantee of the rows.\<close>

definition request_deliverable :: "finalization_request \<Rightarrow> bool" where
  "request_deliverable fr \<longleftrightarrow>
     finalization_request_fits fr \<and> isascii (fr_coordinator_type fr)
     \<and> RE_TRANSFER_NOTE_FORMAT (fr_transfer_note_format fr)
     \<and> check_max_bytes TRANSFER_NOTE_MAX_BYTES (fr_transfer_note fr) = Inr ()"

lemma accepted_finalization:
  assumes "check_finalize_transfer i j n ct k m amount fmt note ts = Inr t"
  defines "fr \<equiv> \<lparr>fr_debtor_id = i, fr_sender_creditor_id = j, fr_transfer_id = n, fr_coordinator_type = ct,
    fr_coordinator_id = k, fr_coordinator_request_id = m, fr_committed_amount = amount, fr_transfer_note_format = fmt,
    fr_transfer_note = note, fr_ts = t\<rparr>"
  shows "request_deliverable fr" "finalization_request_ok fr" "T0 < t"
    "finalize_transfer_actor now i j n ct k m amount fmt note ts d
      = Inr (if tbl_lookup finalization_request_pk (i, j, n) (db_finalization_requests d) = None
             then d\<lparr>db_finalization_requests := db_finalization_requests d @ [fr]\<rparr> else d)"
proof -
  have c: "is_int64 i" "is_int64 j" "is_int64 n" "length ct \<le> 30" "isascii ct" "is_int64 k" "is_int64 m" "0 \<le> amount"
      "amount \<le> MAX_INT64" "RE_TRANSFER_NOTE_FORMAT fmt" "check_max_bytes TRANSFER_NOTE_MAX_BYTES note = Inr ()" "T0 < t"
    using assms(1) by (simp_all add: check_finalize_transfer_def monad_simps check_coordinator_type_def check_ts_def) blast+
  then have "is_int64 amount" by (simp add: is_int64_def int_bounds)
  then show fr: "request_deliverable fr" "finalization_request_ok fr"
    using c by (simp_all add: fr_def request_deliverable_def finalization_request_fits_def finalization_request_ok_def)
  show "T0 < t" by (rule c)
  show "finalize_transfer_actor now i j n ct k m amount fmt note ts d
      = Inr (if tbl_lookup finalization_request_pk (i, j, n) (db_finalization_requests d) = None
             then d\<lparr>db_finalization_requests := db_finalization_requests d @ [fr]\<rparr> else d)"
    using fr by (simp add: finalize_transfer_actor_def assms(1) finalize_transfer_def insert_finalization_request_def
        tbl_insert_def finalization_request_pk_def dataR_def request_deliverable_def fr_def)
qed

lemma finalize_transfer_actor_deliverable:
  assumes "finalize_transfer_actor now i j n ct k m amount fmt note ts d = Inr d'"
    and "\<forall>fr \<in> set (db_finalization_requests d). request_deliverable fr"
  shows "\<forall>fr \<in> set (db_finalization_requests d'). request_deliverable fr"
proof -
  obtain t where t: "check_finalize_transfer i j n ct k m amount fmt note ts = Inr t"
    using assms(1) by (auto simp: finalize_transfer_actor_def bindR_eq_Inr)
  show ?thesis using accepted_finalization(1,4) [OF t] assms by (auto split: if_splits)
qed

section \<open>The signal of the sample run\<close>

definition sample_change_signal :: pending_balance_change_signal where
  "sample_change_signal = recipient_change_signal sample_row sample_finalization sample_ts 600\<lparr>pbs_change_id := 1\<rparr>"

lemma sample_deliverable:
  "\<forall>fr \<in> set (db_finalization_requests sample_finalization_db). request_deliverable fr"
  "\<forall>pt \<in> set (db_prepared_transfers sample_finalization_db). prepared_transfer_fits pt"
proof -
  show "\<forall>fr \<in> set (db_finalization_requests sample_finalization_db). request_deliverable fr"
    by (simp add: sample_finalization_db_def sample_finalization_def request_deliverable_def finalization_request_fits_def
        is_int64_def int_bounds isascii_def RE_TRANSFER_NOTE_FORMAT_def match_anchored_def check_max_bytes_def
        encode_utf8_def assertR_def CT_DIRECT_def)
  show "\<forall>pt \<in> set (db_prepared_transfers sample_finalization_db). prepared_transfer_fits pt"
    by (simp add: sample_finalization_tables sample_row_def prepared_transfer_row_def sample_request_def
        prepared_transfer_fits_def is_int64_def int_bounds CT_DIRECT_def)
qed

lemma sample_finalization_signals:
  "\<exists>d'. process_finalization_requests sample_env (\<lambda>_. False) sample_ts 1 2 sample_finalization_db = Inr d'
    \<and> db_pending_balance_change_signals d' = [sample_change_signal]"
proof -
  let ?a = "lock_amount 600 (sample_account 2 1000)"
  let ?l0 = "\<lparr>fl_account = Some ?a, fl_principal_delta = 0, fl_signals = [], fl_db = sample_finalization_db\<rparr>"
  let ?S = "recipient_change_signal sample_row sample_finalization sample_ts 600"
  obtain d' where d': "process_finalization_requests sample_env (\<lambda>_. False) sample_ts 1 2 sample_finalization_db = Inr d'"
    using sample_finalization_run by blast
  have pairs: "join_prepared_transfers sample_finalization_db (handled_finalizations (\<lambda>_. False) 1 2 sample_finalization_db)
      = [(sample_finalization, Some sample_row)]"
    by (simp add: handled_finalizations_def finalization_requests_of_def sample_finalization_db_def
        sample_finalization_def join_prepared_transfers_def sample_prepared_db_def prepared_transfer_join_clause_def
        sample_row_def prepared_transfer_row_def sample_request_def)
  have code: "calc_status_code sample_env sample_row 600 400 (Fin 0) sample_ts = Inr SC_OK"
    by (simp add: calc_status_code_def sample_row_def prepared_transfer_row_def sample_request_def get_is_expendable_def)
  have x: "finalization_expendable_amount 1000 0 ?a 0 = 400"
    by (simp add: finalization_expendable_amount_def lock_amount_def int_bounds)
  have row: "pt_locked_amount sample_row = 600" "fr_committed_amount sample_finalization = 600"
    by (simp_all add: sample_row_def prepared_transfer_row_def sample_finalization_def)
  have rate: "acc_interest_rate (unlock_amount 600 ?a) = Fin 0" by (simp add: unlock_amount_def lock_amount_def)
  have next_id: "db_next_change_id sample_finalization_db = 1"
    by (simp add: sample_finalization_db_def sample_prepared_db_def sample_requests_db_def sample_db_def empty_db_def)
  have "\<exists>b d. finalize_prepared_transfer sample_env sample_row sample_finalization ?a 400 sample_ts sample_finalization_db
      = Inr (Some ?S, b, d) \<and> db_pending_balance_change_signals d = [] \<and> db_next_change_id d = 1"
    by (simp add: finalize_prepared_transfer_def row rate code Let_def add_finalized_transfer_signal_def tbl_insert_def
        tbl_lookup_None sample_finalization_tables insert_account_transfer_signal_def add_account_transfer_signal_def
        ROOT_CREDITOR_ID_def next_id)
  then have "\<exists>l. finalization_loop_body sample_env sample_ts 1000 0 (sample_finalization, Some sample_row) ?l0 = Inr l
      \<and> fl_signals l = [?S] \<and> db_pending_balance_change_signals (fl_db l) = [] \<and> db_next_change_id (fl_db l) = 1"
    by (auto simp: finalization_loop_body_def x recipient_change_signal_def delete_finalization_request_def
        delete_prepared_transfer_def)
  then obtain l where l: "foldR (finalization_loop_body sample_env sample_ts 1000 0) [(sample_finalization, Some sample_row)]
      ?l0 = Inr l" "fl_signals l = [?S]" "db_pending_balance_change_signals (fl_db l) = []" "db_next_change_id (fl_db l) = 1"
    by auto
  have "db_pending_balance_change_signals d' = [sample_change_signal]"
    using d' l unfolding process_finalization_requests_def handled_finalizations_def [symmetric] pairs
      sample_finalization_account
    by (auto simp: sample_balance Let_def bindR_eq_Inr get_min_account_balance_def ROOT_CREDITOR_ID_def save_sender_def
        fold_add_pending sample_change_signal_def dest!: save_account_InrD simp del: foldR.simps split: option.splits)
  then show ?thesis using d' by blast
qed

text \<open>
  C33. A committed transfer reaches its recipient: every signal that \<open>process_finalization_requests\<close> leaves for a
  recipient is a message that passes all checks of \<open>on_pending_balance_change_signal\<close> (once marshmallow has written
  its time in a form that \<open>fromisoformat\<close> reads back), and queues exactly that change of the recipient's balance.
\<close>

theorem committed_transfers_delivered:
  assumes "process_finalization_requests E skip ts i j d = Inr d'" and "db_wf d" and "get_account i j d = Some a"
    and "\<forall>fr \<in> set (db_finalization_requests d). request_deliverable fr"
    and "\<forall>pt \<in> set (db_prepared_transfers d). prepared_transfer_fits pt"
    and "T0 < ts" and "fromisoformat (fmt ts) = Inr (Aware ts)"
  shows "\<exists>signals. db_pending_balance_change_signals d' = db_pending_balance_change_signals d @ signals
    \<and> (\<forall>s \<in> set signals. 0 < pbs_principal_delta s
        \<and> (is_int64 (pbs_change_id s) \<longrightarrow>
            receive_pending_balance_change fmt c (pending_balance_change_message s) r = deliver_change c s r))"
proof -
  obtain outs where r: "map (\<lambda>x. (out_fr x, out_pt x)) outs = finalization_pairs skip i j d"
    "\<forall>x \<in> set outs. outcome_ok x"
    "db_pending_balance_change_signals d' = db_pending_balance_change_signals d
          @ number_changes (db_next_change_id d) (change_signals ts outs)"
    using finalization_result [OF assms(1-3)] by blast
  have "0 < pbs_principal_delta s \<and> pbs_committed_at s = ts \<and> (is_int64 (pbs_change_id s) \<longrightarrow> deliverable s)"
    if s: "s \<in> set (number_changes (db_next_change_id d) (change_signals ts outs))" for s
  proof -
    obtain x n where x: "x \<in> set outs" "0 < out_amount x"
        "s = recipient_change_signal (out_pt x) (out_fr x) ts (out_amount x)\<lparr>pbs_change_id := n\<rparr>"
      using number_changes_mem [OF s] by (auto simp: change_signals_def)
    have "(out_fr x, out_pt x) \<in> set (finalization_pairs skip i j d)" using x(1) by (force simp flip: r(1))
    then have "out_fr x \<in> set (db_finalization_requests d)" "out_pt x \<in> set (db_prepared_transfers d)"
        "prepared_transfer_join_clause (out_fr x) (out_pt x)"
      unfolding finalization_pairs_def matched_mem join_prepared_transfers_def
      by (auto simp: handled_finalizations_def finalization_requests_of_def find_Some_iff dest!: sym [of "Some _"])
    then have "request_deliverable (out_fr x)" "prepared_transfer_fits (out_pt x)"
        "fr_coordinator_type (out_fr x) = pt_coordinator_type (out_pt x)"
      using assms(4,5) by (auto simp: prepared_transfer_join_clause_def)
    moreover have "out_amount x = fr_committed_amount (out_fr x)"
      using r(2) x(1,2) by (auto simp: outcome_ok_def split: if_splits)
    ultimately show ?thesis using x(2,3) assms(6)
      by (auto simp: deliverable_def recipient_change_signal_def request_deliverable_def prepared_transfer_fits_def
          finalization_request_fits_def is_int64_def int_bounds)
  qed
  then show ?thesis using r(3) receive_deliverable assms(7) by blast
qed

theorem committed_transfers_delivered_witness:
  "\<exists>d' s. process_finalization_requests sample_env (\<lambda>_. False) sample_ts 1 2 sample_finalization_db = Inr d'
    \<and> db_pending_balance_change_signals d' = [s] \<and> pbs_creditor_id s = 3 \<and> pbs_principal_delta s = 600
    \<and> receive_pending_balance_change isoformat Configuration (pending_balance_change_message s) d' = deliver_change Configuration s d'"
proof -
  obtain d' where d': "process_finalization_requests sample_env (\<lambda>_. False) sample_ts 1 2 sample_finalization_db = Inr d'"
      "db_pending_balance_change_signals d' = [sample_change_signal]"
    using sample_finalization_signals by blast
  have "\<exists>signals. db_pending_balance_change_signals d' = db_pending_balance_change_signals sample_finalization_db @ signals
    \<and> (\<forall>s \<in> set signals. 0 < pbs_principal_delta s \<and> (is_int64 (pbs_change_id s) \<longrightarrow>
         receive_pending_balance_change isoformat Configuration (pending_balance_change_message s) d' = deliver_change Configuration s d'))"
    by (rule committed_transfers_delivered [OF d'(1) sample_finalization_invariant(1) sample_finalization_account])
      (simp_all add: sample_deliverable isoformat_roundtrip sample_ts_def T0_def DATETIME_MIN_def DATETIME_MAX_def)
  then show ?thesis using d'
    by (auto simp: sample_finalization_tables sample_change_signal_def recipient_change_signal_def is_int64_def int_bounds
        sample_pair_fields sample_finalization_def sample_row_def prepared_transfer_row_def sample_request_def)
qed

section \<open>Messages that are accepted can be stored\<close>

text \<open>
  A message \<open>FinalizeTransfer\<close> that passes the checks of its actor is always handled without an error: the
  request fits its columns and keeps the CHECK constraint, and a second request for the same transfer, which
  violates the primary key, is ignored.
\<close>

theorem accepted_finalizations_queued:
  assumes "check_finalize_transfer i j n ct k m amount fmt note ts = Inr t"
  shows "\<exists>d'. finalize_transfer_actor now i j n ct k m amount fmt note ts d = Inr d'
    \<and> (if tbl_lookup finalization_request_pk (i, j, n) (db_finalization_requests d) = None
       then \<exists>fr. d' = d\<lparr>db_finalization_requests := db_finalization_requests d @ [fr]\<rparr> \<and> finalization_request_ok fr
         \<and> finalization_request_pk fr = (i, j, n) \<and> fr_committed_amount fr = amount \<and> fr_ts fr = t \<and> T0 < t
       else d' = d)"
  using accepted_finalization [OF assms] by (auto simp: finalization_request_pk_def)

theorem accepted_finalizations_queued_witness:
  "\<exists>d'. finalize_transfer_actor sample_ts 1 2 101 CT_DIRECT 7 1 600 [] [] (isoformat sample_ts) empty_db = Inr d'
    \<and> length (db_finalization_requests d') = 1"
proof -
  have "fromisoformat (isoformat sample_ts) = Inr (Aware sample_ts)"
    by (rule isoformat_roundtrip) (simp_all add: sample_ts_def DATETIME_MIN_def DATETIME_MAX_def)
  then have "check_finalize_transfer 1 2 101 CT_DIRECT 7 1 600 [] [] (isoformat sample_ts) = Inr sample_ts"
    by (simp add: check_finalize_transfer_def is_int64_def int_bounds assertR_def check_coordinator_type_def CT_DIRECT_def
        isascii_def RE_TRANSFER_NOTE_FORMAT_def match_anchored_def check_max_bytes_def encode_utf8_def check_ts_def
        awareR_def sample_ts_def T0_def)
  from accepted_finalizations_queued [OF this, of sample_ts empty_db] show ?thesis
    by (auto simp: empty_db_def tbl_lookup_def)
qed

text \<open>
  C40. The account identifier that the server publishes in its \<open>AccountUpdate\<close> messages is one that
  \<open>prepare_transfer\<close> accepts as a recipient: it is read back as the same creditor, provided that the two conversions of
  \<open>swpt_lib\<close> are inverse to each other and the unsigned identifier is not negative.
\<close>

theorem account_id_is_recipient:
  assumes "u64_to_i64 W (i64_to_u64 W (aus_creditor_id s)) = Some (aus_creditor_id s)"
    and "0 \<le> i64_to_u64 W (aus_creditor_id s)"
    and "account_update_message W c now s = Inr m"
  shows "\<exists>account_id. map_of m ''account_id'' = Some (String account_id)
    \<and> recipient_creditor_id W account_id = Some (aus_creditor_id s)"
  using assms(3) py_int_str [OF assms(2)] assms(1)
  by (auto simp: account_update_message_def bindR_eq_Inr creditor_string_def recipient_creditor_id_def)

text \<open>Identifiers as \<open>swpt_lib\<close> converts them: modulo \<open>2 ^ 64\<close>.\<close>

definition sample_wire :: wire where
  "sample_wire =
     \<lparr>u64_to_i64 = (\<lambda>n. if 0 \<le> n \<and> n < 2 ^ 64 then Some (if n < 2 ^ 63 then n else n - 2 ^ 64) else None),
      i64_to_u64 = (\<lambda>n. n mod 2 ^ 64), unicode_decimal = (\<lambda>_. None), unicode_space = (\<lambda>_. False)\<rparr>"

theorem account_id_is_recipient_witness:
  "\<exists>m account_id. account_update_message sample_wire Configuration sample_ts
        (account_update_signal_of (sample_account (- 2) 1000)) = Inr m
    \<and> map_of m ''account_id'' = Some (String account_id) \<and> recipient_creditor_id sample_wire account_id = Some (- 2)"
proof -
  let ?s = "account_update_signal_of (sample_account (- 2) 1000)"
  have "signal_ttl Configuration = Inr 604800" "signal_commit_period Configuration = Inr 2592000"
    using rnd64_of_int [of 86400] rnd64_of_int [of 604800] rnd64_of_int [of 2592000] int_trunc_of_int [of 604800]
      int_trunc_of_int [of 2592000]
    by (simp_all add: signal_ttl_def signal_commit_period_def Configuration_def float_of_int_def SECONDS_IN_DAY_def)
  then obtain m where m: "account_update_message sample_wire Configuration sample_ts ?s = Inr m"
    by (simp add: account_update_message_def)
  have "aus_creditor_id ?s = - 2" by (simp add: account_update_signal_of_def)
  with account_id_is_recipient [OF _ _ m] m show ?thesis by (simp add: sample_wire_def)
qed

end
