(* ===== verification/ScannersEffects.thy ===== *)
theory ScannersEffects
  imports Scanners BalanceChangesProps
begin

text \<open>
  What one call of \<open>process_rows\<close> does to the database, for any rows, up to date or not: which accounts are
  purged, which heartbeats and reminders are sent, which registrations are dropped, and that all invariants
  survive.
\<close>

section \<open>Bulk inserts\<close>

lemma foldR_tbl_insert: "foldR (tbl_insert pk ok) xs t = Inr t' \<Longrightarrow> t' = t @ xs"
proof (induction xs arbitrary: t)
  case (Cons x xs)
  then obtain u where u: "tbl_insert pk ok x t = Inr u" "foldR (tbl_insert pk ok) xs u = Inr t'"
    by (auto simp: bindR_eq_Inr)
  then have "u = t @ [x]" by (auto simp: tbl_insert_def split: if_splits)
  then show ?case using Cons.IH [OF u(2)] by simp
qed simp

text \<open>A signal as it is stored: its REAL columns are those that PostgreSQL keeps for the values given.\<close>

definition aus_stored :: "env \<Rightarrow> account_update_signal \<Rightarrow> account_update_signal \<Rightarrow> bool" where
  "aus_stored E x y \<longleftrightarrow> (\<exists>r n. store_real E (aus_interest_rate x) = Some r
     \<and> store_real E (aus_negligible_amount x) = Some n \<and> y = x\<lparr>aus_interest_rate := r, aus_negligible_amount := n\<rparr>)"

definition pts_stored :: "prepared_transfer_signal \<Rightarrow> prepared_transfer_signal \<Rightarrow> bool" where
  "pts_stored x y \<longleftrightarrow> (\<exists>r. y = x\<lparr>pts_min_interest_rate := r\<rparr>)"

lemma foldR_add_update_signals:
  "foldR (add_account_update_signal E) xs d = Inr d' \<Longrightarrow>
   \<exists>ys. d' = d\<lparr>db_account_update_signals := db_account_update_signals d @ ys\<rparr> \<and> list_all2 (aus_stored E) xs ys"
proof (induction xs arbitrary: d)
  case Nil
  then show ?case by (intro exI [of _ "[]"]) simp
next
  case (Cons x xs)
  then obtain d1 where d1: "add_account_update_signal E x d = Inr d1" "foldR (add_account_update_signal E) xs d1 = Inr d'"
    by (auto simp: bindR_eq_Inr)
  then obtain r n where run: "foldR (add_account_update_signal E) xs (d\<lparr>db_account_update_signals :=
      db_account_update_signals d @ [x\<lparr>aus_interest_rate := r, aus_negligible_amount := n\<rparr>]\<rparr>) = Inr d'"
    and real: "store_real E (aus_interest_rate x) = Some r" "store_real E (aus_negligible_amount x) = Some n"
    using add_account_update_signal_def [of E x d] by (auto simp: bindR_eq_Inr storeR_def split: option.splits)
  from Cons.IH [OF run] obtain ys where
    "d' = d\<lparr>db_account_update_signals := db_account_update_signals d
        @ (x\<lparr>aus_interest_rate := r, aus_negligible_amount := n\<rparr>) # ys\<rparr>" "list_all2 (aus_stored E) xs ys" by auto
  moreover have "aus_stored E x (x\<lparr>aus_interest_rate := r, aus_negligible_amount := n\<rparr>)"
    unfolding aus_stored_def using real by blast
  ultimately show ?case by blast
qed

lemma foldR_add_prepared_signals:
  "foldR (add_prepared_transfer_signal E) xs d = Inr d' \<Longrightarrow>
   \<exists>ys. d' = d\<lparr>db_prepared_transfer_signals := db_prepared_transfer_signals d @ ys\<rparr> \<and> list_all2 pts_stored xs ys"
proof (induction xs arbitrary: d)
  case Nil
  then show ?case by (intro exI [of _ "[]"]) simp
next
  case (Cons x xs)
  then obtain d1 where d1: "add_prepared_transfer_signal E x d = Inr d1" "foldR (add_prepared_transfer_signal E) xs d1 = Inr d'"
    by (auto simp: bindR_eq_Inr)
  then obtain r where run: "foldR (add_prepared_transfer_signal E) xs (d\<lparr>db_prepared_transfer_signals :=
      db_prepared_transfer_signals d @ [x\<lparr>pts_min_interest_rate := r\<rparr>]\<rparr>) = Inr d'"
    using add_prepared_transfer_signal_def [of E x d] by (auto simp: bindR_eq_Inr)
  from Cons.IH [OF run] obtain ys where
    "d' = d\<lparr>db_prepared_transfer_signals := db_prepared_transfer_signals d @ (x\<lparr>pts_min_interest_rate := r\<rparr>) # ys\<rparr>"
    "list_all2 pts_stored xs ys" by auto
  moreover have "pts_stored x (x\<lparr>pts_min_interest_rate := r\<rparr>)" unfolding pts_stored_def by blast
  ultimately show ?case by blast
qed

section \<open>Purging accounts\<close>

text \<open>The accounts that a call with these rows removes.\<close>

definition purged :: "account_scanner \<Rightarrow> account list \<Rightarrow> datetime \<Rightarrow> account \<Rightarrow> bool" where
  "purged self rows ts a \<longleftrightarrow>
     (let may_go = purgeable (ts - account_purge_delay self) (date_of (ts - few_days_interval self))
      in may_go a \<and> account_pk a \<in> account_pk ` set (filter may_go rows))"

definition drop_accounts :: "(account \<Rightarrow> bool) \<Rightarrow> db \<Rightarrow> db" where
  "drop_accounts P d =
     d\<lparr>db_accounts := filter (\<lambda>a. \<not> P a) (db_accounts d),
       db_prepared_transfers := filter (\<lambda>pt. (pt_debtor_id pt, pt_sender_creditor_id pt)
           \<notin> account_pk ` set (filter P (db_accounts d))) (db_prepared_transfers d)\<rparr>"

lemma drop_accounts_none: "(\<forall>a \<in> set (db_accounts d). \<not> P a) \<Longrightarrow> drop_accounts P d = d"
  by (simp add: drop_accounts_def)

lemma delete_accounts_where_drop:
  assumes "tbl_wf account_pk account_ok (db_accounts d)"
  shows "delete_accounts_where (map account_pk (filter P (db_accounts d))) d = drop_accounts P d"
proof -
  have "account_pk a \<notin> account_pk ` set (filter P (db_accounts d)) \<longleftrightarrow> \<not> P a" if "a \<in> set (db_accounts d)" for a
    using that accs.pk_inj [OF assms] by (auto simp: image_iff)
  then have "filter (\<lambda>a. account_pk a \<notin> account_pk ` set (filter P (db_accounts d))) (db_accounts d)
      = filter (\<lambda>a. \<not> P a) (db_accounts d)" by (intro filter_cong) auto
  then show ?thesis by (simp add: delete_accounts_where_def drop_accounts_def)
qed

lemma purge_accounts_InrD:
  assumes run: "purge_accounts self rows ts d = Inr d'" and wf: "tbl_wf account_pk account_ok (db_accounts d)"
  shows "d' = (drop_accounts (purged self rows ts) d)\<lparr>db_account_purge_signals := db_account_purge_signals d
    @ map account_purge_signal_of (filter (purged self rows ts) (db_accounts d))\<rparr>"
proof -
  let ?go = "purgeable (ts - account_purge_delay self) (date_of (ts - few_days_interval self))"
  have purged: "filter (\<lambda>a. account_pk a \<in> account_pk ` set (filter ?go rows) \<and> ?go a) (db_accounts d)
      = filter (purged self rows ts) (db_accounts d)"
    by (rule filter_cong) (auto simp: purged_def Let_def)
  have none: ?thesis if "d' = d" "filter (purged self rows ts) (db_accounts d) = []"
    using that drop_accounts_none [of d "purged self rows ts"] by (simp add: filter_empty_conv)
  show ?thesis
  proof (cases "filter (purged self rows ts) (db_accounts d) = []")
    case True
    then have "d' = d" using run purged by (auto simp: purge_accounts_def monad_simps Let_def split: if_splits)
    then show ?thesis by (rule none) (rule True)
  next
    case False
    then have "filter ?go rows \<noteq> []" by (auto simp: filter_empty_conv purged_def Let_def)
    then obtain t where t: "foldR (tbl_insert aps_pk (\<lambda>_. True))
        (map account_purge_signal_of (filter (purged self rows ts) (db_accounts d)))
        (db_account_purge_signals (delete_accounts_where (map account_pk (filter (purged self rows ts) (db_accounts d))) d)) = Inr t"
      "d' = (delete_accounts_where (map account_pk (filter (purged self rows ts) (db_accounts d))) d)
        \<lparr>db_account_purge_signals := t\<rparr>"
      using run False purged
      by (auto simp: purge_accounts_def monad_simps Let_def split: if_splits)
    then show ?thesis
      using foldR_tbl_insert [OF t(1)] by (simp add: delete_accounts_where_drop [OF wf] drop_accounts_def)
  qed
qed

text \<open>Removing accounts together with their prepared transfers keeps the invariants.\<close>

lemma drop_accounts_fields [simp]:
  "db_transfer_requests (drop_accounts P d) = db_transfer_requests d"
  "db_finalization_requests (drop_accounts P d) = db_finalization_requests d"
  "db_registered_balance_changes (drop_accounts P d) = db_registered_balance_changes d"
  "db_pending_balance_changes (drop_accounts P d) = db_pending_balance_changes d"
  "db_accounts (drop_accounts P d) = filter (\<lambda>a. \<not> P a) (db_accounts d)"
  "db_prepared_transfers (drop_accounts P d) = filter (\<lambda>pt. (pt_debtor_id pt, pt_sender_creditor_id pt)
           \<notin> account_pk ` set (filter P (db_accounts d))) (db_prepared_transfers d)"
  by (simp_all add: drop_accounts_def)

lemma tbl_wf_filter: "tbl_wf pk ok t \<Longrightarrow> tbl_wf pk ok (filter P t)"
  by (auto simp: tbl_wf_def list_all_iff distinct_map_filter)

lemma drop_accounts_wf:
  assumes "db_wf d"
  shows "db_wf (drop_accounts P d)"
proof (rule db_wfI)
  fix pt assume "pt \<in> set (db_prepared_transfers (drop_accounts P d))"
  then have pt: "pt \<in> set (db_prepared_transfers d)"
    "(pt_debtor_id pt, pt_sender_creditor_id pt) \<notin> account_pk ` set (filter P (db_accounts d))" by auto
  then show "(pt_debtor_id pt, pt_sender_creditor_id pt) \<in> account_pk ` set (db_accounts (drop_accounts P d))"
    using db_wf_fk [OF assms pt(1)] by auto
qed (use assms in \<open>auto simp: db_wf_def intro: tbl_wf_filter\<close>)

lemma locks_after_drop:
  assumes wf: "tbl_wf account_pk account_ok (db_accounts d)" and a: "a \<in> set (db_accounts d)" "\<not> P a"
  shows "filter (pt_of (account_pk a)) (db_prepared_transfers (drop_accounts P d))
       = filter (pt_of (account_pk a)) (db_prepared_transfers d)"
proof -
  have "account_pk a \<notin> account_pk ` set (filter P (db_accounts d))"
    using a accs.pk_inj [OF wf] by (auto simp: image_iff)
  moreover have "filter (pt_of k) (filter (\<lambda>pt. (pt_debtor_id pt, pt_sender_creditor_id pt) \<notin> K) t) = filter (pt_of k) t"
    if "k \<notin> K" for k K t using that by (induction t) (auto simp: pt_of_def)
  ultimately show ?thesis by simp
qed

lemma sums_by_filter:
  "locked_sum k t = total pt_locked_amount (filter (pt_of k) t)" "pending_count k t = int (length (filter (pt_of k) t))"
  by (simp_all add: locked_sum_def pending_count_def total_filter) (induction t, auto)

lemma drop_accounts_locks:
  assumes "tbl_wf account_pk account_ok (db_accounts d)"
  shows "locks_within d \<Longrightarrow> locks_within (drop_accounts P d)" "locks_agree d \<Longrightarrow> locks_agree (drop_accounts P d)"
    "ids_fresh d \<Longrightarrow> ids_fresh (drop_accounts P d)"
proof -
  show "locks_within d \<Longrightarrow> locks_within (drop_accounts P d)" "locks_agree d \<Longrightarrow> locks_agree (drop_accounts P d)"
    using locks_after_drop [OF assms]
    by (auto simp: locks_within_def locks_agree_def sums_by_filter simp del: drop_accounts_fields(6))
  show "ids_fresh d \<Longrightarrow> ids_fresh (drop_accounts P d)" by (auto simp: ids_fresh_def)
qed

text \<open>The invariants depend on the six tables only.\<close>

lemma invariants_cong:
  assumes "db_accounts d' = db_accounts d" "db_transfer_requests d' = db_transfer_requests d"
    "db_finalization_requests d' = db_finalization_requests d" "db_prepared_transfers d' = db_prepared_transfers d"
    "db_registered_balance_changes d' = db_registered_balance_changes d"
    "db_pending_balance_changes d' = db_pending_balance_changes d"
  shows "db_wf d' = db_wf d" "locks_within d' = locks_within d" "locks_agree d' = locks_agree d"
    "ids_fresh d' = ids_fresh d" "changes_agree d' = changes_agree d"
    "deleted_accounts_empty d' = deleted_accounts_empty d"
  unfolding db_wf_def locks_within_def locks_agree_def ids_fresh_def changes_agree_def deleted_accounts_empty_def assms
  by (rule refl)+

lemma drop_deleted_accounts:
  assumes "db_wf d" and "locks_within d" and "deleted_accounts_empty d" and P: "\<And>a. P a \<Longrightarrow> is_deleted a"
  shows "db_prepared_transfers (drop_accounts P d) = db_prepared_transfers d"
    "principals n (db_accounts (drop_accounts P d)) = principals n (db_accounts d)"
proof -
  have "(pt_debtor_id pt, pt_sender_creditor_id pt) \<notin> account_pk ` set (filter P (db_accounts d))"
    if pt: "pt \<in> set (db_prepared_transfers d)" for pt
  proof
    assume "(pt_debtor_id pt, pt_sender_creditor_id pt) \<in> account_pk ` set (filter P (db_accounts d))"
    then obtain a where a: "a \<in> set (db_accounts d)" "P a" "pt_of (account_pk a) pt" by (auto simp: pt_of_def)
    then have "filter (pt_of (account_pk a)) (db_prepared_transfers d) = []"
      using assms(2,3) P by (auto simp: locks_within_def deleted_accounts_empty_def sums_by_filter)
    then show False using pt a(3) by (auto simp: filter_empty_conv)
  qed
  then show "db_prepared_transfers (drop_accounts P d) = db_prepared_transfers d"
    by (simp add: filter_id_conv)
  show "principals n (db_accounts (drop_accounts P d)) = principals n (db_accounts d)"
    using assms(3) P by (auto simp: principals_def total_filter deleted_accounts_empty_def intro!: total_cong)
qed

section \<open>Heartbeats\<close>

definition heard :: "account_scanner \<Rightarrow> account list \<Rightarrow> datetime \<Rightarrow> account \<Rightarrow> bool" where
  "heard self rows ts a \<longleftrightarrow>
     (let due = needs_heartbeat (ts - account_heartbeat_interval self)
      in due a \<and> account_pk a \<in> account_pk ` set (filter due rows))"

definition mark_heard :: "account_scanner \<Rightarrow> account list \<Rightarrow> datetime \<Rightarrow> account \<Rightarrow> account" where
  "mark_heard self rows ts a =
     (if heard self rows ts a then a\<lparr>acc_last_heartbeat_ts := ts, acc_pending_account_update := False\<rparr> else a)"

lemma send_heartbeats_InrD:
  assumes run: "send_heartbeats E self rows ts d = Inr d'" and wf: "tbl_wf account_pk account_ok (db_accounts d)"
  shows "\<exists>ys. d' = d\<lparr>db_accounts := map (mark_heard self rows ts) (db_accounts d),
        db_account_update_signals := db_account_update_signals d @ ys\<rparr>
    \<and> list_all2 (aus_stored E) (map (heartbeat_signal_of ts) (filter (heard self rows ts) (db_accounts d))) ys"
proof -
  let ?due = "needs_heartbeat (ts - account_heartbeat_interval self)"
  let ?H = "filter (heard self rows ts) (db_accounts d)"
  have heard: "filter (\<lambda>a. account_pk a \<in> account_pk ` set (filter ?due rows) \<and> ?due a) (db_accounts d) = ?H"
    by (rule filter_cong) (auto simp: heard_def Let_def)
  show ?thesis
  proof (cases "?H = []")
    case True
    then have "d' = d" using run heard by (auto simp: send_heartbeats_def monad_simps Let_def split: if_splits)
    moreover have "map (mark_heard self rows ts) (db_accounts d) = db_accounts d"
      using True by (auto simp: mark_heard_def filter_empty_conv intro!: map_idI)
    ultimately show ?thesis using True by (intro exI [of _ "[]"]) simp
  next
    case False
    then have "filter ?due rows \<noteq> []" by (auto simp: filter_empty_conv heard_def Let_def)
    then have run': "foldR (add_account_update_signal E) (map (heartbeat_signal_of ts) ?H)
        (d\<lparr>db_accounts := map (\<lambda>a. if account_pk a \<in> set (map account_pk ?H)
             then a\<lparr>acc_last_heartbeat_ts := ts, acc_pending_account_update := False\<rparr> else a) (db_accounts d)\<rparr>) = Inr d'"
      using run False heard by (auto simp: send_heartbeats_def monad_simps Let_def split: if_splits)
    have "account_pk a \<in> set (map account_pk ?H) \<longleftrightarrow> heard self rows ts a" if "a \<in> set (db_accounts d)" for a
      using that accs.pk_inj [OF wf] by (auto simp: image_iff)
    then have "map (\<lambda>a. if account_pk a \<in> set (map account_pk ?H)
             then a\<lparr>acc_last_heartbeat_ts := ts, acc_pending_account_update := False\<rparr> else a) (db_accounts d)
        = map (mark_heard self rows ts) (db_accounts d)" by (simp add: mark_heard_def)
    from foldR_add_update_signals [OF run' [unfolded this]] show ?thesis by auto
  qed
qed

lemma mark_heard_fields [simp]:
  "account_pk (mark_heard self rows ts a) = account_pk a" "account_ok (mark_heard self rows ts a) = account_ok a"
  "acc_principal (mark_heard self rows ts a) = acc_principal a" "acc_debtor_id (mark_heard self rows ts a) = acc_debtor_id a"
  "is_deleted (mark_heard self rows ts a) = is_deleted a" "lock_fields (mark_heard self rows ts a) = lock_fields a"
  "acc_pending_transfers_count (mark_heard self rows ts a) = acc_pending_transfers_count a"
  "acc_total_locked_amount (mark_heard self rows ts a) = acc_total_locked_amount a"
  "acc_last_transfer_id (mark_heard self rows ts a) = acc_last_transfer_id a"
  by (simp_all add: mark_heard_def account_pk_def account_ok_def is_deleted_def lock_fields_def)

text \<open>Nothing that any invariant speaks of is touched.\<close>

lemma mark_heard_invariants:
  assumes "d' = d\<lparr>db_accounts := map (mark_heard self rows ts) (db_accounts d), db_account_update_signals := u\<rparr>"
  shows "db_wf d \<Longrightarrow> db_wf d'" "locks_within d \<Longrightarrow> locks_within d'" "locks_agree d \<Longrightarrow> locks_agree d'"
    "ids_fresh d \<Longrightarrow> ids_fresh d'" "deleted_accounts_empty d \<Longrightarrow> deleted_accounts_empty d'"
    "principals n (db_accounts d') = principals n (db_accounts d)"
proof -
  have accs: "db_accounts d' = map (mark_heard self rows ts) (db_accounts d)" by (simp add: assms)
  have wf: "tbl_wf account_pk account_ok (db_accounts d')" if "db_wf d"
    using db_wf_accs [OF that] by (simp add: accs tbl_wf_def list_all_iff o_def)
  have fk: "account_pk ` set (db_accounts d') = account_pk ` set (db_accounts d)" by (auto simp: accs image_iff)
  show "db_wf d'" if d: "db_wf d"
  proof (rule db_wfI)
    show "(pt_debtor_id pt, pt_sender_creditor_id pt) \<in> account_pk ` set (db_accounts d')"
      if "pt \<in> set (db_prepared_transfers d')" for pt
      using that db_wf_fk [OF d, of pt] unfolding fk by (auto simp: assms)
  qed (use d wf in \<open>auto simp: db_wf_def assms\<close>)
  show "locks_within d \<Longrightarrow> locks_within d'" "locks_agree d \<Longrightarrow> locks_agree d'" "ids_fresh d \<Longrightarrow> ids_fresh d'"
    "deleted_accounts_empty d \<Longrightarrow> deleted_accounts_empty d'"
    by (auto simp: locks_within_def locks_agree_def ids_fresh_def deleted_accounts_empty_def assms)
  show "principals n (db_accounts d') = principals n (db_accounts d)"
    unfolding accs principals_def total_def by (simp add: o_def cong: if_cong)
qed

section \<open>A call of the account scanner\<close>

lemma then_send_InrD: "then_send p q = (sent, Inr u) \<Longrightarrow> \<exists>a b. p = (a, Inr ()) \<and> q () = (b, Inr u) \<and> sent = a @ b"
  by (cases p; cases "q ()") (auto simp: then_send_def split: sum.splits)

lemma AccountScanner_process_rows_InrD:
  assumes run: "AccountScanner_process_rows E self g rows ts d = (sent, Inr d')"
  shows "\<exists>d1. purge_accounts self rows ts d = Inr d1 \<and> send_heartbeats E self rows ts d1 = Inr d'
    \<and> (\<exists>s1 s2 s3. delete_accounts E self rows ts = (s1, Inr ()) \<and> capitalize_interests E self rows ts = (s2, Inr ())
         \<and> change_debtor_settings self g rows ts = (s3, Inr ()) \<and> sent = s1 @ s2 @ s3)"
proof -
  from run obtain d2 u where "bindR (purge_accounts self rows ts d) (send_heartbeats E self rows ts) = Inr d2"
    and sends: "then_send (delete_accounts E self rows ts) (\<lambda>_. then_send (capitalize_interests E self rows ts) (\<lambda>_.
        change_debtor_settings self g rows ts)) = (sent, Inr u)" and "d' = d2"
    unfolding AccountScanner_process_rows_def by (auto split: sum.splits prod.splits)
  moreover from this obtain d1 where "purge_accounts self rows ts d = Inr d1" "send_heartbeats E self rows ts d1 = Inr d'"
    by (auto simp: bindR_eq_Inr)
  moreover from then_send_InrD [OF sends] obtain s1 s' where
    s1: "delete_accounts E self rows ts = (s1, Inr ())" "sent = s1 @ s'"
      "then_send (capitalize_interests E self rows ts) (\<lambda>_. change_debtor_settings self g rows ts) = (s', Inr ())"
    by auto
  from then_send_InrD [OF s1(3)] obtain s2 s3 where
    "capitalize_interests E self rows ts = (s2, Inr ())" "change_debtor_settings self g rows ts = (s3, Inr ())" "s' = s2 @ s3"
    by auto
  ultimately show ?thesis using s1 by blast
qed

section \<open>Reminders\<close>

lemma reminder_mappings_spec:
  "map_of (reminder_mappings cutoff ts rows) k = Some x
     \<Longrightarrow> \<exists>row \<in> set rows. needs_reminder cutoff row \<and> prepared_transfer_pk row = k \<and> x = reminder_signal_of ts row"
  "fst ` set (reminder_mappings cutoff ts rows) = prepared_transfer_pk ` set (filter (needs_reminder cutoff) rows)"
  "distinct (map fst (reminder_mappings cutoff ts rows))"
proof -
  let ?step = "\<lambda>m row. if needs_reminder cutoff row
                    then dict_put (prepared_transfer_pk row) (reminder_signal_of ts row) m else m"
  have "(map_of (foldl ?step m rows) k = Some x \<longrightarrow> map_of m k = Some x
       \<or> (\<exists>row \<in> set rows. needs_reminder cutoff row \<and> prepared_transfer_pk row = k \<and> x = reminder_signal_of ts row))
     \<and> fst ` set (foldl ?step m rows) = fst ` set m \<union> prepared_transfer_pk ` set (filter (needs_reminder cutoff) rows)
     \<and> (distinct (map fst m) \<longrightarrow> distinct (map fst (foldl ?step m rows)))" for m
  proof (induction rows arbitrary: m)
    case (Cons row rows)
    have "fst ` set (dict_put i v m) = insert i (fst ` set m)" for i :: "int \<times> int \<times> int" and v :: prepared_transfer_signal
      using arg_cong [OF keys_dict_put [of i v m], of set] by (auto split: if_splits)
    then show ?case using Cons.IH [of "?step m row"] by (auto simp: map_of_dict_put keys_dict_put split: if_splits)
  qed simp
  from this [of "[]"] show "map_of (reminder_mappings cutoff ts rows) k = Some x
     \<Longrightarrow> \<exists>row \<in> set rows. needs_reminder cutoff row \<and> prepared_transfer_pk row = k \<and> x = reminder_signal_of ts row"
    "fst ` set (reminder_mappings cutoff ts rows) = prepared_transfer_pk ` set (filter (needs_reminder cutoff) rows)"
    "distinct (map fst (reminder_mappings cutoff ts rows))"
    by (simp_all add: reminder_mappings_def)
qed

definition mark_reminded :: "datetime \<Rightarrow> datetime \<Rightarrow> prepared_transfer list \<Rightarrow> prepared_transfer \<Rightarrow> prepared_transfer" where
  "mark_reminded cutoff ts rows pt =
     (if prepared_transfer_pk pt \<in> prepared_transfer_pk ` set (filter (needs_reminder cutoff) rows)
      then pt\<lparr>pt_last_reminder_ts := Some ts\<rparr> else pt)"

lemma PreparedTransferScanner_InrD:
  assumes "PreparedTransferScanner_process_rows E iv rows ts d = Inr d'"
  shows "\<exists>ys. d' = d\<lparr>db_prepared_transfers := map (mark_reminded (ts - iv) ts rows) (db_prepared_transfers d),
        db_prepared_transfer_signals := db_prepared_transfer_signals d @ ys\<rparr>
    \<and> list_all2 pts_stored (map snd (reminder_mappings (ts - iv) ts rows)) ys"
proof (cases "reminder_mappings (ts - iv) ts rows = []")
  case True
  then have "filter (needs_reminder (ts - iv)) rows = []"
    using reminder_mappings_spec(2) [of "ts - iv" ts rows] by simp
  moreover have "d' = d" using assms True by (auto simp: PreparedTransferScanner_process_rows_def monad_simps)
  ultimately show ?thesis using True
    by (intro exI [of _ "[]"]) (simp add: mark_reminded_def map_idI)
next
  case False
  then have "foldR (add_prepared_transfer_signal E) (map snd (reminder_mappings (ts - iv) ts rows))
      (d\<lparr>db_prepared_transfers := map (mark_reminded (ts - iv) ts rows) (db_prepared_transfers d)\<rparr>) = Inr d'"
    using assms reminder_mappings_spec(2) [of "ts - iv" ts rows]
    by (auto simp: PreparedTransferScanner_process_rows_def monad_simps Let_def mark_reminded_def [abs_def])
  from foldR_add_prepared_signals [OF this] show ?thesis by auto
qed

lemma mark_reminded_fields [simp]:
  "prepared_transfer_pk (mark_reminded cutoff ts rows pt) = prepared_transfer_pk pt"
  "prepared_transfer_ok (mark_reminded cutoff ts rows pt) = prepared_transfer_ok pt"
  "pt_debtor_id (mark_reminded cutoff ts rows pt) = pt_debtor_id pt"
  "pt_sender_creditor_id (mark_reminded cutoff ts rows pt) = pt_sender_creditor_id pt"
  "pt_locked_amount (mark_reminded cutoff ts rows pt) = pt_locked_amount pt"
  "pt_transfer_id (mark_reminded cutoff ts rows pt) = pt_transfer_id pt"
  "pt_of k (mark_reminded cutoff ts rows pt) = pt_of k pt"
  by (simp_all add: mark_reminded_def prepared_transfer_pk_def prepared_transfer_ok_def pt_of_def)

lemma mark_reminded_invariants:
  assumes "d' = d\<lparr>db_prepared_transfers := map (mark_reminded cutoff ts rows) (db_prepared_transfers d),
    db_prepared_transfer_signals := u\<rparr>"
  shows "db_wf d \<Longrightarrow> db_wf d'" "locks_within d \<Longrightarrow> locks_within d'" "locks_agree d \<Longrightarrow> locks_agree d'"
    "ids_fresh d \<Longrightarrow> ids_fresh d'"
proof -
  have pts: "db_prepared_transfers d' = map (mark_reminded cutoff ts rows) (db_prepared_transfers d)" by (simp add: assms)
  have sums: "locked_sum k (db_prepared_transfers d') = locked_sum k (db_prepared_transfers d)"
     "pending_count k (db_prepared_transfers d') = pending_count k (db_prepared_transfers d)" for k
    unfolding pts locked_sum_def pending_count_def total_def by (simp_all add: o_def cong: if_cong)
  have accs: "db_accounts d' = db_accounts d" by (simp add: assms)
  show "db_wf d'" if d: "db_wf d"
  proof (rule db_wfI)
    show "tbl_wf prepared_transfer_pk prepared_transfer_ok (db_prepared_transfers d')"
      using d by (simp add: pts db_wf_def tbl_wf_def list_all_iff o_def)
    show "(pt_debtor_id pt, pt_sender_creditor_id pt) \<in> account_pk ` set (db_accounts d')"
      if "pt \<in> set (db_prepared_transfers d')" for pt
      using that db_wf_fk [OF d] by (auto simp: pts accs)
  qed (use d in \<open>auto simp: db_wf_def assms\<close>)
  show "locks_within d \<Longrightarrow> locks_within d'" "locks_agree d \<Longrightarrow> locks_agree d'"
    by (simp_all add: locks_within_def locks_agree_def sums accs)
  show "ids_fresh d \<Longrightarrow> ids_fresh d'" by (auto simp: ids_fresh_def pts accs)
qed

section \<open>Dropping registrations\<close>

definition dropped :: "datetime \<Rightarrow> registered_balance_change list \<Rightarrow> int \<times> int \<times> int \<Rightarrow> bool" where
  "dropped cutoff rows k \<longleftrightarrow>
     k \<in> registered_balance_change_pk ` set (filter (\<lambda>row. rbc_committed_at row < cutoff \<and> rbc_is_applied row) rows)"

lemma RegisteredBalanceChangeScanner_InrD:
  assumes run: "RegisteredBalanceChangeScanner_process_rows cutoff rows d = Inr d'"
  shows "d' = d\<lparr>db_registered_balance_changes :=
        filter (\<lambda>r. \<not> dropped cutoff rows (registered_balance_change_pk r)) (db_registered_balance_changes d)\<rparr>
    \<and> (\<forall>c \<in> set (db_pending_balance_changes d). dropped cutoff rows (pending_balance_change_pk c)
         \<longrightarrow> \<not> is_registered (pending_balance_change_pk c) d)"
proof (cases "filter (\<lambda>row. rbc_committed_at row < cutoff \<and> rbc_is_applied row) rows = []")
  case True
  then have "\<not> dropped cutoff rows k" for k by (simp add: dropped_def)
  then show ?thesis using run True by (simp add: RegisteredBalanceChangeScanner_process_rows_def)
next
  case False
  let ?gone = "filter (\<lambda>r. dropped cutoff rows (registered_balance_change_pk r)) (db_registered_balance_changes d)"
  have "\<forall>c \<in> set (db_pending_balance_changes d). pending_balance_change_pk c \<notin> set (map registered_balance_change_pk ?gone)"
    "d' = d\<lparr>db_registered_balance_changes :=
        filter (\<lambda>r. \<not> dropped cutoff rows (registered_balance_change_pk r)) (db_registered_balance_changes d)\<rparr>"
    using run False by (auto simp: RegisteredBalanceChangeScanner_process_rows_def Let_def monad_simps dropped_def)
  then show ?thesis by (auto simp: is_registered_def)
qed

lemma RegisteredBalanceChangeScanner_total:
  assumes "\<forall>c \<in> set (db_pending_balance_changes d). \<not> dropped cutoff rows (pending_balance_change_pk c)"
  shows "\<exists>d'. RegisteredBalanceChangeScanner_process_rows cutoff rows d = Inr d'"
proof -
  let ?pks = "map registered_balance_change_pk (filter (\<lambda>row. rbc_committed_at row < cutoff \<and> rbc_is_applied row) rows)"
  let ?gone = "filter (\<lambda>r. registered_balance_change_pk r \<in> set ?pks) (db_registered_balance_changes d)"
  have "\<forall>c \<in> set (db_pending_balance_changes d). pending_balance_change_pk c \<notin> set (map registered_balance_change_pk ?gone)"
    using assms by (auto simp: dropped_def)
  then have "integrityR (\<forall>c \<in> set (db_pending_balance_changes d).
      pending_balance_change_pk c \<notin> set (map registered_balance_change_pk ?gone)) = Inr ()"
    unfolding integrityR_def by simp
  then show ?thesis unfolding RegisteredBalanceChangeScanner_process_rows_def Let_def by (simp only: bindR_Inr) auto
qed

text \<open>With the register and the queue in agreement, only applied changes are dropped and no reference breaks.\<close>

lemma drop_registrations_invariants:
  assumes run: "RegisteredBalanceChangeScanner_process_rows cutoff rows d = Inr d'"
    and wf: "db_wf d"
  shows "db_wf d'" "changes_agree d \<Longrightarrow> changes_agree d'" "locks_within d \<Longrightarrow> locks_within d'"
    "locks_agree d \<Longrightarrow> locks_agree d'" "ids_fresh d \<Longrightarrow> ids_fresh d'"
    "deleted_accounts_empty d \<Longrightarrow> deleted_accounts_empty d'"
proof -
  note d' = RegisteredBalanceChangeScanner_InrD [OF run]
  have fk: "\<exists>r \<in> set (db_registered_balance_changes d'). registered_balance_change_pk r = pending_balance_change_pk c"
    if c: "c \<in> set (db_pending_balance_changes d)" for c
  proof -
    obtain r where r: "r \<in> set (db_registered_balance_changes d)"
      "registered_balance_change_pk r = pending_balance_change_pk c" using wf c by (auto simp: db_wf_def)
    then have "is_registered (pending_balance_change_pk c) d" by (metis image_eqI is_registered_def)
    then have "\<not> dropped cutoff rows (pending_balance_change_pk c)" using d' c by blast
    then show ?thesis using r d' by auto
  qed
  show "db_wf d'"
  proof (rule db_wfI)
    show "(pt_debtor_id pt, pt_sender_creditor_id pt) \<in> account_pk ` set (db_accounts d')"
      if "pt \<in> set (db_prepared_transfers d')" for pt using that db_wf_fk [OF wf, of pt] d' by simp
    show "\<forall>c \<in> set (db_pending_balance_changes d'). \<exists>r \<in> set (db_registered_balance_changes d').
            registered_balance_change_pk r = pending_balance_change_pk c" using fk d' by simp
  qed (use wf d' in \<open>auto simp: db_wf_def intro: tbl_wf_filter\<close>)
  show "changes_agree d \<Longrightarrow> changes_agree d'" using d' by (auto simp: changes_agree_def)
  show "locks_within d \<Longrightarrow> locks_within d'" "locks_agree d \<Longrightarrow> locks_agree d'" "ids_fresh d \<Longrightarrow> ids_fresh d'"
    "deleted_accounts_empty d \<Longrightarrow> deleted_accounts_empty d'"
    using d' by (simp_all add: locks_within_def locks_agree_def ids_fresh_def deleted_accounts_empty_def)
qed

section \<open>The account scanner keeps everything of value\<close>

lemma account_scan_effect:
  assumes "AccountScanner_process_rows E self g rows ts d = (sent, Inr d')"
    and inv: "db_wf d" "locks_within d" "ids_fresh d" "changes_agree d" "deleted_accounts_empty d"
  shows "db_wf d' \<and> locks_within d' \<and> ids_fresh d' \<and> changes_agree d' \<and> deleted_accounts_empty d'
    \<and> (locks_agree d \<longrightarrow> locks_agree d')
    \<and> (\<forall>n. principals n (db_accounts d') = principals n (db_accounts d))
    \<and> db_prepared_transfers d' = db_prepared_transfers d
    \<and> db_pending_balance_changes d' = db_pending_balance_changes d
    \<and> db_registered_balance_changes d' = db_registered_balance_changes d
    \<and> db_pending_balance_change_signals d' = db_pending_balance_change_signals d
    \<and> db_next_change_id d' = db_next_change_id d"
proof -
  obtain d1 where d1: "purge_accounts self rows ts d = Inr d1" "send_heartbeats E self rows ts d1 = Inr d'"
    using AccountScanner_process_rows_InrD [OF assms(1)] by blast
  note accs = db_wf_accs [OF inv(1)]
  obtain s where p: "d1 = (drop_accounts (purged self rows ts) d)\<lparr>db_account_purge_signals := s\<rparr>"
    using purge_accounts_InrD [OF d1(1) accs] by blast
  have del: "is_deleted a" if "purged self rows ts a" for a using that by (simp add: purged_def purgeable_def Let_def)
  note empty = drop_deleted_accounts [OF inv(1,2,5) del]
  let ?D = "drop_accounts (purged self rows ts) d"
  have "changes_agree ?D" using inv(4) by (simp add: changes_agree_def)
  moreover have "deleted_accounts_empty ?D" using inv(5) by (simp add: deleted_accounts_empty_def)
  moreover note drop_accounts_wf [OF inv(1), of "purged self rows ts"] drop_accounts_locks [OF accs, of "purged self rows ts"]
  moreover have "db_accounts d1 = db_accounts ?D" "db_transfer_requests d1 = db_transfer_requests ?D"
    "db_finalization_requests d1 = db_finalization_requests ?D" "db_prepared_transfers d1 = db_prepared_transfers ?D"
    "db_registered_balance_changes d1 = db_registered_balance_changes ?D"
    "db_pending_balance_changes d1 = db_pending_balance_changes ?D" unfolding p by simp_all
  note invariants_cong [OF this]
  ultimately have d1_inv: "db_wf d1" "locks_within d1" "ids_fresh d1" "changes_agree d1" "deleted_accounts_empty d1"
    "locks_agree d \<Longrightarrow> locks_agree d1" using inv(2,3) by blast+
  have d1_money: "principals n (db_accounts d1) = principals n (db_accounts d)" for n using empty(2) by (simp add: p)
  have d1_rest: "db_prepared_transfers d1 = db_prepared_transfers d" "db_pending_balance_changes d1 = db_pending_balance_changes d"
    "db_registered_balance_changes d1 = db_registered_balance_changes d"
    "db_pending_balance_change_signals d1 = db_pending_balance_change_signals d" "db_next_change_id d1 = db_next_change_id d"
    using empty(1) by (simp_all add: p) (simp_all add: drop_accounts_def)
  obtain ys where d': "d' = d1\<lparr>db_accounts := map (mark_heard self rows ts) (db_accounts d1),
      db_account_update_signals := db_account_update_signals d1 @ ys\<rparr>"
    using send_heartbeats_InrD [OF d1(2) db_wf_accs [OF d1_inv(1)]] by blast
  note heard = mark_heard_invariants [OF d']
  have "changes_agree d'" using d1_inv(4) by (simp add: changes_agree_def d')
  then show ?thesis using heard d1_inv d1_money d1_rest by (simp add: d')
qed

end
