(* ===== verification/ConfigurationProps.thy ===== *)
theory ConfigurationProps
  imports Configuration PaymentsProps
begin

text \<open>
  The properties of the procedures that change the settings of an account: a configuration message
  takes effect once, in full or not at all; interest rates stay in range and change slowly; and no
  setting moves money.
\<close>

section \<open>Configuration messages\<close>

lemma disjE3: "A \<or> B \<or> C \<Longrightarrow> (A \<Longrightarrow> P) \<Longrightarrow> (B \<Longrightarrow> P) \<Longrightarrow> (C \<Longrightarrow> P) \<Longrightarrow> P"
  by blast

lemma configure_account_cases:
  assumes run: "configure_account E ts its i j cts cseq n flags dat delay d = Inr (b, d')" and wf: "db_wf d"
  shows "(\<not> b \<and> d' = d)
    \<or> (is_valid_config E j n dat \<and>
       (\<exists>row. settings_effect i j d d' row \<and> acc_principal row = contain_principal_overflow (stored_principal i j d)
         \<and> acc_config_flags row = flags \<and> acc_config_data row = dat
         \<and> acc_last_config_ts row = cts \<and> acc_last_config_seqnum row = cseq
         \<and> (acc_negligible_amount row = n \<or> store_real E n = Some (acc_negligible_amount row))
         \<and> (\<exists>u. db_account_update_signals d' = db_account_update_signals d @ [u]
              \<and> announces_config E u i j cts cseq n flags dat)
         \<and> (b \<longleftrightarrow> get_account i j d = None)))
    \<or> (\<not> is_valid_config E j n dat \<and> \<not> b \<and>
       (\<exists>x. store_real E n = Some x \<and> d' = d\<lparr>db_rejected_config_signals := db_rejected_config_signals d
        @ [\<lparr>rcs_debtor_id = i, rcs_creditor_id = j, rcs_config_ts = cts, rcs_config_seqnum = cseq,
            rcs_config_flags = flags, rcs_config_data = dat, rcs_negligible_amount = x,
            rcs_rejection_code = RC_INVALID_CONFIGURATION, rcs_inserted_at = None\<rparr>]\<rparr>))"
proof (cases "\<not> b \<and> d' = d")
  case False
  then have "try_to_configure E ts its i j cts cseq n flags dat (get_account_row i j d) d = Inr (b, d')"
    using run by (auto simp: configure_account_def get_account_instance_def split: option.splits if_splits)
  from try_to_configure_InrD [OF this wf refl] show ?thesis by (auto split: if_splits)
qed simp

text \<open>Messages that are not later than the stored configuration are ignored.\<close>

lemma configure_account_stale:
  assumes "get_account_row i j d = Some a"
    and "\<not> is_later_event E cts cseq (acc_last_config_ts a) (acc_last_config_seqnum a)"
  shows "configure_account E ts its i j cts cseq n flags dat delay d = Inr (False, d)"
  using assms by (simp add: configure_account_def get_account_instance_def)

text \<open>A finite number is never stored as a NaN.\<close>

definition store_real_ok :: "env \<Rightarrow> bool" where
  "store_real_ok E \<longleftrightarrow> (\<forall>x y. store_real E (Fin x) = Some y \<longrightarrow> y \<noteq> NaN)"

section \<open>Sample runs\<close>

lemma sample_row:
  assumes "(c, pr) \<in> {(0::int, - 1000::int), (2, 1000)}"
  shows "get_account_row 1 c sample_db = Some (sample_account c pr)" "get_account 1 c sample_db = Some (sample_account c pr)"
  using assms by (auto simp: get_account_def get_account_instance_def get_account_row_def sample_db_def tbl_lookup_def
      is_deleted_def)

lemmas sample_row_2 = sample_row [of 2 1000, simplified]

lemma sample_configuration_save:
  assumes "(c, pr) \<in> {(0::int, - 1000::int), (2, 1000)}"
    and "account_pk b = (1, c)" "account_fits b" "account_ok b" "db_accounts d = db_accounts sample_db"
  shows "\<exists>d'. save_account sample_env b d = Inr d'"
proof -
  have keys: "acc_debtor_id b = 1" "acc_creditor_id b = c" using assms(2) by (simp_all add: account_pk_def)
  have "flush_account sample_env a b = Inr b" for a
    by (simp add: flush_account_def storeR_changed_def storeR_def)
  moreover have "get_account_row 1 c d = Some (sample_account c pr)"
    using sample_row(1) [OF assms(1)] assms(5) by (simp add: get_account_row_def)
  ultimately show ?thesis using assms(3,4)
    by (simp add: save_account_def keys dataR_def tbl_update_def)
qed

lemma sample_signal:
  "\<exists>d1. insert_account_update_signal sample_env a ts d
      = Inr (a\<lparr>acc_last_heartbeat_ts := ts, acc_pending_account_update := False\<rparr>, d1) \<and> db_accounts d1 = db_accounts d"
  by (simp add: insert_account_update_signal_def add_account_update_signal_def storeR_def Let_def)

lemma sample_configuration_run:
  assumes c: "(c, pr) \<in> {(0::int, - 1000::int), (2, 1000)}"
  shows "\<exists>d'. configure_account sample_env sample_ts sample_ts 1 c sample_ts 1 (Fin 5) 0 [] (Fin 100) sample_db
     = Inr (False, d') \<and> d' \<noteq> sample_db"
proof -
  let ?a = "(sample_account c pr)\<lparr>acc_config_flags := 0, acc_config_data := [], acc_negligible_amount := Fin 5,
     acc_last_config_ts := sample_ts, acc_last_config_seqnum := 1\<rparr>"
  have fits: "account_fits ?a" "account_ok ?a"
  proof -
    have "account_fits (sample_account c pr)" "account_ok (sample_account c pr)"
      using c by (auto simp: is_int64_def int_bounds)
    then show "account_fits ?a" "account_ok ?a"
      by (simp_all add: account_fits_def account_ok_def is_int32_def int_bounds pg_le_def)
  qed
  have abs_pr: "\<bar>pr\<bar> < 10 ^ 28" using c by auto
  have bal: "Account_calc_current_balance sample_env ?a sample_ts = Inr (Fin (of_int pr))"
    using sample_balance [of pr sample_ts c] abs_pr by (simp add: Account_calc_current_balance_def dec_of_int_def)
  then obtain b where app: "apply_account_change sample_env ?a 0 (Fin 0) sample_ts = Inr b"
    using apply_account_change_total by blast
  have "account_fits b \<and> account_ok b"
    by (rule apply_account_change_fits [OF app fits])
      (simp_all add: sample_account_def sample_env_def is_int32_def int_bounds)
  then have b: "account_fits (b\<lparr>acc_last_heartbeat_ts := sample_ts, acc_pending_account_update := False\<rparr>)"
      "account_ok (b\<lparr>acc_last_heartbeat_ts := sample_ts, acc_pending_account_update := False\<rparr>)"
      "account_pk (b\<lparr>acc_last_heartbeat_ts := sample_ts, acc_pending_account_update := False\<rparr>) = (1, c)"
    using apply_account_change_frame [OF app] by (simp_all add: account_fits_def account_ok_def account_pk_def)
  obtain d1 where sig: "insert_account_update_signal sample_env b sample_ts sample_db
      = Inr (b\<lparr>acc_last_heartbeat_ts := sample_ts, acc_pending_account_update := False\<rparr>, d1)"
      "db_accounts d1 = db_accounts sample_db" using sample_signal by blast
  obtain d' where save: "save_account sample_env (b\<lparr>acc_last_heartbeat_ts := sample_ts,
      acc_pending_account_update := False\<rparr>) d1 = Inr d'"
    using sample_configuration_save [OF c b(3,1,2) sig(2)] by blast
  have "db_account_update_signals d' \<noteq> []"
    using insert_account_update_signal_InrD [OF sig(1)] save_account_InrD [OF save] by auto
  then have "d' \<noteq> sample_db" by (auto simp: sample_db_def empty_db_def)
  moreover have "configure_account sample_env sample_ts sample_ts 1 c sample_ts 1 (Fin 5) 0 [] (Fin 100) sample_db
     = Inr (False, d')"
    using app sig(1) save
    by (simp add: configure_account_def get_account_instance_def sample_row [OF c] is_later_event_def try_to_configure_def
        is_valid_config_def clear_deleted_flag_def is_deleted_def Let_def)
      (simp add: sample_account_def sample_ts_def T0_def)
  ultimately show ?thesis by blast
qed

lemma sample_rate_run_at:
  assumes ts: "sample_ts \<le> ts" "ts - sample_ts \<le> 2 ^ 100"
    and r: "clamp_interest_rate r = Fin x" "x \<noteq> 0" "- 50 \<le> x" "x \<le> 100"
    and req: "\<not> is_old_request ts req" and delay: "fle (fadd delay (float_of_int SECONDS_IN_DAY)) (total_seconds (ts - T0))"
  shows "\<exists>d'. change_interest_rate sample_env ts 1 2 r req delay sample_db = Inr d' \<and> d' \<noteq> sample_db"
proof -
  let ?a = "touch sample_env ts ((sample_account 2 1000)\<lparr>acc_interest := Fin 0,
     acc_previous_interest_rate := Fin 0, acc_interest_rate := Fin x,
     acc_last_interest_rate_change_ts := ts\<rparr>)"
  let ?b = "?a\<lparr>acc_last_heartbeat_ts := ts, acc_pending_account_update := False\<rparr>"
  have b: "account_fits ?b" "account_ok ?b" "account_pk ?b = (1, 2)"
  proof -
    have "account_fits (sample_account 2 1000)" "account_ok (sample_account 2 1000)"
        "acc_last_change_seqnum (sample_account 2 1000) = 0"
      by (simp_all add: is_int64_def int_bounds) (simp add: sample_account_def)
    then show "account_fits ?b" "account_ok ?b" "account_pk ?b = (1, 2)" using r(3,4)
      by (simp_all add: account_fits_def account_ok_def touch_def is_int32_def int_bounds pg_le_def
          INTEREST_RATE_CEIL_def INTEREST_RATE_FLOOR_def sample_env_def account_pk_def)
  qed
  obtain d1 where sig: "insert_account_update_signal sample_env ?a ts sample_db = Inr (?b, d1)"
      "db_accounts d1 = db_accounts sample_db" using sample_signal by blast
  obtain d' where save: "save_account sample_env ?b d1 = Inr d'"
    using sample_configuration_save [OF _ b(3,1,2) sig(2), of 1000] by blast
  have bal: "calc_account_accumulated_interest sample_env (sample_account 2 1000) ts = Inr (Fin 0)"
    using sample_balance [of 1000 ts 2] dec_add_ints [of 1000 "- 1000"] ts
    by (simp add: calc_account_accumulated_interest_def dec_sub_def dec_of_int_def)
  have "db_account_update_signals d' \<noteq> []"
    using insert_account_update_signal_InrD [OF sig(1)] save_account_InrD [OF save] by auto
  then have "d' \<noteq> sample_db" by (auto simp: sample_db_def empty_db_def)
  moreover have "acc_last_interest_rate_change_ts (sample_account 2 1000) = T0" by (simp add: sample_account_def)
  moreover have "T0 \<le> ts" using ts by (simp add: T0_def sample_ts_def)
  ultimately show ?thesis using sig(1) save bal r(1,2) req delay
    by (intro exI [of _ d']) (simp add: change_interest_rate_def sample_row_2 Let_def ROOT_CREDITOR_ID_def)
qed

lemma sample_rate_run:
  "\<exists>d'. change_interest_rate sample_env sample_ts 1 2 (Fin 200) None (Fin 100) sample_db = Inr d' \<and> d' \<noteq> sample_db"
proof (rule sample_rate_run_at [where x = 100])
  show "fle (fadd (Fin 100) (float_of_int SECONDS_IN_DAY)) (total_seconds (sample_ts - T0))"
    using rnd64_of_int [of 86500] rnd64_of_int [of SECONDS_IN_DAY] total_seconds_whole [of 1600000000]
    by (simp add: float_of_int_def SECONDS_IN_DAY_def sample_ts_def T0_def)
qed (simp_all add: clamp_interest_rate_def INTEREST_RATE_CEIL_def INTEREST_RATE_FLOOR_def is_old_request_def
    SECONDS_IN_DAY_def)

section \<open>Properties\<close>

text \<open>
  C19. A configuration message is applied at most once and out-of-date messages are ignored: after a valid
  message has taken effect, delivering it again, or delivering any message that is not later, changes nothing.
\<close>

theorem configuration_applied_once:
  assumes run: "configure_account E ts its i j cts cseq n flags dat delay d = Inr (b, d1)" and wf: "db_wf d"
    and "is_valid_config E j n dat" and "d1 \<noteq> d" and "\<not> is_later_event E cts' cseq' cts cseq"
  shows "configure_account E ts' its' i j cts' cseq' n' flags' dat' delay' d1 = Inr (False, d1)"
proof -
  from configure_account_cases [OF run wf] assms(3,4) obtain row where
    "settings_effect i j d d1 row" "acc_last_config_ts row = cts" "acc_last_config_seqnum row = cseq" by auto
  then show ?thesis using configure_account_stale [of i j d1 row] settings_effect_invariant(5) [OF _ wf] assms(5)
    by simp
qed

theorem configuration_applied_once_witness:
  "\<exists>d1. configure_account sample_env sample_ts sample_ts 1 2 sample_ts 1 (Fin 5) 0 [] (Fin 100) sample_db = Inr (False, d1)
    \<and> configure_account sample_env sample_ts sample_ts 1 2 sample_ts 1 (Fin 5) 0 [] (Fin 100) d1 = Inr (False, d1)"
proof -
  obtain d1 where d1: "configure_account sample_env sample_ts sample_ts 1 2 sample_ts 1 (Fin 5) 0 [] (Fin 100) sample_db
      = Inr (False, d1)" "d1 \<noteq> sample_db" using sample_configuration_run [of 2 1000] by auto
  have "is_valid_config sample_env 2 (Fin 5) []" by (simp add: is_valid_config_def)
  from configuration_applied_once [OF d1(1) sample_db_invariant(1) this d1(2)] d1(1)
  show ?thesis by (simp add: is_later_event_def)
qed

text \<open>
  C23. A configuration message is applied completely or rejected. A valid one writes its flags, data,
  negligible amount (as a REAL, if it differs from the stored one), time stamp and sequence number to the row,
  and announces exactly these values in exactly one \<open>AccountUpdateSignal\<close>. An invalid one leaves every
  table alone except for exactly one \<open>RejectedConfigSignal\<close> that repeats the message, with its negligible
  amount as a REAL.
\<close>

theorem configuration_all_or_nothing:
  assumes run: "configure_account E ts its i j cts cseq n flags dat delay d = Inr (b, d')" and "db_wf d" and "d' \<noteq> d"
  shows "(\<exists>row u. is_valid_config E j n dat \<and> get_account_row i j d' = Some row
        \<and> acc_config_flags row = flags \<and> acc_config_data row = dat
        \<and> acc_last_config_ts row = cts \<and> acc_last_config_seqnum row = cseq
        \<and> (acc_negligible_amount row = n \<or> store_real E n = Some (acc_negligible_amount row))
        \<and> db_rejected_config_signals d' = db_rejected_config_signals d
        \<and> db_account_update_signals d' = db_account_update_signals d @ [u]
        \<and> aus_debtor_id u = i \<and> aus_creditor_id u = j \<and> aus_config_flags u = flags \<and> aus_config_data u = dat
        \<and> aus_last_config_ts u = cts \<and> aus_last_config_seqnum u = cseq
        \<and> store_real E n = Some (aus_negligible_amount u)
        \<and> (b \<longleftrightarrow> get_account i j d = None))
    \<or> (\<exists>s. \<not> is_valid_config E j n dat \<and> \<not> b
        \<and> d' = d\<lparr>db_rejected_config_signals := db_rejected_config_signals d @ [s]\<rparr>
        \<and> rcs_debtor_id s = i \<and> rcs_creditor_id s = j \<and> rcs_config_ts s = cts \<and> rcs_config_seqnum s = cseq
        \<and> rcs_config_flags s = flags \<and> rcs_config_data s = dat
        \<and> store_real E n = Some (rcs_negligible_amount s)
        \<and> rcs_rejection_code s = RC_INVALID_CONFIGURATION)"
  using configure_account_cases [OF run assms(2)]
proof (rule disjE3)
  assume "\<not> b \<and> d' = d"
  then show ?thesis using assms(3) by simp
next
  assume "is_valid_config E j n dat \<and>
       (\<exists>row. settings_effect i j d d' row \<and> acc_principal row = contain_principal_overflow (stored_principal i j d)
         \<and> acc_config_flags row = flags \<and> acc_config_data row = dat
         \<and> acc_last_config_ts row = cts \<and> acc_last_config_seqnum row = cseq
         \<and> (acc_negligible_amount row = n \<or> store_real E n = Some (acc_negligible_amount row))
         \<and> (\<exists>u. db_account_update_signals d' = db_account_update_signals d @ [u]
              \<and> announces_config E u i j cts cseq n flags dat)
         \<and> (b \<longleftrightarrow> get_account i j d = None))"
  then obtain row u where v: "is_valid_config E j n dat" "settings_effect i j d d' row"
    and row: "acc_config_flags row = flags" "acc_config_data row = dat" "acc_last_config_ts row = cts"
      "acc_last_config_seqnum row = cseq" "b = (get_account i j d = None)"
      "acc_negligible_amount row = n \<or> store_real E n = Some (acc_negligible_amount row)"
    and u: "db_account_update_signals d' = db_account_update_signals d @ [u]" "announces_config E u i j cts cseq n flags dat"
    by blast
  have "db_rejected_config_signals d' = db_rejected_config_signals d"
    using v(2) by (auto simp: settings_effect_def)
  then show ?thesis using v(1) row u settings_effect_invariant(5) [OF v(2) assms(2)]
    unfolding announces_config_def by blast
next
  assume "\<not> is_valid_config E j n dat \<and> \<not> b \<and>
       (\<exists>x. store_real E n = Some x \<and> d' = d\<lparr>db_rejected_config_signals := db_rejected_config_signals d
        @ [\<lparr>rcs_debtor_id = i, rcs_creditor_id = j, rcs_config_ts = cts, rcs_config_seqnum = cseq,
            rcs_config_flags = flags, rcs_config_data = dat, rcs_negligible_amount = x,
            rcs_rejection_code = RC_INVALID_CONFIGURATION, rcs_inserted_at = None\<rparr>]\<rparr>)"
  then show ?thesis by auto
qed

theorem configuration_all_or_nothing_witness:
  "(\<exists>d' row. configure_account sample_env sample_ts sample_ts 1 2 sample_ts 1 (Fin 5) 0 [] (Fin 100) sample_db
      = Inr (False, d') \<and> get_account_row 1 2 d' = Some row \<and> acc_last_config_ts row = sample_ts
      \<and> acc_negligible_amount row = Fin 5)
    \<and> (\<exists>d' s. configure_account sample_env sample_ts sample_ts 1 2 sample_ts 1 (Fin (- 5)) 0 [] (Fin 100) sample_db
      = Inr (False, d') \<and> db_rejected_config_signals d' = [s] \<and> rcs_config_ts s = sample_ts
      \<and> rcs_negligible_amount s = Fin (- 5) \<and> get_account_row 1 2 d' = get_account_row 1 2 sample_db)"
proof (rule conjI)
  obtain d' where d': "configure_account sample_env sample_ts sample_ts 1 2 sample_ts 1 (Fin 5) 0 [] (Fin 100) sample_db
      = Inr (False, d')" "d' \<noteq> sample_db" using sample_configuration_run [of 2 1000] by auto
  from configuration_all_or_nothing [OF d'(1) sample_db_invariant(1) d'(2)] d'(1)
  show "\<exists>d' row. configure_account sample_env sample_ts sample_ts 1 2 sample_ts 1 (Fin 5) 0 [] (Fin 100) sample_db
      = Inr (False, d') \<and> get_account_row 1 2 d' = Some row \<and> acc_last_config_ts row = sample_ts
      \<and> acc_negligible_amount row = Fin 5"
    by (auto simp: is_valid_config_def)
next
  have later: "is_later_event sample_env sample_ts 1 (acc_last_config_ts (sample_account 2 1000))
      (acc_last_config_seqnum (sample_account 2 1000))"
    by (simp add: is_later_event_def sample_account_def sample_ts_def T0_def)
  have "\<not> is_valid_config sample_env 2 (Fin (- 5)) []" by (simp add: is_valid_config_def)
  then obtain d' where d': "configure_account sample_env sample_ts sample_ts 1 2 sample_ts 1 (Fin (- 5)) 0 [] (Fin 100)
      sample_db = Inr (False, d')" "db_rejected_config_signals d' \<noteq> []"
    by (simp add: configure_account_def get_account_instance_def sample_row_2 later try_to_configure_def
        add_rejected_config_signal_def storeR_def)
  have "d' \<noteq> sample_db" using d'(2) by (auto simp: sample_db_def empty_db_def)
  from configuration_all_or_nothing [OF d'(1) sample_db_invariant(1) this] d'
  show "\<exists>d' s. configure_account sample_env sample_ts sample_ts 1 2 sample_ts 1 (Fin (- 5)) 0 [] (Fin 100) sample_db
      = Inr (False, d') \<and> db_rejected_config_signals d' = [s] \<and> rcs_config_ts s = sample_ts
      \<and> rcs_negligible_amount s = Fin (- 5) \<and> get_account_row 1 2 d' = get_account_row 1 2 sample_db"
    by (auto simp: is_valid_config_def sample_db_def empty_db_def get_account_row_def)
qed

text \<open>
  C22. The interest rate of an account changes only when at least the minimal interval has passed since the
  previous change, stays between the floor and the ceiling whatever rate the debtor asks for, and the change
  keeps the principal and remembers the previous rate.
\<close>

theorem interest_rate_change_bounded:
  assumes run: "change_interest_rate E ts i j r req delay d = Inr d'" and wf: "db_wf d" and "d' \<noteq> d"
    and E: "store_real_ok E"
  shows "\<exists>a row. get_account i j d = Some a \<and> get_account_row i j d' = Some row \<and> j \<noteq> ROOT_CREDITOR_ID
    \<and> fle INTEREST_RATE_FLOOR (acc_interest_rate row) \<and> fle (acc_interest_rate row) INTEREST_RATE_CEIL
    \<and> fle (fadd delay (float_of_int SECONDS_IN_DAY)) (total_seconds (ts - acc_last_interest_rate_change_ts a))
    \<and> acc_last_interest_rate_change_ts row = ts
    \<and> acc_principal row = acc_principal a
    \<and> (acc_previous_interest_rate row = acc_interest_rate a
       \<or> store_real E (acc_interest_rate a) = Some (acc_previous_interest_rate row))"
proof -
  from change_interest_rate_InrD [OF run wf] assms(3) obtain a row where
    eff: "settings_effect i j d d' row" and acc: "get_account i j d = Some a" "j \<noteq> ROOT_CREDITOR_ID"
      "clamp_interest_rate r \<noteq> NaN"
    and rest: "fle (fadd delay (float_of_int SECONDS_IN_DAY)) (total_seconds (ts - acc_last_interest_rate_change_ts a))"
      "acc_last_interest_rate_change_ts row = ts" "acc_principal row = acc_principal a"
      "acc_previous_interest_rate row = acc_interest_rate a
       \<or> store_real E (acc_interest_rate a) = Some (acc_previous_interest_rate row)"
    and rate: "acc_interest_rate a = clamp_interest_rate r \<and> acc_interest_rate row = acc_interest_rate a
        \<or> store_real E (clamp_interest_rate r) = Some (acc_interest_rate row)" by auto
  obtain x where x: "clamp_interest_rate r = Fin x"
    using acc(3) by (cases r) (auto simp: clamp_interest_rate_def Let_def INTEREST_RATE_CEIL_def
        INTEREST_RATE_FLOOR_def flt_def split: if_splits)
  have "acc_interest_rate row \<noteq> NaN" using rate E unfolding x store_real_ok_def by auto
  moreover have "account_ok row" using eff by (auto simp: settings_effect_def)
  ultimately have "fle INTEREST_RATE_FLOOR (acc_interest_rate row)" "fle (acc_interest_rate row) INTEREST_RATE_CEIL"
    by (auto simp: account_ok_def pg_le_def INTEREST_RATE_CEIL_def)
  then show ?thesis using acc rest settings_effect_invariant(5) [OF eff wf] by blast
qed

theorem interest_rate_change_bounded_witness:
  "\<exists>d' row. change_interest_rate sample_env sample_ts 1 2 (Fin 200) None (Fin 100) sample_db = Inr d'
    \<and> get_account_row 1 2 d' = Some row \<and> fle (acc_interest_rate row) INTEREST_RATE_CEIL"
proof -
  obtain d' where d': "change_interest_rate sample_env sample_ts 1 2 (Fin 200) None (Fin 100) sample_db = Inr d'"
    "d' \<noteq> sample_db" using sample_rate_run by blast
  have "store_real_ok sample_env" by (simp add: store_real_ok_def)
  from interest_rate_change_bounded [OF d'(1) sample_db_invariant(1) d'(2) this] d' show ?thesis by blast
qed

text \<open>
  No change of settings moves money or touches another account: configuring an account, changing its
  interest rate or its debtor information keeps the invariants of the database, the principals and what has
  been sent, unless the stored principal was at the end of its range.
\<close>

theorem settings_keep_money:
  assumes run: "configure_account E ts its i j cts cseq n flags dat delay d = Inr (b, d')
      \<or> change_interest_rate E ts i j r req delay d = Inr d'
      \<or> update_debtor_info E ts i j iri sha ctype req d = Inr d'"
    and wf: "db_wf d" and inv: "locks_within d" "ids_fresh d" and range: "\<bar>stored_principal i j d\<bar> \<le> MAX_INT64"
  shows "db_wf d' \<and> locks_within d' \<and> ids_fresh d' \<and> (locks_agree d \<longrightarrow> locks_agree d')
    \<and> (\<forall>k. principals k (db_accounts d') = principals k (db_accounts d) \<and> sent_total k d' = sent_total k d)
    \<and> (\<forall>k l. (k, l) \<noteq> (i, j) \<longrightarrow> get_account_row k l d' = get_account_row k l d)"
proof -
  have stored: "get_account i j d = Some a \<Longrightarrow> acc_principal a = stored_principal i j d" for a
    using stored_account(3) [OF _ wf] by blast
  have contain: "contain_principal_overflow (stored_principal i j d) = stored_principal i j d"
    using range by (auto simp: contain_id)
  have "d' = d \<or> (\<exists>row. settings_effect i j d d' row \<and> acc_principal row = stored_principal i j d)
    \<or> (\<exists>x. d' = d\<lparr>db_rejected_config_signals := x\<rparr>)"
    using run
  proof (elim disjE)
    assume "configure_account E ts its i j cts cseq n flags dat delay d = Inr (b, d')"
    from configure_account_cases [OF this wf] show ?thesis using contain by metis
  next
    assume "change_interest_rate E ts i j r req delay d = Inr d'"
    from change_interest_rate_InrD [OF this wf] show ?thesis using stored by metis
  next
    assume "update_debtor_info E ts i j iri sha ctype req d = Inr d'"
    from update_debtor_info_InrD [OF this wf] show ?thesis using stored by metis
  qed
  then show ?thesis
  proof (elim disjE exE conjE)
    fix row assume "settings_effect i j d d' row" "acc_principal row = stored_principal i j d"
    then show ?thesis using settings_effect_invariant [OF _ wf] inv by (simp add: sent_total_def)
  next
    fix x assume "d' = d\<lparr>db_rejected_config_signals := x\<rparr>"
    then show ?thesis using wf inv
      by (simp add: db_wf_def locks_within_def ids_fresh_def locks_agree_def sent_total_def get_account_row_def)
  qed (use wf inv in simp)
qed

theorem settings_keep_money_witness:
  "\<exists>d'. change_interest_rate sample_env sample_ts 1 2 (Fin 200) None (Fin 100) sample_db = Inr d'
    \<and> db_wf d' \<and> principals 1 (db_accounts d') = 0"
proof -
  obtain d' where d': "change_interest_rate sample_env sample_ts 1 2 (Fin 200) None (Fin 100) sample_db = Inr d'"
    using sample_rate_run by blast
  have "\<bar>stored_principal 1 2 sample_db\<bar> \<le> MAX_INT64" by (simp add: stored_principal_def sample_row_2 int_bounds)
  note settings_keep_money [OF disjI2 [OF disjI1 [OF d']] sample_db_invariant(1-3) this]
  moreover have "principals 1 (db_accounts sample_db) = 0" by (simp add: principals_def sample_db_def)
  ultimately show ?thesis using d' by auto
qed

end
