(* ===== verification/FetchApiProps.thy ===== *)
theory FetchApiProps
  imports FetchApi ConfigurationProps
begin

text \<open>
  The two sides of the fetch API together: what a server stores is what another server is told.
\<close>

text \<open>
  C39. Client and server agree: asking a server whether an account is reachable returns what
  \<open>is_reachable_account\<close> says there, without raising, and once a root account has been configured with valid configuration
  data, asking for it returns that data, parsed.
\<close>

theorem fetch_api_agrees:
  assumes "configure_account E ts its i ROOT_CREDITOR_ID cts cseq n flags dat delay d = Inr (b, d')"
    and "db_wf d" and "d' \<noteq> d" and "is_valid_config E ROOT_CREDITOR_ID n dat"
  shows "(\<exists>x. parse_root_config_data (schema_loads E) dat = Inr x
        \<and> make_root_config_data_request (schema_loads E) (Inr (config i ROOT_CREDITOR_ID d')) = Inr (Some x))
    \<and> (\<forall>k l. get_if_account_is_reachable (Inr (reachable k l d')) = Inr (is_reachable_account k l d'))"
proof -
  have reach: "get_if_account_is_reachable (Inr (reachable k l d')) = Inr (is_reachable_account k l d')" for k l
    by (simp add: get_if_account_is_reachable_def reachable_def)
  obtain row where "settings_effect i ROOT_CREDITOR_ID d d' row" "acc_config_data row = dat"
    using configure_account_cases [OF assms(1,2)] assms(3,4) by blast
  then have "get_account_config_data i ROOT_CREDITOR_ID d' = Some dat"
    using settings_effect_invariant(5) [OF _ assms(2)] by (auto simp: get_account_config_data_def)
  moreover obtain x where "parse_root_config_data (schema_loads E) dat = Inr x"
    using assms(4) by (auto simp: is_valid_config_def parse_root_config_data_def split: if_splits sum.splits)
  ultimately show ?thesis using reach by (simp add: make_root_config_data_request_def config_def)
qed

theorem fetch_api_agrees_witness:
  "\<exists>d' x. configure_account sample_env sample_ts sample_ts 1 ROOT_CREDITOR_ID sample_ts 1 (Fin 5) 0 [] (Fin 100)
        sample_db = Inr (False, d')
    \<and> make_root_config_data_request (schema_loads sample_env) (Inr (config 1 ROOT_CREDITOR_ID d')) = Inr (Some x)"
proof -
  obtain d' where d': "configure_account sample_env sample_ts sample_ts 1 ROOT_CREDITOR_ID sample_ts 1 (Fin 5) 0 []
      (Fin 100) sample_db = Inr (False, d')" "d' \<noteq> sample_db"
    using sample_configuration_run [of ROOT_CREDITOR_ID "- 1000"] by (auto simp: ROOT_CREDITOR_ID_def)
  have "is_valid_config sample_env ROOT_CREDITOR_ID (Fin 5) []" by (simp add: is_valid_config_def)
  from fetch_api_agrees [OF d'(1) sample_db_invariant(1) d'(2) this] d'(1) show ?thesis by blast
qed

end
