(* ===== verification/ScannersProps.thy ===== *)
theory ScannersProps
  imports ScannersEffects FetchApiProps
begin

text \<open>
  The properties of the table scanners: only abandoned accounts are purged and nothing of value goes with
  them, heartbeats and reminders are sent once per interval, registrations of balance changes are dropped only
  when they cannot be needed any more, and the chores that are sent pass the checks of their actors.
\<close>

section \<open>The scanners of the default configuration\<close>

definition sample_scanner :: account_scanner where
  "sample_scanner =
     \<lparr>account_purge_delay = 46 * microseconds_per_day, few_days_interval = 3 * microseconds_per_day,
      deletion_attempts_min_interval = 14 * microseconds_per_day,
      interest_rate_change_min_interval = 8 * microseconds_per_day,
      max_interest_to_principal_ratio = rnd64 (1 / 10000),
      min_interest_cap_interval = 14 * microseconds_per_day,
      account_heartbeat_interval = 7 * microseconds_per_day\<rparr>"

lemma days: "\<bar>numeral n\<bar> < (999999999 :: int) \<Longrightarrow> timedelta_days (Fin (numeral n)) = Inr (numeral n * microseconds_per_day)"
  using timedelta_days_whole [of "numeral n"] by (simp del: timedelta_days.simps)

lemma default_scanner: "AccountScanner_init Configuration = Inr sample_scanner"
proof -
  have "timedelta_days (Fin 7) = Inr (7 * microseconds_per_day)" "timedelta_days (Fin 14) = Inr (14 * microseconds_per_day)"
    "timedelta_days (Fin 30) = Inr (30 * microseconds_per_day)" by (simp_all add: days del: timedelta_days.simps)
  then show ?thesis using default_ratio(1)
    by (simp add: AccountScanner_init_def Configuration_def sample_scanner_def mk_timedelta_def
        microseconds_per_day_def del: timedelta_days.simps)
qed

section \<open>A sample run\<close>

definition sample_late :: datetime where "sample_late = sample_ts + 100 * microseconds_per_day"

lemmas sample_scan_defs = sample_scanner_def sample_late_def sample_ts_def
  microseconds_per_day_def datetime_sub_def datetime_add_def DATETIME_MIN_def DATETIME_MAX_def date_of_def

definition sample_gone :: account where
  "sample_gone = (sample_account 3 0)\<lparr>acc_status_flags := 1\<rparr>"

lemma sample_gone [simp]:
  "account_pk sample_gone = (1, 3)" "is_deleted sample_gone" "\<not> is_deleted (sample_account c pr)"
  "acc_last_change_ts sample_gone = sample_ts" "acc_creation_date sample_gone = 18518"
  "acc_creditor_id sample_gone = 3" "acc_debtor_id sample_gone = 1"
  by (simp_all add: sample_gone_def is_deleted_def STATUS_DELETED_FLAG_def sample_account_def account_pk_def)

definition sample_purge_db :: db where
  "sample_purge_db = empty_db\<lparr>db_accounts := [sample_account 0 0, sample_gone]\<rparr>"

lemma sample_cutoffs:
  "datetime_sub sample_late (few_days_interval sample_scanner) = Inr (sample_late - 3 * microseconds_per_day)"
  "datetime_sub sample_late (account_purge_delay sample_scanner) = Inr (sample_late - 46 * microseconds_per_day)"
  "datetime_sub sample_late (account_heartbeat_interval sample_scanner) = Inr (sample_late - 7 * microseconds_per_day)"
  "datetime_sub sample_late (deletion_attempts_min_interval sample_scanner) = Inr (sample_late - 14 * microseconds_per_day)"
  "datetime_sub sample_late (min_interest_cap_interval sample_scanner) = Inr (sample_late - 14 * microseconds_per_day)"
  "datetime_sub sample_late (interest_rate_change_min_interval sample_scanner) = Inr (sample_late - 8 * microseconds_per_day)"
  by (simp_all add: sample_scan_defs)

lemma sample_purgeable:
  "purgeable (sample_late - 46 * microseconds_per_day) (date_of (sample_late - 3 * microseconds_per_day)) sample_gone"
  "\<not> purgeable c f (sample_account 0 0)"
  by (simp_all add: purgeable_def) (simp add: sample_scan_defs)

lemma sample_purge_db_accounts: "db_accounts sample_purge_db = [sample_account 0 0, sample_gone]"
  by (simp add: sample_purge_db_def)

lemma sample_purge:
  "purge_accounts sample_scanner (db_accounts sample_purge_db) sample_late sample_purge_db
   = Inr (sample_purge_db\<lparr>db_accounts := [sample_account 0 0],
       db_account_purge_signals := [account_purge_signal_of sample_gone]\<rparr>)"
  by (simp add: purge_accounts_def sample_cutoffs sample_purgeable sample_purge_db_accounts Let_def
      delete_accounts_where_def tbl_insert_def tbl_lookup_def)
    (simp add: sample_purge_db_def empty_db_def)

lemma sample_heartbeat:
  assumes "db_accounts d = [sample_account 0 0]"
  shows "\<exists>d'. send_heartbeats sample_env sample_scanner (db_accounts sample_purge_db) sample_late d = Inr d'
    \<and> db_accounts d' = [(sample_account 0 0)\<lparr>acc_last_heartbeat_ts := sample_late\<rparr>]
    \<and> db_account_purge_signals d' = db_account_purge_signals d"
proof -
  have due: "needs_heartbeat (sample_late - 7 * microseconds_per_day) (sample_account 0 0)"
    "\<not> needs_heartbeat c sample_gone"
    by (simp_all add: needs_heartbeat_def) (simp add: sample_account_def sample_late_def microseconds_per_day_def)
  have "acc_pending_account_update (sample_account 0 0) = False" by (simp add: sample_account_def)
  then have "(sample_account 0 0)\<lparr>acc_last_heartbeat_ts := sample_late, acc_pending_account_update := False\<rparr>
      = (sample_account 0 0)\<lparr>acc_last_heartbeat_ts := sample_late\<rparr>" by (simp add: sample_account_def)
  then show ?thesis using assms
    by (simp add: send_heartbeats_def sample_cutoffs due sample_purge_db_accounts Let_def add_account_update_signal_def
        storeR_def)
qed

lemma sample_scan_run:
  "\<exists>d'. AccountScanner_process_rows sample_env sample_scanner (\<lambda>ids i. None) (db_accounts sample_purge_db) sample_late
      sample_purge_db = ([], Inr d')
    \<and> db_accounts d' = [(sample_account 0 0)\<lparr>acc_last_heartbeat_ts := sample_late\<rparr>]
    \<and> db_account_purge_signals d' = [account_purge_signal_of sample_gone]"
proof -
  obtain d' where "send_heartbeats sample_env sample_scanner (db_accounts sample_purge_db) sample_late
      (sample_purge_db\<lparr>db_accounts := [sample_account 0 0],
       db_account_purge_signals := [account_purge_signal_of sample_gone]\<rparr>) = Inr d'"
    "db_accounts d' = [(sample_account 0 0)\<lparr>acc_last_heartbeat_ts := sample_late\<rparr>]"
    "db_account_purge_signals d' = [account_purge_signal_of sample_gone]"
    using sample_heartbeat by force
  moreover have "delete_accounts sample_env sample_scanner (db_accounts sample_purge_db) sample_late = ([], Inr ())"
    "capitalize_interests sample_env sample_scanner (db_accounts sample_purge_db) sample_late = ([], Inr ())"
    "change_debtor_settings sample_scanner (\<lambda>ids i. None) (db_accounts sample_purge_db) sample_late = ([], Inr ())"
    by (simp_all add: delete_accounts_def capitalize_interests_def change_debtor_settings_def sample_cutoffs
        sample_purge_db_accounts should_be_deleted_def should_be_capitalized_def debtor_settings_chores_def
        ROOT_CREDITOR_ID_def Let_def)
  ultimately show ?thesis by (simp add: AccountScanner_process_rows_def sample_purge then_send_def)
qed

lemma sample_purge_db_invariant:
  "db_wf sample_purge_db" "locks_within sample_purge_db" "ids_fresh sample_purge_db" "changes_agree sample_purge_db"
  "deleted_accounts_empty sample_purge_db"
proof -
  have "account_ok sample_gone" "acc_principal sample_gone = 0" "acc_pending_transfers_count sample_gone = 0"
    "acc_total_locked_amount sample_gone = 0"
    using sample_account_valid [of 3 0] by (simp_all add: sample_gone_def account_ok_def int_bounds)
  moreover have "db_prepared_transfers sample_purge_db = []" "db_transfer_requests sample_purge_db = []"
    "db_finalization_requests sample_purge_db = []" "db_registered_balance_changes sample_purge_db = []"
    "db_pending_balance_changes sample_purge_db = []" by (simp_all add: sample_purge_db_def empty_db_def)
  ultimately show "db_wf sample_purge_db" "locks_within sample_purge_db" "ids_fresh sample_purge_db"
    "changes_agree sample_purge_db" "deleted_accounts_empty sample_purge_db"
    by (simp_all add: db_wf_def locks_within_def ids_fresh_def changes_agree_def deleted_accounts_empty_def
        sample_purge_db_accounts tbl_wf_def locked_sum_def pending_count_def int_bounds)
qed

lemma sample_create_account:
  "\<exists>b d3. create_account sample_env 1 3 sample_late sample_late empty_db = Inr (b, d3)"
proof -
  have date: "date_of sample_late = 18618" by (simp add: sample_scan_defs)
  have "date_to_int24 sample_env 18618 = 18618" by (simp add: sample_env_def)
  then have id: "acc_last_transfer_id (new_account sample_env 1 3 18618 sample_late) = 18618 * 2 ^ 40"
    by (simp add: new_account_def push_bit_eq_mult)
  then have "account_fits (new_account sample_env 1 3 18618 sample_late)" "account_ok (new_account sample_env 1 3 18618 sample_late)"
    by (simp_all add: account_fits_def account_ok_def) (simp_all add: new_account_def is_int64_def is_int32_def int_bounds
        pg_le_def INTEREST_RATE_FLOOR_def INTEREST_RATE_CEIL_def)
  then show ?thesis
    by (simp add: create_account_def Let_def date insert_account_def flush_new_account_def storeR_def dataR_def tbl_insert_def
        tbl_lookup_def empty_db_def int_bounds)
qed

definition sample_stale :: prepared_transfer where
  "sample_stale =
     \<lparr>pt_debtor_id = 1, pt_sender_creditor_id = 2, pt_transfer_id = 5, pt_coordinator_type = CT_DIRECT,
      pt_coordinator_id = 1, pt_coordinator_request_id = 2, pt_recipient_creditor_id = 3, pt_prepared_at = sample_ts,
      pt_min_interest_rate = Fin (- 100), pt_demurrage_rate = Fin (- 50), pt_deadline = sample_late,
      pt_locked_amount = 100, pt_last_reminder_ts = None\<rparr>"

definition sample_registration :: registered_balance_change where
  "sample_registration =
     \<lparr>rbc_debtor_id = 1, rbc_other_creditor_id = 2, rbc_change_id = 7, rbc_committed_at = 100, rbc_is_applied = True\<rparr>"

section \<open>Properties\<close>

text \<open>
  An account is abandoned when it is marked as deleted, was not changed for the whole purge delay, and was created
  more than a few days ago; two rows are the same account when their keys agree.
\<close>

definition abandoned :: "account_scanner \<Rightarrow> datetime \<Rightarrow> account \<Rightarrow> bool" where
  "abandoned self ts a \<longleftrightarrow> acc_status_flags a AND 1 \<noteq> 0
     \<and> acc_last_change_ts a < ts - account_purge_delay self
     \<and> acc_creation_date a < date_of (ts - few_days_interval self)"

definition same_account :: "account \<Rightarrow> account \<Rightarrow> bool" where
  "same_account a b \<longleftrightarrow> acc_debtor_id a = acc_debtor_id b \<and> acc_creditor_id a = acc_creditor_id b"

lemma purged_abandoned:
  "purged self rows ts a \<longleftrightarrow> abandoned self ts a \<and> (\<exists>row \<in> set rows. abandoned self ts row \<and> same_account row a)"
  by (auto simp: purged_def purgeable_def abandoned_def same_account_def is_deleted_def STATUS_DELETED_FLAG_def
      account_pk_def image_iff Let_def)

text \<open>
  C27. A call of the account scanner, whatever rows it is given, removes exactly the abandoned accounts among the
  accounts of those rows that were abandoned as read.  The other accounts stay, in their order, and each removed one is announced by
  one purge signal with its own debtor, creditor and creation date; no other purge signal is sent.
\<close>

theorem only_abandoned_accounts_purged:
  assumes "AccountScanner_process_rows E self g rows ts d = (sent, Inr d')" and "db_wf d"
  shows "\<exists>gone stay new.
      gone = filter (\<lambda>a. abandoned self ts a \<and> (\<exists>row \<in> set rows. abandoned self ts row \<and> same_account row a))
        (db_accounts d)
    \<and> stay = filter (\<lambda>a. a \<notin> set gone) (db_accounts d)
    \<and> list_all2 same_account stay (db_accounts d')
    \<and> db_account_purge_signals d' = db_account_purge_signals d @ new
    \<and> list_all2 (\<lambda>a s. aps_debtor_id s = acc_debtor_id a \<and> aps_creditor_id s = acc_creditor_id a
        \<and> aps_creation_date s = acc_creation_date a \<and> aps_inserted_at s = None) gone new"
proof -
  obtain d1 where d1: "purge_accounts self rows ts d = Inr d1" "send_heartbeats E self rows ts d1 = Inr d'"
    using AccountScanner_process_rows_InrD [OF assms(1)] by blast
  note p = purge_accounts_InrD [OF d1(1) db_wf_accs [OF assms(2)]]
  let ?gone = "filter (purged self rows ts) (db_accounts d)"
  let ?stay = "filter (\<lambda>a. a \<notin> set ?gone) (db_accounts d)" and ?new = "map account_purge_signal_of ?gone"
  have "tbl_wf account_pk account_ok (db_accounts d1)" using db_wf_accs [OF assms(2)] by (simp add: p tbl_wf_filter)
  from send_heartbeats_InrD [OF d1(2) this]
  have eff: "db_accounts d' = map (mark_heard self rows ts) ?stay"
    "db_account_purge_signals d' = db_account_purge_signals d @ ?new"
    by (auto simp: p drop_accounts_def intro!: arg_cong [of _ _ "map _"] filter_cong)
  have gone: "?gone = filter (\<lambda>a. abandoned self ts a \<and> (\<exists>row \<in> set rows. abandoned self ts row \<and> same_account row a))
      (db_accounts d)" by (rule filter_cong) (simp_all only: purged_abandoned)
  have stay: "list_all2 same_account t (map (mark_heard self rows ts) t)" for t
    by (simp add: list_all2_conv_all_nth same_account_def mark_heard_def)
  have new: "list_all2 (\<lambda>a s. aps_debtor_id s = acc_debtor_id a \<and> aps_creditor_id s = acc_creditor_id a
      \<and> aps_creation_date s = acc_creation_date a \<and> aps_inserted_at s = None) t (map account_purge_signal_of t)" for t
    by (simp add: list_all2_conv_all_nth account_purge_signal_of_def)
  show ?thesis
    by (rule exI [of _ ?gone], rule exI [of _ ?stay], rule exI [of _ ?new], intro conjI)
      (rule gone, rule refl, subst eff(1), rule stay, rule eff(2), rule new)
qed

lemma sample_abandoned:
  "abandoned sample_scanner sample_late sample_gone" "\<not> abandoned sample_scanner sample_late (sample_account 0 0)"
  by (simp_all add: abandoned_def) (simp_all add: sample_gone_def sample_account_def sample_scan_defs)

theorem only_abandoned_accounts_purged_witness:
  "\<exists>d' a s. AccountScanner_process_rows sample_env sample_scanner (\<lambda>ids i. None) (db_accounts sample_purge_db) sample_late
      sample_purge_db = ([], Inr d')
    \<and> db_accounts d' = [a] \<and> acc_creditor_id a = 0
    \<and> db_account_purge_signals d' = [s] \<and> aps_debtor_id s = 1 \<and> aps_creditor_id s = 3 \<and> aps_creation_date s = 18518"
proof -
  obtain d' where d': "AccountScanner_process_rows sample_env sample_scanner (\<lambda>ids i. None) (db_accounts sample_purge_db)
      sample_late sample_purge_db = ([], Inr d')" using sample_scan_run by blast
  have "same_account sample_gone sample_gone" "sample_account 0 0 \<noteq> sample_gone"
    using sample_abandoned by (auto simp: same_account_def)
  moreover have "db_account_purge_signals sample_purge_db = []" by (simp add: sample_purge_db_def empty_db_def)
  ultimately show ?thesis using only_abandoned_accounts_purged [OF d' sample_purge_db_invariant(1)] d'
    by (auto simp: sample_purge_db_accounts sample_abandoned list_all2_Cons1 same_account_def)
qed

text \<open>
  A call of the account scanner keeps all invariants of the database, moves no money and loses no prepared
  transfer: the accounts that it purges are empty.
\<close>

theorem account_scan_loses_nothing:
  assumes "AccountScanner_process_rows E self g rows ts d = (sent, Inr d')"
    and "db_wf d" and "locks_within d" and "ids_fresh d" and "changes_agree d" and "deleted_accounts_empty d"
  shows "db_wf d' \<and> locks_within d' \<and> ids_fresh d' \<and> changes_agree d' \<and> deleted_accounts_empty d'
    \<and> (locks_agree d \<longrightarrow> locks_agree d')
    \<and> (\<forall>n. principals n (db_accounts d') = principals n (db_accounts d))
    \<and> db_prepared_transfers d' = db_prepared_transfers d
    \<and> db_pending_balance_changes d' = db_pending_balance_changes d
    \<and> db_pending_balance_change_signals d' = db_pending_balance_change_signals d"
  using account_scan_effect [OF assms] by blast

theorem account_scan_loses_nothing_witness:
  "\<exists>d'. AccountScanner_process_rows sample_env sample_scanner (\<lambda>ids i. None) (db_accounts sample_purge_db) sample_late
      sample_purge_db = ([], Inr d') \<and> db_wf d' \<and> (\<forall>n. principals n (db_accounts d') = 0)"
proof -
  obtain d' where d': "AccountScanner_process_rows sample_env sample_scanner (\<lambda>ids i. None) (db_accounts sample_purge_db)
      sample_late sample_purge_db = ([], Inr d')" using sample_scan_run by blast
  have "principals n (db_accounts sample_purge_db) = 0" for n
    by (simp add: principals_def sample_purge_db_accounts sample_gone_def)
  then show ?thesis using account_scan_loses_nothing [OF d' sample_purge_db_invariant] d' by auto
qed

text \<open>
  C28. An account that is created again after it has been purged has a later creation date, so that the signals
  and transfers of the two can be told apart.  The scanner of any configuration waits for the few days this needs.
\<close>

theorem recreated_accounts_have_later_date:
  assumes "AccountScanner_init c = Inr self" and "AccountScanner_process_rows E self g rows ts d = (sent, Inr d')"
    and "db_wf d" and "s \<in> set (db_account_purge_signals d')" and "s \<notin> set (db_account_purge_signals d)"
    and "create_account E i j now its d2 = Inr (b, d3)" and "ts \<le> now"
  shows "aps_creation_date s < acc_creation_date b"
proof -
  obtain d1 where d1: "purge_accounts self rows ts d = Inr d1" "send_heartbeats E self rows ts d1 = Inr d'"
    using AccountScanner_process_rows_InrD [OF assms(2)] by blast
  note p = purge_accounts_InrD [OF d1(1) db_wf_accs [OF assms(3)]]
  have "tbl_wf account_pk account_ok (db_accounts d1)" using db_wf_accs [OF assms(3)] by (simp add: p tbl_wf_filter)
  from send_heartbeats_InrD [OF d1(2) this] have "db_account_purge_signals d' = db_account_purge_signals d1" by auto
  then obtain a where a: "purged self rows ts a" "s = account_purge_signal_of a" using assms(4,5) by (auto simp: p)
  have "few_days_interval self = 3 * microseconds_per_day"
    using assms(1) by (auto simp: AccountScanner_init_def monad_simps)
  then have "acc_creation_date a < date_of (ts - 3 * microseconds_per_day)"
    using a(1) by (simp add: purged_def purgeable_def Let_def)
  also have "\<dots> \<le> date_of now" using assms(7) by (intro date_of_mono) (simp add: microseconds_per_day_def)
  finally have "acc_creation_date a < date_of now" .
  moreover have "acc_creation_date b = date_of now"
    using assms(6) by (auto simp: create_account_def Let_def bindR_eq_Inr new_account_def)
  ultimately show ?thesis by (simp add: a(2) account_purge_signal_of_def)
qed

theorem recreated_accounts_have_later_date_witness:
  "\<exists>d' b d3. AccountScanner_process_rows sample_env sample_scanner (\<lambda>ids i. None) (db_accounts sample_purge_db) sample_late
      sample_purge_db = ([], Inr d')
    \<and> create_account sample_env 1 3 sample_late sample_late empty_db = Inr (b, d3) \<and> 18518 < acc_creation_date b"
proof -
  obtain d' where d': "AccountScanner_process_rows sample_env sample_scanner (\<lambda>ids i. None) (db_accounts sample_purge_db)
      sample_late sample_purge_db = ([], Inr d')" "db_account_purge_signals d' = [account_purge_signal_of sample_gone]"
    using sample_scan_run by blast
  obtain b d3 where b: "create_account sample_env 1 3 sample_late sample_late empty_db = Inr (b, d3)"
    using sample_create_account by blast
  have "account_purge_signal_of sample_gone \<in> set (db_account_purge_signals d')"
    "account_purge_signal_of sample_gone \<notin> set (db_account_purge_signals sample_purge_db)"
    by (simp_all add: d'(2)) (simp add: sample_purge_db_def empty_db_def)
  from recreated_accounts_have_later_date [OF default_scanner d'(1) sample_purge_db_invariant(1) this b order_refl]
  show ?thesis using d'(1) b by (simp add: account_purge_signal_of_def)
qed

text \<open>An account is due for a heartbeat when it is not deleted and has an unannounced change or was silent too long.\<close>

definition due_for_heartbeat :: "account_scanner \<Rightarrow> datetime \<Rightarrow> account \<Rightarrow> bool" where
  "due_for_heartbeat self ts a \<longleftrightarrow> acc_status_flags a AND 1 = 0
     \<and> (acc_pending_account_update a \<or> acc_last_heartbeat_ts a < ts - account_heartbeat_interval self)"

text \<open>The signal that carries the state of an account at a given time, its REAL columns as PostgreSQL keeps them.\<close>

definition carries_state :: "env \<Rightarrow> datetime \<Rightarrow> account \<Rightarrow> account_update_signal \<Rightarrow> bool" where
  "carries_state E ts a s \<longleftrightarrow>
     aus_debtor_id s = acc_debtor_id a \<and> aus_creditor_id s = acc_creditor_id a
     \<and> aus_last_change_ts s = acc_last_change_ts a \<and> aus_last_change_seqnum s = acc_last_change_seqnum a
     \<and> aus_principal s = acc_principal a \<and> aus_interest s = acc_interest a
     \<and> Some (aus_interest_rate s) = store_real E (acc_interest_rate a)
     \<and> aus_last_interest_rate_change_ts s = acc_last_interest_rate_change_ts a
     \<and> aus_last_transfer_number s = acc_last_transfer_number a
     \<and> aus_last_transfer_committed_at s = acc_last_transfer_committed_at a
     \<and> aus_last_config_ts s = acc_last_config_ts a \<and> aus_last_config_seqnum s = acc_last_config_seqnum a
     \<and> aus_creation_date s = acc_creation_date a
     \<and> Some (aus_negligible_amount s) = store_real E (acc_negligible_amount a)
     \<and> aus_config_flags s = acc_config_flags a \<and> aus_config_data s = acc_config_data a
     \<and> aus_debtor_info_iri s = acc_debtor_info_iri a \<and> aus_debtor_info_content_type s = acc_debtor_info_content_type a
     \<and> aus_debtor_info_sha256 s = acc_debtor_info_sha256 a
     \<and> aus_inserted_at s = Some (max ts (acc_last_change_ts a))"

lemma heard_due:
  "heard self rows ts a \<longleftrightarrow> due_for_heartbeat self ts a \<and> (\<exists>row \<in> set rows. due_for_heartbeat self ts row \<and> same_account row a)"
  by (auto simp: heard_def needs_heartbeat_def due_for_heartbeat_def same_account_def is_deleted_def
      STATUS_DELETED_FLAG_def account_pk_def image_iff Let_def)

lemma stored_heartbeat: "aus_stored E (heartbeat_signal_of ts a) s \<Longrightarrow> carries_state E ts a s"
  by (auto simp: aus_stored_def heartbeat_signal_of_def account_update_signal_of_def carries_state_def)

text \<open>
  C29. The account scanner sends a heartbeat for exactly the accounts that are due, in the rows as read and still in the
  table: one signal for each, in order, that carries its state.  Those accounts are marked as heard now,
  every other account stays as it is, and none of those heard is due again before another interval has passed, unless it
  changes.
\<close>

theorem heartbeats_once_per_interval:
  assumes "send_heartbeats E self rows ts d = Inr d'" and "db_wf d"
  shows "\<exists>told new.
      told = filter (\<lambda>a. due_for_heartbeat self ts a \<and> (\<exists>row \<in> set rows. due_for_heartbeat self ts row \<and> same_account row a))
        (db_accounts d)
    \<and> db_account_update_signals d' = db_account_update_signals d @ new
    \<and> list_all2 (carries_state E ts) told new
    \<and> db_accounts d' = map (\<lambda>a. if a \<in> set told then a\<lparr>acc_last_heartbeat_ts := ts, acc_pending_account_update := False\<rparr> else a)
        (db_accounts d)
    \<and> (\<forall>a \<in> set told. \<forall>later. later \<le> ts + account_heartbeat_interval self \<longrightarrow>
        \<not> due_for_heartbeat self later (a\<lparr>acc_last_heartbeat_ts := ts, acc_pending_account_update := False\<rparr>))"
proof -
  let ?told = "filter (heard self rows ts) (db_accounts d)"
  obtain new where new: "d' = d\<lparr>db_accounts := map (mark_heard self rows ts) (db_accounts d),
        db_account_update_signals := db_account_update_signals d @ new\<rparr>"
    "list_all2 (aus_stored E) (map (heartbeat_signal_of ts) ?told) new"
    using send_heartbeats_InrD [OF assms(1) db_wf_accs [OF assms(2)]] by blast
  have "list_all2 (carries_state E ts) ?told new"
    using new(2) by (auto simp: list_all2_map1 intro: stored_heartbeat elim!: list_all2_mono)
  moreover have "db_accounts d' = map (\<lambda>a. if a \<in> set ?told
      then a\<lparr>acc_last_heartbeat_ts := ts, acc_pending_account_update := False\<rparr> else a) (db_accounts d)"
    by (simp add: new(1) mark_heard_def)
  moreover have "db_account_update_signals d' = db_account_update_signals d @ new" by (simp add: new(1))
  ultimately show ?thesis unfolding heard_due
    by (intro exI [of _ "filter _ (db_accounts d)"] exI [of _ new]) (auto simp: due_for_heartbeat_def)
qed

theorem heartbeats_once_per_interval_witness:
  "\<exists>d' s. send_heartbeats sample_env sample_scanner [sample_account 2 1000] sample_late
      (empty_db\<lparr>db_accounts := [sample_account 2 1000]\<rparr>) = Inr d'
    \<and> db_account_update_signals d' = [s] \<and> aus_creditor_id s = 2 \<and> aus_principal s = 1000
    \<and> aus_inserted_at s = Some sample_late
    \<and> map acc_last_heartbeat_ts (db_accounts d') = [sample_late]"
proof -
  let ?a = "sample_account 2 1000" and ?d = "empty_db\<lparr>db_accounts := [sample_account 2 1000]\<rparr>"
  have due: "due_for_heartbeat sample_scanner sample_late ?a"
    by (simp add: due_for_heartbeat_def sample_account_def sample_scanner_def sample_late_def microseconds_per_day_def)
  then have "needs_heartbeat (sample_late - 7 * microseconds_per_day) ?a"
    by (simp add: due_for_heartbeat_def needs_heartbeat_def is_deleted_def STATUS_DELETED_FLAG_def sample_scanner_def disj_commute)
  then obtain d' where d': "send_heartbeats sample_env sample_scanner [?a] sample_late ?d = Inr d'"
    by (simp add: send_heartbeats_def sample_cutoffs Let_def add_account_update_signal_def storeR_def)
  have "db_wf ?d" by (simp add: db_wf_def empty_db_def tbl_wf_def int_bounds)
  from heartbeats_once_per_interval [OF d' this] d' due show ?thesis
    by (auto simp: same_account_def list_all2_Cons1 carries_state_def) (simp_all add: sample_account_def empty_db_def
        sample_late_def microseconds_per_day_def)
qed

definition pts_pk :: "prepared_transfer_signal \<Rightarrow> int \<times> int \<times> int" where
  "pts_pk s = (pts_debtor_id s, pts_sender_creditor_id s, pts_transfer_id s)"

lemma reminder_mapping:
  assumes "(k, x) \<in> set (reminder_mappings cutoff ts rows)"
  shows "\<exists>row \<in> set rows. needs_reminder cutoff row \<and> prepared_transfer_pk row = k \<and> x = reminder_signal_of ts row"
    "pts_pk x = k"
proof -
  have "map_of (reminder_mappings cutoff ts rows) k = Some x"
    using assms reminder_mappings_spec(3) by (simp add: map_of_is_SomeI)
  from reminder_mappings_spec(1) [OF this] show row: "\<exists>row \<in> set rows. needs_reminder cutoff row
      \<and> prepared_transfer_pk row = k \<and> x = reminder_signal_of ts row" .
  then show "pts_pk x = k" by (auto simp: pts_pk_def reminder_signal_of_def prepared_transfer_pk_def)
qed

text \<open>
  The reminders that one call sends are for different prepared transfers, each for a row that was prepared
  before the reminder interval and has not been reminded of since; every prepared transfer of the block that is due
  is reminded of, and is then not due before another interval has passed.
\<close>

theorem reminders_once_per_interval:
  assumes "PreparedTransferScanner_process_rows E iv rows ts d = Inr d'" and "0 \<le> iv"
  shows "\<exists>new. db_prepared_transfer_signals d' = db_prepared_transfer_signals d @ new \<and> distinct (map pts_pk new)
    \<and> (\<forall>s \<in> set new. \<exists>row \<in> set rows. needs_reminder (ts - iv) row \<and> pts_stored (reminder_signal_of ts row) s)
    \<and> (\<forall>row \<in> set rows. needs_reminder (ts - iv) row \<longrightarrow> prepared_transfer_pk row \<in> pts_pk ` set new)
    \<and> (\<forall>pt \<in> set (db_prepared_transfers d'). prepared_transfer_pk pt \<in> pts_pk ` set new
         \<longrightarrow> (\<forall>later. later \<le> ts + iv \<longrightarrow> \<not> needs_reminder (later - iv) pt))
    \<and> map prepared_transfer_pk (db_prepared_transfers d') = map prepared_transfer_pk (db_prepared_transfers d)"
proof -
  let ?M = "reminder_mappings (ts - iv) ts rows"
  obtain ys where d': "d' = d\<lparr>db_prepared_transfers := map (mark_reminded (ts - iv) ts rows) (db_prepared_transfers d),
        db_prepared_transfer_signals := db_prepared_transfer_signals d @ ys\<rparr>"
    and ys: "list_all2 pts_stored (map snd ?M) ys" using PreparedTransferScanner_InrD [OF assms(1)] by blast
  have "map pts_pk ys = map pts_pk (map snd ?M)"
    using ys by (induction rule: list_all2_induct) (auto simp: pts_stored_def pts_pk_def)
  also have "\<dots> = map fst ?M" using reminder_mapping(2) by auto
  finally have keys: "map pts_pk ys = map fst ?M" .
  have "\<exists>x \<in> set (map snd ?M). pts_stored x s" if "s \<in> set ys" for s
    using ys that by (auto simp: list_all2_conv_all_nth in_set_conv_nth) (metis nth_mem)
  then have rows: "\<exists>row \<in> set rows. needs_reminder (ts - iv) row \<and> pts_stored (reminder_signal_of ts row) s"
    if "s \<in> set ys" for s using that reminder_mapping(1) by fastforce
  have due: "pts_pk ` set ys = prepared_transfer_pk ` set (filter (needs_reminder (ts - iv)) rows)"
    using arg_cong [OF keys, of set] reminder_mappings_spec(2) [of "ts - iv" ts rows] by simp
  have quiet: "\<not> needs_reminder (later - iv) pt"
    if "pt \<in> set (db_prepared_transfers d')" "prepared_transfer_pk pt \<in> pts_pk ` set ys" "later \<le> ts + iv" for pt later
    using that unfolding due by (auto simp: d' mark_reminded_def needs_reminder_def prepared_transfer_pk_def)
  have "distinct (map pts_pk ys)" unfolding keys by (rule reminder_mappings_spec(3))
  moreover have "db_prepared_transfer_signals d' = db_prepared_transfer_signals d @ ys"
    "map prepared_transfer_pk (db_prepared_transfers d') = map prepared_transfer_pk (db_prepared_transfers d)" by (simp_all add: d')
  ultimately show ?thesis using rows due quiet by (intro exI [of _ ys]) auto
qed

theorem reminders_once_per_interval_witness:
  "\<exists>d'. PreparedTransferScanner_process_rows sample_env (7 * microseconds_per_day) [sample_stale] sample_late
      (empty_db\<lparr>db_prepared_transfers := [sample_stale]\<rparr>) = Inr d'
    \<and> map pts_pk (db_prepared_transfer_signals d') = [(1, 2, 5)]"
proof -
  let ?d = "empty_db\<lparr>db_prepared_transfers := [sample_stale]\<rparr>"
  have due: "needs_reminder (sample_late - 7 * microseconds_per_day) sample_stale"
    by (simp add: needs_reminder_def sample_stale_def sample_scan_defs)
  have "datetime_sub sample_late (7 * microseconds_per_day) = Inr (sample_late - 7 * microseconds_per_day)"
    by (simp add: sample_scan_defs)
  then obtain d' where d': "PreparedTransferScanner_process_rows sample_env (7 * microseconds_per_day) [sample_stale]
      sample_late ?d = Inr d'"
    using due by (simp add: PreparedTransferScanner_process_rows_def reminder_mappings_def Let_def
        add_prepared_transfer_signal_def storeR_def)
  have "(0::int) \<le> 7 * microseconds_per_day" by (simp add: microseconds_per_day_def)
  from reminders_once_per_interval [OF d' this] obtain new where
    "db_prepared_transfer_signals d' = new" "distinct (map pts_pk new)" "pts_pk ` set new \<subseteq> {(1, 2, 5)}" "(1, 2, 5) \<in> pts_pk ` set new"
    using due by (fastforce simp: empty_db_def pts_stored_def pts_pk_def reminder_signal_of_def sample_stale_def
        prepared_transfer_pk_def)
  then have "set (map pts_pk new) = {(1, 2, 5)}" "distinct (map pts_pk new)" by auto
  then have "map pts_pk new = [(1, 2, 5)]" by (cases new; cases "tl new") (auto simp: image_iff)
  then show ?thesis using d' \<open>db_prepared_transfer_signals d' = new\<close> by auto
qed

text \<open>
  C30. The scanner of registered balance changes keeps every change applied exactly once.  When its rows are an
  earlier state of the table, it never fails; it drops only registrations of applied changes; and when the message
  of a dropped change is delivered again, however late, it is ignored, because the actor that
  receives it uses the same retention time.
\<close>

theorem dropped_changes_stay_applied_once:
  assumes "db_wf d" and "changes_agree d"
    and rows: "\<And>row r. row \<in> set rows \<Longrightarrow> r \<in> set (db_registered_balance_changes d) \<Longrightarrow>
      registered_balance_change_pk r = registered_balance_change_pk row \<Longrightarrow>
      rbc_committed_at r = rbc_committed_at row \<and> (rbc_is_applied row \<longrightarrow> rbc_is_applied r)"
  shows "\<exists>d'. RegisteredBalanceChangeScanner_process_rows (RegisteredBalanceChangeScanner_init c) rows d = Inr d'
    \<and> db_wf d' \<and> changes_agree d' \<and> db_pending_balance_changes d' = db_pending_balance_changes d
    \<and> (\<forall>r \<in> set (db_registered_balance_changes d). r \<in> set (db_registered_balance_changes d')
        \<or> rbc_is_applied r \<and> (\<forall>e creditor_id ct fmt note delta.
            is_int64 (rbc_debtor_id r) \<and> is_int64 (rbc_other_creditor_id r) \<and> is_int64 (rbc_change_id r) \<longrightarrow>
            insert_pending_balance_change (rbc_debtor_id r) (rbc_other_creditor_id r) (rbc_change_id r) creditor_id ct fmt note
              (rbc_committed_at r) delta (APP_REGISTERED_BALANCE_CHANGES_RETENTION_DATETIME c) e = Inr e))"
proof -
  let ?cutoff = "RegisteredBalanceChangeScanner_init c"
  have old: "rbc_committed_at r < ?cutoff \<and> rbc_is_applied r"
    if "r \<in> set (db_registered_balance_changes d)" "dropped ?cutoff rows (registered_balance_change_pk r)" for r
    using that rows by (fastforce simp: dropped_def)
  have "\<not> dropped ?cutoff rows (pending_balance_change_pk p)" if p: "p \<in> set (db_pending_balance_changes d)" for p
  proof
    assume drop: "dropped ?cutoff rows (pending_balance_change_pk p)"
    obtain r where r: "r \<in> set (db_registered_balance_changes d)" "registered_balance_change_pk r = pending_balance_change_pk p"
      using assms(1) p by (auto simp: db_wf_def)
    then have "rbc_is_applied r" using old drop by metis
    then show False using assms(2) r p by (auto simp: changes_agree_def)
  qed
  then obtain d' where d': "RegisteredBalanceChangeScanner_process_rows ?cutoff rows d = Inr d'"
    using RegisteredBalanceChangeScanner_total by blast
  note eff = RegisteredBalanceChangeScanner_InrD [OF d', THEN conjunct1]
  note inv = drop_registrations_invariants(1,2) [OF d' assms(1)]
  have "r \<in> set (db_registered_balance_changes d') \<or> rbc_is_applied r \<and> rbc_committed_at r < ?cutoff"
    if "r \<in> set (db_registered_balance_changes d)" for r using old that by (auto simp: eff)
  then show ?thesis using d' inv assms(2)
    by (intro exI [of _ d']) (auto simp: eff insert_pending_balance_change_def RegisteredBalanceChangeScanner_init_def
        is_int64_def)
qed

theorem dropped_changes_stay_applied_once_witness:
  "\<exists>d'. RegisteredBalanceChangeScanner_process_rows
        (RegisteredBalanceChangeScanner_init (Configuration\<lparr>APP_REGISTERED_BALANCE_CHANGES_RETENTION_DATETIME := 200\<rparr>))
        [sample_registration] (empty_db\<lparr>db_registered_balance_changes := [sample_registration]\<rparr>) = Inr d'
     \<and> changes_agree d'"
proof -
  let ?d = "empty_db\<lparr>db_registered_balance_changes := [sample_registration]\<rparr>"
  have "db_wf ?d" "changes_agree ?d"
    by (simp_all add: db_wf_def changes_agree_def empty_db_def tbl_wf_def registered_balance_change_ok_def sample_registration_def)
  then show ?thesis
    using dropped_changes_stay_applied_once [of ?d "[sample_registration]"
        "Configuration\<lparr>APP_REGISTERED_BALANCE_CHANGES_RETENTION_DATETIME := 200\<rparr>"] by auto
qed

end
