(* ===== verification/ChoresProps.thy ===== *)
theory ChoresProps
  imports ScannersProps
begin

text \<open>
  The scanner and the chores it sends, together: every chore passes the checks of its actor and arrives as the
  procedure call that was meant; a chore for a new interest rate makes the account follow the debtor.
\<close>

section \<open>What the cache hands out is valid\<close>

definition configs_ok :: "config_cache \<Rightarrow> bool" where
  "configs_ok c \<longleftrightarrow> (\<forall>i x ts. map_of c i = Some (Some x, ts) \<longrightarrow> root_config_data_ok x)"

lemma fetched_config_ok:
  assumes "loads_validates loads" and "configs_ok c"
    and "fst (get_root_config_data_dict m loads http ids cache_seconds now completed c) i = Some (Some x)"
  shows "root_config_data_ok x"
proof -
  have request: "root_config_data_ok y" if "make_root_config_data_request loads r = Inr (Some y)" for r y
    using that parse_root_config_data_ok [OF assms(1)]
    by (auto simp: make_root_config_data_request_def bindR_eq_Inr split: if_splits)
  have "fetch_result loads http (fsub now cache_seconds) c i = Inr (Some x)"
    using assms(3) by (auto simp: get_root_config_data_dict_eq split: if_splits sum.splits)
  then show ?thesis using request assms(2)
    by (fastforce simp: fetch_result_def lookup_root_config_data_def configs_ok_def split: sum.splits option.splits if_splits)
qed

section \<open>Sent chores\<close>

lemma send_for_mem:
  assumes "x \<in> set (fst (send_for f rows))"
  shows "\<exists>row \<in> set rows. \<exists>xs. f row = Inr xs \<and> x \<in> set xs"
  using assms by (induction rows) (auto split: sum.splits prod.splits)

lemma settings_chore_cases:
  assumes "x \<in> set (fst (change_debtor_settings self g rows ts))"
  shows "\<exists>row \<in> set rows. \<exists>c. acc_creditor_id row \<noteq> ROOT_CREDITOR_ID
    \<and> g (remdups (map acc_debtor_id rows)) (acc_debtor_id row) = Some (Some c)
    \<and> (should_change_interest_rate (ts - interest_rate_change_min_interval self) row (rc_interest_rate_target c)
         \<and> x = change_interest_rate_chore (acc_debtor_id row) (acc_creditor_id row) (rc_interest_rate_target c) (isoformat ts)
       \<or> should_update_debtor_info row c
         \<and> x = update_debtor_info_chore (acc_debtor_id row) (acc_creditor_id row) (rc_info_iri c) (rc_info_content_type c)
                 (map_option b16encode (rc_info_sha256 c)) (isoformat ts))"
proof (cases "datetime_sub ts (interest_rate_change_min_interval self)")
  case (Inr cutoff)
  let ?g = "g (remdups (map acc_debtor_id rows))"
  have cutoff: "cutoff = ts - interest_rate_change_min_interval self" using Inr datetime_sub_eq_Inr by blast
  have "x \<in> set (fst (send_for (\<lambda>row. Inr (debtor_settings_chores cutoff ts ?g row)) rows))"
    using assms Inr by (simp add: change_debtor_settings_def Let_def)
  from send_for_mem [OF this] obtain row where row: "row \<in> set rows" "x \<in> set (debtor_settings_chores cutoff ts ?g row)" by auto
  then have "acc_creditor_id row \<noteq> ROOT_CREDITOR_ID" by (auto simp: debtor_settings_chores_def split: if_splits)
  moreover have "\<exists>c. ?g (acc_debtor_id row) = Some (Some c)"
  proof (rule ccontr)
    assume "\<not> ?thesis"
    then have "debtor_settings_chores cutoff ts ?g row = []" by (auto simp: debtor_settings_chores_def split: option.splits)
    then show False using row(2) by simp
  qed
  ultimately obtain c where c: "acc_creditor_id row \<noteq> ROOT_CREDITOR_ID" "?g (acc_debtor_id row) = Some (Some c)" by blast
  then have "should_change_interest_rate cutoff row (rc_interest_rate_target c)
         \<and> x = change_interest_rate_chore (acc_debtor_id row) (acc_creditor_id row) (rc_interest_rate_target c) (isoformat ts)
       \<or> should_update_debtor_info row c
         \<and> x = update_debtor_info_chore (acc_debtor_id row) (acc_creditor_id row) (rc_info_iri c) (rc_info_content_type c)
                 (map_option b16encode (rc_info_sha256 c)) (isoformat ts)"
    using row(2) by (auto simp: debtor_settings_chores_def split: if_splits)
  then show ?thesis using row(1) c unfolding cutoff by blast
qed (use assms in \<open>simp add: change_debtor_settings_def\<close>)

lemma rate_ok: "fle INTEREST_RATE_FLOOR r \<Longrightarrow> fle r INTEREST_RATE_CEIL \<Longrightarrow> r \<noteq> NaN \<and> clamp_interest_rate r = r"
  by (cases r) (auto simp: INTEREST_RATE_FLOOR_def INTEREST_RATE_CEIL_def clamp_interest_rate_def)

lemma b16encode_Nil [simp]: "b16encode bs = [] \<longleftrightarrow> bs = []"
  by (cases bs) auto

section \<open>A sample scan that sends a chore\<close>

definition sample_settings :: root_config_data where
  "sample_settings = \<lparr>rc_interest_rate_target = Fin 5, rc_info_iri = None, rc_info_sha256 = None, rc_info_content_type = None\<rparr>"

definition sample_cache :: config_cache where
  "sample_cache = [(1, Some sample_settings, Fin 0)]"

lemma sample_settings_chore:
  "change_interest_rate_chore 1 2 (Fin 5) (isoformat sample_late) \<in> set (fst (change_debtor_settings sample_scanner
      (\<lambda>ids. fst (get_root_config_data_dict 10 (\<lambda>_. None) (\<lambda>_. Inl RuntimeError) ids (Fin 0) (Fin 0) [] sample_cache))
      [sample_account 2 1000] sample_late))"
proof -
  have "acc_last_interest_rate_change_ts (sample_account 2 1000) = T0" by (simp add: sample_account_def)
  then have "should_change_interest_rate (sample_late - 8 * microseconds_per_day) (sample_account 2 1000) (Fin 5)"
    by (simp add: should_change_interest_rate_def T0_def sample_late_def sample_ts_def microseconds_per_day_def)
  then show ?thesis
    by (simp add: change_debtor_settings_def sample_cutoffs debtor_settings_chores_def get_root_config_data_dict_eq
        fetch_result_def lookup_root_config_data_def sample_cache_def sample_settings_def ROOT_CREDITOR_ID_def Let_def fsub_def)
qed

text \<open>And one that sends the information about the debtor.\<close>

definition sample_info :: root_config_data where
  "sample_info = \<lparr>rc_interest_rate_target = Fin 0, rc_info_iri = Some (lit ''iri''), rc_info_sha256 = Some (replicate 32 171),
     rc_info_content_type = Some (lit ''text'')\<rparr>"

definition sample_info_cache :: config_cache where
  "sample_info_cache = [(1, Some sample_info, Fin 0)]"

lemma sample_info_chore:
  "update_debtor_info_chore 1 2 (Some (lit ''iri'')) (Some (lit ''text'')) (Some (b16encode (replicate 32 171)))
      (isoformat sample_late) \<in> set (fst (change_debtor_settings sample_scanner
      (\<lambda>ids. fst (get_root_config_data_dict 10 (\<lambda>_. None) (\<lambda>_. Inl RuntimeError) ids (Fin 0) (Fin 0) [] sample_info_cache))
      [sample_account 2 1000] sample_late))"
proof -
  have "acc_debtor_info_iri (sample_account 2 1000) = None" by (simp add: sample_account_def)
  then have "should_update_debtor_info (sample_account 2 1000) sample_info"
    by (simp add: should_update_debtor_info_def sample_info_def)
  then show ?thesis
    by (simp add: change_debtor_settings_def sample_cutoffs debtor_settings_chores_def get_root_config_data_dict_eq
        fetch_result_def lookup_root_config_data_def sample_info_cache_def ROOT_CREDITOR_ID_def Let_def fsub_def)
      (simp add: sample_info_def)
qed

section \<open>Properties\<close>

text \<open>
  C31. Every chore that the scanner sends to change the settings of an account is sent because the settings that
  the account's debtor has published, as just fetched (or cached), differ from those in the row; it passes all checks
  of the actor that receives it, and is then exactly the call of the procedure with these fetched settings and the
  time of the scan: encoding and decoding the hash and the time stamp lose nothing.
\<close>

theorem settings_chores_accepted:
  assumes "x \<in> set (fst (change_debtor_settings self
        (\<lambda>ids. fst (get_root_config_data_dict m loads http ids cache_seconds clock completed c)) rows ts))"
    and "loads_validates loads" and "configs_ok c" and "\<forall>row \<in> set rows. account_fits row"
    and "DATETIME_MIN \<le> ts" and "ts \<le> DATETIME_MAX"
  shows "\<exists>row \<in> set rows. \<exists>s. acc_creditor_id row \<noteq> ROOT_CREDITOR_ID \<and> root_config_data_ok s
    \<and> fst (get_root_config_data_dict m loads http (remdups (map acc_debtor_id rows)) cache_seconds clock completed c)
        (acc_debtor_id row) = Some (Some s)
    \<and> (\<not> feq (acc_interest_rate row) (rc_interest_rate_target s)
         \<and> acc_last_interest_rate_change_ts row \<le> ts - interest_rate_change_min_interval self
         \<and> perform_chore E cfg now x d = change_interest_rate E now (acc_debtor_id row) (acc_creditor_id row)
             (rc_interest_rate_target s) (Some ts) (signalbus_max_delay_seconds cfg) d
       \<or> (acc_debtor_info_iri row, acc_debtor_info_content_type row, acc_debtor_info_sha256 row)
           \<noteq> (rc_info_iri s, rc_info_content_type s, rc_info_sha256 s)
         \<and> perform_chore E cfg now x d = update_debtor_info E now (acc_debtor_id row) (acc_creditor_id row)
             (rc_info_iri s) (rc_info_sha256 s) (rc_info_content_type s) (Some ts) d)"
proof -
  let ?g = "\<lambda>ids. fst (get_root_config_data_dict m loads http ids cache_seconds clock completed c)"
  obtain row s where row: "row \<in> set rows" "acc_creditor_id row \<noteq> ROOT_CREDITOR_ID"
    and s: "?g (remdups (map acc_debtor_id rows)) (acc_debtor_id row) = Some (Some s)"
    and x: "should_change_interest_rate (ts - interest_rate_change_min_interval self) row (rc_interest_rate_target s)
         \<and> x = change_interest_rate_chore (acc_debtor_id row) (acc_creditor_id row) (rc_interest_rate_target s) (isoformat ts)
       \<or> should_update_debtor_info row s
         \<and> x = update_debtor_info_chore (acc_debtor_id row) (acc_creditor_id row) (rc_info_iri s) (rc_info_content_type s)
                 (map_option b16encode (rc_info_sha256 s)) (isoformat ts)"
    using settings_chore_cases [OF assms(1)] by blast
  have ok: "root_config_data_ok s" using fetched_config_ok [OF assms(2,3) s] .
  have ids: "is_int64 (acc_debtor_id row)" "is_int64 (acc_creditor_id row)"
    using assms(4) row(1) by (simp_all add: account_fits_def)
  note iso = isoformat_roundtrip [OF assms(5,6)]
  have rate: "perform_chore E cfg now (change_interest_rate_chore (acc_debtor_id row) (acc_creditor_id row)
        (rc_interest_rate_target s) (isoformat ts)) d = change_interest_rate E now (acc_debtor_id row) (acc_creditor_id row)
        (rc_interest_rate_target s) (Some ts) (signalbus_max_delay_seconds cfg) d"
  proof -
    have "rc_interest_rate_target s \<noteq> NaN" using ok rate_ok by (simp add: root_config_data_ok_def)
    then show ?thesis using ids by (simp add: change_interest_rate_actor_def iso with_aware_def)
  qed
  have "(case map_option b16encode (rc_info_sha256 s) of None \<Rightarrow> Inr None
          | Some h \<Rightarrow> if h = [] then Inr (Some []) else bindR (b16decode h) (\<lambda>b. Inr (Some b))) = Inr (rc_info_sha256 s)"
    using ok b16_roundtrip by (auto simp: root_config_data_ok_def split: option.splits)
  then have info: "perform_chore E cfg now (update_debtor_info_chore (acc_debtor_id row) (acc_creditor_id row)
        (rc_info_iri s) (rc_info_content_type s) (map_option b16encode (rc_info_sha256 s)) (isoformat ts)) d
      = update_debtor_info E now (acc_debtor_id row) (acc_creditor_id row)
        (rc_info_iri s) (rc_info_sha256 s) (rc_info_content_type s) (Some ts) d"
    using ids ok by (simp add: update_debtor_info_actor_def iso with_aware_def root_config_data_ok_def
        assertR_def split: option.splits)
  show ?thesis using row s ok x rate info
    unfolding should_change_interest_rate_def should_update_debtor_info_def by blast
qed

theorem settings_chores_accepted_witness:
  "perform_chore sample_env Configuration sample_late (update_debtor_info_chore 1 2 (Some (lit ''iri'')) (Some (lit ''text''))
        (Some (b16encode (replicate 32 171))) (isoformat sample_late)) sample_db
   = update_debtor_info sample_env sample_late 1 2 (Some (lit ''iri'')) (Some (replicate 32 171)) (Some (lit ''text''))
        (Some sample_late) sample_db"
proof -
  have v1: "loads_validates (\<lambda>_. None)" by (simp add: loads_validates_def)
  have v2: "configs_ok sample_info_cache"
    by (simp add: configs_ok_def sample_info_cache_def sample_info_def root_config_data_ok_def INTEREST_RATE_FLOOR_def
        INTEREST_RATE_CEIL_def isascii_def)
  have v3: "\<forall>row \<in> set [sample_account 2 1000]. account_fits row" by (simp add: is_int64_def int_bounds)
  have v4: "DATETIME_MIN \<le> sample_late" "sample_late \<le> DATETIME_MAX" by (simp_all add: sample_scan_defs)
  have fetched: "fst (get_root_config_data_dict 10 (\<lambda>_. None) (\<lambda>_. Inl RuntimeError)
      (remdups (map acc_debtor_id [sample_account 2 1000])) (Fin 0) (Fin 0) [] sample_info_cache) 1 = Some (Some sample_info)"
    by (simp add: get_root_config_data_dict_eq fetch_result_def lookup_root_config_data_def sample_info_cache_def fsub_def)
  from settings_chores_accepted [OF sample_info_chore v1 v2 v3 v4, where E = sample_env and cfg = Configuration
        and now = sample_late and d = sample_db] show ?thesis
    using fetched by (auto simp: sample_info_def)
qed

text \<open>
  The scanner and the procedure wait equally long between two changes of a rate: the longest delay on the signal bus and a day.
\<close>

lemma rate_change_intervals:
  assumes "AccountScanner_init cfg = Inr self" and n: "APP_SIGNALBUS_MAX_DELAY_DAYS cfg = Fin (of_int n)" "0 \<le> n" "n < 10 ^ 6"
  shows "interest_rate_change_min_interval self = (n + 1) * microseconds_per_day"
    "fadd (signalbus_max_delay_seconds cfg) (float_of_int SECONDS_IN_DAY) = Fin (of_int ((n + 1) * 86400))"
proof -
  have "timedelta_days (Fin (of_int n)) = Inr (n * microseconds_per_day)" using n by (intro timedelta_days_whole) simp
  then show "interest_rate_change_min_interval self = (n + 1) * microseconds_per_day"
    using assms(1) n(1) by (auto simp: AccountScanner_init_def monad_simps mk_timedelta_def algebra_simps simp del: timedelta_days.simps
        split: if_splits)
  have f: "float_of_int SECONDS_IN_DAY = Fin (of_int 86400)"
    using rnd64_of_int [of 86400] by (simp add: float_of_int_def SECONDS_IN_DAY_def)
  have "rnd64 (of_int (n * 86400)) = Fin (of_int (n * 86400))" using n by (intro rnd64_of_int) simp
  moreover have "rnd64 (of_int ((n + 1) * 86400)) = Fin (of_int ((n + 1) * 86400))" using n by (intro rnd64_of_int) simp
  ultimately show "fadd (signalbus_max_delay_seconds cfg) (float_of_int SECONDS_IN_DAY) = Fin (of_int ((n + 1) * 86400))"
    using f n(1) by (simp add: signalbus_max_delay_seconds_def algebra_simps)
qed

lemma scanned_rate_is_due:
  assumes init: "AccountScanner_init cfg = Inr self" and n: "APP_SIGNALBUS_MAX_DELAY_DAYS cfg = Fin (of_int n)" "0 \<le> n" "n < 10 ^ 6"
    and "should_change_interest_rate (ts - interest_rate_change_min_interval self) a r" and "ts \<le> now"
  shows "fle (fadd (signalbus_max_delay_seconds cfg) (float_of_int SECONDS_IN_DAY))
      (total_seconds (now - acc_last_interest_rate_change_ts a))"
proof -
  have "(n + 1) * 86400 * 10 ^ 6 \<le> now - acc_last_interest_rate_change_ts a"
    using assms(5,6) by (simp add: should_change_interest_rate_def rate_change_intervals(1) [OF init n] microseconds_per_day_def)
  from total_seconds_mono [OF this] show ?thesis
    unfolding rate_change_intervals(2) [OF init n] using n by (subst (asm) total_seconds_whole) auto
qed

lemma recent_request:
  assumes "now \<le> ts + microseconds_per_day"
  shows "\<not> is_old_request now (Some ts)"
proof -
  have "now - ts \<le> 86400 * 10 ^ 6" using assms by (simp add: microseconds_per_day_def)
  from total_seconds_mono [OF this] have "fle (total_seconds (now - ts)) (Fin 86400)"
    using total_seconds_whole [of 86400] by simp
  then show ?thesis by (cases "total_seconds (now - ts)") (auto simp: is_old_request_def flt_def SECONDS_IN_DAY_def)
qed

text \<open>A rate that is due and different is changed.\<close>

lemma due_rate_changed:
  assumes call: "change_interest_rate E now i j r t delay d = Inr d'" and wf: "db_wf d" and acc: "get_account i j d = Some a"
    and "j \<noteq> ROOT_CREDITOR_ID" and "\<not> is_old_request now t" and r: "r \<noteq> NaN" "clamp_interest_rate r = r"
    and differ: "\<not> feq (acc_interest_rate a) r"
    and "fle (fadd delay (float_of_int SECONDS_IN_DAY)) (total_seconds (now - acc_last_interest_rate_change_ts a))"
  shows "\<exists>row. get_account_row i j d' = Some row \<and> store_real E r = Some (acc_interest_rate row)
    \<and> acc_last_interest_rate_change_ts row = now \<and> \<not> is_deleted row"
proof -
  obtain b c d1 where "insert_account_update_signal E b now d = Inr (c, d1)" "save_account E c d1 = Inr d'"
    using assms by (auto simp: change_interest_rate_def Let_def bindR_eq_Inr)
  then have "db_account_update_signals d' \<noteq> db_account_update_signals d"
    using insert_account_update_signal_InrD save_account_InrD by fastforce
  then have "d' \<noteq> d" by auto
  with change_interest_rate_InrD [OF call wf] obtain row where row: "settings_effect i j d d' row"
    "acc_interest_rate a = r \<or> store_real E r = Some (acc_interest_rate row)"
    "acc_last_interest_rate_change_ts row = now" "\<not> is_deleted row" using acc unfolding r(2) by auto
  have "acc_interest_rate a \<noteq> r" using differ r(1) by (cases r) auto
  then show ?thesis using row settings_effect_invariant(5) [OF row(1) wf] by blast
qed

text \<open>
  C32. Accounts follow their debtor: when the scanner has sent a chore for a new interest rate because of the
  current row of an account, and the chore is performed within a day, the account gets the rate that the debtor
  wants (as a REAL column stores it).  The interval that the scanner waits between two changes is exactly the one
  that the procedure insists on.
\<close>

theorem interest_rate_follows_debtor:
  assumes init: "AccountScanner_init cfg = Inr self" and n: "APP_SIGNALBUS_MAX_DELAY_DAYS cfg = Fin (of_int n)" "0 \<le> n" "n < 10 ^ 6"
    and sent: "change_interest_rate_chore i j r (isoformat ts) \<in> set (fst (change_debtor_settings self g rows ts))"
    and rows: "\<And>row. row \<in> set rows \<Longrightarrow> get_account_row (acc_debtor_id row) (acc_creditor_id row) d = Some row"
    and r: "fle INTEREST_RATE_FLOOR r" "fle r INTEREST_RATE_CEIL"
    and ts: "DATETIME_MIN \<le> ts" "ts \<le> DATETIME_MAX" "ts \<le> now" "now \<le> ts + microseconds_per_day"
    and run: "perform_chore E cfg now (change_interest_rate_chore i j r (isoformat ts)) d = Inr d'" and wf: "db_wf d"
  shows "\<exists>row. get_account_row i j d' = Some row \<and> store_real E r = Some (acc_interest_rate row)
    \<and> acc_last_interest_rate_change_ts row = now \<and> \<not> is_deleted row"
proof -
  obtain a where a: "a \<in> set rows" "i = acc_debtor_id a" "j = acc_creditor_id a" "j \<noteq> ROOT_CREDITOR_ID"
    "should_change_interest_rate (ts - interest_rate_change_min_interval self) a r"
    using settings_chore_cases [OF sent] by auto
  have acc: "get_account i j d = Some a"
    using rows [OF a(1)] a(2,3,5) by (simp add: get_account_def get_account_instance_def should_change_interest_rate_def)
  have "change_interest_rate E now i j r (Some ts) (signalbus_max_delay_seconds cfg) d = Inr d'"
    using run isoformat_roundtrip [OF ts(1,2)]
    by (auto simp: change_interest_rate_actor_def bindR_eq_Inr assertR_eq_Inr with_aware_def)
  from due_rate_changed [OF this wf acc a(4) recent_request [OF ts(4)]] scanned_rate_is_due [OF init n a(5) ts(3)] rate_ok [OF r] a(5)
  show ?thesis by (auto simp: should_change_interest_rate_def)
qed

theorem interest_rate_follows_debtor_witness:
  "\<exists>d' row. perform_chore sample_env Configuration sample_late (change_interest_rate_chore 1 2 (Fin 5) (isoformat sample_late))
      sample_db = Inr d' \<and> get_account_row 1 2 d' = Some row \<and> acc_interest_rate row = Fin 5"
proof -
  let ?delay = "signalbus_max_delay_seconds Configuration"
  have f: "float_of_int SECONDS_IN_DAY = Fin 86400" using rnd64_of_int [of 86400] by (simp add: float_of_int_def SECONDS_IN_DAY_def)
  then have delay: "?delay = Fin 604800"
    using rnd64_of_int [of 604800] by (simp add: signalbus_max_delay_seconds_def Configuration_def)
  have "\<exists>d'. change_interest_rate sample_env sample_late 1 2 (Fin 5) (Some sample_late) ?delay sample_db = Inr d' \<and> d' \<noteq> sample_db"
  proof (rule sample_rate_run_at [where x = 5])
    have "total_seconds (sample_late - T0) = Fin 1608640000"
      using total_seconds_whole [of 1608640000] by (simp add: sample_late_def sample_ts_def microseconds_per_day_def T0_def)
    then show "fle (fadd ?delay (float_of_int SECONDS_IN_DAY)) (total_seconds (sample_late - T0))"
      unfolding delay f using rnd64_of_int [of 691200] by simp
  qed (simp_all add: clamp_interest_rate_def INTEREST_RATE_CEIL_def INTEREST_RATE_FLOOR_def is_old_request_def
      SECONDS_IN_DAY_def sample_late_def microseconds_per_day_def)
  then obtain d' where d': "change_interest_rate sample_env sample_late 1 2 (Fin 5) (Some sample_late) ?delay sample_db = Inr d'"
    by blast
  have ts: "DATETIME_MIN \<le> sample_late" "sample_late \<le> DATETIME_MAX" "sample_late \<le> sample_late"
    "sample_late \<le> sample_late + microseconds_per_day" by (simp_all add: sample_scan_defs)
  have run: "perform_chore sample_env Configuration sample_late (change_interest_rate_chore 1 2 (Fin 5) (isoformat sample_late))
      sample_db = Inr d'"
    using d' by (simp add: change_interest_rate_actor_def isoformat_roundtrip [OF ts(1,2)] with_aware_def is_int64_def int_bounds)
  have cfg: "APP_SIGNALBUS_MAX_DELAY_DAYS Configuration = Fin (of_int 7)" by (simp add: Configuration_def)
  have rows: "get_account_row (acc_debtor_id row) (acc_creditor_id row) sample_db = Some row"
    if "row \<in> set [sample_account 2 1000]" for row using that sample_row_2(1) by simp
  have r: "fle INTEREST_RATE_FLOOR (Fin 5)" "fle (Fin 5) INTEREST_RATE_CEIL"
    by (simp_all add: INTEREST_RATE_FLOOR_def INTEREST_RATE_CEIL_def)
  from interest_rate_follows_debtor [OF default_scanner cfg _ _ sample_settings_chore rows r ts run sample_db_invariant(1)]
  show ?thesis using run by auto
qed

end
