(* ===== verification/Ledger.thy ===== *)
theory Ledger
  imports Prelude "HOL-Library.Multiset"
begin

text \<open>
  The abstract specification of the system as a whole: a ledger of balances and of money in transit.  Money
  leaves an account by going into transit, addressed to other accounts of the same debtor, and arrives by
  being taken out of transit; nothing else happens to it.  The total of a debtor's money never changes.

  The locale \<open>simulation\<close> is the interface between such a specification and a system that keeps an invariant.
\<close>

section \<open>Simulations\<close>

locale simulation =
  fixes step :: "'s \<Rightarrow> 's \<Rightarrow> bool" and inv :: "'s \<Rightarrow> bool" and abst :: "'s \<Rightarrow> 'a" and astep :: "'a \<Rightarrow> 'a \<Rightarrow> bool"
  assumes preserves: "step s t \<Longrightarrow> inv s \<Longrightarrow> inv t"
    and simulates: "step s t \<Longrightarrow> inv s \<Longrightarrow> astep (abst s) (abst t)"
begin

lemma run_preserves: "step\<^sup>*\<^sup>* s t \<Longrightarrow> inv s \<Longrightarrow> inv t"
  by (induction rule: rtranclp_induct) (auto intro: preserves)

lemma run_simulates:
  assumes "step\<^sup>*\<^sup>* s t" and "inv s"
  shows "astep\<^sup>*\<^sup>* (abst s) (abst t)"
  using assms(1)
proof (induction rule: rtranclp_induct)
  case (step t u)
  have "inv t" by (rule run_preserves [OF step.hyps(1) assms(2)])
  then show ?case using simulates [OF step.hyps(2)] step.IH by (meson rtranclp.rtrancl_into_rtrancl)
qed simp

lemma run_keeps:
  assumes "step\<^sup>*\<^sup>* s t" and "inv s" and "\<And>a b. astep a b \<Longrightarrow> P a \<Longrightarrow> P b" and "P (abst s)"
  shows "P (abst t)"
  using run_simulates [OF assms(1,2)] assms(4) by (induction rule: rtranclp_induct) (auto intro: assms(3))

end

section \<open>The ledger\<close>

text \<open>A transfer on its way: the debtor, the creditor that will get it, and the amount (which may be negative).\<close>

type_synonym transfer = "int \<times> int \<times> int"

record ledger =
  bal :: "int \<times> int \<Rightarrow> int"
  transit :: "transfer multiset"

abbreviation amount :: "transfer \<Rightarrow> int" where
  "amount m \<equiv> snd (snd m)"

inductive ledger_step :: "ledger \<Rightarrow> ledger \<Rightarrow> bool" where
  send: "\<forall>m \<in># M. fst m = fst k \<Longrightarrow>
     ledger_step L \<lparr>bal = (bal L)(k := bal L k - (\<Sum>m \<in># M. amount m)), transit = transit L + M\<rparr>"
| credit: "M \<subseteq># transit L \<Longrightarrow> \<forall>m \<in># M. (fst m, fst (snd m)) = k \<Longrightarrow>
     ledger_step L \<lparr>bal = (bal L)(k := bal L k + (\<Sum>m \<in># M. amount m)), transit = transit L - M\<rparr>"

text \<open>The money of a debtor: the balances of its accounts and what is in transit between them.\<close>

definition money :: "int \<Rightarrow> ledger \<Rightarrow> int" where
  "money i L = (\<Sum>k \<in> {k. fst k = i \<and> bal L k \<noteq> 0}. bal L k) + (\<Sum>m \<in># filter_mset (\<lambda>m. fst m = i) (transit L). amount m)"

definition finite_ledger :: "ledger \<Rightarrow> bool" where
  "finite_ledger L \<longleftrightarrow> finite {k. bal L k \<noteq> 0}"

text \<open>The same sum over any finite set of keys that includes the nonzero balances.\<close>

lemma balances_over:
  fixes f :: "int \<times> int \<Rightarrow> int"
  assumes "finite A" and "{k. f k \<noteq> 0} \<subseteq> A"
  shows "(\<Sum>k \<in> {k. fst k = i \<and> f k \<noteq> 0}. f k) = (\<Sum>k \<in> A. if fst k = i then f k else 0)"
proof -
  have "(\<Sum>k \<in> A. if fst k = i then f k else 0) = (\<Sum>k \<in> {k \<in> A. fst k = i}. f k)"
    using assms(1) by (simp add: sum.inter_filter)
  also have "\<dots> = (\<Sum>k \<in> {k. fst k = i \<and> f k \<noteq> 0}. f k)"
    using assms by (intro sum.mono_neutral_right) auto
  finally show ?thesis by simp
qed

lemma balances_upd:
  fixes f :: "int \<times> int \<Rightarrow> int"
  assumes "finite {k. f k \<noteq> 0}"
  shows "(\<Sum>l \<in> {l. fst l = i \<and> (f (k := v)) l \<noteq> 0}. (f (k := v)) l)
      = (\<Sum>l \<in> {l. fst l = i \<and> f l \<noteq> 0}. f l) + (if fst k = i then v - f k else 0)"
proof -
  let ?A = "insert k {l. f l \<noteq> 0}" and ?f = "f (k := v)"
  have fin: "finite ?A" using assms by simp
  have "{l. ?f l \<noteq> 0} \<subseteq> ?A" "{l. f l \<noteq> 0} \<subseteq> ?A" by auto
  note sums = balances_over [OF fin this(1), of i] balances_over [OF fin this(2), of i]
  have "(\<Sum>l \<in> ?A - {k}. if fst l = i then ?f l else 0) = (\<Sum>l \<in> ?A - {k}. if fst l = i then f l else 0)"
    by (rule sum.cong) simp_all
  moreover have "sum g ?A = sum g (?A - {k}) + g k" for g :: "int \<times> int \<Rightarrow> int"
    by (subst sum.remove [OF fin, of k]) simp_all
  ultimately show ?thesis unfolding sums by simp
qed

lemma transfers_of:
  fixes M :: "transfer multiset"
  assumes "\<forall>m \<in># M. fst m = d"
  shows "filter_mset (\<lambda>m. fst m = i) M = (if d = i then M else {#})"
  using assms by (auto simp: multiset_eq_iff not_in_iff [symmetric])

lemma ledger_step_money:
  assumes "ledger_step L L'" and fin: "finite_ledger L"
  shows "money i L' = money i L"
  using assms(1)
proof cases
  case (send M k)
  show ?thesis using balances_upd [OF fin [unfolded finite_ledger_def], where i = i and k = k] transfers_of [OF send(2), of i]
    by (simp add: send(1) money_def)
next
  case (credit M k)
  have "\<forall>m \<in># M. fst m = fst k" using credit(3) by auto
  note M = transfers_of [OF this, of i]
  have "filter_mset (\<lambda>m. fst m = i) M \<subseteq># filter_mset (\<lambda>m. fst m = i) (transit L)"
    by (rule multiset_filter_mono [OF credit(2)])
  then have "(\<Sum>m \<in># filter_mset (\<lambda>m. fst m = i) (transit L - M). amount m)
      = (\<Sum>m \<in># filter_mset (\<lambda>m. fst m = i) (transit L). amount m) - (\<Sum>m \<in># filter_mset (\<lambda>m. fst m = i) M. amount m)"
    by (simp add: image_mset_Diff sum_mset_diff image_mset_subseteq_mono)
  then show ?thesis using balances_upd [OF fin [unfolded finite_ledger_def], where i = i and k = k] M by (simp add: credit(1) money_def)
qed

lemma ledger_step_finite:
  assumes "ledger_step L L'" and "finite_ledger L"
  shows "finite_ledger L'"
proof -
  obtain k where "\<forall>l. l \<noteq> k \<longrightarrow> bal L' l = bal L l" using assms(1)
  proof cases
    case (send M k)
    then show ?thesis by (intro that [of k]) simp
  next
    case (credit M k)
    then show ?thesis by (intro that [of k]) simp
  qed
  then have "{l. bal L' l \<noteq> 0} \<subseteq> insert k {l. bal L l \<noteq> 0}" by auto
  then show ?thesis using assms(2) by (auto simp: finite_ledger_def intro: finite_subset)
qed

text \<open>Reading the two kinds of steps forwards: what a step needs and what it does.\<close>

lemma ledger_sendI:
  assumes "bal L' = (bal L)(k := bal L k - (\<Sum>m \<in># M. amount m))" "transit L' = transit L + M" "\<forall>m \<in># M. fst m = fst k"
  shows "ledger_step L L'"
  using send [OF assms(3), of L] assms(1,2) by (metis ledger.surjective old.unit.exhaust)

lemma ledger_creditI:
  assumes "bal L' = (bal L)(k := bal L k + (\<Sum>m \<in># M. amount m))" "transit L = transit L' + M"
    and "\<forall>m \<in># M. (fst m, fst (snd m)) = k"
  shows "ledger_step L L'"
proof -
  have "M \<subseteq># transit L" "transit L' = transit L - M" using assms(2) by simp_all
  then show ?thesis using credit [OF _ assms(3), of L] assms(1) by (metis ledger.surjective old.unit.exhaust)
qed

lemma ledger_idle: "ledger_step L L"
  by (rule ledger_sendI [where M = "{#}" and k = "(0, 0)"]) auto

end
