(* ===== verification/System.thy ===== *)
theory System
  imports MessagesProps ChoresProps Ledger
begin

text \<open>
  The system as a whole: every procedure that the actors, the chores, the command line and the scanners call, as one
  transaction on the database, and the delivery of the balance changes that the transactions leave in
  \<open>pending_balance_change_signal\<close>.  The rows of that table are kept as the log of everything that was sent; the signal
  bus may deliver them in any order, late, and more than once.

  A ledger abstracts the database: the principals are its balances, and what is sent but not delivered or delivered but
  not applied yet is in transit.
\<close>

section \<open>The ledger of a database\<close>

text \<open>A signal older than the retention time is taken to be delivered: its message would be ignored.\<close>

definition undelivered :: "datetime \<Rightarrow> db \<Rightarrow> pending_balance_change_signal list" where
  "undelivered cutoff d =
     filter (\<lambda>s. cutoff \<le> pbs_committed_at s \<and> \<not> is_registered (pbs_pk s) d) (db_pending_balance_change_signals d)"

definition signal_transfer :: "pending_balance_change_signal \<Rightarrow> transfer" where
  "signal_transfer s = (pbs_debtor_id s, pbs_creditor_id s, pbs_principal_delta s)"

definition change_transfer :: "pending_balance_change \<Rightarrow> transfer" where
  "change_transfer c = (pbc_debtor_id c, pbc_creditor_id c, pbc_principal_delta c)"

definition book :: "datetime \<Rightarrow> db \<Rightarrow> ledger" where
  "book cutoff d =
     \<lparr>bal = (\<lambda>k. stored_principal (fst k) (snd k) d),
      transit = image_mset signal_transfer (mset (undelivered cutoff d))
        + image_mset change_transfer (mset (db_pending_balance_changes d))\<rparr>"

text \<open>Change IDs are never used twice, and what is registered has been sent.\<close>

definition log_ok :: "db \<Rightarrow> bool" where
  "log_ok d \<longleftrightarrow>
     distinct (map pbs_change_id (db_pending_balance_change_signals d))
     \<and> (\<forall>s \<in> set (db_pending_balance_change_signals d). pbs_change_id s < db_next_change_id d)
     \<and> (\<forall>r \<in> set (db_registered_balance_changes d). \<exists>s \<in> set (db_pending_balance_change_signals d).
          pbs_pk s = registered_balance_change_pk r \<and> pbs_committed_at s = rbc_committed_at r)"

text \<open>Principals away from the limits, where they would have been cut off.\<close>

definition in_range :: "db \<Rightarrow> bool" where
  "in_range d \<longleftrightarrow> (\<forall>a \<in> set (db_accounts d). \<bar>acc_principal a\<bar> < MAX_INT64)"

lemma stored_in_range:
  assumes "in_range d" and "tbl_wf account_pk account_ok (db_accounts d)"
  shows "\<bar>stored_principal i j d\<bar> < MAX_INT64"
proof (cases "get_account_row i j d")
  case (Some a)
  then have "a \<in> set (db_accounts d)" unfolding get_account_row_def using accs.lookup_mem [OF assms(2)] by blast
  then show ?thesis using Some assms(1) by (simp add: in_range_def stored_principal_def)
qed (simp add: stored_principal_def int_bounds)

lemma contained:
  "\<bar>contain_principal_overflow x\<bar> < MAX_INT64 \<Longrightarrow> contain_principal_overflow x = x"
  "\<bar>x\<bar> < MAX_INT64 \<Longrightarrow> contain_principal_overflow x = x"
  unfolding contain_clamp by (auto simp: int_bounds max_def min_def split: if_splits)

section \<open>What a transaction does to the ledger\<close>

definition same_balances :: "db \<Rightarrow> db \<Rightarrow> bool" where
  "same_balances d d' \<longleftrightarrow> (\<forall>i j. stored_principal i j d' = stored_principal i j d)"

definition same_traffic :: "db \<Rightarrow> db \<Rightarrow> bool" where
  "same_traffic d d' \<longleftrightarrow>
     db_pending_balance_change_signals d' = db_pending_balance_change_signals d
     \<and> db_next_change_id d' = db_next_change_id d
     \<and> db_registered_balance_changes d' = db_registered_balance_changes d
     \<and> db_pending_balance_changes d' = db_pending_balance_changes d"

definition quiet :: "db \<Rightarrow> db \<Rightarrow> bool" where
  "quiet d d' \<longleftrightarrow> same_balances d d' \<and> same_traffic d d'"

definition sends :: "datetime \<Rightarrow> int \<Rightarrow> int \<Rightarrow> pending_balance_change_signal list \<Rightarrow> db \<Rightarrow> db \<Rightarrow> bool" where
  "sends ts i j new d d' \<longleftrightarrow>
     only_row (i, j) (db_accounts d) (db_accounts d')
     \<and> (stored_principal i j d' = stored_principal i j d - total pbs_principal_delta new
        \<or> \<bar>stored_principal i j d'\<bar> \<ge> MAX_INT64)
     \<and> db_pending_balance_change_signals d' = db_pending_balance_change_signals d @ new
     \<and> (\<forall>n < length new. pbs_change_id (new ! n) = db_next_change_id d + int n)
     \<and> (\<forall>s \<in> set new. pbs_debtor_id s = i \<and> pbs_committed_at s = ts)
     \<and> db_next_change_id d' = db_next_change_id d + int (length new)
     \<and> db_registered_balance_changes d' = db_registered_balance_changes d
     \<and> db_pending_balance_changes d' = db_pending_balance_changes d"

lemma other_balance:
  "only_row (i, j) (db_accounts d) (db_accounts d') \<Longrightarrow> k \<noteq> (i, j) \<Longrightarrow>
   stored_principal (fst k) (snd k) d' = stored_principal (fst k) (snd k) d"
  by (cases k) (simp add: stored_principal_def only_row_principal)

lemma quiet_book:
  assumes "quiet d d'"
  shows "book cutoff d' = book cutoff d" "log_ok d \<Longrightarrow> log_ok d'"
  using assms by (simp_all add: quiet_def same_balances_def same_traffic_def book_def undelivered_def is_registered_def log_ok_def)

lemma quiet_refl [simp]: "quiet d d"
  by (simp add: quiet_def same_balances_def same_traffic_def)

lemma sends_log_ok:
  assumes "sends ts i j new d d'" and "log_ok d"
  shows "log_ok d'"
proof -
  let ?n = "db_next_change_id d" and ?log = "db_pending_balance_change_signals d"
  have new: "map pbs_change_id new = map (\<lambda>n. ?n + int n) [0..<length new]"
    using assms(1) by (intro nth_equalityI) (simp_all add: sends_def)
  have "set (map pbs_change_id new) \<subseteq> {?n..<?n + int (length new)}" "distinct (map pbs_change_id new)"
    unfolding new by (auto simp: distinct_map inj_on_def)
  moreover have "\<forall>s \<in> set ?log. pbs_change_id s < ?n" using assms(2) by (simp add: log_ok_def)
  ultimately show ?thesis using assms unfolding log_ok_def sends_def by fastforce
qed

lemma sends_book:
  assumes s: "sends ts i j new d d'" and ok: "log_ok d" and "cutoff \<le> ts" and "\<bar>stored_principal i j d'\<bar> < MAX_INT64"
  shows "ledger_step (book cutoff d) (book cutoff d')"
proof -
  have reg: "is_registered k d' = is_registered k d" for k using s by (simp add: sends_def is_registered_def)
  have "\<not> is_registered (pbs_pk x) d" if x: "x \<in> set new" for x
  proof
    assume "is_registered (pbs_pk x) d"
    then obtain r where r: "r \<in> set (db_registered_balance_changes d)" "registered_balance_change_pk r = pbs_pk x"
      by (auto simp: is_registered_def)
    then obtain y where y: "y \<in> set (db_pending_balance_change_signals d)" "pbs_pk y = pbs_pk x"
      using ok by (metis log_ok_def)
    then have "pbs_change_id x < db_next_change_id d" using ok by (auto simp: log_ok_def pbs_pk_def)
    moreover obtain n where "n < length new" "x = new ! n" using x by (metis in_set_conv_nth)
    ultimately show False using s by (simp add: sends_def)
  qed
  then have "undelivered cutoff d' = undelivered cutoff d @ new"
    using s assms(3) by (auto simp: undelivered_def reg sends_def filter_id_conv)
  then have transit: "transit (book cutoff d') = transit (book cutoff d) + image_mset signal_transfer (mset new)"
    using s by (simp add: book_def sends_def)
  have total: "(\<Sum>m \<in># image_mset signal_transfer (mset new). amount m) = total pbs_principal_delta new"
    by (induction new) (simp_all add: signal_transfer_def)
  have "bal (book cutoff d') = (bal (book cutoff d))((i, j) := bal (book cutoff d) (i, j)
      - (\<Sum>m \<in># image_mset signal_transfer (mset new). amount m))"
  proof
    fix k
    show "bal (book cutoff d') k = ((bal (book cutoff d))((i, j) := bal (book cutoff d) (i, j)
      - (\<Sum>m \<in># image_mset signal_transfer (mset new). amount m))) k"
      using s other_balance [of i j d d' k] assms(4) unfolding total by (auto simp: book_def sends_def)
  qed
  from ledger_sendI [OF this transit] show ?thesis using s by (auto simp: signal_transfer_def sends_def)
qed

text \<open>A delivered signal moves from the log to the queue; in the ledger it stays in transit.\<close>

definition queues :: "datetime \<Rightarrow> pending_balance_change_signal \<Rightarrow> db \<Rightarrow> db \<Rightarrow> bool" where
  "queues cutoff s d d' \<longleftrightarrow>
     s \<in> set (db_pending_balance_change_signals d) \<and> cutoff \<le> pbs_committed_at s \<and> \<not> is_registered (pbs_pk s) d
     \<and> (\<exists>r p. registered_balance_change_pk r = pbs_pk s \<and> rbc_committed_at r = pbs_committed_at s
          \<and> change_transfer p = signal_transfer s
          \<and> d' = d\<lparr>db_registered_balance_changes := db_registered_balance_changes d @ [r],
                 db_pending_balance_changes := db_pending_balance_changes d @ [p]\<rparr>)"

lemma mset_filter_remove:
  assumes "distinct (map f xs)" and "x \<in> set xs" and "P x"
  shows "mset (filter P xs) = add_mset x (mset (filter (\<lambda>y. P y \<and> f y \<noteq> f x) xs))"
  using assms
proof (induction xs)
  case (Cons y ys)
  show ?case
  proof (cases "y = x")
    case True
    have "filter (\<lambda>y. P y \<and> f y \<noteq> f x) ys = filter P ys"
      using Cons.prems(1) True by (intro filter_cong) (auto simp: image_iff)
    then show ?thesis using True Cons.prems by simp
  next
    case False
    then have "f y \<noteq> f x" "x \<in> set ys" using Cons.prems by (auto simp: image_iff)
    then show ?thesis using Cons by simp
  qed
qed simp

lemma log_ok_keys:
  assumes "log_ok d"
  shows "distinct (map pbs_pk (db_pending_balance_change_signals d))"
  using assms by (auto simp: log_ok_def distinct_map inj_on_def pbs_pk_def)

lemma queues_book:
  assumes q: "queues cutoff s d d'" and ok: "log_ok d"
  shows "book cutoff d' = book cutoff d" "log_ok d'"
proof -
  from q obtain r p where s: "s \<in> set (db_pending_balance_change_signals d)" "cutoff \<le> pbs_committed_at s"
      "\<not> is_registered (pbs_pk s) d"
    and rp: "registered_balance_change_pk r = pbs_pk s" "rbc_committed_at r = pbs_committed_at s"
      "change_transfer p = signal_transfer s"
    and d': "d' = d\<lparr>db_registered_balance_changes := db_registered_balance_changes d @ [r],
                 db_pending_balance_changes := db_pending_balance_changes d @ [p]\<rparr>"
    by (auto simp: queues_def)
  let ?P = "\<lambda>x. cutoff \<le> pbs_committed_at x \<and> \<not> is_registered (pbs_pk x) d"
  have "undelivered cutoff d' = filter (\<lambda>x. ?P x \<and> pbs_pk x \<noteq> pbs_pk s) (db_pending_balance_change_signals d)"
    unfolding undelivered_def by (rule filter_cong) (auto simp: d' is_registered_def rp(1))
  then have "mset (undelivered cutoff d) = add_mset s (mset (undelivered cutoff d'))"
    using mset_filter_remove [OF log_ok_keys [OF ok] s(1), of ?P] s(2,3) by (simp add: undelivered_def)
  then show "book cutoff d' = book cutoff d"
    by (simp add: book_def d' rp(3) stored_principal_def get_account_row_def)
  show "log_ok d'" using ok s(1) rp by (auto simp: log_ok_def d')
qed

text \<open>Applied changes arrive.\<close>

definition credits :: "int \<Rightarrow> int \<Rightarrow> pending_balance_change list \<Rightarrow> db \<Rightarrow> db \<Rightarrow> bool" where
  "credits i j cs d d' \<longleftrightarrow>
     only_row (i, j) (db_accounts d) (db_accounts d')
     \<and> (stored_principal i j d' = stored_principal i j d + total pbc_principal_delta cs
        \<or> \<bar>stored_principal i j d'\<bar> \<ge> MAX_INT64)
     \<and> (\<exists>Q. cs = filter Q (db_pending_balance_changes d)
          \<and> db_pending_balance_changes d' = filter (\<lambda>c. \<not> Q c) (db_pending_balance_changes d))
     \<and> (\<forall>c \<in> set cs. pbc_debtor_id c = i \<and> pbc_creditor_id c = j)
     \<and> (\<exists>f. db_registered_balance_changes d' = map f (db_registered_balance_changes d)
          \<and> (\<forall>r. registered_balance_change_pk (f r) = registered_balance_change_pk r \<and> rbc_committed_at (f r) = rbc_committed_at r))
     \<and> db_pending_balance_change_signals d' = db_pending_balance_change_signals d
     \<and> db_next_change_id d' = db_next_change_id d"

lemma credits_book:
  assumes c: "credits i j cs d d'" and range: "\<bar>stored_principal i j d'\<bar> < MAX_INT64"
  shows "ledger_step (book cutoff d) (book cutoff d')" "log_ok d \<Longrightarrow> log_ok d'"
proof -
  from c obtain f where f: "db_registered_balance_changes d' = map f (db_registered_balance_changes d)"
      "\<forall>r. registered_balance_change_pk (f r) = registered_balance_change_pk r \<and> rbc_committed_at (f r) = rbc_committed_at r"
    by (auto simp: credits_def)
  have log: "db_pending_balance_change_signals d' = db_pending_balance_change_signals d"
      "db_next_change_id d' = db_next_change_id d" using c by (simp_all add: credits_def)
  have "is_registered k d' = is_registered k d" for k using f by (simp add: is_registered_def image_image)
  then have und: "undelivered cutoff d' = undelivered cutoff d" by (simp add: undelivered_def log)
  show "log_ok d'" if "log_ok d" using that f by (simp add: log_ok_def log)
  have parts: "mset (filter (\<lambda>x. \<not> Q x) xs) + mset (filter Q xs) = mset xs" for Q and xs :: "pending_balance_change list"
    by (induction xs) simp_all
  from c obtain Q where "cs = filter Q (db_pending_balance_changes d)"
      "db_pending_balance_changes d' = filter (\<lambda>c. \<not> Q c) (db_pending_balance_changes d)" by (auto simp: credits_def)
  then have pending: "mset (db_pending_balance_changes d) = mset (db_pending_balance_changes d') + mset cs"
    by (simp only: parts)
  have transit: "transit (book cutoff d) = transit (book cutoff d') + image_mset change_transfer (mset cs)"
    by (simp add: book_def und pending)
  have total: "(\<Sum>m \<in># image_mset change_transfer (mset cs). amount m) = total pbc_principal_delta cs"
    by (induction cs) (simp_all add: change_transfer_def)
  have "bal (book cutoff d') = (bal (book cutoff d))((i, j) := bal (book cutoff d) (i, j)
      + (\<Sum>m \<in># image_mset change_transfer (mset cs). amount m))"
  proof
    fix k
    show "bal (book cutoff d') k = ((bal (book cutoff d))((i, j) := bal (book cutoff d) (i, j)
      + (\<Sum>m \<in># image_mset change_transfer (mset cs). amount m))) k"
      using c other_balance [of i j d d' k] range unfolding total by (auto simp: book_def credits_def)
  qed
  from ledger_creditI [OF this transit] show "ledger_step (book cutoff d) (book cutoff d')"
    using c by (auto simp: change_transfer_def credits_def)
qed

text \<open>Dropping old registrations changes nothing: their signals are older than the retention time.\<close>

definition drops :: "datetime \<Rightarrow> db \<Rightarrow> db \<Rightarrow> bool" where
  "drops cutoff d d' \<longleftrightarrow>
     (\<exists>P. d' = d\<lparr>db_registered_balance_changes := filter (\<lambda>r. \<not> P (registered_balance_change_pk r)) (db_registered_balance_changes d)\<rparr>
        \<and> (\<forall>r \<in> set (db_registered_balance_changes d). P (registered_balance_change_pk r) \<longrightarrow> rbc_committed_at r < cutoff))"

lemma drops_book:
  assumes "drops cutoff d d'" and ok: "log_ok d"
  shows "book cutoff d' = book cutoff d" "log_ok d'"
proof -
  from assms(1) obtain P where
    d': "d' = d\<lparr>db_registered_balance_changes := filter (\<lambda>r. \<not> P (registered_balance_change_pk r)) (db_registered_balance_changes d)\<rparr>"
    and old: "\<forall>r \<in> set (db_registered_balance_changes d). P (registered_balance_change_pk r) \<longrightarrow> rbc_committed_at r < cutoff"
    by (auto simp: drops_def)
  show "log_ok d'" using ok by (auto simp: log_ok_def d')
  have "is_registered (pbs_pk s) d' = is_registered (pbs_pk s) d"
    if s: "s \<in> set (db_pending_balance_change_signals d)" "cutoff \<le> pbs_committed_at s" for s
  proof
    assume "is_registered (pbs_pk s) d"
    then obtain r where r: "r \<in> set (db_registered_balance_changes d)" "registered_balance_change_pk r = pbs_pk s"
      by (auto simp: is_registered_def)
    then obtain x where x: "x \<in> set (db_pending_balance_change_signals d)" "pbs_pk x = pbs_pk s"
        "pbs_committed_at x = rbc_committed_at r" using ok by (metis log_ok_def)
    then have "x = s" using log_ok_keys [OF ok] s(1) by (auto simp: distinct_map inj_on_def)
    then have "\<not> P (registered_balance_change_pk r)" using old r(1) x(3) s(2) by auto
    then show "is_registered (pbs_pk s) d'" using r by (auto simp: is_registered_def d' image_iff)
  qed (auto simp: is_registered_def d')
  then have "undelivered cutoff d' = undelivered cutoff d"
    unfolding undelivered_def by (intro filter_cong) (auto simp: d')
  then show "book cutoff d' = book cutoff d"
    by (simp add: book_def d' stored_principal_def get_account_row_def)
qed

end
