(* ===== verification/SystemSteps.thy ===== *)
theory SystemSteps
  imports System
begin

text \<open>
  The transactions of the system, one rule for each procedure, and what each of them does: it keeps the invariants of
  the tables, and it changes the ledger in one of five ways.
\<close>

section \<open>Transactions\<close>

text \<open>
  Every argument is arbitrary, with three exceptions: transactions that send money run after the retention time of
  the configuration (which lies days before the start of the server), a balance change is received only if it was
  sent, and the registrations that the scanner reads carry the times at which they were registered.
\<close>

inductive transaction :: "env \<Rightarrow> app_config \<Rightarrow> db \<Rightarrow> db \<Rightarrow> bool" for E c where
  configuring: "configure_account E now its i j ts sn na fl dat delay d = Inr (b, d') \<Longrightarrow> transaction E c d d'"
| changing_rate: "change_interest_rate E now i j r t delay d = Inr d' \<Longrightarrow> transaction E c d d'"
| updating_info: "update_debtor_info E now i j iri sha ctype t d = Inr d' \<Longrightarrow> transaction E c d d'"
| paying: "make_debtor_payment E now its ct i j amt fmt note d = Inr d' \<Longrightarrow>
    APP_REGISTERED_BALANCE_CHANGES_RETENTION_DATETIME c \<le> now \<Longrightarrow> transaction E c d d'"
| capitalizing: "capitalize_interest E now i j iv d = Inr d' \<Longrightarrow>
    APP_REGISTERED_BALANCE_CHANGES_RETENTION_DATETIME c \<le> now \<Longrightarrow> transaction E c d d'"
| deleting: "try_to_delete_account E now i j d = Inr d' \<Longrightarrow>
    APP_REGISTERED_BALANCE_CHANGES_RETENTION_DATETIME c \<le> now \<Longrightarrow> transaction E c d d'"
| requesting: "prepare_transfer E ct cid rid mn mx i j recipient ts delay rate d = Inr d' \<Longrightarrow> transaction E c d d'"
| preparing: "process_transfer_requests E skip now i j cp d = Inr d' \<Longrightarrow> transaction E c d d'"
| requesting_finalization: "finalize_transfer now i j n ct cid rid amt fmt note t d = Inr d' \<Longrightarrow> transaction E c d d'"
| finalizing: "process_finalization_requests E fskip now i j d = Inr d' \<Longrightarrow>
    APP_REGISTERED_BALANCE_CHANGES_RETENTION_DATETIME c \<le> now \<Longrightarrow> transaction E c d d'"
| receiving: "deliver_change c s d = Inr d' \<Longrightarrow> s \<in> set (db_pending_balance_change_signals d) \<Longrightarrow> transaction E c d d'"
| applying: "process_pending_balance_changes E cskip now its i j d = Inr d' \<Longrightarrow> transaction E c d d'"
| scanning_accounts: "AccountScanner_process_rows E self g rows now d = (sent, Inr d') \<Longrightarrow> transaction E c d d'"
| scanning_transfers: "PreparedTransferScanner_process_rows E iv prows now d = Inr d' \<Longrightarrow> transaction E c d d'"
| scanning_changes: "RegisteredBalanceChangeScanner_process_rows (RegisteredBalanceChangeScanner_init c) rrows d = Inr d' \<Longrightarrow>
    \<forall>x \<in> set rrows. \<forall>r \<in> set (db_registered_balance_changes d).
      registered_balance_change_pk r = registered_balance_change_pk x \<longrightarrow> rbc_committed_at r = rbc_committed_at x \<Longrightarrow>
    transaction E c d d'"

section \<open>Invariants of the tables\<close>

definition tables_ok :: "db \<Rightarrow> bool" where
  "tables_ok d \<longleftrightarrow> db_wf d \<and> locks_within d \<and> ids_fresh d \<and> changes_agree d \<and> deleted_accounts_empty d"

lemma tables_okD:
  assumes "tables_ok d"
  shows "db_wf d" "locks_within d" "ids_fresh d" "changes_agree d" "deleted_accounts_empty d"
    "tbl_wf account_pk account_ok (db_accounts d)"
  using assms by (simp_all add: tables_ok_def db_wf_accs)

text \<open>A procedure that writes one account and leaves the other tables with references alone.\<close>

lemma tables_ok_step:
  assumes ok: "tables_ok d" and step: "accounts_step (db_accounts d) (db_accounts d')"
    and same: "db_prepared_transfers d' = db_prepared_transfers d" "db_transfer_requests d' = db_transfer_requests d"
      "db_finalization_requests d' = db_finalization_requests d"
      "db_registered_balance_changes d' = db_registered_balance_changes d"
      "db_pending_balance_changes d' = db_pending_balance_changes d"
    and only: "only_row k (db_accounts d) (db_accounts d')"
    and row: "\<And>row. tbl_lookup account_pk k (db_accounts d') = Some row \<Longrightarrow> is_deleted row \<Longrightarrow>
      acc_principal row = 0 \<and> acc_pending_transfers_count row = 0"
  shows "tables_ok d'"
proof -
  note inv = tables_okD [OF ok]
  have wf: "db_wf d'" by (rule accounts_step_db_wf [OF step inv(1) same])
  have "deleted_accounts_empty d'"
    by (rule deleted_accounts_empty_row [OF inv(5,6) db_wf_accs [OF wf] only row])
  moreover have "changes_agree d'" using inv(4) by (simp add: changes_agree_def same)
  ultimately show ?thesis using wf accounts_step_locks [OF step inv(1) same(1)] inv by (simp add: tables_ok_def)
qed

text \<open>A procedure that only touches the queues of requests.\<close>

lemma tables_ok_requests:
  assumes "tables_ok d" and "tbl_wf transfer_request_pk transfer_request_ok t" and "tbl_wf finalization_request_pk finalization_request_ok f"
    and "db_accounts d' = db_accounts d" "db_prepared_transfers d' = db_prepared_transfers d"
      "db_transfer_requests d' = t" "db_finalization_requests d' = f"
      "db_registered_balance_changes d' = db_registered_balance_changes d"
      "db_pending_balance_changes d' = db_pending_balance_changes d"
  shows "tables_ok d'"
proof -
  have "db_wf d'" using assms by (simp add: tables_ok_def db_wf_def)
  moreover have "locks_within d' = locks_within d" "ids_fresh d' = ids_fresh d" "changes_agree d' = changes_agree d"
    "deleted_accounts_empty d' = deleted_accounts_empty d"
    unfolding locks_within_def ids_fresh_def changes_agree_def deleted_accounts_empty_def assms(4-9) by (rule refl)+
  ultimately show ?thesis using assms(1) by (simp add: tables_ok_def)
qed

section \<open>The effect of each procedure\<close>

definition effect :: "datetime \<Rightarrow> db \<Rightarrow> db \<Rightarrow> bool" where
  "effect cutoff d d' \<longleftrightarrow>
     quiet d d' \<or> (\<exists>ts i j new. cutoff \<le> ts \<and> sends ts i j new d d') \<or> (\<exists>s. queues cutoff s d d')
     \<or> (\<exists>i j cs. credits i j cs d d') \<or> drops cutoff d d'"

lemma same_accounts_balances: "db_accounts d' = db_accounts d \<Longrightarrow> same_balances d d'"
  by (simp add: same_balances_def stored_principal_def get_account_row_def)

lemma one_row_balances:
  "only_row (i, j) (db_accounts d) (db_accounts d') \<Longrightarrow> stored_principal i j d' = stored_principal i j d \<Longrightarrow> same_balances d d'"
  unfolding same_balances_def using other_balance [of i j d d'] by fastforce

text \<open>Settings.\<close>

lemma settings_system:
  assumes eff: "settings_effect i j d d' row" and "\<not> is_deleted row" and ok: "tables_ok d" and range: "in_range d"
    and pr: "acc_principal row = contain_principal_overflow (stored_principal i j d) \<or> acc_principal row = stored_principal i j d"
  shows "tables_ok d' \<and> quiet d d'"
proof -
  from eff obtain t s where
    d': "d' = d\<lparr>db_accounts := t, db_account_update_signals := db_account_update_signals d @ [s]\<rparr>"
    and t: "accounts_step (db_accounts d) t" "only_row (i, j) (db_accounts d) t" "tbl_lookup account_pk (i, j) t = Some row"
    unfolding settings_effect_def by blast
  have "tables_ok d'" by (rule tables_ok_step [OF ok]) (use t assms(2) in \<open>auto simp: d'\<close>)
  moreover have "stored_principal i j d' = acc_principal row"
    using t(3) by (simp add: stored_principal_def get_account_row_def d')
  then have "stored_principal i j d' = stored_principal i j d"
    using pr contained(2) [OF stored_in_range [OF range tables_okD(6) [OF ok]], of i j] by auto
  then have "same_balances d d'" using t(2) by (intro one_row_balances) (simp_all add: d')
  ultimately show ?thesis by (simp add: quiet_def same_traffic_def d')
qed

lemma configure_system:
  assumes run: "configure_account E now its i j ts sn na fl dat delay d = Inr (b, d')"
    and ok: "tables_ok d" and range: "in_range d"
  shows "tables_ok d' \<and> quiet d d'"
proof (cases "\<not> b \<and> d' = d")
  case False
  then have "try_to_configure E now its i j ts sn na fl dat (get_account_row i j d) d = Inr (b, d')"
    using run by (auto simp: configure_account_def get_account_instance_def split: option.splits if_splits)
  note res = try_to_configure_InrD [OF this tables_okD(1) [OF ok] refl]
  show ?thesis
  proof (cases "is_valid_config E j na dat")
    case True
    then show ?thesis using res settings_system [OF _ _ ok range] by auto
  next
    case False
    then obtain s where d': "d' = d\<lparr>db_rejected_config_signals := s\<rparr>" using res by auto
    have "tables_ok d'" using ok invariants_cong [of d' d] by (simp add: tables_ok_def d')
    then show ?thesis using same_accounts_balances [of d' d] by (simp add: quiet_def same_traffic_def d')
  qed
qed (use ok in simp)

lemma get_account_stored: "get_account i j d = Some a \<Longrightarrow> stored_principal i j d = acc_principal a"
  by (drule get_account_SomeD) (simp add: stored_principal_def)

lemma rate_and_info_system:
  assumes "change_interest_rate E now i j r t delay d = Inr d' \<or> update_debtor_info E now i j iri sha ctype t d = Inr d'"
    and ok: "tables_ok d" and range: "in_range d"
  shows "tables_ok d' \<and> quiet d d'"
proof (cases "d' = d")
  case False
  note wf = tables_okD(1) [OF ok]
  obtain a row where "get_account i j d = Some a" "settings_effect i j d d' row" "acc_principal row = acc_principal a"
      "\<not> is_deleted row"
    using assms(1) False change_interest_rate_InrD [OF _ wf] update_debtor_info_InrD [OF _ wf] by metis
  then show ?thesis using settings_system [OF _ _ ok range] get_account_stored by auto
qed (use ok in simp)

text \<open>Payments.\<close>

lemma payment_system:
  assumes eff: "payment_effect ts i j amt d d'" and ok: "tables_ok d"
  shows "tables_ok d' \<and> (\<exists>new. sends ts i j new d d')"
proof -
  from eff obtain t u T new row where
    d': "d' = d\<lparr>db_accounts := t, db_account_update_signals := u, db_account_transfer_signals := T,
          db_pending_balance_change_signals := db_pending_balance_change_signals d @ new,
          db_next_change_id := db_next_change_id d + int (length new)\<rparr>"
    and t: "accounts_step (db_accounts d) t" "tbl_lookup account_pk (i, j) t = Some row"
      "only_row (i, j) (db_accounts d) t" "is_deleted row \<longrightarrow> acc_principal row = 0 \<and> acc_pending_transfers_count row = 0"
    and pay: "if amt \<noteq> 0 \<and> j \<noteq> ROOT_CREDITOR_ID then
             acc_principal row = contain_principal_overflow (stored_principal i j d + amt)
             \<and> (\<exists>s. new = [s] \<and> pbs_principal_delta s = - amt \<and> pbs_debtor_id s = i
                   \<and> pbs_other_creditor_id s = j \<and> pbs_creditor_id s = ROOT_CREDITOR_ID
                   \<and> pbs_committed_at s = ts \<and> pbs_change_id s = db_next_change_id d)
           else acc_principal row = stored_principal i j d \<and> new = []"
    unfolding payment_effect_def by blast
  have "tables_ok d'" by (rule tables_ok_step [OF ok]) (use t in \<open>auto simp: d'\<close>)
  moreover have "stored_principal i j d' = acc_principal row" using t(2) by (simp add: stored_principal_def get_account_row_def d')
  then have "sends ts i j new d d'"
    using pay t(3) contained(1) [of "stored_principal i j d + amt"] by (auto simp: sends_def d' split: if_splits)
  ultimately show ?thesis by blast
qed

lemma payments_system:
  assumes "make_debtor_payment E now its ct i j amt fmt note d = Inr d'
      \<or> capitalize_interest E now i j iv d = Inr d' \<or> try_to_delete_account E now i j d = Inr d'"
    and ok: "tables_ok d"
  shows "tables_ok d' \<and> (quiet d d' \<or> (\<exists>new. sends now i j new d d'))"
  using payments_cases [OF assms(1) tables_okD(1,2) [OF ok]] payment_system [OF _ ok] ok by auto

text \<open>Requests.\<close>

lemma requests_system:
  assumes "prepare_transfer E ct cid rid mn mx i j recipient ts delay rate d = Inr d'
      \<or> finalize_transfer now i j n ct cid rid amt fmt note t d = Inr d'"
    and ok: "tables_ok d"
  shows "tables_ok d' \<and> quiet d d'"
proof -
  note wf = tables_okD(1) [OF ok]
  have "\<exists>T F R x. d' = d\<lparr>db_transfer_requests := T, db_finalization_requests := F, db_rejected_transfer_signals := R,
        db_next_transfer_request_id := x\<rparr>
      \<and> tbl_wf transfer_request_pk transfer_request_ok T \<and> tbl_wf finalization_request_pk finalization_request_ok F"
    using assms(1)
  proof
    assume run: "prepare_transfer E ct cid rid mn mx i j recipient ts delay rate d = Inr d'"
    show ?thesis
    proof (cases recipient)
      case None
      then obtain R where "d' = d\<lparr>db_rejected_transfer_signals := R\<rparr>"
        using run by (auto simp: prepare_transfer_def add_rejected_transfer_signal_def)
      then show ?thesis using db_wf_trs [OF wf] db_wf_frs [OF wf]
        by (intro exI [of _ "db_transfer_requests d"] exI [of _ "db_finalization_requests d"] exI [of _ R]
            exI [of _ "db_next_transfer_request_id d"]) auto
    next
      case (Some r)
      then obtain tr T where "tbl_insert transfer_request_pk transfer_request_ok tr (db_transfer_requests d) = Inr T"
          "d' = d\<lparr>db_transfer_requests := T, db_next_transfer_request_id := db_next_transfer_request_id d + 1\<rparr>"
        using run by (auto simp: prepare_transfer_def insert_transfer_request_def monad_simps Let_def)
      then show ?thesis using trs.ins_wf [OF db_wf_trs [OF wf]] db_wf_frs [OF wf]
        by (intro exI [of _ T] exI [of _ "db_finalization_requests d"] exI [of _ "db_rejected_transfer_signals d"]
            exI [of _ "db_next_transfer_request_id d + 1"]) auto
    qed
  next
    assume run: "finalize_transfer now i j n ct cid rid amt fmt note t d = Inr d'"
    then have "d' = d \<or> (\<exists>fr F. tbl_insert finalization_request_pk finalization_request_ok fr (db_finalization_requests d) = Inr F
        \<and> d' = d\<lparr>db_finalization_requests := F\<rparr>)"
      by (auto simp: finalize_transfer_def insert_finalization_request_def monad_simps split: sum.splits error.splits)
    then show ?thesis using frs.ins_wf [OF db_wf_frs [OF wf]] db_wf_frs [OF wf] db_wf_trs [OF wf]
      by (elim disjE exE conjE; intro exI [of _ "db_transfer_requests d'"] exI [of _ "db_finalization_requests d'"]
          exI [of _ "db_rejected_transfer_signals d"] exI [of _ "db_next_transfer_request_id d"]) auto
  qed
  then obtain T F R x where d': "d' = d\<lparr>db_transfer_requests := T, db_finalization_requests := F,
        db_rejected_transfer_signals := R, db_next_transfer_request_id := x\<rparr>"
      "tbl_wf transfer_request_pk transfer_request_ok T" "tbl_wf finalization_request_pk finalization_request_ok F" by blast
  have "tables_ok d'" by (rule tables_ok_requests [OF ok d'(2,3)]) (simp_all add: d'(1))
  then show ?thesis using same_accounts_balances [of d' d] by (simp add: quiet_def same_traffic_def d'(1))
qed

text \<open>The two phases of a transfer.\<close>

lemma one_row_deleted:
  assumes ok: "tables_ok d" and wf: "db_wf d'" and upd: "tbl_update account_pk account_ok b (db_accounts d) = Inr (db_accounts d')"
    and "\<not> is_deleted b"
  shows "deleted_accounts_empty d'"
proof (rule deleted_accounts_empty_row [OF tables_okD(5,6) [OF ok] db_wf_accs [OF wf] only_row_upd [OF upd]])
  fix row assume "tbl_lookup account_pk (account_pk b) (db_accounts d') = Some row" "is_deleted row"
  then show "acc_principal row = 0 \<and> acc_pending_transfers_count row = 0"
    using accs.lookup_upd [OF tables_okD(6) [OF ok] upd, of "account_pk b"] assms(4) by (auto split: if_splits)
qed

lemma preparing_system:
  assumes run: "process_transfer_requests E skip now i j cp d = Inr d'" and ok: "tables_ok d"
  shows "tables_ok d' \<and> quiet d d'"
proof (cases "handled_requests skip i j d = []")
  case True
  then show ?thesis using process_transfer_requests_idle [OF run] ok by simp
next
  case False
  note wf = tables_okD(1) [OF ok]
  obtain R Q new t where d': "d' = d\<lparr>db_transfer_requests :=
        [tr \<leftarrow> db_transfer_requests d. tr \<notin> set (handled_requests skip i j d)],
        db_prepared_transfers := db_prepared_transfers d @ new,
        db_rejected_transfer_signals := db_rejected_transfer_signals d @ R,
        db_prepared_transfer_signals := db_prepared_transfer_signals d @ Q, db_accounts := t\<rparr>"
    and none: "get_account i j d = None \<longrightarrow> new = [] \<and> t = db_accounts d"
    and some: "\<forall>a. get_account i j d = Some a \<longrightarrow> (\<exists>b. writes_locks E now d a b new t)"
    by (rule process_transfer_requests_InrD [OF run wf refl False], rule that)
  note inv = process_transfer_requests_invariant [OF run tables_okD(1-3) [OF ok]]
  have agree: "changes_agree d'" using tables_okD(4) [OF ok] by (simp add: changes_agree_def d')
  have "same_balances d d' \<and> deleted_accounts_empty d'"
  proof (cases "get_account i j d")
    case None
    then have "db_accounts d' = db_accounts d" using none by (simp add: d')
    then show ?thesis using same_accounts_balances tables_okD(5) [OF ok] by (simp add: deleted_accounts_empty_def)
  next
    case (Some a)
    then obtain b where b: "same_but_locks a b" "tbl_update account_pk account_ok b (db_accounts d) = Inr (db_accounts d')"
      using some by (auto simp: writes_locks_def locks_for_def d')
    have row: "get_account_row i j d = Some a" "\<not> is_deleted a" using get_account_SomeD [OF Some] by auto
    have same: "acc_principal b = acc_principal a" "is_deleted b = is_deleted a" "account_pk b = account_pk a"
      by (subst b(1) [unfolded same_but_locks_def]; simp add: account_pk_def)+
    have pk: "account_pk b = (i, j)" using get_account_row_pk [OF wf row(1)] same(3) by (simp add: account_pk_def)
    have "stored_principal i j d' = stored_principal i j d"
      using accs.lookup_upd [OF tables_okD(6) [OF ok] b(2), of "(i, j)"] row(1) same(1) pk
      by (simp add: stored_principal_def get_account_row_def)
    then show ?thesis
      using one_row_balances only_row_upd [OF b(2)] one_row_deleted [OF ok _ b(2)] inv row(2) same(2) by (simp add: pk)
  qed
  then show ?thesis using inv agree by (simp add: tables_ok_def quiet_def same_traffic_def d')
qed

lemma number_changes_nth:
  "n < length S \<Longrightarrow> number_changes k S ! n = (S ! n)\<lparr>pbs_change_id := k + int n\<rparr>"
  by (induction S arbitrary: k n) (auto simp: nth_Cons split: nat.splits)

lemma length_number_changes [simp]: "length (number_changes k S) = length S"
  by (induction S arbitrary: k) simp_all

lemma finalizing_system:
  assumes run: "process_finalization_requests E skip now i j d = Inr d'" and ok: "tables_ok d"
  shows "tables_ok d' \<and> (quiet d d' \<or> (\<exists>new. sends now i j new d d'))"
proof -
  note wf = tables_okD(1) [OF ok]
  note inv = finalization_invariant_lemma [OF run tables_okD(1-3) [OF ok]]
  consider (idle) "d' = d" | (none) "get_account i j d = None"
    | (some) a where "handled_finalizations skip i j d \<noteq> []" "get_account i j d = Some a"
    using process_finalization_requests_idle [OF run] by (cases "get_account i j d") auto
  then show ?thesis
  proof cases
    case idle
    then show ?thesis using ok by simp
  next
    case none
    obtain f where d': "d' = d\<lparr>db_finalization_requests := f\<rparr>"
      using process_finalization_requests_unreachable [OF run wf none] by blast
    have "tables_ok d'" using inv ok by (simp add: tables_ok_def) (simp add: d' changes_agree_def deleted_accounts_empty_def)
    then show ?thesis using same_accounts_balances [of d' d] by (simp add: quiet_def same_traffic_def d')
  next
    case some
    obtain outs F T b t where
      d': "d' = d\<lparr>db_finalization_requests :=
            [fr \<leftarrow> db_finalization_requests d. fr \<notin> set (handled_finalizations skip i j d)],
          db_prepared_transfers := [pt \<leftarrow> db_prepared_transfers d. pt \<notin> out_pt ` set outs],
          db_finalized_transfer_signals := db_finalized_transfer_signals d @ F,
          db_account_transfer_signals := T,
          db_pending_balance_change_signals := db_pending_balance_change_signals d
            @ number_changes (db_next_change_id d) (change_signals now outs),
          db_next_change_id := db_next_change_id d + int (length (change_signals now outs)),
          db_accounts := t\<rparr>"
      and outs: "map (\<lambda>x. (out_fr x, out_pt x)) outs = finalization_pairs skip i j d" "\<forall>x \<in> set outs. outcome_ok x"
      and t: "tbl_update account_pk account_ok b (db_accounts d) = Inr t"
      and b: "finalized_account E now d d' a b (total out_amount outs)"
      by (rule process_finalization_requests_InrD [OF run wf some])
    have row: "get_account_row i j d = Some a" "\<not> is_deleted a" using get_account_SomeD [OF some(2)] by auto
    have pk: "account_pk b = (i, j)"
      using b get_account_row_pk [OF wf row(1)] by (simp add: finalized_account_def account_pk_def)
    have upd: "tbl_update account_pk account_ok b (db_accounts d) = Inr (db_accounts d')" using t by (simp add: d')
    have alive: "\<not> is_deleted b" using b row(2) by (simp add: finalized_account_def)
    have tables: "tables_ok d'"
      using inv one_row_deleted [OF ok _ upd alive] tables_okD(4) [OF ok] by (simp add: tables_ok_def) (simp add: d' changes_agree_def)
    let ?new = "number_changes (db_next_change_id d) (change_signals now outs)"
    have debtor: "pbs_debtor_id s = i \<and> pbs_committed_at s = now" if s: "s \<in> set ?new" for s
    proof -
      obtain x where x: "x \<in> set outs" "pbs_debtor_id s = pt_debtor_id (out_pt x)" "pbs_committed_at s = now"
        using number_changes_mem [OF s] by (auto simp: change_signals_def recipient_change_signal_def)
      then have "(out_fr x, out_pt x) \<in> set (finalization_pairs skip i j d)" by (force simp flip: outs(1))
      then show ?thesis using x finalization_pairs_props(2) [OF wf, of skip i j] by (fastforce simp: pt_of_def)
    qed
    have total: "total pbs_principal_delta ?new = total out_amount outs" using total_change_signals [OF outs(2)] by simp
    have stored: "stored_principal i j d' = acc_principal b" "stored_principal i j d = acc_principal a"
      using accs.lookup_upd [OF tables_okD(6) [OF ok] upd, of "(i, j)"] row(1) pk
      by (simp_all add: stored_principal_def get_account_row_def)
    have "sends now i j ?new d d'"
      using only_row_upd [OF upd] debtor b contained(1) [of "acc_principal a - total out_amount outs"]
      unfolding sends_def stored total pk by (auto simp: finalized_account_def number_changes_nth) (simp_all add: d')
    then show ?thesis using tables by blast
  qed
qed

text \<open>Balance changes.\<close>

lemma receiving_system:
  assumes run: "deliver_change c s d = Inr d'" and s: "s \<in> set (db_pending_balance_change_signals d)" and ok: "tables_ok d"
  shows "tables_ok d' \<and> (quiet d d' \<or> queues (APP_REGISTERED_BALANCE_CHANGES_RETENTION_DATETIME c) s d d')"
proof (cases "d' = d")
  case False
  note ins = run [unfolded deliver_change_def]
  note wf = tables_okD [OF ok]
  note inv = insert_pending_balance_change_invariant [OF ins wf(1,4)]
  note eff = insert_pending_balance_change_InrD [OF ins]
  have "locks_within d' = locks_within d" "ids_fresh d' = ids_fresh d" "deleted_accounts_empty d' = deleted_accounts_empty d"
    using eff by (auto simp: locks_within_def ids_fresh_def deleted_accounts_empty_def)
  then have "tables_ok d'" using inv wf by (simp add: tables_ok_def)
  moreover have "queues (APP_REGISTERED_BALANCE_CHANGES_RETENTION_DATETIME c) s d d'"
    using eff False s unfolding queues_def
    by (auto simp: registered_balance_change_pk_def pbs_pk_def change_transfer_def signal_transfer_def intro!: exI)
  ultimately show ?thesis by blast
qed (use ok in simp)

lemma applying_system:
  assumes run: "process_pending_balance_changes E skip now its i j d = Inr d'" and ok: "tables_ok d"
  shows "tables_ok d' \<and> (quiet d d' \<or> (\<exists>cs. credits i j cs d d'))"
proof (cases "handled_changes skip i j d = []")
  case True
  then show ?thesis using process_pending_idle [OF run] ok by simp
next
  case False
  note wf = tables_okD [OF ok]
  let ?cs = "handled_changes skip i j d"
  obtain t s T row where
    d': "d' = d\<lparr>db_accounts := t, db_account_update_signals := s, db_account_transfer_signals := T,
        db_pending_balance_changes := [c \<leftarrow> db_pending_balance_changes d. c \<notin> set ?cs],
        db_registered_balance_changes := map (\<lambda>r. if registered_balance_change_pk r
            \<in> pending_balance_change_pk ` set ?cs then r\<lparr>rbc_is_applied := True\<rparr> else r)
          (db_registered_balance_changes d)\<rparr>"
    and row: "tbl_lookup account_pk (i, j) t = Some row" "\<not> is_deleted row"
      "acc_principal row = contain_principal_overflow (stored_principal i j d + total pbc_principal_delta ?cs)"
    by (rule process_pending_InrD [OF run wf(1) refl False], rule that)
  note only = process_pending_only [OF run wf(1)]
  note inv = process_pending_invariant [OF run wf(1-4)]
  have "db_accounts d' = t" by (simp add: d')
  then have "deleted_accounts_empty d'"
    using deleted_accounts_empty_row [OF wf(5,6) db_wf_accs [OF conjunct1 [OF inv]] only] row(1,2) by simp
  then have tables: "tables_ok d'" using inv by (simp only: tables_ok_def simp_thms)
  let ?Q = "\<lambda>c. pbc_debtor_id c = i \<and> pbc_creditor_id c = j \<and> \<not> skip c"
  have cs: "?cs = filter ?Q (db_pending_balance_changes d)"
    by (simp add: handled_changes_def pending_changes_of_def conj_assoc)
  have rest: "db_pending_balance_changes d' = filter (\<lambda>c. \<not> ?Q c) (db_pending_balance_changes d)"
    by (simp add: d') (rule filter_cong [OF refl], auto simp: cs)
  have "stored_principal i j d' = acc_principal row" using row(1) by (simp add: stored_principal_def get_account_row_def d')
  then have "credits i j ?cs d d'"
    unfolding credits_def
    using only row(3) contained(1) [of "stored_principal i j d + total pbc_principal_delta ?cs"]
  proof (intro conjI)
    show "\<exists>Q. ?cs = filter Q (db_pending_balance_changes d)
          \<and> db_pending_balance_changes d' = filter (\<lambda>c. \<not> Q c) (db_pending_balance_changes d)" using cs rest by blast
    show "\<forall>c \<in> set ?cs. pbc_debtor_id c = i \<and> pbc_creditor_id c = j" by (simp add: cs)
    show "\<exists>f. db_registered_balance_changes d' = map f (db_registered_balance_changes d)
          \<and> (\<forall>r. registered_balance_change_pk (f r) = registered_balance_change_pk r \<and> rbc_committed_at (f r) = rbc_committed_at r)"
      by (rule exI [of _ "\<lambda>r. if registered_balance_change_pk r \<in> pending_balance_change_pk ` set ?cs
          then r\<lparr>rbc_is_applied := True\<rparr> else r"]) (simp add: d' registered_balance_change_pk_def)
  qed (auto simp: d')
  then show ?thesis using tables by blast
qed

text \<open>Scanners.\<close>

lemma stored_principal_row:
  assumes "tbl_wf account_pk account_ok (db_accounts d)"
  shows "stored_principal i j d = p \<longleftrightarrow>
    (\<exists>a \<in> set (db_accounts d). account_pk a = (i, j) \<and> acc_principal a = p) \<or> (\<forall>a \<in> set (db_accounts d). account_pk a \<noteq> (i, j)) \<and> p = 0"
proof (cases "get_account_row i j d")
  case None
  then have "\<forall>a \<in> set (db_accounts d). account_pk a \<noteq> (i, j)"
    unfolding get_account_row_def by (simp add: accs.lookup_None_iff [OF assms])
  then show ?thesis using None by (auto simp: stored_principal_def)
next
  case (Some a)
  then have "a \<in> set (db_accounts d)" "account_pk a = (i, j)"
    unfolding get_account_row_def by (simp_all add: accs.lookup_iff [OF assms])
  then show ?thesis using Some accs.pk_inj [OF assms] by (fastforce simp: stored_principal_def)
qed

lemma accounts_scan_system:
  assumes run: "AccountScanner_process_rows E self g rows now d = (sent, Inr d')" and ok: "tables_ok d"
  shows "tables_ok d' \<and> quiet d d'"
proof -
  note wf = tables_okD [OF ok]
  note eff = account_scan_effect [OF run wf(1-5)]
  obtain d1 where d1: "purge_accounts self rows now d = Inr d1" "send_heartbeats E self rows now d1 = Inr d'"
    using AccountScanner_process_rows_InrD [OF run] by blast
  let ?P = "purged self rows now"
  have accs1: "db_accounts d1 = filter (\<lambda>a. \<not> ?P a) (db_accounts d)"
    by (subst purge_accounts_InrD [OF d1(1) wf(6)]) (simp add: drop_accounts_def)
  have wf1: "tbl_wf account_pk account_ok (db_accounts d1)" unfolding accs1 by (rule tbl_wf_filter [OF wf(6)])
  have accs: "db_accounts d' = map (mark_heard self rows now) (filter (\<lambda>a. \<not> ?P a) (db_accounts d))"
    using send_heartbeats_InrD [OF d1(2) wf1] accs1 by auto
  have gone: "acc_principal a = 0" if "a \<in> set (db_accounts d)" "?P a" for a
    using that wf(5) by (auto simp: deleted_accounts_empty_def purged_def purgeable_def Let_def)
  have "stored_principal i j d' = stored_principal i j d" for i j
  proof -
    have "tbl_wf account_pk account_ok (db_accounts d')" using eff by (simp add: db_wf_accs)
    then show ?thesis
    proof (subst stored_principal_row)
      let ?p = "stored_principal i j d"
      have "(\<exists>a \<in> set (db_accounts d). account_pk a = (i, j) \<and> acc_principal a = ?p)
          \<or> (\<forall>a \<in> set (db_accounts d). account_pk a \<noteq> (i, j)) \<and> ?p = 0"
        using stored_principal_row [OF wf(6), of i j ?p] by blast
      then show "(\<exists>a \<in> set (db_accounts d'). account_pk a = (i, j) \<and> acc_principal a = ?p)
          \<or> (\<forall>a \<in> set (db_accounts d'). account_pk a \<noteq> (i, j)) \<and> ?p = 0"
      proof
        assume "\<exists>a \<in> set (db_accounts d). account_pk a = (i, j) \<and> acc_principal a = ?p"
        then obtain a where a: "a \<in> set (db_accounts d)" "account_pk a = (i, j)" "acc_principal a = ?p" by blast
        show ?thesis
        proof (cases "?P a")
          case True
          then have "\<forall>x \<in> set (db_accounts d'). account_pk x \<noteq> (i, j)"
            using accs.pk_inj [OF wf(6) _ a(1)] a(2) by (auto simp: accs)
          then show ?thesis using gone [OF a(1) True] a(3) by simp
        qed (use a in \<open>auto simp: accs\<close>)
      qed (auto simp: accs)
    qed
  qed
  then show ?thesis using eff by (auto simp: tables_ok_def quiet_def same_balances_def same_traffic_def)
qed

lemma transfers_scan_system:
  assumes run: "PreparedTransferScanner_process_rows E iv rows now d = Inr d'" and ok: "tables_ok d"
  shows "tables_ok d' \<and> quiet d d'"
proof -
  note wf = tables_okD [OF ok]
  obtain ys where
    d': "d' = d\<lparr>db_prepared_transfers := map (mark_reminded (now - iv) now rows) (db_prepared_transfers d),
        db_prepared_transfer_signals := db_prepared_transfer_signals d @ ys\<rparr>"
    using PreparedTransferScanner_InrD [OF run] by blast
  have "changes_agree d'" "deleted_accounts_empty d'"
    using wf by (simp_all add: d' changes_agree_def deleted_accounts_empty_def)
  then show ?thesis using mark_reminded_invariants [OF d'] wf same_accounts_balances [of d' d]
    by (simp add: tables_ok_def quiet_def same_traffic_def) (simp add: d')
qed

lemma changes_scan_system:
  assumes run: "RegisteredBalanceChangeScanner_process_rows cutoff rows d = Inr d'"
    and read: "\<forall>x \<in> set rows. \<forall>r \<in> set (db_registered_balance_changes d).
      registered_balance_change_pk r = registered_balance_change_pk x \<longrightarrow> rbc_committed_at r = rbc_committed_at x"
    and ok: "tables_ok d"
  shows "tables_ok d' \<and> drops cutoff d d'"
proof -
  note wf = tables_okD [OF ok]
  have "drops cutoff d d'"
    unfolding drops_def using RegisteredBalanceChangeScanner_InrD [OF run] read
    by (intro exI [of _ "dropped cutoff rows"]) (fastforce simp: dropped_def)
  then show ?thesis using drop_registrations_invariants [OF run wf(1)] wf by (simp add: tables_ok_def)
qed

section \<open>Every transaction\<close>

lemma transaction_effect:
  assumes "transaction E c d d'" and ok: "tables_ok d" and range: "in_range d"
  shows "tables_ok d' \<and> effect (APP_REGISTERED_BALANCE_CHANGES_RETENTION_DATETIME c) d d'"
  using assms(1)
proof cases
  case configuring
  from configure_system [OF this ok range] show ?thesis by (simp add: effect_def)
next
  case changing_rate
  from rate_and_info_system [OF disjI1 [OF this] ok range] show ?thesis by (simp add: effect_def)
next
  case updating_info
  from rate_and_info_system [OF disjI2 [OF this] ok range] show ?thesis by (simp add: effect_def)
next
  case paying
  from payments_system [OF disjI1 [OF this(1)] ok] this(2) show ?thesis unfolding effect_def by blast
next
  case capitalizing
  from payments_system [OF disjI2 [OF disjI1 [OF this(1)]] ok] this(2) show ?thesis unfolding effect_def by blast
next
  case deleting
  from payments_system [OF disjI2 [OF disjI2 [OF this(1)]] ok] this(2) show ?thesis unfolding effect_def by blast
next
  case requesting
  from requests_system [OF disjI1 [OF this] ok] show ?thesis by (simp add: effect_def)
next
  case requesting_finalization
  from requests_system [OF disjI2 [OF this] ok] show ?thesis by (simp add: effect_def)
next
  case preparing
  from preparing_system [OF this ok] show ?thesis by (simp add: effect_def)
next
  case finalizing
  from finalizing_system [OF this(1) ok] this(2) show ?thesis unfolding effect_def by blast
next
  case receiving
  from receiving_system [OF this ok] show ?thesis unfolding effect_def by blast
next
  case applying
  from applying_system [OF this ok] show ?thesis unfolding effect_def by blast
next
  case scanning_accounts
  from accounts_scan_system [OF this ok] show ?thesis by (simp add: effect_def)
next
  case scanning_transfers
  from transfers_scan_system [OF this ok] show ?thesis by (simp add: effect_def)
next
  case scanning_changes
  from changes_scan_system [OF this ok] show ?thesis by (simp add: effect_def RegisteredBalanceChangeScanner_init_def)
qed

end
