(* ===== verification/SystemProps.thy ===== *)
theory SystemProps
  imports SystemSteps
begin

text \<open>
  The system in time: messages, chores and scans in any order and interleaving, with servers that are restarted under new
  settings in between.  The locale \<open>simulation\<close> is interpreted on its steps, with the ledger as the specification.
\<close>

section \<open>Entry points\<close>

text \<open>
  What makes the server do something: the four messages of the protocol, chores, the command line and the scanners.
  The arguments of a message are arbitrary; only a balance change must be the message of a signal that was sent, its time
  written in a form that \<open>fromisoformat\<close> reads back.  A \<open>ConfigureAccount\<close> message commits up to three times, and
  keeps what it has committed when a later call fails; every other entry point commits once or not at all.
\<close>

inductive entry_point :: "env \<Rightarrow> wire \<Rightarrow> app_config \<Rightarrow> db \<Rightarrow> db \<Rightarrow> bool" for E W c where
  configure_message: "configure_account_actor E c t g i j ts sn na fl dat d = (d', r) \<Longrightarrow> entry_point E W c d d'"
| prepare_message: "prepare_transfer_actor E W http ct cid rid mn mx i j recipient ts delay rate d = Inr d' \<Longrightarrow>
    entry_point E W c d d'"
| finalize_message: "finalize_transfer_actor now i j n ct cid rid amt fmt note ts d = Inr d' \<Longrightarrow> entry_point E W c d d'"
| balance_change_message: "receive_pending_balance_change wr c (pending_balance_change_message s) d = Inr d' \<Longrightarrow>
    s \<in> set (db_pending_balance_change_signals d) \<Longrightarrow>
    fromisoformat (wr (pbs_committed_at s)) = Inr (Aware (pbs_committed_at s)) \<Longrightarrow> entry_point E W c d d'"
| chore: "perform_chore E c now x d = Inr d' \<Longrightarrow>
    APP_REGISTERED_BALANCE_CHANGES_RETENTION_DATETIME c \<le> now \<Longrightarrow> entry_point E W c d d'"
| call: "transaction E c d d' \<Longrightarrow> entry_point E W c d d'"

lemma quiet_trans: "quiet d d1 \<Longrightarrow> quiet d1 d2 \<Longrightarrow> quiet d d2"
  by (simp add: quiet_def same_balances_def same_traffic_def)

lemma quiet_in_range:
  assumes "quiet d d'" and "tables_ok d" and "tables_ok d'" and range: "in_range d"
  shows "in_range d'"
  unfolding in_range_def
proof
  fix a assume "a \<in> set (db_accounts d')"
  then have "get_account_row (acc_debtor_id a) (acc_creditor_id a) d' = Some a"
    unfolding get_account_row_def by (simp add: accs.lookup_iff [OF tables_okD(6) [OF assms(3)]] account_pk_def)
  then have "stored_principal (acc_debtor_id a) (acc_creditor_id a) d' = acc_principal a" by (simp add: stored_principal_def)
  then have "acc_principal a = stored_principal (acc_debtor_id a) (acc_creditor_id a) d"
    using assms(1) by (simp add: quiet_def same_balances_def)
  then show "\<bar>acc_principal a\<bar> < MAX_INT64" using stored_in_range [OF range tables_okD(6) [OF assms(2)]] by simp
qed

lemma configure_actor_cases:
  assumes "configure_account_actor E c t g i j ts sn na fl dat d = (d', r)"
  obtains "d' = d"
  | now its pts delay b d1 where "configure_account E now its i j pts sn na fl dat delay d = Inr (b, d1)"
    "d' = d1 \<or> (\<exists>now r ts. change_interest_rate E now i j r ts delay d1 = Inr d')
      \<or> (\<exists>now r ts d2 now' iri sha ct ts'. change_interest_rate E now i j r ts delay d1 = Inr d2
           \<and> update_debtor_info E now' i j iri sha ct ts' d2 = Inr d')"
proof (cases "check_configure_account i j ts sn fl dat")
  case (Inr pts)
  show ?thesis
  proof (cases "configure_account E (now_configure t) (now_insert t) i j pts sn na fl dat (signalbus_max_delay_seconds c) d")
    case conf: (Inr p)
    obtain b d1 where p: "p = (b, d1)" by fastforce
    have "d' = d1 \<or> (\<exists>now r ts. change_interest_rate E now i j r ts (signalbus_max_delay_seconds c) d1 = Inr d')
      \<or> (\<exists>now r ts d2 now' iri sha ct ts'. change_interest_rate E now i j r ts (signalbus_max_delay_seconds c) d1 = Inr d2
           \<and> update_debtor_info E now' i j iri sha ct ts' d2 = Inr d')"
      using assms by (simp add: configure_account_actor_def configure_and_initialize_account_def committed_def Inr conf p
          Let_def split: sum.splits if_splits option.splits) blast+
    then show ?thesis using that(2) conf p by blast
  qed (use assms that(1) Inr in \<open>simp add: configure_account_actor_def configure_and_initialize_account_def\<close>)
qed (use assms that(1) in \<open>simp add: configure_account_actor_def\<close>)

lemma configure_message_system:
  assumes run: "configure_account_actor E c t g i j ts sn na fl dat d = (d', r)" and ok: "tables_ok d" and range: "in_range d"
  shows "tables_ok d' \<and> quiet d d'"
  using configure_actor_cases [OF run]
proof cases
  case (2 now its pts delay b d1)
  note one = configure_system [OF 2(1) ok range]
  note rg1 = quiet_in_range [OF one [THEN conjunct2] ok one [THEN conjunct1] range]
  note two = rate_and_info_system [OF disjI1 one [THEN conjunct1] rg1]
  from 2(2) show ?thesis
  proof (elim disjE exE conjE)
    fix now r ts d2 now' iri sha ct ts'
    assume a: "change_interest_rate E now i j r ts delay d1 = Inr d2" "update_debtor_info E now' i j iri sha ct ts' d2 = Inr d'"
    note t2 = two [OF a(1)]
    note rg2 = quiet_in_range [OF t2 [THEN conjunct2] one [THEN conjunct1] t2 [THEN conjunct1] rg1]
    show ?thesis using rate_and_info_system [OF disjI2 [OF a(2)] t2 [THEN conjunct1] rg2] t2 one quiet_trans by blast
  qed (use one two quiet_trans in blast)+
qed (use ok in simp)

lemma request_actors_transaction:
  "prepare_transfer_actor E W http ct cid rid mn mx i j recipient ts delay rate d = Inr d' \<Longrightarrow> transaction E c d d'"
  "finalize_transfer_actor now i j n ct cid rid amt fmt note ts d = Inr d' \<Longrightarrow> transaction E c d d'"
  unfolding prepare_transfer_actor_def finalize_transfer_actor_def bindR_eq_Inr
  by (blast intro: transaction.requesting transaction.requesting_finalization)+

lemma receive_is_delivery:
  assumes "receive_pending_balance_change wr c (pending_balance_change_message s) d = Inr d'"
    and "fromisoformat (wr (pbs_committed_at s)) = Inr (Aware (pbs_committed_at s))"
  shows "deliver_change c s d = Inr d'"
  using assms by (simp add: receive_pending_balance_change_def pending_balance_change_message_def deliver_change_def
      on_pending_balance_change_signal_def check_pending_balance_change_def check_ts_def awareR_def monad_simps)

lemma chore_transaction:
  assumes "perform_chore E c now x d = Inr d'" and "APP_REGISTERED_BALANCE_CHANGES_RETENTION_DATETIME c \<le> now"
  shows "d' = d \<or> transaction E c d d'"
  using perform_chore_InrD [OF assms(1)] assms(2)
  by (elim disjE exE) (auto intro: transaction.intros)

lemma entry_point_effect:
  assumes "entry_point E W c d d'" and ok: "tables_ok d" and range: "in_range d"
  shows "tables_ok d' \<and> effect (APP_REGISTERED_BALANCE_CHANGES_RETENTION_DATETIME c) d d'"
proof -
  note by_transaction = transaction_effect [OF _ ok range]
  show ?thesis using assms(1)
  proof cases
    case configure_message
    from configure_message_system [OF this ok range] show ?thesis by (simp add: effect_def)
  next
    case prepare_message
    then show ?thesis by (rule by_transaction [OF request_actors_transaction(1)])
  next
    case finalize_message
    then show ?thesis by (rule by_transaction [OF request_actors_transaction(2)])
  next
    case balance_change_message
    from receive_is_delivery [OF this(1,3)] this(2) show ?thesis by (intro by_transaction transaction.receiving)
  next
    case chore
    from chore_transaction [OF this] show ?thesis
    proof
      assume "d' = d"
      then show ?thesis using ok by (simp add: effect_def)
    qed (rule by_transaction)
  next
    case call
    then show ?thesis by (rule by_transaction)
  qed
qed

section \<open>Steps of the system\<close>

text \<open>
  A restart takes settings that pass \<open>_check_config_sanity\<close>.  What the check protects is the assumption that a balance
  change is delivered within \<open>APP_INTRANET_EXTREME_DELAY_DAYS\<close>: under it the retention time only passes changes that have
  been delivered.  The retention time never moves back (registrations before it may be gone).

  Every state of a run is in range: no principal has been cut off at the limits of its column.
\<close>

type_synonym system = "app_config \<times> db"

definition retention :: "app_config \<Rightarrow> datetime" where
  "retention c = APP_REGISTERED_BALANCE_CHANGES_RETENTION_DATETIME c"

definition delivered_before :: "datetime \<Rightarrow> app_config \<Rightarrow> db \<Rightarrow> bool" where
  "delivered_before ts c d \<longleftrightarrow> (\<forall>s \<in> set (undelivered (retention c) d). ts \<le> pbs_committed_at s)"

inductive system_step :: "env \<Rightarrow> wire \<Rightarrow> system \<Rightarrow> system \<Rightarrow> bool" for E W where
  commit: "entry_point E W c d d' \<Longrightarrow> in_range d \<Longrightarrow> in_range d' \<Longrightarrow> system_step E W (c, d) (c, d')"
| restart: "check_config_sanity now c' = Inr () \<Longrightarrow> retention c \<le> retention c' \<Longrightarrow>
    timedelta_days (APP_INTRANET_EXTREME_DELAY_DAYS c') = Inr delay \<Longrightarrow> delivered_before (now - delay) c d \<Longrightarrow>
    system_step E W (c, d) (c', d)"

definition system_ok :: "system \<Rightarrow> bool" where
  "system_ok S \<longleftrightarrow> tables_ok (snd S) \<and> log_ok (snd S)"

definition ledger_of :: "system \<Rightarrow> ledger" where
  "ledger_of S = book (retention (fst S)) (snd S)"

lemma effect_ledger:
  assumes "effect (retention c) d d'" and "log_ok d" and wf: "tbl_wf account_pk account_ok (db_accounts d')" and range: "in_range d'"
  shows "log_ok d'" "ledger_step (book (retention c) d) (book (retention c) d')"
proof -
  have "log_ok d' \<and> ledger_step (book (retention c) d) (book (retention c) d')"
    using assms(1) unfolding effect_def
  proof (elim disjE exE conjE)
    fix ts i j new assume "retention c \<le> ts" "sends ts i j new d d'"
    then show ?thesis using sends_log_ok sends_book stored_in_range [OF range wf] assms(2) by blast
  next
    fix i j cs assume "credits i j cs d d'"
    then show ?thesis using credits_book stored_in_range [OF range wf] assms(2) by blast
  qed (use quiet_book queues_book drops_book ledger_idle assms(2) in auto)
  then show "log_ok d'" "ledger_step (book (retention c) d) (book (retention c) d')" by simp_all
qed

lemma restart_book:
  assumes "check_config_sanity now c' = Inr ()" and "retention c \<le> retention c'"
    and "timedelta_days (APP_INTRANET_EXTREME_DELAY_DAYS c') = Inr delay" and "delivered_before (now - delay) c d"
  shows "book (retention c') d = book (retention c) d"
proof -
  have "retention c' \<le> now - delay" using sane_config(3) [OF assms(1)] assms(3) by (auto simp: retention_def)
  then have "undelivered (retention c') d = undelivered (retention c) d"
    using assms(2,4) unfolding undelivered_def delivered_before_def by (intro filter_cong) auto
  then show ?thesis by (simp add: book_def)
qed

interpretation sys: simulation "system_step E W" system_ok ledger_of ledger_step for E W
proof unfold_locales
  fix S S' assume step: "system_step E W S S'" and ok: "system_ok S"
  have "system_ok S' \<and> ledger_step (ledger_of S) (ledger_of S')" using step
  proof cases
    case (commit c d d')
    have eff: "tables_ok d' \<and> effect (retention c) d d'"
      using entry_point_effect [OF commit(3) _ commit(4)] ok by (simp add: commit system_ok_def retention_def)
    note wf = tables_okD(6) [OF eff [THEN conjunct1]]
    show ?thesis using effect_ledger [OF eff [THEN conjunct2] _ wf commit(5)] ok eff
      by (simp add: commit(1,2) system_ok_def ledger_of_def)
  next
    case (restart now c' c delay d)
    then show ?thesis using ok restart_book [of now c' c delay d] ledger_idle
      by (simp add: system_ok_def ledger_of_def)
  qed
  then show "system_ok S'" "ledger_step (ledger_of S) (ledger_of S')" by simp_all
qed

lemma ledger_of_finite:
  "finite_ledger (ledger_of S)"
proof -
  have "{k. stored_principal (fst k) (snd k) (snd S) \<noteq> 0} \<subseteq> account_pk ` set (db_accounts (snd S))"
  proof
    fix k assume "k \<in> {k. stored_principal (fst k) (snd k) (snd S) \<noteq> 0}"
    then obtain a where "tbl_lookup account_pk k (db_accounts (snd S)) = Some a"
      by (cases k) (auto simp: stored_principal_def get_account_row_def split: option.splits)
    then show "k \<in> account_pk ` set (db_accounts (snd S))" by (auto simp: tbl_lookup_def find_Some_iff)
  qed
  then show ?thesis by (auto simp: finite_ledger_def ledger_of_def book_def intro: finite_subset)
qed

lemma run_money:
  assumes "(system_step E W)\<^sup>*\<^sup>* S S'" and "system_ok S"
  shows "money i (ledger_of S') = money i (ledger_of S)"
proof -
  have "finite_ledger (ledger_of S') \<and> money i (ledger_of S') = money i (ledger_of S)"
    by (rule sys.run_keeps [OF assms, where P = "\<lambda>L. finite_ledger L \<and> money i L = money i (ledger_of S)"])
      (use ledger_step_finite ledger_step_money ledger_of_finite in auto)
  then show ?thesis by blast
qed

section \<open>A sample run\<close>

lemma in_range_step:
  assumes range: "in_range d" and wf: "tables_ok d" "tables_ok d'" and only: "only_row (i, j) (db_accounts d) (db_accounts d')"
    and "\<bar>stored_principal i j d'\<bar> < MAX_INT64"
  shows "in_range d'"
  unfolding in_range_def
proof
  fix a assume "a \<in> set (db_accounts d')"
  then have "get_account_row (acc_debtor_id a) (acc_creditor_id a) d' = Some a"
    unfolding get_account_row_def by (simp add: accs.lookup_iff [OF tables_okD(6) [OF wf(2)]] account_pk_def)
  then have a: "stored_principal (acc_debtor_id a) (acc_creditor_id a) d' = acc_principal a" by (simp add: stored_principal_def)
  show "\<bar>acc_principal a\<bar> < MAX_INT64"
  proof (cases "account_pk a = (i, j)")
    case True
    then show ?thesis using a assms(5) by (simp add: account_pk_def)
  next
    case False
    then show ?thesis using a other_balance [OF only False] stored_in_range [OF range tables_okD(6) [OF wf(1)]]
      by (simp add: account_pk_def)
  qed
qed

lemma sample_system_ok:
  "tables_ok sample_finalization_db" "log_ok sample_finalization_db" "in_range sample_finalization_db"
  "stored_principal 1 2 sample_finalization_db = 1000"
  "db_registered_balance_changes sample_finalization_db = []" "db_pending_balance_changes sample_finalization_db = []"
proof -
  have tables: "db_registered_balance_changes sample_finalization_db = []" "db_pending_balance_changes sample_finalization_db = []"
      "db_accounts sample_finalization_db = [sample_account 0 (- 1000), lock_amount 600 (sample_account 2 1000)]"
    by (simp_all add: sample_finalization_db_def sample_prepared_db_def sample_requests_db_def sample_db_def empty_db_def)
  then show "db_registered_balance_changes sample_finalization_db = []" "db_pending_balance_changes sample_finalization_db = []"
    by simp_all
  show "log_ok sample_finalization_db" by (simp add: log_ok_def sample_finalization_tables tables)
  show "tables_ok sample_finalization_db" using sample_finalization_invariant tables
    by (simp add: tables_ok_def changes_agree_def deleted_accounts_empty_def is_deleted_def lock_amount_def)
  show "in_range sample_finalization_db" by (simp add: in_range_def tables int_bounds)
  show "stored_principal 1 2 sample_finalization_db = 1000"
    using get_account_stored [OF sample_finalization_account] by simp
qed

text \<open>Two weeks after the samples, the server is restarted with the retention time moved to the time of the samples.\<close>

definition sample_restarted :: app_config where
  "sample_restarted = Configuration\<lparr>APP_REGISTERED_BALANCE_CHANGES_RETENTION_DATETIME := sample_ts\<rparr>"

lemma sample_restart:
  assumes "db_pending_balance_change_signals d = [sample_change_signal]"
  shows "system_step E W (Configuration, d) (sample_restarted, d)"
proof (rule system_step.restart [where now = "sample_ts + 14 * microseconds_per_day" and delay = "14 * microseconds_per_day"])
  have "timedelta_days (Fin 14) = Inr (14 * microseconds_per_day)" using timedelta_days_whole [of 14] by simp
  then show "timedelta_days (APP_INTRANET_EXTREME_DELAY_DAYS sample_restarted) = Inr (14 * microseconds_per_day)"
    "check_config_sanity (sample_ts + 14 * microseconds_per_day) sample_restarted = Inr ()"
    using default_ratio by (simp_all add: check_config_sanity_def sample_restarted_def Configuration_def datetime_sub_def
        datetime_add_def sample_ts_def DATETIME_MIN_def DATETIME_MAX_def)
  show "retention Configuration \<le> retention sample_restarted"
    by (simp add: retention_def sample_restarted_def Configuration_def T0_def sample_ts_def)
  show "delivered_before (sample_ts + 14 * microseconds_per_day - 14 * microseconds_per_day) Configuration d"
    by (simp add: delivered_before_def undelivered_def assms sample_change_signal_def recipient_change_signal_def)
qed

lemma sample_system_run:
  "\<exists>d. (system_step sample_env sample_wire)\<^sup>*\<^sup>* (Configuration, sample_finalization_db) (sample_restarted, d)
    \<and> stored_principal 1 2 d = 400 \<and> map pbc_principal_delta (db_pending_balance_changes d) = [600]"
proof -
  obtain d1 where d1: "process_finalization_requests sample_env (\<lambda>_. False) sample_ts 1 2 sample_finalization_db = Inr d1"
      "db_pending_balance_change_signals d1 = [sample_change_signal]"
    using sample_finalization_signals by blast
  have fin: "transaction sample_env Configuration sample_finalization_db d1"
    by (rule transaction.finalizing [OF d1(1)]) (simp add: Configuration_def T0_def sample_ts_def)
  have "\<not> quiet sample_finalization_db d1"
    using d1(2) by (simp add: quiet_def same_traffic_def sample_finalization_tables)
  then obtain new where ok1: "tables_ok d1" and sends: "sends sample_ts 1 2 new sample_finalization_db d1"
    using finalizing_system [OF d1(1) sample_system_ok(1)] by blast
  have new: "new = [sample_change_signal]" using sends d1(2) by (simp add: sends_def sample_finalization_tables)
  obtain outs b where b: "\<forall>x \<in> set outs. outcome_ok x" "get_account_row 1 2 d1 = Some b"
      "db_pending_balance_change_signals d1 = number_changes (db_next_change_id sample_finalization_db) (change_signals sample_ts outs)"
      "finalized_account sample_env sample_ts sample_finalization_db d1 (lock_amount 600 (sample_account 2 1000)) b (total out_amount outs)"
    using finalization_result [OF d1(1) sample_finalization_invariant(1) sample_finalization_account]
    by (auto simp: sample_finalization_tables)
  have "total out_amount outs = total pbs_principal_delta [sample_change_signal]"
    using total_change_signals [OF b(1), of sample_ts] b(3) d1(2) by (metis total_number_changes)
  then have "total out_amount outs = 600" by (simp add: sample_change_signal_def recipient_change_signal_def)
  then have "stored_principal 1 2 d1 = contain_principal_overflow 400"
    using b(2,4) by (simp add: stored_principal_def finalized_account_def)
  then have p1: "stored_principal 1 2 d1 = 400" using contained(2) [of 400] by (simp add: int_bounds)
  have range1: "in_range d1"
    by (rule in_range_step [OF sample_system_ok(3,1) ok1, of 1 2]) (use sends p1 in \<open>simp_all add: sends_def int_bounds\<close>)
  obtain d2 where d2: "deliver_change Configuration sample_change_signal d1 = Inr d2" "db_accounts d2 = db_accounts d1"
      "map pbc_principal_delta (db_pending_balance_changes d2) = [600]"
      "db_pending_balance_change_signals d2 = db_pending_balance_change_signals d1"
    using sends unfolding sends_def sample_system_ok sample_finalization_tables
    by (auto simp: deliver_change_def insert_pending_balance_change_def tbl_lookup_def
        sample_change_signal_def recipient_change_signal_def sample_finalization_def sample_row_def prepared_transfer_row_def
        sample_request_def insert_registered_balance_change_def insert_pending_change_row_def tbl_insert_def
        registered_balance_change_ok_def pending_balance_change_ok_def registered_balance_change_fits_def
        pending_balance_change_fits_def is_int64_def assertR_def int_bounds Configuration_def T0_def sample_ts_def
        CT_DIRECT_def dataR_def integrityR_def registered_balance_change_pk_def pending_balance_change_pk_def)
  have "fromisoformat (isoformat sample_ts) = Inr (Aware sample_ts)"
    by (rule isoformat_roundtrip) (simp_all add: sample_ts_def DATETIME_MIN_def DATETIME_MAX_def)
  moreover have sig: "deliverable sample_change_signal" "pbs_committed_at sample_change_signal = sample_ts"
    by (simp_all add: deliverable_def sample_change_signal_def recipient_change_signal_def sample_finalization_def
        sample_row_def prepared_transfer_row_def sample_request_def is_int64_def int_bounds CT_DIRECT_def isascii_def
        RE_TRANSFER_NOTE_FORMAT_def match_anchored_def check_max_bytes_def encode_utf8_def assertR_def sample_ts_def T0_def)
  ultimately have "entry_point sample_env sample_wire Configuration d1 d2"
    using d2(1) d1(2) by (intro entry_point.balance_change_message [where s = sample_change_signal and wr = isoformat])
      (simp_all add: receive_deliverable)
  moreover have "stored_principal 1 2 d2 = 400" "in_range d2"
    using p1 range1 by (simp_all add: in_range_def stored_principal_def get_account_row_def d2(2))
  ultimately have "system_step sample_env sample_wire (Configuration, d1) (Configuration, d2)"
    "stored_principal 1 2 d2 = 400" using range1 by (auto intro: system_step.commit)
  moreover have "system_step sample_env sample_wire (Configuration, sample_finalization_db) (Configuration, d1)"
    using fin sample_system_ok(3) range1 by (intro system_step.commit entry_point.call)
  moreover have "system_step sample_env sample_wire (Configuration, d2) (sample_restarted, d2)"
    by (rule sample_restart) (simp add: d2(4) d1(2))
  ultimately show ?thesis using d2(3) by (meson rtranclp.rtrancl_into_rtrancl rtranclp.rtrancl_refl)
qed

section \<open>Properties of every run\<close>

text \<open>
  C6. The invariants of the tables hold in every state that the system reaches: whatever messages, chores, commands
  and scans commit, in whatever order, keys stay unique, CHECK constraints and foreign keys hold, the locks of prepared
  transfers stay within the lock fields of their accounts, transfer IDs and change IDs are never used twice, the register of
  balance changes agrees with the queue, deleted accounts are empty, and nothing is registered that was not sent.
\<close>

theorem system_keeps_invariants:
  assumes "(system_step E W)\<^sup>*\<^sup>* (c, d) (c', d')" and "tables_ok d" and "log_ok d"
  shows "tables_ok d' \<and> log_ok d'"
  using sys.run_preserves [OF assms(1)] assms(2,3) by (simp add: system_ok_def)

theorem system_keeps_invariants_witness:
  "\<exists>d. tables_ok d \<and> log_ok d \<and> db_pending_balance_changes d \<noteq> [] \<and> stored_principal 1 2 d = 400"
proof -
  obtain d where d: "(system_step sample_env sample_wire)\<^sup>*\<^sup>* (Configuration, sample_finalization_db) (sample_restarted, d)"
      "stored_principal 1 2 d = 400" "map pbc_principal_delta (db_pending_balance_changes d) = [600]"
    using sample_system_run by (elim exE conjE)
  have "db_pending_balance_changes d \<noteq> []" using d(3) by (cases "db_pending_balance_changes d") simp_all
  with system_keeps_invariants [OF d(1) sample_system_ok(1,2)] d(2) show ?thesis by blast
qed

text \<open>
  C5. Every run of the system implements the ledger: seen through the principals of the accounts and the balance changes that
  have been sent but not applied, each commit is a payment into transit, an arrival from transit, or nothing.
  A balance change that is delivered more than once, or after its registration has been dropped, is nothing.
\<close>

theorem system_refines_ledger:
  assumes "(system_step E W)\<^sup>*\<^sup>* (c, d) (c', d')" and "tables_ok d" and "log_ok d"
  shows "ledger_step\<^sup>*\<^sup>* (book (retention c) d) (book (retention c') d')"
  using sys.run_simulates [OF assms(1)] assms(2,3) by (simp add: system_ok_def ledger_of_def)

theorem system_refines_ledger_witness:
  "\<exists>L. ledger_step\<^sup>*\<^sup>* (book T0 sample_finalization_db) L \<and> bal L (1, 2) = 400"
proof -
  obtain d where d: "(system_step sample_env sample_wire)\<^sup>*\<^sup>* (Configuration, sample_finalization_db) (sample_restarted, d)"
      "stored_principal 1 2 d = 400"
    using sample_system_run by blast
  have "retention Configuration = T0" by (simp add: retention_def Configuration_def)
  with system_refines_ledger [OF d(1) sample_system_ok(1,2)] d(2) show ?thesis
    by (intro exI [of _ "book (retention sample_restarted) d"]) (simp add: book_def)
qed

text \<open>
  C2. Money is conserved: for every debtor, the sum of the principals of all accounts (the account of the debtor, which
  issues the money, included) and of the balance changes in transit is the same in every state that the system reaches.
\<close>

theorem money_conserved:
  assumes "(system_step E W)\<^sup>*\<^sup>* (c, d) (c', d')" and "tables_ok d" and "log_ok d"
  shows "money i (book (retention c') d') = money i (book (retention c) d)"
  using run_money [OF assms(1)] assms(2,3) by (simp add: system_ok_def ledger_of_def)

theorem money_conserved_witness:
  "\<exists>d. stored_principal 1 2 d = 400 \<and> map pbc_principal_delta (db_pending_balance_changes d) = [600]
    \<and> money 1 (book sample_ts d) = money 1 (book T0 sample_finalization_db)"
proof -
  obtain d where d: "(system_step sample_env sample_wire)\<^sup>*\<^sup>* (Configuration, sample_finalization_db) (sample_restarted, d)"
      "stored_principal 1 2 d = 400" "map pbc_principal_delta (db_pending_balance_changes d) = [600]"
    using sample_system_run by (elim exE conjE)
  have ret: "retention Configuration = T0" "retention sample_restarted = sample_ts"
    by (simp_all add: retention_def Configuration_def sample_restarted_def)
  show ?thesis using d(2,3) money_conserved [OF d(1) sample_system_ok(1,2), of 1, unfolded ret]
    by (intro exI [of _ d] conjI)
qed

end
