(* ===== verification/CliProps.thy ===== *)
theory CliProps
  imports Cli SystemProps
begin

text \<open>
  Correctness of the worker pool that processes requests and balance changes, and of the commands that start it.
\<close>

section \<open>What the workers do is what the system does\<close>

lemma attempt_cases: "attempt r d = (ok, d') \<Longrightarrow> \<not> ok \<and> d' = d \<or> ok \<and> r = Inr d'"
  by (cases r) (auto simp: attempt_def)

lemma workers_transaction:
  "balance_changes_func E i a d = (ok, d') \<Longrightarrow> d' = d \<or> transaction E c d d'"
  "transfer_requests_func E j b d = (ok, d') \<Longrightarrow> d' = d \<or> transaction E c d d'"
  "finalization_requests_func E k a d = (ok, d') \<Longrightarrow> retention c \<le> snd k \<Longrightarrow> d' = d \<or> transaction E c d d'"
  by (auto simp: balance_changes_func_def transfer_requests_func_def finalization_requests_func_def retention_def
      split: prod.splits dest!: attempt_cases intro: transaction.applying transaction.preparing transaction.finalizing)

section \<open>A sample run of \<open>process_finalization_requests --quit-early\<close>\<close>

definition sample_processor :: processor where
  "sample_processor = \<lparr>threads = 1, wait_seconds = Fin 5, max_count = 500000\<rparr>"

lemma sample_processor_starts:
  "process_finalization_requests_command sample_wire (\<lambda>_. None) None None Configuration = Inr sample_processor"
  by (simp add: process_finalization_requests_command_def start_processor_def sample_processor_def Configuration_def
      py_int_def to_ascii_def isascii_def strip_spaces_def is_space_def)

abbreviation sample_pool_step :: "(int \<times> int, db) pool \<Rightarrow> (int \<times> int, db) pool \<Rightarrow> bool" where
  "sample_pool_step \<equiv> pool_step (finalization_requests_args sample_processor) (finalization_requests_func sample_env) (\<lambda>_ _. False) True"

lemma sample_pool_run:
  "\<exists>S. sample_pool_step\<^sup>*\<^sup>* (ThreadPoolProcessor_init sample_finalization_db) S
    \<and> main_thread S = Closed \<and> called S = [(1, 2)]
    \<and> db_pending_balance_change_signals (world S) = [sample_change_signal]"
proof -
  let ?d = sample_finalization_db and ?st = "\<lambda>n k m ts rs w as. \<lparr>pending = n, error_has_occurred = False, iteration_counter = k,
    main_thread = m, callback_thread = Ready, tasks = ts, results = rs, world = w, collected = [(1, 2)], called = as\<rparr>
      :: (int \<times> int, db) pool"
  obtain d where d: "process_finalization_requests sample_env (\<lambda>_. False) sample_ts 1 2 ?d = Inr d"
      "db_pending_balance_change_signals d = [sample_change_signal]"
    using sample_finalization_signals by blast
  have args: "finalization_requests_args sample_processor ?d = [(1, 2)]"
    by (simp add: finalization_requests_args_def get_accounts_with_finalization_requests_def sample_processor_def
        sample_finalization_db_def sample_finalization_def)
  have "sample_pool_step (ThreadPoolProcessor_init ?d) (?st 1 1 (Submitting [(1, 2)]) [] [] ?d [])"
    by (rule pool_step_eq [OF pool_step.iterate]) (simp_all add: ThreadPoolProcessor_init_def next_iteration_def args Let_def)
  moreover have "sample_pool_step (?st 1 1 (Submitting [(1, 2)]) [] [] ?d []) (?st 1 1 (Submitting []) [(1, 2)] [] ?d [])"
    by (rule pool_step_eq [OF pool_step.submit]) simp_all
  moreover have "sample_pool_step (?st 1 1 (Submitting []) [(1, 2)] [] ?d []) (?st 1 1 Check_done [(1, 2)] [] ?d [])"
    by (rule pool_step_eq [OF pool_step.submitted]) simp_all
  moreover have "sample_pool_step (?st 1 1 Check_done [(1, 2)] [] ?d []) (?st 1 1 Asleep [(1, 2)] [] ?d [])"
    by (rule pool_step_eq [OF pool_step.wait]) (simp_all add: wait_until_all_done_def)
  moreover have "sample_pool_step (?st 1 1 Asleep [(1, 2)] [] ?d []) (?st 1 1 Asleep [] [True] d [(1, 2)])"
    by (rule pool_step_eq [OF pool_step.work [where xs = "[]" and a = "(1, 2)" and ys = "[]" and i = "(\<lambda>_. False, sample_ts)"
          and ok = True and w = d]]) (simp_all add: finalization_requests_func_def attempt_def d(1))
  moreover have "sample_pool_step (?st 1 1 Asleep [] [True] d [(1, 2)]) (?st 0 1 Check_done [] [] d [(1, 2)])"
    by (rule pool_step_eq [OF pool_step.succeed]) (simp_all add: mark_done_def)
  moreover have "sample_pool_step (?st 0 1 Check_done [] [] d [(1, 2)]) (?st 0 1 Pausing [] [] d [(1, 2)])"
    by (rule pool_step_eq [OF pool_step.wait]) (simp_all add: wait_until_all_done_def)
  moreover have "sample_pool_step (?st 0 1 Pausing [] [] d [(1, 2)]) (?st 0 1 Loop_test [] [] d [(1, 2)])"
    by (rule pool_step_eq [OF pool_step.resume]) simp_all
  moreover have "sample_pool_step (?st 0 1 Loop_test [] [] d [(1, 2)]) (?st 0 1 Closed [] [] d [(1, 2)])"
    by (rule pool_step_eq [OF pool_step.iterate]) (simp_all add: next_iteration_def)
  ultimately have "sample_pool_step\<^sup>*\<^sup>* (ThreadPoolProcessor_init ?d) (?st 0 1 Closed [] [] d [(1, 2)])"
    by (meson converse_rtranclp_into_rtranclp rtranclp.rtrancl_refl)
  then show ?thesis using d(2) by (intro exI [of _ "?st 0 1 Closed [] [] d [(1, 2)]"]) simp
qed

section \<open>Properties of the worker pool\<close>

text \<open>
  C34. In every interleaving of the main thread, the workers, the callbacks and other processes, \<open>pending\<close> is
  the number of calls whose callback has not run: the assertion in \<open>_wait_until_all_done\<close> never fails, the main thread never sleeps
  without a callback that will wake it, and when an iteration is over the workers have been called once with each argument
  that was collected for it, and with nothing else.
\<close>

theorem pool_calls_each_once:
  assumes "(pool_step get_args func interferes quit_early)\<^sup>*\<^sup>* (ThreadPoolProcessor_init w) S"
  shows "main_thread S \<noteq> Failed
    \<and> pending S = int (length (remaining (main_thread S)) + length (tasks S) + length (results S))
    \<and> (main_thread S = Asleep \<longrightarrow> tasks S \<noteq> [] \<or> results S \<noteq> [])
    \<and> (main_thread S \<in> {Pausing, Loop_test, Closed} \<longrightarrow> mset (called S) = mset (collected S))"
proof -
  have ok: "pool_ok S" by (rule pool_ok_run [OF assms pool_ok_init])
  then have "tasks S = []" if "main_thread S \<in> {Pausing, Loop_test, Closed}"
    using that by (auto simp: pool_ok_def)
  then show ?thesis using ok by (auto simp: pool_ok_def)
qed

theorem pool_calls_each_once_witness:
  "\<exists>S. sample_pool_step\<^sup>*\<^sup>* (ThreadPoolProcessor_init sample_finalization_db) S \<and> main_thread S = Closed
    \<and> mset (collected S) = {#(1, 2)#} \<and> db_pending_balance_change_signals (world S) = [sample_change_signal]"
proof -
  obtain S where S: "sample_pool_step\<^sup>*\<^sup>* (ThreadPoolProcessor_init sample_finalization_db) S" "main_thread S = Closed"
      "called S = [(1, 2)]" "db_pending_balance_change_signals (world S) = [sample_change_signal]"
    using sample_pool_run by (elim exE conjE)
  from pool_calls_each_once [OF S(1)] S show ?thesis by auto
qed

text \<open>
  C35. A command that is started with \<open>--quit-early\<close> ends: no run of its threads goes on forever, and a run can only stop where the
  main thread has left the loop, whether calls fail or not.
\<close>

theorem quit_early_ends:
  "\<not> (\<exists>S. \<forall>n. pool_step get_args func (\<lambda>_ _. False) True (S n) (S (Suc n)))
   \<and> {S. (pool_step get_args func (\<lambda>_ _. False) True)\<^sup>*\<^sup>* (ThreadPoolProcessor_init w) S
         \<and> (\<nexists>S'. pool_step get_args func (\<lambda>_ _. False) True S S')} \<subseteq> {S. main_thread S = Closed}"
proof
  show "\<not> (\<exists>S. \<forall>n. pool_step get_args func (\<lambda>_ _. False) True (S n) (S (Suc n)))"
  proof
    assume "\<exists>S. \<forall>n. pool_step get_args func (\<lambda>_ _. False) True (S n) (S (Suc n))"
    then obtain S where "\<forall>n. pool_step get_args func (\<lambda>_ _. False) True (S n) (S (Suc n))" ..
    then have "\<forall>n. (S (Suc n), S n) \<in> measures [\<lambda>S. if iteration_counter S = 0 then 1 else 0, work_left]"
      by (blast intro: pool_step_decreases)
    then show False using wf_measures unfolding wf_iff_no_infinite_down_chain by blast
  qed
  show "{S. (pool_step get_args func (\<lambda>_ _. False) True)\<^sup>*\<^sup>* (ThreadPoolProcessor_init w) S
         \<and> (\<nexists>S'. pool_step get_args func (\<lambda>_ _. False) True S S')} \<subseteq> {S. main_thread S = Closed}"
  proof (intro subsetI CollectI, elim CollectE conjE)
    fix S assume S: "(pool_step get_args func (\<lambda>_ _. False) True)\<^sup>*\<^sup>* (ThreadPoolProcessor_init w) S"
      and stuck: "\<nexists>S'. pool_step get_args func (\<lambda>_ _. False) True S S'"
    have "pool_ok S" by (rule pool_ok_run [OF S pool_ok_init])
    from pool_progress [OF this, of get_args func True] stuck show "main_thread S = Closed" by blast
  qed
qed

text \<open>
  A failed call is meant to stop the processor after the iteration.  The callback counts the call as done before it sets the
  flag, so the main thread can wake, find no error, and start another iteration.
\<close>

lemma iteration_after_failure:
  "\<exists>S. (pool_step (\<lambda>_. [()]) (\<lambda>(i :: unit) a w. (False, w)) (\<lambda>_ _. False) False)\<^sup>*\<^sup>* (ThreadPoolProcessor_init ()) S
     \<and> iteration_counter S = 2 \<and> callback_thread S = Logging \<and> main_thread S = Submitting [()]"
proof -
  let ?step = "pool_step (\<lambda>_. [()]) (\<lambda>(i :: unit) a w. (False, w)) (\<lambda>_ _. False) False"
  let ?st = "\<lambda>n k m cb ts rs as. \<lparr>pending = n, error_has_occurred = False, iteration_counter = k, main_thread = m,
    callback_thread = cb, tasks = ts, results = rs, world = (), collected = [()], called = as\<rparr> :: (unit, unit) pool"
  have "?step (ThreadPoolProcessor_init ()) (?st 1 1 (Submitting [()]) Ready [] [] [])"
    by (rule pool_step_eq [OF pool_step.iterate]) (simp_all add: ThreadPoolProcessor_init_def next_iteration_def Let_def)
  moreover have "?step (?st 1 1 (Submitting [()]) Ready [] [] []) (?st 1 1 (Submitting []) Ready [()] [] [])"
    by (rule pool_step_eq [OF pool_step.submit]) simp_all
  moreover have "?step (?st 1 1 (Submitting []) Ready [()] [] []) (?st 1 1 (Submitting []) Ready [] [False] [()])"
    by (rule pool_step_eq [OF pool_step.work [where xs = "[]" and a = "()" and ys = "[]" and ok = False and w = "()"]]) simp_all
  moreover have "?step (?st 1 1 (Submitting []) Ready [] [False] [()]) (?st 0 1 (Submitting []) Logging [] [] [()])"
    by (rule pool_step_eq [OF pool_step.fail]) (simp_all add: mark_done_def)
  moreover have "?step (?st 0 1 (Submitting []) Logging [] [] [()]) (?st 0 1 Check_done Logging [] [] [()])"
    by (rule pool_step_eq [OF pool_step.submitted]) simp_all
  moreover have "?step (?st 0 1 Check_done Logging [] [] [()]) (?st 0 1 Pausing Logging [] [] [()])"
    by (rule pool_step_eq [OF pool_step.wait]) (simp_all add: wait_until_all_done_def)
  moreover have "?step (?st 0 1 Pausing Logging [] [] [()]) (?st 0 1 Loop_test Logging [] [] [()])"
    by (rule pool_step_eq [OF pool_step.resume]) simp_all
  moreover have "?step (?st 0 1 Loop_test Logging [] [] [()]) (?st 1 2 (Submitting [()]) Logging [] [] [])"
    by (rule pool_step_eq [OF pool_step.iterate]) (simp_all add: next_iteration_def Let_def)
  ultimately have "?step\<^sup>*\<^sup>* (ThreadPoolProcessor_init ()) (?st 1 2 (Submitting [()]) Logging [] [] [])"
    by (meson converse_rtranclp_into_rtranclp rtranclp.rtrancl_refl)
  then show ?thesis by (intro exI [of _ "?st 1 2 (Submitting [()]) Logging [] [] []"]) simp
qed

end
