(* ===== verification/AppFactory.thy ===== *)
theory AppFactory
  imports AppSetup
begin

text \<open>
  \<open>create_app\<close> of \<open>swpt_accounts/__init__.py\<close>: the settings of an application, taken from its argument, the environment and the
  defaults, and the check they must pass.  The record \<open>app_config\<close> that the other theories use is what these settings say.
\<close>

section \<open>The application factory\<close>

text \<open>
  The settings of an application are a mapping from names to values.  An integer can stand where a float is expected: Python
  compares the two exactly.
\<close>

definition setting_of :: "(pystr \<rightharpoonup> setting) \<Rightarrow> pystr \<Rightarrow> setting result" where
  "setting_of c key = (case c key of None \<Rightarrow> Inl KeyError | Some v \<Rightarrow> Inr v)"

fun number_of :: "setting \<Rightarrow> pyfloat result" where
  "number_of (Float_setting x) = Inr x"
| "number_of (Int_setting n) = Inr (Fin (of_int n))"
| "number_of _ = Inl TypeError"

fun integer_of :: "setting \<Rightarrow> int result" where
  "integer_of (Int_setting n) = Inr n"
| "integer_of _ = Inl TypeError"

fun time_of :: "setting \<Rightarrow> datetime result" where
  "time_of (Datetime_setting ts) = Inr ts"
| "time_of _ = Inl TypeError"

definition number_setting :: "(pystr \<rightharpoonup> setting) \<Rightarrow> string \<Rightarrow> pyfloat result" where
  "number_setting c key = bindR (setting_of c (lit key)) number_of"

definition int_setting :: "(pystr \<rightharpoonup> setting) \<Rightarrow> string \<Rightarrow> int result" where
  "int_setting c key = bindR (setting_of c (lit key)) integer_of"

definition datetime_setting :: "(pystr \<rightharpoonup> setting) \<Rightarrow> string \<Rightarrow> datetime result" where
  "datetime_setting c key = bindR (setting_of c (lit key)) time_of"

text \<open>\<open>_check_config_sanity\<close> on the settings, and the record that the other theories take.\<close>

definition check_settings :: "datetime \<Rightarrow> (pystr \<rightharpoonup> setting) \<Rightarrow> unit result" where
  "check_settings now c =
     bindR (number_setting c ''APP_PREPARED_TRANSFER_MAX_DELAY_DAYS'') (\<lambda>max_delay.
     bindR (number_setting c ''APP_SIGNALBUS_MAX_DELAY_DAYS'') (\<lambda>signalbus_delay.
     if flt max_delay signalbus_delay then Inl RuntimeError else
     bindR (number_setting c ''APP_MAX_INTEREST_TO_PRINCIPAL_RATIO'') (\<lambda>ratio.
     if \<not> (flt (Fin 0) ratio \<and> fle ratio (rnd64 (1 / 10))) then Inl RuntimeError else
     bindR (number_setting c ''APP_MIN_INTEREST_CAPITALIZATION_DAYS'') (\<lambda>capitalization_days.
     if flt (Fin 92) capitalization_days then Inl RuntimeError else
     bindR (number_setting c ''APP_ACCOUNTS_SCAN_HOURS'') (\<lambda>scan_hours.
     if flt (Fin 48) scan_hours then Inl RuntimeError else
     bindR (datetime_setting c ''APP_REGISTERED_BALANCE_CHANGES_RETENTION_DATETIME'') (\<lambda>retention.
     bindR (number_setting c ''APP_INTRANET_EXTREME_DELAY_DAYS'') (\<lambda>delay_days.
     bindR (timedelta_days delay_days) (\<lambda>extreme_delay.
     bindR (datetime_sub now extreme_delay) (\<lambda>latest.
     if latest < retention then Inl RuntimeError else Inr ())))))))))"

definition config_of :: "(pystr \<rightharpoonup> setting) \<Rightarrow> app_config result" where
  "config_of c =
     bindR (int_setting c ''APP_PROCESS_BALANCE_CHANGES_THREADS'') (\<lambda>x0.
     bindR (number_setting c ''APP_PROCESS_BALANCE_CHANGES_WAIT'') (\<lambda>x1.
     bindR (int_setting c ''APP_PROCESS_BALANCE_CHANGES_MAX_COUNT'') (\<lambda>x2.
     bindR (int_setting c ''APP_PROCESS_TRANSFER_REQUESTS_THREADS'') (\<lambda>x3.
     bindR (number_setting c ''APP_PROCESS_TRANSFER_REQUESTS_WAIT'') (\<lambda>x4.
     bindR (int_setting c ''APP_PROCESS_TRANSFER_REQUESTS_MAX_COUNT'') (\<lambda>x5.
     bindR (int_setting c ''APP_PROCESS_FINALIZATION_REQUESTS_THREADS'') (\<lambda>x6.
     bindR (number_setting c ''APP_PROCESS_FINALIZATION_REQUESTS_WAIT'') (\<lambda>x7.
     bindR (int_setting c ''APP_PROCESS_FINALIZATION_REQUESTS_MAX_COUNT'') (\<lambda>x8.
     bindR (int_setting c ''APP_FLUSH_REJECTED_TRANSFERS_BURST_COUNT'') (\<lambda>x9.
     bindR (int_setting c ''APP_FLUSH_PREPARED_TRANSFERS_BURST_COUNT'') (\<lambda>x10.
     bindR (int_setting c ''APP_FLUSH_FINALIZED_TRANSFERS_BURST_COUNT'') (\<lambda>x11.
     bindR (int_setting c ''APP_FLUSH_ACCOUNT_TRANSFERS_BURST_COUNT'') (\<lambda>x12.
     bindR (int_setting c ''APP_FLUSH_ACCOUNT_UPDATES_BURST_COUNT'') (\<lambda>x13.
     bindR (int_setting c ''APP_FLUSH_ACCOUNT_PURGES_BURST_COUNT'') (\<lambda>x14.
     bindR (int_setting c ''APP_FLUSH_REJECTED_CONFIGS_BURST_COUNT'') (\<lambda>x15.
     bindR (int_setting c ''APP_FLUSH_PENDING_BALANCE_CHANGES_BURST_COUNT'') (\<lambda>x16.
     bindR (number_setting c ''APP_ACCOUNTS_SCAN_HOURS'') (\<lambda>x17.
     bindR (number_setting c ''APP_PREPARED_TRANSFERS_SCAN_DAYS'') (\<lambda>x18.
     bindR (number_setting c ''APP_REGISTERED_BALANCE_CHANGES_SCAN_DAYS'') (\<lambda>x19.
     bindR (number_setting c ''APP_INTRANET_EXTREME_DELAY_DAYS'') (\<lambda>x20.
     bindR (number_setting c ''APP_SIGNALBUS_MAX_DELAY_DAYS'') (\<lambda>x21.
     bindR (number_setting c ''APP_ACCOUNT_HEARTBEAT_DAYS'') (\<lambda>x22.
     bindR (number_setting c ''APP_PREPARED_TRANSFER_REMAINDER_DAYS'') (\<lambda>x23.
     bindR (number_setting c ''APP_PREPARED_TRANSFER_MAX_DELAY_DAYS'') (\<lambda>x24.
     bindR (number_setting c ''APP_FETCH_API_TIMEOUT_SECONDS'') (\<lambda>x25.
     bindR (number_setting c ''APP_FETCH_DNS_CACHE_SECONDS'') (\<lambda>x26.
     bindR (int_setting c ''APP_FETCH_CONNECTIONS'') (\<lambda>x27.
     bindR (int_setting c ''APP_FETCH_DATA_CACHE_SIZE'') (\<lambda>x28.
     bindR (number_setting c ''APP_MIN_INTEREST_CAPITALIZATION_DAYS'') (\<lambda>x29.
     bindR (number_setting c ''APP_MAX_INTEREST_TO_PRINCIPAL_RATIO'') (\<lambda>x30.
     bindR (number_setting c ''APP_DELETION_ATTEMPTS_MIN_DAYS'') (\<lambda>x31.
     bindR (int_setting c ''APP_ACCOUNTS_SCAN_BLOCKS_PER_QUERY'') (\<lambda>x32.
     bindR (int_setting c ''APP_ACCOUNTS_SCAN_BEAT_MILLISECS'') (\<lambda>x33.
     bindR (int_setting c ''APP_PREPARED_TRANSFERS_SCAN_BLOCKS_PER_QUERY'') (\<lambda>x34.
     bindR (int_setting c ''APP_PREPARED_TRANSFERS_SCAN_BEAT_MILLISECS'') (\<lambda>x35.
     bindR (int_setting c ''APP_REGISTERED_BALANCE_CHANGES_SCAN_BLOCKS_PER_QUERY'') (\<lambda>x36.
     bindR (int_setting c ''APP_REGISTERED_BALANCE_CHANGES_SCAN_BEAT_MILLISECS'') (\<lambda>x37.
     bindR (datetime_setting c ''APP_REGISTERED_BALANCE_CHANGES_RETENTION_DATETIME'') (\<lambda>x38.
     Inr \<lparr>APP_PROCESS_BALANCE_CHANGES_THREADS = x0,
       APP_PROCESS_BALANCE_CHANGES_WAIT = x1,
       APP_PROCESS_BALANCE_CHANGES_MAX_COUNT = x2,
       APP_PROCESS_TRANSFER_REQUESTS_THREADS = x3,
       APP_PROCESS_TRANSFER_REQUESTS_WAIT = x4,
       APP_PROCESS_TRANSFER_REQUESTS_MAX_COUNT = x5,
       APP_PROCESS_FINALIZATION_REQUESTS_THREADS = x6,
       APP_PROCESS_FINALIZATION_REQUESTS_WAIT = x7,
       APP_PROCESS_FINALIZATION_REQUESTS_MAX_COUNT = x8,
       APP_FLUSH_REJECTED_TRANSFERS_BURST_COUNT = x9,
       APP_FLUSH_PREPARED_TRANSFERS_BURST_COUNT = x10,
       APP_FLUSH_FINALIZED_TRANSFERS_BURST_COUNT = x11,
       APP_FLUSH_ACCOUNT_TRANSFERS_BURST_COUNT = x12,
       APP_FLUSH_ACCOUNT_UPDATES_BURST_COUNT = x13,
       APP_FLUSH_ACCOUNT_PURGES_BURST_COUNT = x14,
       APP_FLUSH_REJECTED_CONFIGS_BURST_COUNT = x15,
       APP_FLUSH_PENDING_BALANCE_CHANGES_BURST_COUNT = x16,
       APP_ACCOUNTS_SCAN_HOURS = x17,
       APP_PREPARED_TRANSFERS_SCAN_DAYS = x18,
       APP_REGISTERED_BALANCE_CHANGES_SCAN_DAYS = x19,
       APP_INTRANET_EXTREME_DELAY_DAYS = x20,
       APP_SIGNALBUS_MAX_DELAY_DAYS = x21,
       APP_ACCOUNT_HEARTBEAT_DAYS = x22,
       APP_PREPARED_TRANSFER_REMAINDER_DAYS = x23,
       APP_PREPARED_TRANSFER_MAX_DELAY_DAYS = x24,
       APP_FETCH_API_TIMEOUT_SECONDS = x25,
       APP_FETCH_DNS_CACHE_SECONDS = x26,
       APP_FETCH_CONNECTIONS = x27,
       APP_FETCH_DATA_CACHE_SIZE = x28,
       APP_MIN_INTEREST_CAPITALIZATION_DAYS = x29,
       APP_MAX_INTEREST_TO_PRINCIPAL_RATIO = x30,
       APP_DELETION_ATTEMPTS_MIN_DAYS = x31,
       APP_ACCOUNTS_SCAN_BLOCKS_PER_QUERY = x32,
       APP_ACCOUNTS_SCAN_BEAT_MILLISECS = x33,
       APP_PREPARED_TRANSFERS_SCAN_BLOCKS_PER_QUERY = x34,
       APP_PREPARED_TRANSFERS_SCAN_BEAT_MILLISECS = x35,
       APP_REGISTERED_BALANCE_CHANGES_SCAN_BLOCKS_PER_QUERY = x36,
       APP_REGISTERED_BALANCE_CHANGES_SCAN_BEAT_MILLISECS = x37,
       APP_REGISTERED_BALANCE_CHANGES_RETENTION_DATETIME = x38\<rparr>)))))))))))))))))))))))))))))))))))))))"

text \<open>
  \<open>Config.from_mapping\<close> takes the names in upper case; the names of settings are ASCII.
\<close>

definition is_upper :: "pystr \<Rightarrow> bool" where
  "is_upper s \<longleftrightarrow> list_ex (\<lambda>c. 65 \<le> c \<and> c \<le> 90) s \<and> list_all (\<lambda>c. \<not> (97 \<le> c \<and> c \<le> 122)) s"

definition from_mapping :: "(pystr \<times> setting) list \<Rightarrow> (pystr \<rightharpoonup> setting) \<Rightarrow> (pystr \<rightharpoonup> setting)" where
  "from_mapping config_dict c = c ++ map_of (filter (\<lambda>(key, v). is_upper key) config_dict)"

text \<open>
  The package reads the environment when it is loaded; \<open>create_app\<close> then lets its argument replace settings, and checks
  the result.  \<open>Inr\<close> is the configuration of the application.
\<close>

definition create_app ::
    "wire \<Rightarrow> datetime \<Rightarrow> (pystr \<times> pystr) list \<Rightarrow> (pystr \<times> setting) list \<Rightarrow> (pystr \<rightharpoonup> setting) result" where
  "create_app W now environ config_dict =
     bindR (load_settings W environ) (\<lambda>attrs.
     let c = from_mapping config_dict attrs
     in bindR (check_settings now c) (\<lambda>_. Inr c))"

lemma check_settings_config:
  assumes "config_of s = Inr c"
  shows "check_settings now s = check_config_sanity now c"
  using assms unfolding config_of_def bindR_eq_Inr sum.inject
  by (elim exE conjE, hypsubst) (simp add: check_settings_def check_config_sanity_def)

lemma lit_inject: "lit s = lit t \<longleftrightarrow> s = t"
  by (metis inj_map_eq_map inj_of_char)

lemma map_of_lit: "map_of (map (\<lambda>(k, v). (lit k, v)) xs) (lit k) = map_of xs k"
  by (induction xs) (auto simp: lit_inject)

lemma attributes_lookup:
  "number_setting (map_of Configuration_attributes) k =
     (case map_of attribute_table k of None \<Rightarrow> Inl KeyError | Some v \<Rightarrow> number_of v)"
  "int_setting (map_of Configuration_attributes) k =
     (case map_of attribute_table k of None \<Rightarrow> Inl KeyError | Some v \<Rightarrow> integer_of v)"
  "datetime_setting (map_of Configuration_attributes) k =
     (case map_of attribute_table k of None \<Rightarrow> Inl KeyError | Some v \<Rightarrow> time_of v)"
  unfolding number_setting_def int_setting_def datetime_setting_def setting_of_def Configuration_attributes_def map_of_lit
  by (simp_all split: option.split)

lemma default_lookups_1:
  "int_setting (map_of Configuration_attributes) ''APP_PROCESS_BALANCE_CHANGES_THREADS'' = Inr 1"
  "number_setting (map_of Configuration_attributes) ''APP_PROCESS_BALANCE_CHANGES_WAIT'' = Inr (Fin 5)"
  "int_setting (map_of Configuration_attributes) ''APP_PROCESS_BALANCE_CHANGES_MAX_COUNT'' = Inr 500000"
  "int_setting (map_of Configuration_attributes) ''APP_PROCESS_TRANSFER_REQUESTS_THREADS'' = Inr 1"
  "number_setting (map_of Configuration_attributes) ''APP_PROCESS_TRANSFER_REQUESTS_WAIT'' = Inr (Fin 5)"
  "int_setting (map_of Configuration_attributes) ''APP_PROCESS_TRANSFER_REQUESTS_MAX_COUNT'' = Inr 500000"
  "int_setting (map_of Configuration_attributes) ''APP_PROCESS_FINALIZATION_REQUESTS_THREADS'' = Inr 1"
  "number_setting (map_of Configuration_attributes) ''APP_PROCESS_FINALIZATION_REQUESTS_WAIT'' = Inr (Fin 5)"
  "int_setting (map_of Configuration_attributes) ''APP_PROCESS_FINALIZATION_REQUESTS_MAX_COUNT'' = Inr 500000"
  "int_setting (map_of Configuration_attributes) ''APP_FLUSH_REJECTED_TRANSFERS_BURST_COUNT'' = Inr 10000"
  by (simp_all add: attributes_lookup attribute_table_def map_of_Cons_code del: map_of.simps(2))

lemma default_lookups_2:
  "int_setting (map_of Configuration_attributes) ''APP_FLUSH_PREPARED_TRANSFERS_BURST_COUNT'' = Inr 10000"
  "int_setting (map_of Configuration_attributes) ''APP_FLUSH_FINALIZED_TRANSFERS_BURST_COUNT'' = Inr 10000"
  "int_setting (map_of Configuration_attributes) ''APP_FLUSH_ACCOUNT_TRANSFERS_BURST_COUNT'' = Inr 10000"
  "int_setting (map_of Configuration_attributes) ''APP_FLUSH_ACCOUNT_UPDATES_BURST_COUNT'' = Inr 10000"
  "int_setting (map_of Configuration_attributes) ''APP_FLUSH_ACCOUNT_PURGES_BURST_COUNT'' = Inr 10000"
  "int_setting (map_of Configuration_attributes) ''APP_FLUSH_REJECTED_CONFIGS_BURST_COUNT'' = Inr 10000"
  "int_setting (map_of Configuration_attributes) ''APP_FLUSH_PENDING_BALANCE_CHANGES_BURST_COUNT'' = Inr 10000"
  "number_setting (map_of Configuration_attributes) ''APP_ACCOUNTS_SCAN_HOURS'' = Inr (Fin 8)"
  "number_setting (map_of Configuration_attributes) ''APP_PREPARED_TRANSFERS_SCAN_DAYS'' = Inr (Fin 1)"
  "number_setting (map_of Configuration_attributes) ''APP_REGISTERED_BALANCE_CHANGES_SCAN_DAYS'' = Inr (Fin 7)"
  by (simp_all add: attributes_lookup attribute_table_def map_of_Cons_code del: map_of.simps(2))

lemma default_lookups_3:
  "number_setting (map_of Configuration_attributes) ''APP_INTRANET_EXTREME_DELAY_DAYS'' = Inr (Fin 14)"
  "number_setting (map_of Configuration_attributes) ''APP_SIGNALBUS_MAX_DELAY_DAYS'' = Inr (Fin 7)"
  "number_setting (map_of Configuration_attributes) ''APP_ACCOUNT_HEARTBEAT_DAYS'' = Inr (Fin 7)"
  "number_setting (map_of Configuration_attributes) ''APP_PREPARED_TRANSFER_REMAINDER_DAYS'' = Inr (Fin 7)"
  "number_setting (map_of Configuration_attributes) ''APP_PREPARED_TRANSFER_MAX_DELAY_DAYS'' = Inr (Fin 30)"
  "number_setting (map_of Configuration_attributes) ''APP_FETCH_API_TIMEOUT_SECONDS'' = Inr (Fin 5)"
  "number_setting (map_of Configuration_attributes) ''APP_FETCH_DNS_CACHE_SECONDS'' = Inr (Fin 10)"
  "int_setting (map_of Configuration_attributes) ''APP_FETCH_CONNECTIONS'' = Inr 100"
  "int_setting (map_of Configuration_attributes) ''APP_FETCH_DATA_CACHE_SIZE'' = Inr 1000"
  "number_setting (map_of Configuration_attributes) ''APP_MIN_INTEREST_CAPITALIZATION_DAYS'' = Inr (Fin 14)"
  by (simp_all add: attributes_lookup attribute_table_def map_of_Cons_code del: map_of.simps(2))

lemma default_lookups_4:
  "number_setting (map_of Configuration_attributes) ''APP_MAX_INTEREST_TO_PRINCIPAL_RATIO'' = Inr (rnd64 (1 / 10000))"
  "number_setting (map_of Configuration_attributes) ''APP_DELETION_ATTEMPTS_MIN_DAYS'' = Inr (Fin 14)"
  "int_setting (map_of Configuration_attributes) ''APP_ACCOUNTS_SCAN_BLOCKS_PER_QUERY'' = Inr 40"
  "int_setting (map_of Configuration_attributes) ''APP_ACCOUNTS_SCAN_BEAT_MILLISECS'' = Inr 25"
  "int_setting (map_of Configuration_attributes) ''APP_PREPARED_TRANSFERS_SCAN_BLOCKS_PER_QUERY'' = Inr 40"
  "int_setting (map_of Configuration_attributes) ''APP_PREPARED_TRANSFERS_SCAN_BEAT_MILLISECS'' = Inr 25"
  "int_setting (map_of Configuration_attributes) ''APP_REGISTERED_BALANCE_CHANGES_SCAN_BLOCKS_PER_QUERY'' = Inr 40"
  "int_setting (map_of Configuration_attributes) ''APP_REGISTERED_BALANCE_CHANGES_SCAN_BEAT_MILLISECS'' = Inr 25"
  "datetime_setting (map_of Configuration_attributes) ''APP_REGISTERED_BALANCE_CHANGES_RETENTION_DATETIME'' = Inr T0"
  by (simp_all add: attributes_lookup attribute_table_def map_of_Cons_code del: map_of.simps(2))

lemmas default_lookups = default_lookups_1 default_lookups_2 default_lookups_3 default_lookups_4

lemma default_config: "config_of (map_of Configuration_attributes) = Inr Configuration"
  by (simp only: config_of_def default_lookups bindR_Inr Configuration_def)

section \<open>Settings of an application\<close>

lemma unset_keeps_default:
  assumes "load_settings W environ = Inr attrs" and "distinct (map fst environ)" and "map_of environ key = None"
  shows "attrs key = map_of Configuration_attributes key"
  using read_environ_lookup [OF assms(1) [unfolded load_settings_def] assms(2), of key] assms(3)
  by (simp split: option.splits)

lemma create_app_InrD:
  assumes "create_app W now environ config_dict = Inr c"
  shows "\<exists>attrs. load_settings W environ = Inr attrs \<and> c = from_mapping config_dict attrs \<and> check_settings now c = Inr ()"
  using assms by (auto simp: create_app_def Let_def monad_simps)

lemma from_mapping_lookup:
  "from_mapping config_dict c key =
     (case map_of (filter (\<lambda>(key, v). is_upper key) config_dict) key of None \<Rightarrow> c key | Some v \<Rightarrow> Some v)"
  by (simp add: from_mapping_def map_add_def)

text \<open>
  C25. In an application that starts, a setting is what the argument of \<open>create_app\<close> says, or else what the environment says, read
  as the type of the setting, or else its default; and the settings have passed the sanity check, in particular the retention time
  of registered balance changes lies as far back as messages can be delayed.
\<close>

theorem application_settings:
  assumes "create_app W now environ config_dict = Inr c" and "distinct (map fst environ)"
    and "map_of Configuration_attributes key = Some v" and "config_of c = Inr cfg"
  shows "(case map_of (filter (\<lambda>(key, v). is_upper key) config_dict) key of
        Some v' \<Rightarrow> c key = Some v'
      | None \<Rightarrow> (case map_of environ key of
          None \<Rightarrow> c key = Some v
        | Some s \<Rightarrow> \<exists>v'. c key = Some v'
            \<and> read_setting W (target_type (map_of Configuration_annotations) key v) s = Inr v'))
    \<and> check_config_sanity now cfg = Inr ()
    \<and> (\<exists>delay. timedelta_days (APP_INTRANET_EXTREME_DELAY_DAYS cfg) = Inr delay
         \<and> APP_REGISTERED_BALANCE_CHANGES_RETENTION_DATETIME cfg \<le> now - delay)"
proof (intro conjI)
  obtain attrs where attrs: "load_settings W environ = Inr attrs" and c: "c = from_mapping config_dict attrs"
      "check_settings now c = Inr ()"
    using create_app_InrD [OF assms(1)] by blast
  show "case map_of (filter (\<lambda>(key, v). is_upper key) config_dict) key of
        Some v' \<Rightarrow> c key = Some v'
      | None \<Rightarrow> (case map_of environ key of
          None \<Rightarrow> c key = Some v
        | Some s \<Rightarrow> \<exists>v'. c key = Some v'
            \<and> read_setting W (target_type (map_of Configuration_annotations) key v) s = Inr v')"
    using read_environ_lookup [OF attrs [unfolded load_settings_def] assms(2), of key] assms(3)
    by (auto simp: c(1) from_mapping_lookup split: option.splits)
  show sane: "check_config_sanity now cfg = Inr ()" using check_settings_config [OF assms(4)] c(2) by metis
  show "\<exists>delay. timedelta_days (APP_INTRANET_EXTREME_DELAY_DAYS cfg) = Inr delay
         \<and> APP_REGISTERED_BALANCE_CHANGES_RETENTION_DATETIME cfg \<le> now - delay"
    by (rule sane_config(3) [OF sane])
qed

definition sample_config_dict :: "(pystr \<times> setting) list" where
  "sample_config_dict =
     [(lit ''APP_FETCH_DATA_CACHE_SIZE'', Int_setting 5), (lit ''debug'', Bool_setting True)]"

lemma sample_scan_hours:
  assumes "load_settings sample_wire sample_environ = Inr attrs"
  shows "attrs (lit ''APP_ACCOUNTS_SCAN_HOURS'') = Some (Float_setting (Fin 4))"
proof -
  have "map_of Configuration_attributes (lit ''APP_ACCOUNTS_SCAN_HOURS'') = Some (Float_setting (Fin 8))"
    by (simp add: Configuration_attributes_def attribute_table_def)
  moreover have "map_of sample_environ (lit ''APP_ACCOUNTS_SCAN_HOURS'') = Some (lit ''4'')" by (simp add: sample_environ_def)
  moreover have "target_type (map_of Configuration_annotations) (lit ''APP_ACCOUNTS_SCAN_HOURS'') (Float_setting (Fin 8)) = Float_type"
    by (simp add: Configuration_annotations_def target_type_def)
  moreover have "distinct (map fst sample_environ)" by (simp add: sample_environ_def)
  ultimately show ?thesis
    using read_environ_lookup [OF assms [unfolded load_settings_def], of "lit ''APP_ACCOUNTS_SCAN_HOURS''"] sample_settings_read
    by simp
qed

definition sample_config :: app_config where
  "sample_config = Configuration\<lparr>APP_ACCOUNTS_SCAN_HOURS := Fin 4, APP_FETCH_DATA_CACHE_SIZE := 5\<rparr>"

lemma sample_dict_upper:
  "filter (\<lambda>(key, v). is_upper key) sample_config_dict = [(lit ''APP_FETCH_DATA_CACHE_SIZE'', Int_setting 5)]"
  by (simp add: sample_config_dict_def is_upper_def)

lemma sample_unset:
  assumes attrs: "load_settings sample_wire sample_environ = Inr attrs"
    and k: "k \<noteq> ''APP_FETCH_DATA_CACHE_SIZE''" "k \<noteq> ''PATH''" "k \<noteq> ''APP_ACCOUNTS_SCAN_HOURS''" "k \<noteq> ''SQLALCHEMY_ECHO''"
  shows "from_mapping sample_config_dict attrs (lit k) = map_of Configuration_attributes (lit k)"
proof -
  have "distinct (map fst sample_environ)" by (simp add: sample_environ_def)
  moreover have "map_of sample_environ (lit k) = None"
    using k unfolding sample_environ_def map_of.simps fst_conv fun_upd_apply lit_inject by simp
  ultimately have "attrs (lit k) = map_of Configuration_attributes (lit k)" using unset_keeps_default [OF attrs] by blast
  moreover have "map_of (filter (\<lambda>(key, v). is_upper key) sample_config_dict) (lit k) = None"
    using k unfolding sample_dict_upper map_of.simps fst_conv fun_upd_apply lit_inject by simp
  ultimately show ?thesis unfolding from_mapping_lookup by simp
qed

lemma sample_config_of:
  assumes attrs: "load_settings sample_wire sample_environ = Inr attrs"
  shows "config_of (from_mapping sample_config_dict attrs) = Inr sample_config"
proof -
  let ?c = "from_mapping sample_config_dict attrs"
  have unset: "number_setting ?c k = number_setting (map_of Configuration_attributes) k"
    "int_setting ?c k = int_setting (map_of Configuration_attributes) k"
    "datetime_setting ?c k = datetime_setting (map_of Configuration_attributes) k"
    if "k \<noteq> ''APP_FETCH_DATA_CACHE_SIZE''" "k \<noteq> ''PATH''" "k \<noteq> ''APP_ACCOUNTS_SCAN_HOURS''" "k \<noteq> ''SQLALCHEMY_ECHO''" for k
    unfolding number_setting_def int_setting_def datetime_setting_def setting_of_def sample_unset [OF attrs that] by (rule refl)+
  have set: "number_setting ?c ''APP_ACCOUNTS_SCAN_HOURS'' = Inr (Fin 4)"
    "int_setting ?c ''APP_FETCH_DATA_CACHE_SIZE'' = Inr 5"
    using sample_scan_hours [OF attrs] unfolding number_setting_def int_setting_def setting_of_def from_mapping_lookup
      sample_dict_upper map_of.simps fst_conv fun_upd_apply lit_inject by simp_all
  show ?thesis
    unfolding config_of_def set bindR_Inr
    by (simp only: unset default_lookups bindR_Inr list.inject char.inject simp_thms list.distinct)
      (simp add: sample_config_def Configuration_def)
qed

lemma sample_config_sane: "check_config_sanity (20000 * microseconds_per_day) sample_config = Inr ()"
proof -
  have "timedelta_days (Fin 14) = Inr (14 * microseconds_per_day)" using timedelta_days_whole [of 14] by simp
  then show ?thesis using default_ratio
    by (simp add: check_config_sanity_def sample_config_def Configuration_def datetime_sub_def datetime_add_def T0_def
        DATETIME_MIN_def DATETIME_MAX_def microseconds_per_day_def del: timedelta_days.simps)
qed

theorem application_settings_witness:
  "\<exists>c. create_app sample_wire (20000 * microseconds_per_day) sample_environ sample_config_dict = Inr c
    \<and> c (lit ''APP_FETCH_DATA_CACHE_SIZE'') = Some (Int_setting 5)"
proof -
  obtain attrs where attrs: "load_settings sample_wire sample_environ = Inr attrs" using sample_settings_loaded by blast
  let ?c = "from_mapping sample_config_dict attrs"
  have cfg: "config_of ?c = Inr sample_config" by (rule sample_config_of [OF attrs])
  then have app: "create_app sample_wire (20000 * microseconds_per_day) sample_environ sample_config_dict = Inr ?c"
    using attrs check_settings_config [OF cfg] sample_config_sane by (simp add: create_app_def)
  have "distinct (map fst sample_environ)" by (simp add: sample_environ_def)
  moreover have "map_of Configuration_attributes (lit ''APP_FETCH_DATA_CACHE_SIZE'') = Some (Int_setting 1000)"
    by (simp add: Configuration_attributes_def attribute_table_def)
  moreover have "map_of (filter (\<lambda>(key, v). is_upper key) sample_config_dict) (lit ''APP_FETCH_DATA_CACHE_SIZE'')
      = Some (Int_setting 5)"
    by (simp add: sample_dict_upper)
  ultimately show ?thesis using application_settings [OF app _ _ cfg] app by fastforce
qed

end
