(* ===== verification/Sql.thy ===== *)
theory Sql
  imports Models
begin

text \<open>
  The part of SQL that \<open>migrations/versions\<close> uses: the types of columns and the values that fit them, CHECK
  constraints with the three truth values of SQL, tables with their keys, and the statements that create
  and drop tables and indexes.  A statement that the database refuses (a name that is taken or missing, a
  foreign key without its table, a table that another one refers to) is \<open>None\<close>.
\<close>

section \<open>Values\<close>

datatype sql_type =
    BigInteger | Integer | REAL | FLOAT | DATE | TIMESTAMP | BOOLEAN | String "nat option" | TEXT | LargeBinary

datatype sql_value =
    Null | Int_value int | Float_value pyfloat | Date_value date | Timestamp_value datetime
  | Bool_value bool | String_value pystr | Bytes_value "nat list"

fun value_fits :: "sql_type \<Rightarrow> sql_value \<Rightarrow> bool" where
  "value_fits BigInteger (Int_value i) \<longleftrightarrow> is_int64 i"
| "value_fits Integer (Int_value i) \<longleftrightarrow> is_int32 i"
| "value_fits REAL (Float_value x) \<longleftrightarrow> True"
| "value_fits FLOAT (Float_value x) \<longleftrightarrow> True"
| "value_fits DATE (Date_value d) \<longleftrightarrow> True"
| "value_fits TIMESTAMP (Timestamp_value t) \<longleftrightarrow> True"
| "value_fits BOOLEAN (Bool_value b) \<longleftrightarrow> True"
| "value_fits (String limit) (String_value s) \<longleftrightarrow> (case limit of None \<Rightarrow> True | Some n \<Rightarrow> length s \<le> n)"
| "value_fits TEXT (String_value s) \<longleftrightarrow> True"
| "value_fits LargeBinary (Bytes_value b) \<longleftrightarrow> True"
| "value_fits _ _ \<longleftrightarrow> False"

section \<open>Conditions\<close>

type_synonym sql_row = "(string \<times> sql_value) list"

definition value_of :: "sql_row \<Rightarrow> string \<Rightarrow> sql_value" where
  "value_of r c = (case map_of r c of None \<Rightarrow> Null | Some v \<Rightarrow> v)"

datatype sql_expr = Column string | Literal sql_value | Octet_length sql_expr

datatype sql_comparison = Le | Ge | Gt | Eq | Ne

datatype sql_condition =
    Compare sql_comparison sql_expr sql_expr
  | Is_null sql_expr
  | And sql_condition sql_condition
  | Or sql_condition sql_condition

fun eval_expr :: "sql_row \<Rightarrow> sql_expr \<Rightarrow> sql_value" where
  "eval_expr r (Column c) = value_of r c"
| "eval_expr r (Literal v) = v"
| "eval_expr r (Octet_length e) =
     (case eval_expr r e of Bytes_value b \<Rightarrow> Int_value (int (length b)) | _ \<Rightarrow> Null)"

text \<open>The order of integers, and the order of PostgreSQL on floats.\<close>

fun sql_le :: "sql_value \<Rightarrow> sql_value \<Rightarrow> bool option" where
  "sql_le (Int_value i) (Int_value j) = Some (i \<le> j)"
| "sql_le (Float_value x) (Float_value y) = Some (pg_le x y)"
| "sql_le _ _ = None"

fun sql_and :: "bool option \<Rightarrow> bool option \<Rightarrow> bool option" where
  "sql_and (Some False) _ = Some False"
| "sql_and _ (Some False) = Some False"
| "sql_and (Some True) (Some True) = Some True"
| "sql_and _ _ = None"

definition sql_not :: "bool option \<Rightarrow> bool option" where
  "sql_not = map_option Not"

definition sql_or :: "bool option \<Rightarrow> bool option \<Rightarrow> bool option" where
  "sql_or p q = sql_not (sql_and (sql_not p) (sql_not q))"

fun sql_compare :: "sql_comparison \<Rightarrow> sql_value \<Rightarrow> sql_value \<Rightarrow> bool option" where
  "sql_compare Le v w = sql_le v w"
| "sql_compare Ge v w = sql_le w v"
| "sql_compare Gt v w = sql_not (sql_le v w)"
| "sql_compare Eq v w = sql_and (sql_le v w) (sql_le w v)"
| "sql_compare Ne v w = sql_not (sql_and (sql_le v w) (sql_le w v))"

fun eval_condition :: "sql_row \<Rightarrow> sql_condition \<Rightarrow> bool option" where
  "eval_condition r (Compare cmp a b) = sql_compare cmp (eval_expr r a) (eval_expr r b)"
| "eval_condition r (Is_null e) = Some (eval_expr r e = Null)"
| "eval_condition r (And p q) = sql_and (eval_condition r p) (eval_condition r q)"
| "eval_condition r (Or p q) = sql_or (eval_condition r p) (eval_condition r q)"

text \<open>A CHECK constraint is violated when it is false; unknown passes.\<close>

definition check_passes :: "sql_row \<Rightarrow> sql_condition \<Rightarrow> bool" where
  "check_passes r p \<longleftrightarrow> eval_condition r p \<noteq> Some False"

lemma sql_and_Some [simp]: "sql_and (Some p) (Some q) = Some (p \<and> q)"
  by (cases p; cases q) simp_all

lemma sql_not_simps [simp]: "sql_not (Some p) = Some (\<not> p)" "sql_not None = None"
  by (simp_all add: sql_not_def)

lemma sql_or_Some [simp]: "sql_or (Some p) (Some q) = Some (p \<or> q)"
  by (simp add: sql_or_def)

lemma sql_or_unknown: "sql_or (Some p) None = (if p then Some True else None)"
  by (cases p) (simp_all add: sql_or_def)

section \<open>Tables\<close>

datatype column = Column_def (column_name: string) (column_type: sql_type) (is_nullable: bool) (autoincrement: bool)

abbreviation not_null :: "string \<Rightarrow> sql_type \<Rightarrow> column" where "not_null n t \<equiv> Column_def n t False False"
abbreviation nullable :: "string \<Rightarrow> sql_type \<Rightarrow> column" where "nullable n t \<equiv> Column_def n t True False"
abbreviation serial :: "string \<Rightarrow> sql_type \<Rightarrow> column" where "serial n t \<equiv> Column_def n t False True"

datatype foreign_key = Foreign_key
  (local_columns: "string list") (referenced_table: string) (referenced_columns: "string list") (cascade: bool)

datatype table = Table
  (table_name: string) (columns: "column list") (checks: "sql_condition list") (foreign_keys: "foreign_key list")
  (primary_key: "string list")

definition column_accepts :: "sql_row \<Rightarrow> column \<Rightarrow> bool" where
  "column_accepts r c \<longleftrightarrow>
     (case value_of r (column_name c) of Null \<Rightarrow> is_nullable c | v \<Rightarrow> value_fits (column_type c) v)"

definition table_accepts :: "table \<Rightarrow> sql_row \<Rightarrow> bool" where
  "table_accepts t r \<longleftrightarrow> list_all (column_accepts r) (columns t) \<and> list_all (check_passes r) (checks t)"

definition values_of :: "sql_row \<Rightarrow> string list \<Rightarrow> sql_value list" where
  "values_of r cs = map (value_of r) cs"

text \<open>The rows of a database, by table, satisfy the constraints of a table.\<close>

definition references :: "(string \<Rightarrow> sql_row list) \<Rightarrow> sql_row \<Rightarrow> foreign_key \<Rightarrow> bool" where
  "references rows r k \<longleftrightarrow>
     list_ex (\<lambda>r'. values_of r' (referenced_columns k) = values_of r (local_columns k)) (rows (referenced_table k))"

definition table_holds :: "(string \<Rightarrow> sql_row list) \<Rightarrow> table \<Rightarrow> bool" where
  "table_holds rows t \<longleftrightarrow>
     list_all (table_accepts t) (rows (table_name t))
     \<and> distinct (map (\<lambda>r. values_of r (primary_key t)) (rows (table_name t)))
     \<and> list_all (\<lambda>r. list_all (references rows r) (foreign_keys t)) (rows (table_name t))"

section \<open>Statements\<close>

datatype ddl =
    Create_table table | Create_index string string "string list" | Drop_table string | Drop_index string string

record catalog =
  cat_tables :: "table list"
  cat_indexes :: "(string \<times> string) list"    \<comment> \<open>the name of an index and its table\<close>

definition names :: "catalog \<Rightarrow> string list" where
  "names c = map table_name (cat_tables c) @ map fst (cat_indexes c)"

definition column_names :: "table \<Rightarrow> string list" where
  "column_names t = map column_name (columns t)"

fun expr_columns :: "sql_expr \<Rightarrow> string list" where
  "expr_columns (Column c) = [c]"
| "expr_columns (Literal v) = []"
| "expr_columns (Octet_length e) = expr_columns e"

fun condition_columns :: "sql_condition \<Rightarrow> string list" where
  "condition_columns (Compare cmp a b) = expr_columns a @ expr_columns b"
| "condition_columns (Is_null e) = expr_columns e"
| "condition_columns (And p q) = condition_columns p @ condition_columns q"
| "condition_columns (Or p q) = condition_columns p @ condition_columns q"

definition known :: "string list \<Rightarrow> string list \<Rightarrow> bool" where
  "known cs xs \<longleftrightarrow> set xs \<subseteq> set cs"

definition table_ok :: "table \<Rightarrow> bool" where
  "table_ok t \<longleftrightarrow>
     distinct (column_names t) \<and> known (column_names t) (primary_key t)
     \<and> list_all (\<lambda>p. known (column_names t) (condition_columns p)) (checks t)
     \<and> list_all (\<lambda>k. known (column_names t) (local_columns k)) (foreign_keys t)"

definition foreign_key_ok :: "table list \<Rightarrow> foreign_key \<Rightarrow> bool" where
  "foreign_key_ok ts k \<longleftrightarrow>
     length (local_columns k) = length (referenced_columns k)
     \<and> list_ex (\<lambda>t. table_name t = referenced_table k \<and> primary_key t = referenced_columns k) ts"

definition refers_to :: "string \<Rightarrow> table \<Rightarrow> bool" where
  "refers_to n t \<longleftrightarrow> table_name t \<noteq> n \<and> list_ex (\<lambda>k. referenced_table k = n) (foreign_keys t)"

fun run_ddl :: "ddl \<Rightarrow> catalog \<Rightarrow> catalog option" where
  "run_ddl (Create_table t) c =
     (if table_name t \<notin> set (names c) \<and> table_ok t
         \<and> list_all (foreign_key_ok (cat_tables c)) (foreign_keys t)
      then Some (c\<lparr>cat_tables := cat_tables c @ [t]\<rparr>) else None)"
| "run_ddl (Create_index n tn cs) c =
     (if n \<notin> set (names c) \<and> list_ex (\<lambda>t. table_name t = tn \<and> known (column_names t) cs) (cat_tables c)
      then Some (c\<lparr>cat_indexes := cat_indexes c @ [(n, tn)]\<rparr>) else None)"
| "run_ddl (Drop_table n) c =
     (if list_ex (\<lambda>t. table_name t = n) (cat_tables c) \<and> \<not> list_ex (refers_to n) (cat_tables c)
      then Some (c\<lparr>cat_tables := filter (\<lambda>t. table_name t \<noteq> n) (cat_tables c),
                   cat_indexes := filter (\<lambda>i. snd i \<noteq> n) (cat_indexes c)\<rparr>) else None)"
| "run_ddl (Drop_index n tn) c =
     (if (n, tn) \<in> set (cat_indexes c)
      then Some (c\<lparr>cat_indexes := filter (\<lambda>i. fst i \<noteq> n) (cat_indexes c)\<rparr>) else None)"

fun run_all :: "('s \<Rightarrow> 'c \<Rightarrow> 'c option) \<Rightarrow> 's list \<Rightarrow> 'c \<Rightarrow> 'c option" where
  "run_all run [] c = Some c"
| "run_all run (s # ss) c = Option.bind (run s c) (run_all run ss)"

definition catalog_ok :: "catalog \<Rightarrow> bool" where
  "catalog_ok c \<longleftrightarrow>
     distinct (names c)
     \<and> list_all (\<lambda>t. list_all (\<lambda>k. referenced_table k \<in> table_name ` set (cat_tables c)) (foreign_keys t))
         (cat_tables c)
     \<and> list_all (\<lambda>i. snd i \<in> table_name ` set (cat_tables c)) (cat_indexes c)"

lemma run_all_append: "run_all run (ss @ us) c = Option.bind (run_all run ss c) (run_all run us)"
proof (induction ss arbitrary: c)
  case (Cons s ss)
  then show ?case by (cases "run s c") simp_all
qed simp

section \<open>Statements that can be undone\<close>

locale reversible =
  fixes run :: "'s \<Rightarrow> 'c \<Rightarrow> 'c option"
    and undo :: "'s \<Rightarrow> 's"
    and undoable :: "'s \<Rightarrow> bool"
    and ok :: "'c \<Rightarrow> bool"
  assumes run_keeps_ok: "undoable s \<Longrightarrow> ok c \<Longrightarrow> run s c = Some c' \<Longrightarrow> ok c'"
    and run_undo: "undoable s \<Longrightarrow> ok c \<Longrightarrow> run s c = Some c' \<Longrightarrow> run (undo s) c' = Some c"
begin

lemma run_all_undo:
  assumes "list_all undoable ss" and "ok c" and "run_all run ss c = Some c'"
  shows "ok c' \<and> run_all run (rev (map undo ss)) c' = Some c"
  using assms
proof (induction ss arbitrary: c)
  case Nil
  then show ?case by simp
next
  case (Cons s ss)
  then obtain c1 where c1: "run s c = Some c1" "run_all run ss c1 = Some c'"
    by (auto simp: Option.bind_eq_Some_conv)
  with Cons.prems have "ok c1" "run (undo s) c1 = Some c" by (auto intro: run_keeps_ok run_undo)
  with Cons.IH [OF _ _ c1(2)] Cons.prems show ?case by (simp add: run_all_append)
qed

end

fun undo_ddl :: "ddl \<Rightarrow> ddl" where
  "undo_ddl (Create_table t) = Drop_table (table_name t)"
| "undo_ddl (Create_index n tn cs) = Drop_index n tn"
| "undo_ddl s = s"

fun creates :: "ddl \<Rightarrow> bool" where
  "creates (Create_table t) \<longleftrightarrow> True"
| "creates (Create_index n tn cs) \<longleftrightarrow> True"
| "creates _ \<longleftrightarrow> False"

lemma filter_other_names [simp]:
  "n \<notin> f ` set xs \<Longrightarrow> filter (\<lambda>x. f x \<noteq> n) xs = xs"
  by (induction xs) auto

lemma create_keeps_catalog_ok:
  assumes "creates s" and ok: "catalog_ok c" and run: "run_ddl s c = Some c'"
  shows "catalog_ok c'"
proof (cases s)
  case (Create_table t)
  with run have t: "table_name t \<notin> set (names c)" "list_all (foreign_key_ok (cat_tables c)) (foreign_keys t)"
    and c': "c' = c\<lparr>cat_tables := cat_tables c @ [t]\<rparr>" by (auto split: if_splits)
  have "referenced_table k \<in> table_name ` set (cat_tables c)" if "k \<in> set (foreign_keys t)" for k
    using t(2) that by (force simp: foreign_key_ok_def list_all_iff list_ex_iff)
  then show ?thesis using ok t(1) by (simp add: c' catalog_ok_def names_def list_all_iff)
next
  case (Create_index n tn cs)
  with run have n: "n \<notin> set (names c)" "tn \<in> table_name ` set (cat_tables c)"
    and c': "c' = c\<lparr>cat_indexes := cat_indexes c @ [(n, tn)]\<rparr>" by (auto simp: list_ex_iff split: if_splits)
  then show ?thesis using ok by (simp add: c' catalog_ok_def names_def)
qed (use assms in simp_all)

lemma undo_create_table:
  assumes ok: "catalog_ok c" and run: "run_ddl (Create_table t) c = Some c'"
  shows "run_ddl (Drop_table (table_name t)) c' = Some c"
proof -
  have new: "table_name t \<notin> table_name ` set (cat_tables c)"
    and c': "c' = c\<lparr>cat_tables := cat_tables c @ [t]\<rparr>" using run by (auto simp: names_def split: if_splits)
  have "table_name t \<notin> snd ` set (cat_indexes c)"
    using ok new unfolding catalog_ok_def list_all_iff by (metis imageE)
  moreover have "\<not> list_ex (refers_to (table_name t)) (cat_tables c)"
    using ok new unfolding catalog_ok_def refers_to_def list_all_iff list_ex_iff by metis
  ultimately show ?thesis using new by (simp add: c' refers_to_def)
qed

lemma undo_create_index:
  assumes "catalog_ok c" and "run_ddl (Create_index n tn cs) c = Some c'"
  shows "run_ddl (Drop_index n tn) c' = Some c"
proof -
  have "n \<notin> fst ` set (cat_indexes c)" and c': "c' = c\<lparr>cat_indexes := cat_indexes c @ [(n, tn)]\<rparr>"
    using assms by (auto simp: names_def split: if_splits)
  then show ?thesis by simp
qed

interpretation ddl: reversible run_ddl undo_ddl creates catalog_ok
proof
  fix s c c' assume s: "creates s" and c: "catalog_ok c" "run_ddl s c = Some c'"
  show "catalog_ok c'" using s c by (rule create_keeps_catalog_ok)
  show "run_ddl (undo_ddl s) c' = Some c"
    using s c undo_create_table [OF c(1)] undo_create_index [OF c(1)] by (cases s) auto
qed

end
