(* ===== verification/Migration.thy ===== *)
theory Migration
  imports Sql
begin

text \<open>
  \<open>migrations/versions/bbcd77f71465_.py\<close>: the tables that the migration creates, column by column and
  constraint by constraint, and its two directions as sequences of statements.
\<close>

section \<open>Tables\<close>

definition account_table :: table where
  "account_table =
    Table ''account''
      [not_null ''debtor_id'' BigInteger,
       not_null ''creditor_id'' BigInteger,
       not_null ''creation_date'' DATE,
       not_null ''last_change_seqnum'' Integer,
       not_null ''last_change_ts'' TIMESTAMP,
       not_null ''principal'' BigInteger,
       not_null ''interest_rate'' REAL,
       not_null ''interest'' FLOAT,
       not_null ''last_interest_rate_change_ts'' TIMESTAMP,
       not_null ''last_config_ts'' TIMESTAMP,
       not_null ''last_config_seqnum'' Integer,
       not_null ''last_transfer_number'' BigInteger,
       not_null ''last_transfer_committed_at'' TIMESTAMP,
       not_null ''negligible_amount'' REAL,
       not_null ''config_flags'' Integer,
       not_null ''config_data'' (String None),
       nullable ''debtor_info_iri'' (String None),
       nullable ''debtor_info_content_type'' (String None),
       nullable ''debtor_info_sha256'' LargeBinary,
       not_null ''status_flags'' Integer,
       not_null ''total_locked_amount'' BigInteger,
       not_null ''pending_transfers_count'' Integer,
       not_null ''last_transfer_id'' BigInteger,
       not_null ''previous_interest_rate'' REAL,
       not_null ''last_heartbeat_ts'' TIMESTAMP,
       not_null ''last_interest_capitalization_ts'' TIMESTAMP,
       not_null ''last_deletion_attempt_ts'' TIMESTAMP,
       not_null ''pending_account_update'' BOOLEAN]
      [Or (Is_null (Column ''debtor_info_sha256'')) (Compare Eq (Octet_length (Column ''debtor_info_sha256'')) (Literal (Int_value 32))),
       And (Compare Ge (Column ''interest_rate'') (Literal (Float_value (Fin (- 50))))) (Compare Le (Column ''interest_rate'') (Literal (Float_value (Fin 100)))),
       Compare Ge (Column ''last_transfer_id'') (Literal (Int_value 0)),
       Compare Ge (Column ''last_transfer_number'') (Literal (Int_value 0)),
       Compare Ge (Column ''negligible_amount'') (Literal (Float_value (Fin 0))),
       Compare Ge (Column ''pending_transfers_count'') (Literal (Int_value 0)),
       And (Compare Ge (Column ''previous_interest_rate'') (Literal (Float_value (Fin (- 50))))) (Compare Le (Column ''previous_interest_rate'') (Literal (Float_value (Fin 100)))),
       Compare Gt (Column ''principal'') (Literal (Int_value (- 9223372036854775808))),
       Compare Ge (Column ''total_locked_amount'') (Literal (Int_value 0))]
      []
      [''debtor_id'', ''creditor_id'']"

definition account_purge_signal_table :: table where
  "account_purge_signal_table =
    Table ''account_purge_signal''
      [not_null ''inserted_at'' TIMESTAMP,
       not_null ''debtor_id'' BigInteger,
       not_null ''creditor_id'' BigInteger,
       not_null ''creation_date'' DATE]
      []
      []
      [''debtor_id'', ''creditor_id'', ''creation_date'']"

definition account_transfer_signal_table :: table where
  "account_transfer_signal_table =
    Table ''account_transfer_signal''
      [not_null ''inserted_at'' TIMESTAMP,
       not_null ''debtor_id'' BigInteger,
       not_null ''creditor_id'' BigInteger,
       not_null ''creation_date'' DATE,
       not_null ''transfer_number'' BigInteger,
       not_null ''coordinator_type'' (String (Some 30)),
       not_null ''committed_at'' TIMESTAMP,
       not_null ''acquired_amount'' BigInteger,
       not_null ''other_creditor_id'' BigInteger,
       not_null ''transfer_note_format'' TEXT,
       not_null ''transfer_note'' TEXT,
       not_null ''principal'' BigInteger,
       not_null ''previous_transfer_number'' BigInteger]
      []
      []
      [''debtor_id'', ''creditor_id'', ''creation_date'', ''transfer_number'']"

definition account_update_signal_table :: table where
  "account_update_signal_table =
    Table ''account_update_signal''
      [not_null ''inserted_at'' TIMESTAMP,
       not_null ''debtor_id'' BigInteger,
       not_null ''creditor_id'' BigInteger,
       serial ''signal_id'' BigInteger,
       not_null ''last_change_ts'' TIMESTAMP,
       not_null ''last_change_seqnum'' Integer,
       not_null ''principal'' BigInteger,
       not_null ''interest'' FLOAT,
       not_null ''interest_rate'' REAL,
       not_null ''last_interest_rate_change_ts'' TIMESTAMP,
       not_null ''last_transfer_number'' BigInteger,
       not_null ''last_transfer_committed_at'' TIMESTAMP,
       not_null ''last_config_ts'' TIMESTAMP,
       not_null ''last_config_seqnum'' Integer,
       not_null ''creation_date'' DATE,
       not_null ''negligible_amount'' REAL,
       not_null ''config_data'' (String None),
       not_null ''config_flags'' Integer,
       nullable ''debtor_info_iri'' (String None),
       nullable ''debtor_info_content_type'' (String None),
       nullable ''debtor_info_sha256'' LargeBinary]
      []
      []
      [''debtor_id'', ''creditor_id'', ''signal_id'']"

definition finalization_request_table :: table where
  "finalization_request_table =
    Table ''finalization_request''
      [not_null ''debtor_id'' BigInteger,
       not_null ''sender_creditor_id'' BigInteger,
       not_null ''transfer_id'' BigInteger,
       not_null ''coordinator_type'' (String (Some 30)),
       not_null ''coordinator_id'' BigInteger,
       not_null ''coordinator_request_id'' BigInteger,
       not_null ''committed_amount'' BigInteger,
       not_null ''transfer_note_format'' TEXT,
       not_null ''transfer_note'' TEXT,
       not_null ''ts'' TIMESTAMP]
      [Compare Ge (Column ''committed_amount'') (Literal (Int_value 0))]
      []
      [''debtor_id'', ''sender_creditor_id'', ''transfer_id'']"

definition finalized_transfer_signal_table :: table where
  "finalized_transfer_signal_table =
    Table ''finalized_transfer_signal''
      [not_null ''inserted_at'' TIMESTAMP,
       not_null ''debtor_id'' BigInteger,
       not_null ''sender_creditor_id'' BigInteger,
       not_null ''transfer_id'' BigInteger,
       not_null ''coordinator_type'' (String (Some 30)),
       not_null ''coordinator_id'' BigInteger,
       not_null ''coordinator_request_id'' BigInteger,
       not_null ''prepared_at'' TIMESTAMP,
       not_null ''finalized_at'' TIMESTAMP,
       not_null ''committed_amount'' BigInteger,
       not_null ''total_locked_amount'' BigInteger,
       not_null ''status_code'' (String (Some 30))]
      []
      []
      [''debtor_id'', ''sender_creditor_id'', ''transfer_id'']"

definition pending_balance_change_signal_table :: table where
  "pending_balance_change_signal_table =
    Table ''pending_balance_change_signal''
      [not_null ''inserted_at'' TIMESTAMP,
       not_null ''debtor_id'' BigInteger,
       not_null ''other_creditor_id'' BigInteger,
       serial ''change_id'' BigInteger,
       not_null ''creditor_id'' BigInteger,
       not_null ''coordinator_type'' (String (Some 30)),
       not_null ''transfer_note_format'' TEXT,
       not_null ''transfer_note'' TEXT,
       not_null ''committed_at'' TIMESTAMP,
       not_null ''principal_delta'' BigInteger]
      []
      []
      [''debtor_id'', ''other_creditor_id'', ''change_id'']"

definition prepared_transfer_signal_table :: table where
  "prepared_transfer_signal_table =
    Table ''prepared_transfer_signal''
      [not_null ''inserted_at'' TIMESTAMP,
       not_null ''debtor_id'' BigInteger,
       not_null ''sender_creditor_id'' BigInteger,
       serial ''signal_id'' BigInteger,
       not_null ''transfer_id'' BigInteger,
       not_null ''coordinator_type'' (String (Some 30)),
       not_null ''coordinator_id'' BigInteger,
       not_null ''coordinator_request_id'' BigInteger,
       not_null ''locked_amount'' BigInteger,
       not_null ''recipient_creditor_id'' BigInteger,
       not_null ''prepared_at'' TIMESTAMP,
       not_null ''demurrage_rate'' FLOAT,
       not_null ''deadline'' TIMESTAMP,
       not_null ''min_interest_rate'' REAL]
      []
      []
      [''debtor_id'', ''sender_creditor_id'', ''signal_id'']"

definition registered_balance_change_table :: table where
  "registered_balance_change_table =
    Table ''registered_balance_change''
      [not_null ''debtor_id'' BigInteger,
       not_null ''other_creditor_id'' BigInteger,
       not_null ''change_id'' BigInteger,
       not_null ''committed_at'' TIMESTAMP,
       not_null ''is_applied'' BOOLEAN]
      []
      []
      [''debtor_id'', ''other_creditor_id'', ''change_id'']"

definition rejected_config_signal_table :: table where
  "rejected_config_signal_table =
    Table ''rejected_config_signal''
      [not_null ''inserted_at'' TIMESTAMP,
       not_null ''debtor_id'' BigInteger,
       not_null ''creditor_id'' BigInteger,
       serial ''signal_id'' BigInteger,
       not_null ''config_ts'' TIMESTAMP,
       not_null ''config_seqnum'' Integer,
       not_null ''config_flags'' Integer,
       not_null ''config_data'' (String None),
       not_null ''negligible_amount'' REAL,
       not_null ''rejection_code'' (String (Some 30))]
      []
      []
      [''debtor_id'', ''creditor_id'', ''signal_id'']"

definition rejected_transfer_signal_table :: table where
  "rejected_transfer_signal_table =
    Table ''rejected_transfer_signal''
      [not_null ''inserted_at'' TIMESTAMP,
       not_null ''debtor_id'' BigInteger,
       not_null ''sender_creditor_id'' BigInteger,
       serial ''signal_id'' BigInteger,
       not_null ''coordinator_type'' (String (Some 30)),
       not_null ''coordinator_id'' BigInteger,
       not_null ''coordinator_request_id'' BigInteger,
       not_null ''status_code'' (String (Some 30)),
       not_null ''total_locked_amount'' BigInteger]
      []
      []
      [''debtor_id'', ''sender_creditor_id'', ''signal_id'']"

definition transfer_request_table :: table where
  "transfer_request_table =
    Table ''transfer_request''
      [not_null ''debtor_id'' BigInteger,
       not_null ''sender_creditor_id'' BigInteger,
       serial ''transfer_request_id'' BigInteger,
       not_null ''coordinator_type'' (String (Some 30)),
       not_null ''coordinator_id'' BigInteger,
       not_null ''coordinator_request_id'' BigInteger,
       not_null ''min_locked_amount'' BigInteger,
       not_null ''max_locked_amount'' BigInteger,
       not_null ''deadline'' TIMESTAMP,
       not_null ''min_interest_rate'' REAL,
       not_null ''recipient_creditor_id'' BigInteger]
      [Compare Ge (Column ''min_interest_rate'') (Literal (Float_value (Fin (- 100)))),
       Compare Le (Column ''min_locked_amount'') (Column ''max_locked_amount''),
       Compare Ge (Column ''min_locked_amount'') (Literal (Int_value 0))]
      []
      [''debtor_id'', ''sender_creditor_id'', ''transfer_request_id'']"

definition pending_balance_change_table :: table where
  "pending_balance_change_table =
    Table ''pending_balance_change''
      [not_null ''debtor_id'' BigInteger,
       not_null ''other_creditor_id'' BigInteger,
       not_null ''change_id'' BigInteger,
       not_null ''creditor_id'' BigInteger,
       not_null ''coordinator_type'' (String (Some 30)),
       not_null ''transfer_note_format'' TEXT,
       not_null ''transfer_note'' TEXT,
       not_null ''committed_at'' TIMESTAMP,
       not_null ''principal_delta'' BigInteger]
      [Compare Ne (Column ''principal_delta'') (Literal (Int_value 0))]
      [Foreign_key [''debtor_id'', ''other_creditor_id'', ''change_id''] ''registered_balance_change'' [''debtor_id'', ''other_creditor_id'', ''change_id''] False]
      [''debtor_id'', ''other_creditor_id'', ''change_id'']"

definition prepared_transfer_table :: table where
  "prepared_transfer_table =
    Table ''prepared_transfer''
      [not_null ''debtor_id'' BigInteger,
       not_null ''sender_creditor_id'' BigInteger,
       not_null ''transfer_id'' BigInteger,
       not_null ''coordinator_type'' (String (Some 30)),
       not_null ''coordinator_id'' BigInteger,
       not_null ''coordinator_request_id'' BigInteger,
       not_null ''recipient_creditor_id'' BigInteger,
       not_null ''prepared_at'' TIMESTAMP,
       not_null ''min_interest_rate'' REAL,
       not_null ''demurrage_rate'' FLOAT,
       not_null ''deadline'' TIMESTAMP,
       not_null ''locked_amount'' BigInteger,
       nullable ''last_reminder_ts'' TIMESTAMP]
      [And (Compare Gt (Column ''demurrage_rate'') (Literal (Float_value (Fin (- 100))))) (Compare Le (Column ''demurrage_rate'') (Literal (Float_value (Fin 0)))),
       Compare Ge (Column ''locked_amount'') (Literal (Int_value 0)),
       Compare Ge (Column ''min_interest_rate'') (Literal (Float_value (Fin (- 100)))),
       Compare Gt (Column ''transfer_id'') (Literal (Int_value 0))]
      [Foreign_key [''debtor_id'', ''sender_creditor_id''] ''account'' [''debtor_id'', ''creditor_id''] True]
      [''debtor_id'', ''sender_creditor_id'', ''transfer_id'']"

section \<open>The migration\<close>

definition upgrade :: "ddl list" where
  "upgrade =
    [Create_table account_table,
     Create_table account_purge_signal_table,
     Create_table account_transfer_signal_table,
     Create_table account_update_signal_table,
     Create_table finalization_request_table,
     Create_table finalized_transfer_signal_table,
     Create_table pending_balance_change_signal_table,
     Create_table prepared_transfer_signal_table,
     Create_table registered_balance_change_table,
     Create_table rejected_config_signal_table,
     Create_table rejected_transfer_signal_table,
     Create_table transfer_request_table,
     Create_table pending_balance_change_table,
     Create_index ''idx_changed_account'' ''pending_balance_change'' [''debtor_id'', ''creditor_id''],
     Create_table prepared_transfer_table]"

definition downgrade :: "ddl list" where
  "downgrade =
    [Drop_table ''prepared_transfer'',
     Drop_index ''idx_changed_account'' ''pending_balance_change'',
     Drop_table ''pending_balance_change'',
     Drop_table ''transfer_request'',
     Drop_table ''rejected_transfer_signal'',
     Drop_table ''rejected_config_signal'',
     Drop_table ''registered_balance_change'',
     Drop_table ''prepared_transfer_signal'',
     Drop_table ''pending_balance_change_signal'',
     Drop_table ''finalized_transfer_signal'',
     Drop_table ''finalization_request'',
     Drop_table ''account_update_signal'',
     Drop_table ''account_transfer_signal'',
     Drop_table ''account_purge_signal'',
     Drop_table ''account'']"

lemmas migration_tables = account_table_def account_purge_signal_table_def account_transfer_signal_table_def
  account_update_signal_table_def finalization_request_table_def finalized_transfer_signal_table_def
  pending_balance_change_signal_table_def prepared_transfer_signal_table_def registered_balance_change_table_def
  rejected_config_signal_table_def rejected_transfer_signal_table_def transfer_request_table_def
  pending_balance_change_table_def prepared_transfer_table_def

definition created_names :: "string list" where
  "created_names =
    [''account'', ''account_purge_signal'', ''account_transfer_signal'', ''account_update_signal'',
     ''finalization_request'', ''finalized_transfer_signal'', ''pending_balance_change_signal'',
     ''prepared_transfer_signal'', ''registered_balance_change'', ''rejected_config_signal'',
     ''rejected_transfer_signal'', ''transfer_request'', ''pending_balance_change'', ''idx_changed_account'',
     ''prepared_transfer'']"

definition migrated_tables :: "table list" where
  "migrated_tables =
    [account_table, account_purge_signal_table, account_transfer_signal_table, account_update_signal_table,
     finalization_request_table, finalized_transfer_signal_table, pending_balance_change_signal_table,
     prepared_transfer_signal_table, registered_balance_change_table, rejected_config_signal_table,
     rejected_transfer_signal_table, transfer_request_table, pending_balance_change_table, prepared_transfer_table]"

lemma migrated_tables_ok: "list_all table_ok migrated_tables"
  by (simp add: migrated_tables_def migration_tables table_ok_def column_names_def known_def)

lemma migrated_names [simp]:
  "table_name account_table = ''account''"
  "table_name account_purge_signal_table = ''account_purge_signal''"
  "table_name account_transfer_signal_table = ''account_transfer_signal''"
  "table_name account_update_signal_table = ''account_update_signal''"
  "table_name finalization_request_table = ''finalization_request''"
  "table_name finalized_transfer_signal_table = ''finalized_transfer_signal''"
  "table_name pending_balance_change_signal_table = ''pending_balance_change_signal''"
  "table_name prepared_transfer_signal_table = ''prepared_transfer_signal''"
  "table_name registered_balance_change_table = ''registered_balance_change''"
  "table_name rejected_config_signal_table = ''rejected_config_signal''"
  "table_name rejected_transfer_signal_table = ''rejected_transfer_signal''"
  "table_name transfer_request_table = ''transfer_request''"
  "table_name pending_balance_change_table = ''pending_balance_change''"
  "table_name prepared_transfer_table = ''prepared_transfer''"
  by (simp_all add: migration_tables)

lemma migrated_foreign_keys [simp]:
  "foreign_keys account_table = []" "foreign_keys account_purge_signal_table = []"
  "foreign_keys account_transfer_signal_table = []" "foreign_keys account_update_signal_table = []"
  "foreign_keys finalization_request_table = []" "foreign_keys finalized_transfer_signal_table = []"
  "foreign_keys pending_balance_change_signal_table = []" "foreign_keys prepared_transfer_signal_table = []"
  "foreign_keys registered_balance_change_table = []" "foreign_keys rejected_config_signal_table = []"
  "foreign_keys rejected_transfer_signal_table = []" "foreign_keys transfer_request_table = []"
  "foreign_keys pending_balance_change_table =
     [Foreign_key [''debtor_id'', ''other_creditor_id'', ''change_id''] ''registered_balance_change''
        [''debtor_id'', ''other_creditor_id'', ''change_id''] False]"
  "foreign_keys prepared_transfer_table =
     [Foreign_key [''debtor_id'', ''sender_creditor_id''] ''account'' [''debtor_id'', ''creditor_id''] True]"
  by (simp_all add: migration_tables)

lemma migrated_keys [simp]:
  "primary_key account_table = [''debtor_id'', ''creditor_id'']"
  "primary_key registered_balance_change_table = [''debtor_id'', ''other_creditor_id'', ''change_id'']"
  "''debtor_id'' \<in> column_name ` set (columns pending_balance_change_table)"
  "''creditor_id'' \<in> column_name ` set (columns pending_balance_change_table)"
  by (simp_all add: migration_tables)

lemma downgrade_undoes: "downgrade = rev (map undo_ddl upgrade)" "list_all creates upgrade"
  by (simp_all add: downgrade_def upgrade_def)

lemma upgrade_runs:
  assumes "set (names c) \<inter> set created_names = {}"
  shows "run_all run_ddl upgrade c = Some (c\<lparr>cat_tables := cat_tables c @ migrated_tables,
    cat_indexes := cat_indexes c @ [(''idx_changed_account'', ''pending_balance_change'')]\<rparr>)"
  using assms migrated_tables_ok
  by (simp add: upgrade_def migrated_tables_def created_names_def names_def foreign_key_ok_def
      column_names_def known_def)

text \<open>
  C38. On a database that has none of its names, the migration succeeds and creates all its tables, and
  undoing it restores the catalog as it was: every statement of the downgrade succeeds.
\<close>

theorem migration_round_trip:
  assumes "catalog_ok c" and "set (names c) \<inter> set created_names = {}"
  shows "\<exists>c'. run_all run_ddl upgrade c = Some c' \<and> catalog_ok c' \<and> cat_tables c' = cat_tables c @ migrated_tables
    \<and> run_all run_ddl downgrade c' = Some c"
  using upgrade_runs [OF assms(2)] ddl.run_all_undo [OF downgrade_undoes(2) assms(1) upgrade_runs [OF assms(2)]]
  by (simp add: downgrade_undoes(1))

definition sample_catalog :: catalog where
  "sample_catalog =
     \<lparr>cat_tables = [Table ''alembic_version'' [not_null ''version_num'' (String (Some 32))] [] [] [''version_num'']],
      cat_indexes = []\<rparr>"

theorem migration_round_trip_witness:
  "\<exists>c'. run_all run_ddl upgrade sample_catalog = Some c' \<and> length (cat_tables c') = 15
    \<and> run_all run_ddl downgrade c' = Some sample_catalog"
proof -
  have "catalog_ok sample_catalog" by (simp add: sample_catalog_def catalog_ok_def names_def)
  moreover have "set (names sample_catalog) \<inter> set created_names = {}"
    by (simp add: sample_catalog_def names_def created_names_def)
  ultimately obtain c' where c': "run_all run_ddl upgrade sample_catalog = Some c'"
      "cat_tables c' = cat_tables sample_catalog @ migrated_tables" "run_all run_ddl downgrade c' = Some sample_catalog"
    using migration_round_trip [of sample_catalog] by blast
  moreover have "length (cat_tables sample_catalog @ migrated_tables) = 15"
    by (simp add: sample_catalog_def migrated_tables_def)
  ultimately show ?thesis by simp
qed

end
