(* ===== verification/MigrationProps.thy ===== *)
theory MigrationProps
  imports Migration Invariants
begin

text \<open>
  The rows of the model as rows of SQL, and the agreement of the model with the schema of the migration:
  the tables that the procedures work on satisfy the column types, CHECK constraints, primary keys and
  foreign keys of \<open>bbcd77f71465_.py\<close> exactly when they satisfy the predicates of \<open>Models\<close> that the rest of the
  development rests on.
\<close>

section \<open>Rows\<close>

definition option_value :: "('a \<Rightarrow> sql_value) \<Rightarrow> 'a option \<Rightarrow> sql_value" where
  "option_value f x = (case x of None \<Rightarrow> Null | Some v \<Rightarrow> f v)"

definition account_values :: "account \<Rightarrow> sql_row" where
  "account_values a =
    [(''debtor_id'', Int_value (acc_debtor_id a)),
     (''creditor_id'', Int_value (acc_creditor_id a)),
     (''creation_date'', Date_value (acc_creation_date a)),
     (''last_change_seqnum'', Int_value (acc_last_change_seqnum a)),
     (''last_change_ts'', Timestamp_value (acc_last_change_ts a)),
     (''principal'', Int_value (acc_principal a)),
     (''interest_rate'', Float_value (acc_interest_rate a)),
     (''interest'', Float_value (acc_interest a)),
     (''last_interest_rate_change_ts'', Timestamp_value (acc_last_interest_rate_change_ts a)),
     (''last_config_ts'', Timestamp_value (acc_last_config_ts a)),
     (''last_config_seqnum'', Int_value (acc_last_config_seqnum a)),
     (''last_transfer_number'', Int_value (acc_last_transfer_number a)),
     (''last_transfer_committed_at'', Timestamp_value (acc_last_transfer_committed_at a)),
     (''negligible_amount'', Float_value (acc_negligible_amount a)),
     (''config_flags'', Int_value (acc_config_flags a)),
     (''config_data'', String_value (acc_config_data a)),
     (''debtor_info_iri'', option_value String_value (acc_debtor_info_iri a)),
     (''debtor_info_content_type'', option_value String_value (acc_debtor_info_content_type a)),
     (''debtor_info_sha256'', option_value Bytes_value (acc_debtor_info_sha256 a)),
     (''status_flags'', Int_value (acc_status_flags a)),
     (''total_locked_amount'', Int_value (acc_total_locked_amount a)),
     (''pending_transfers_count'', Int_value (acc_pending_transfers_count a)),
     (''last_transfer_id'', Int_value (acc_last_transfer_id a)),
     (''previous_interest_rate'', Float_value (acc_previous_interest_rate a)),
     (''last_heartbeat_ts'', Timestamp_value (acc_last_heartbeat_ts a)),
     (''last_interest_capitalization_ts'', Timestamp_value (acc_last_interest_capitalization_ts a)),
     (''last_deletion_attempt_ts'', Timestamp_value (acc_last_deletion_attempt_ts a)),
     (''pending_account_update'', Bool_value (acc_pending_account_update a))]"

definition transfer_request_values :: "transfer_request \<Rightarrow> sql_row" where
  "transfer_request_values tr =
    [(''debtor_id'', Int_value (tr_debtor_id tr)),
     (''sender_creditor_id'', Int_value (tr_sender_creditor_id tr)),
     (''transfer_request_id'', Int_value (tr_transfer_request_id tr)),
     (''coordinator_type'', String_value (tr_coordinator_type tr)),
     (''coordinator_id'', Int_value (tr_coordinator_id tr)),
     (''coordinator_request_id'', Int_value (tr_coordinator_request_id tr)),
     (''min_locked_amount'', Int_value (tr_min_locked_amount tr)),
     (''max_locked_amount'', Int_value (tr_max_locked_amount tr)),
     (''deadline'', Timestamp_value (tr_deadline tr)),
     (''min_interest_rate'', Float_value (tr_min_interest_rate tr)),
     (''recipient_creditor_id'', Int_value (tr_recipient_creditor_id tr))]"

definition finalization_request_values :: "finalization_request \<Rightarrow> sql_row" where
  "finalization_request_values fr =
    [(''debtor_id'', Int_value (fr_debtor_id fr)),
     (''sender_creditor_id'', Int_value (fr_sender_creditor_id fr)),
     (''transfer_id'', Int_value (fr_transfer_id fr)),
     (''coordinator_type'', String_value (fr_coordinator_type fr)),
     (''coordinator_id'', Int_value (fr_coordinator_id fr)),
     (''coordinator_request_id'', Int_value (fr_coordinator_request_id fr)),
     (''committed_amount'', Int_value (fr_committed_amount fr)),
     (''transfer_note_format'', String_value (fr_transfer_note_format fr)),
     (''transfer_note'', String_value (fr_transfer_note fr)),
     (''ts'', Timestamp_value (fr_ts fr))]"

definition prepared_transfer_values :: "prepared_transfer \<Rightarrow> sql_row" where
  "prepared_transfer_values pt =
    [(''debtor_id'', Int_value (pt_debtor_id pt)),
     (''sender_creditor_id'', Int_value (pt_sender_creditor_id pt)),
     (''transfer_id'', Int_value (pt_transfer_id pt)),
     (''coordinator_type'', String_value (pt_coordinator_type pt)),
     (''coordinator_id'', Int_value (pt_coordinator_id pt)),
     (''coordinator_request_id'', Int_value (pt_coordinator_request_id pt)),
     (''recipient_creditor_id'', Int_value (pt_recipient_creditor_id pt)),
     (''prepared_at'', Timestamp_value (pt_prepared_at pt)),
     (''min_interest_rate'', Float_value (pt_min_interest_rate pt)),
     (''demurrage_rate'', Float_value (pt_demurrage_rate pt)),
     (''deadline'', Timestamp_value (pt_deadline pt)),
     (''locked_amount'', Int_value (pt_locked_amount pt)),
     (''last_reminder_ts'', option_value Timestamp_value (pt_last_reminder_ts pt))]"

definition registered_balance_change_values :: "registered_balance_change \<Rightarrow> sql_row" where
  "registered_balance_change_values r =
    [(''debtor_id'', Int_value (rbc_debtor_id r)),
     (''other_creditor_id'', Int_value (rbc_other_creditor_id r)),
     (''change_id'', Int_value (rbc_change_id r)),
     (''committed_at'', Timestamp_value (rbc_committed_at r)),
     (''is_applied'', Bool_value (rbc_is_applied r))]"

definition pending_balance_change_values :: "pending_balance_change \<Rightarrow> sql_row" where
  "pending_balance_change_values c =
    [(''debtor_id'', Int_value (pbc_debtor_id c)),
     (''other_creditor_id'', Int_value (pbc_other_creditor_id c)),
     (''change_id'', Int_value (pbc_change_id c)),
     (''creditor_id'', Int_value (pbc_creditor_id c)),
     (''coordinator_type'', String_value (pbc_coordinator_type c)),
     (''transfer_note_format'', String_value (pbc_transfer_note_format c)),
     (''transfer_note'', String_value (pbc_transfer_note c)),
     (''committed_at'', Timestamp_value (pbc_committed_at c)),
     (''principal_delta'', Int_value (pbc_principal_delta c))]"

section \<open>Each table accepts the rows that the model accepts\<close>

lemma sql_gt_floats: "\<not> pg_le x (Fin c) \<and> pg_le x (Fin e) \<longleftrightarrow> flt (Fin c) x \<and> pg_le x (Fin e)"
  by (cases x) (auto simp: pg_le_def flt_def)

lemmas acceptance = table_accepts_def column_accepts_def check_passes_def value_of_def option_value_def

lemma account_table_accepts: "table_accepts account_table (account_values a) \<longleftrightarrow> account_fits a \<and> account_ok a"
  by (simp add: table_accepts_def column_accepts_def check_passes_def value_of_def account_table_def account_values_def)
    (cases "acc_debtor_info_iri a"; cases "acc_debtor_info_content_type a"; cases "acc_debtor_info_sha256 a";
      auto simp: option_value_def account_fits_def account_ok_def INTEREST_RATE_FLOOR_def INTEREST_RATE_CEIL_def
        MIN_INT64_def sql_or_unknown not_le)

lemma transfer_request_table_accepts:
  "table_accepts transfer_request_table (transfer_request_values tr) \<longleftrightarrow> transfer_request_fits tr \<and> transfer_request_ok tr"
  by (auto simp: acceptance transfer_request_table_def transfer_request_values_def transfer_request_fits_def
      transfer_request_ok_def)

lemma finalization_request_table_accepts:
  "table_accepts finalization_request_table (finalization_request_values fr)
    \<longleftrightarrow> finalization_request_fits fr \<and> finalization_request_ok fr"
  by (auto simp: acceptance finalization_request_table_def finalization_request_values_def finalization_request_fits_def
      finalization_request_ok_def)

lemma prepared_transfer_table_accepts:
  "table_accepts prepared_transfer_table (prepared_transfer_values pt) \<longleftrightarrow> prepared_transfer_fits pt \<and> prepared_transfer_ok pt"
  by (auto simp: acceptance prepared_transfer_table_def prepared_transfer_values_def prepared_transfer_fits_def
      prepared_transfer_ok_def sql_gt_floats split: option.splits)

lemma registered_balance_change_table_accepts:
  "table_accepts registered_balance_change_table (registered_balance_change_values r)
    \<longleftrightarrow> registered_balance_change_fits r \<and> registered_balance_change_ok r"
  by (auto simp: acceptance registered_balance_change_table_def registered_balance_change_values_def
      registered_balance_change_fits_def registered_balance_change_ok_def)

lemma pending_balance_change_table_accepts:
  "table_accepts pending_balance_change_table (pending_balance_change_values c)
    \<longleftrightarrow> pending_balance_change_fits c \<and> pending_balance_change_ok c"
  by (auto simp: acceptance pending_balance_change_table_def pending_balance_change_values_def
      pending_balance_change_fits_def pending_balance_change_ok_def)

section \<open>The schema of the migration and the invariant of the database\<close>

definition rows_of :: "db \<Rightarrow> string \<Rightarrow> sql_row list" where
  "rows_of d n =
     (if n = ''account'' then map account_values (db_accounts d)
      else if n = ''transfer_request'' then map transfer_request_values (db_transfer_requests d)
      else if n = ''finalization_request'' then map finalization_request_values (db_finalization_requests d)
      else if n = ''prepared_transfer'' then map prepared_transfer_values (db_prepared_transfers d)
      else if n = ''registered_balance_change'' then
        map registered_balance_change_values (db_registered_balance_changes d)
      else if n = ''pending_balance_change'' then map pending_balance_change_values (db_pending_balance_changes d)
      else [])"

definition db_fits :: "db \<Rightarrow> bool" where
  "db_fits d \<longleftrightarrow>
     list_all account_fits (db_accounts d) \<and> list_all transfer_request_fits (db_transfer_requests d)
     \<and> list_all finalization_request_fits (db_finalization_requests d)
     \<and> list_all prepared_transfer_fits (db_prepared_transfers d)
     \<and> list_all registered_balance_change_fits (db_registered_balance_changes d)
     \<and> list_all pending_balance_change_fits (db_pending_balance_changes d)"

lemma distinct_keys: "(\<And>x y. f x = f y \<longleftrightarrow> g x = g y) \<Longrightarrow> distinct (map f xs) \<longleftrightarrow> distinct (map g xs)"
  by (induction xs) auto

lemma keys_of_rows [simp]:
  "distinct (map (\<lambda>a. values_of (account_values a) (primary_key account_table)) as) \<longleftrightarrow> distinct (map account_pk as)"
  "distinct (map (\<lambda>tr. values_of (transfer_request_values tr) (primary_key transfer_request_table)) trs)
    \<longleftrightarrow> distinct (map transfer_request_pk trs)"
  "distinct (map (\<lambda>fr. values_of (finalization_request_values fr) (primary_key finalization_request_table)) frs)
    \<longleftrightarrow> distinct (map finalization_request_pk frs)"
  "distinct (map (\<lambda>pt. values_of (prepared_transfer_values pt) (primary_key prepared_transfer_table)) pts)
    \<longleftrightarrow> distinct (map prepared_transfer_pk pts)"
  "distinct (map (\<lambda>r. values_of (registered_balance_change_values r) (primary_key registered_balance_change_table)) rs)
    \<longleftrightarrow> distinct (map registered_balance_change_pk rs)"
  "distinct (map (\<lambda>c. values_of (pending_balance_change_values c) (primary_key pending_balance_change_table)) cs)
    \<longleftrightarrow> distinct (map pending_balance_change_pk cs)"
  by (rule distinct_keys; simp add: migration_tables values_of_def value_of_def account_values_def transfer_request_values_def
      finalization_request_values_def prepared_transfer_values_def registered_balance_change_values_def
      pending_balance_change_values_def account_pk_def transfer_request_pk_def finalization_request_pk_def
      prepared_transfer_pk_def registered_balance_change_pk_def pending_balance_change_pk_def)+

lemma sender_reference:
  "references (rows_of d) (prepared_transfer_values pt)
     (Foreign_key [''debtor_id'', ''sender_creditor_id''] ''account'' [''debtor_id'', ''creditor_id''] casc)
   \<longleftrightarrow> (\<exists>a \<in> set (db_accounts d). account_pk a = (pt_debtor_id pt, pt_sender_creditor_id pt))"
  by (simp add: references_def list_ex_iff rows_of_def values_of_def value_of_def account_values_def
      prepared_transfer_values_def account_pk_def)

lemma registration_reference:
  "references (rows_of d) (pending_balance_change_values c)
     (Foreign_key [''debtor_id'', ''other_creditor_id'', ''change_id''] ''registered_balance_change''
       [''debtor_id'', ''other_creditor_id'', ''change_id''] casc)
   \<longleftrightarrow> (\<exists>r \<in> set (db_registered_balance_changes d). registered_balance_change_pk r = pending_balance_change_pk c)"
  by (simp add: references_def list_ex_iff rows_of_def values_of_def value_of_def registered_balance_change_values_def
      pending_balance_change_values_def registered_balance_change_pk_def pending_balance_change_pk_def)

lemma rows_of_simps [simp]:
  "rows_of d ''account'' = map account_values (db_accounts d)"
  "rows_of d ''transfer_request'' = map transfer_request_values (db_transfer_requests d)"
  "rows_of d ''finalization_request'' = map finalization_request_values (db_finalization_requests d)"
  "rows_of d ''prepared_transfer'' = map prepared_transfer_values (db_prepared_transfers d)"
  "rows_of d ''registered_balance_change'' = map registered_balance_change_values (db_registered_balance_changes d)"
  "rows_of d ''pending_balance_change'' = map pending_balance_change_values (db_pending_balance_changes d)"
  by (simp_all add: rows_of_def)

lemmas rows_accepted = account_table_accepts transfer_request_table_accepts finalization_request_table_accepts
  prepared_transfer_table_accepts registered_balance_change_table_accepts pending_balance_change_table_accepts

text \<open>
  C37. The tables of the database satisfy the schema that the migration creates (column types, CHECK
  constraints, primary keys and foreign keys) exactly when they satisfy the invariant of the model and every
  row fits its columns: what the procedures are verified against is what the database enforces.
\<close>

theorem schema_is_the_invariant:
  "list_all (table_holds (rows_of d))
     [account_table, transfer_request_table, finalization_request_table, prepared_transfer_table,
      registered_balance_change_table, pending_balance_change_table]
   \<longleftrightarrow> db_wf d \<and> db_fits d"
  by (auto simp: table_holds_def rows_accepted sender_reference registration_reference db_wf_def db_fits_def tbl_wf_def
      list_all_iff comp_def simp del: migrated_keys)

end
