(* ===== verification/Spec2Isabelle.thy ===== *)
theory Spec2Isabelle
  imports CliProps AppFactory MigrationProps
begin

text \<open>
  A model of the Swaptacular accounts server (the Python package \<open>src/swpt_accounts\<close>, which implements the protocol of
  \<open>src/protocol.rst\<close>), with the theorems that make it correct.

  \<^bold>\<open>The program.\<close>  The server keeps the accounts of creditors with debtors in a database.  A debtor's own account
  (\<open>ROOT_CREDITOR_ID\<close>) issues the money: its principal is negative.  A transfer takes two phases, driven by messages: a
  request to prepare it locks an amount on the sender's account, a request to finalize it commits an amount, which leaves
  the sender's account and travels to the recipient's as a balance change.  Received requests and changes are queued in
  tables (\<open>actors.py\<close> checks the messages and calls \<open>procedures.py\<close>), and workers (\<open>cli.py\<close>) process the queue of one
  account per transaction (\<open>procedures.py\<close>).  Scanners (\<open>table_scanners.py\<close>) pass over the tables to purge deleted
  accounts, send heartbeats and reminders, drop old registrations, and send chores (\<open>chores.py\<close>) that capitalize interest,
  delete accounts and let accounts follow the settings of their debtor, which are fetched from the server that has the
  debtor's account (\<open>fetch_api_client.py\<close>, \<open>routes.py\<close>, \<open>schemas.py\<close>).  Outgoing messages are rows of signal tables
  (\<open>events.py\<close>).

  \<^bold>\<open>Conventions.\<close>  A procedure is a function that takes the clock readings it makes, its arguments and the
  database, and returns \<open>Inr\<close> the new database or \<open>Inl\<close> the error it raises; an error rolls the transaction back.
  Tables are lists of rows, rows are records with the column names of the source, strings are lists of code points, times
  are microseconds since the epoch.  Python integers are \<open>int\<close>; the column ranges and CHECK constraints are tested when a row
  is written.  Floats are exact rationals rounded after every operation.  Rows that another transaction has locked
  (\<open>SKIP LOCKED\<close>) are given by the argument \<open>skip\<close>.

  \<^bold>\<open>The theories\<close>, in the order of their imports:

  \<^item> \<open>Prelude\<close>, \<open>Tables\<close>: errors and the error monad, collections of simplification rules, dictionaries; a table with a
    primary key as the locale \<open>keyed_table\<close>, which every table of the database interprets.
  \<^item> \<open>Rounding\<close>, \<open>PyNum\<close>: rounding to significant digits, Python's \<open>float\<close> and \<open>Decimal\<close>.
  \<^item> \<open>IsoTime\<close>: \<open>isoformat\<close> and \<open>fromisoformat\<close> with the calendar, and that the second reads what the first writes.
  \<^item> \<open>Events\<close>, \<open>Schemas\<close>, \<open>Models\<close>, \<open>Database\<close>: the rows and computations of \<open>events.py\<close>, \<open>schemas.py\<close> and
    \<open>models.py\<close>, and writing them to the database.  \<open>Balance\<close> and \<open>DueInterest\<close> show what
    \<open>calc_current_balance\<close> and \<open>calc_due_interest\<close> compute, and that their assertions hold.
  \<^item> \<open>AccountCore\<close>, \<open>Invariants\<close>: the private helpers of \<open>procedures.py\<close>, and the invariants of the database: \<open>db_wf\<close>
    (keys, constraints, foreign keys), \<open>locks_within\<close> and \<open>locks_agree\<close> (the lock fields of an account against its prepared
    transfers), \<open>ids_fresh\<close> (transfer IDs), \<open>changes_agree\<close> (register and queue of balance changes),
    \<open>deleted_accounts_empty\<close>.
  \<^item> \<open>Preparation\<close>, \<open>Finalization\<close>, \<open>BalanceChanges\<close>, \<open>Payments\<close>, \<open>Configuration\<close>: the procedures of \<open>procedures.py\<close>, with one
    lemma per procedure that says all it may do (\<open>..._InrD\<close>), lemmas that it keeps the invariants, and lemmas that it does
    not raise (\<open>..._total\<close>).  The properties and their witnesses are in the theories with the suffix \<open>Props\<close>.
    What a signal or a row has to say is spelled out there field by field (\<open>honours\<close>, \<open>announces\<close>, \<open>reports\<close>, \<open>pays_recipient\<close>,
    \<open>fair_verdict\<close>, \<open>announces_config\<close>, \<open>abandoned\<close>, \<open>carries_state\<close>), apart from the functions of the model that build it.
  \<^item> \<open>FetchApi\<close>: client, cache and routes.  \<open>Config\<close>: the settings.  \<open>Chores\<close>, \<open>Scanners\<close>, \<open>ScannersEffects\<close>, \<open>ScannersProps\<close>,
    \<open>ChoresProps\<close>: \<open>chores.py\<close> and \<open>table_scanners.py\<close>.  \<open>Actors\<close>, \<open>Messages\<close>, \<open>MessagesProps\<close>: \<open>actors.py\<close>, the
    messages that the signals become, and how a committed transfer reaches its recipient.
  \<^item> \<open>Ledger\<close>, \<open>System\<close>, \<open>SystemSteps\<close>, \<open>SystemProps\<close>: the whole system as a step relation.  Its steps are the entry
    points (messages, chores, commands, scans) in any order, and restarts under new settings; balance changes are delivered
    late, out of order and more than once.  The specification is a ledger of balances and money in transit; the locale
    \<open>simulation\<close> relates the two, and is interpreted on the steps of the system.  The main theorems say that every run
    implements the ledger, keeps all invariants, and conserves the money of every debtor.
  \<^item> \<open>WorkerPool\<close>, \<open>Cli\<close>, \<open>CliProps\<close>: \<open>cli.py\<close>: the threads of \<open>ThreadPoolProcessor\<close> as interleaved steps (every
    collected account is processed once, no deadlock, termination of a single iteration), the options of the commands, and
    the subscription of a queue.
  \<^item> \<open>AppSetup\<close>, \<open>AppFactory\<close>: \<open>__init__.py\<close>: the environment that overrides the settings, the loggers, and \<open>create_app\<close>
    with the sanity check of the settings.
  \<^item> \<open>Sql\<close>, \<open>Migration\<close>, \<open>MigrationProps\<close>: the part of SQL that declares tables, the revision under \<open>migrations/versions\<close> in
    both directions (the locale \<open>reversible\<close> is about statements that can be undone), and that its schema demands of the
    tables exactly what \<open>db_wf\<close> and the ranges of the columns demand.

  \<^bold>\<open>Parameters.\<close>  The record \<open>env\<close> has the C library's \<open>exp\<close> and \<open>log\<close> (\<open>libm_ok\<close>: \<open>exp 0 = 1\<close>,
  \<open>log 1 = 0\<close>, the signs of their values, and coarse bounds on them), the round trip of a float through a PostgreSQL REAL column, and the helpers of the
  package \<open>swpt_lib\<close>; \<open>wire\<close> has its conversions of identifiers.  The response to an HTTP request, the JSON parser of
  marshmallow (\<open>loads_validates\<close>: it accepts only what the schema accepts), the rows that a scanner reads, and the clocks
  are arguments.

  \<^bold>\<open>Bounds.\<close>  No fuel is used: every loop of the program is a recursion that terminates.  Theorems that a procedure
  does not raise assume that the counters and times it writes still fit their columns.  The system theorems are about
  runs in which no principal has been cut off at the limits of its column (\<open>in_range\<close>); \<open>contain_principal_overflow\<close>, which
  cuts it off and flags the account, is modelled and used in the theorems about single procedures.  A retention time for
  registered balance changes never moves back, and passes only changes that have been delivered within
  \<open>APP_INTRANET_EXTREME_DELAY_DAYS\<close> (the purpose of \<open>_check_config_sanity\<close>).

  \<^bold>\<open>Where the code departs from its documents.\<close>  \<open>AccountTransferSignal\<close>s of transfers committed in one batch leave out of
  \<open>principal\<close> what the batch has committed before (\<open>batch_signal_principal\<close>, \<open>sample_pair_principals\<close>), although
  \<open>src/protocol.rst\<close> says that it is the principal after the transfer; those of received changes report the running
  principal.  \<open>_remove_handlers\<close> keeps every second handler
  (\<open>remove_handlers_keeps_every_second\<close>), the pool may start another iteration after a failure
  (\<open>iteration_after_failure\<close>), and the cache of the fetch client is first in, first out
  (\<open>cache_register_then_lookup\<close>).

  \<^bold>\<open>Not modelled.\<close>  The libraries: SQLAlchemy and PostgreSQL (a transaction is one step; rows, constraints and the declaration of
  tables are modelled, queries are not, nor are NUL characters, which a text column rejects), the brokers, HTTP, JSON, Flask, Click, the block-wise reading of
  \<open>TableScanner\<close>.  The creation of the objects of these libraries (\<open>extensions.py\<close>, \<open>wsgi.py\<close>, \<open>tasks.py\<close>, \<open>migrations/env.py\<close>),
  the supervision of processes (\<open>src/docker\<close>), and what is written to the log.  A commit period that is not a whole number of seconds.
\<close>

end
